(* ===== verification/Prelude.thy ===== *)
theory Prelude
  imports Complex_Main "HOL-Library.AList"
begin

text \<open>
  Shared vocabulary of the development: Python strings and dictionaries, the operations on a
  list of documents that the collections are built from, and the collections of rules the
  component theories add to.

  \<^item> Strings are character lists; a character stands for a code point below 256.
  \<^item> A Python dictionary is an association list in insertion order. Assignment to a key that
    is present keeps its place, a new key goes to the end (\<open>AList.update\<close>).
  \<^item> Times and durations are real numbers of seconds.
\<close>

named_theorems run_simps "symbolic execution of actions"
named_theorems keeps_intros "state predicates kept by actions"

section \<open>Strings\<close>

definition is_space :: "char \<Rightarrow> bool" where
  "is_space c = (let n = (of_char c :: nat) in
     (9 \<le> n \<and> n \<le> 13) \<or> (28 \<le> n \<and> n \<le> 32) \<or> n = 133 \<or> n = 160)"

definition lower_char :: "char \<Rightarrow> char" where
  "lower_char c = (let n = (of_char c :: nat) in
     if (65 \<le> n \<and> n \<le> 90) \<or> (192 \<le> n \<and> n \<le> 222 \<and> n \<noteq> 215)
     then char_of (n + 32) else c)"

definition upper_char :: "char \<Rightarrow> char" where
  "upper_char c = (let n = (of_char c :: nat) in
     if 97 \<le> n \<and> n \<le> 122 then char_of (n - 32) else c)"

definition lower :: "string \<Rightarrow> string" where
  "lower s = List.map lower_char s"

definition upper :: "string \<Rightarrow> string" where
  "upper s = List.map upper_char s"

definition strip_of :: "(char \<Rightarrow> bool) \<Rightarrow> string \<Rightarrow> string" where
  "strip_of p s = rev (dropWhile p (rev (dropWhile p s)))"

definition strip :: "string \<Rightarrow> string" where
  "strip s = strip_of is_space s"

definition starts_with :: "string \<Rightarrow> string \<Rightarrow> bool" where
  "starts_with p s = (take (length p) s = p)"

text \<open>Python's \<open>s.split(sep)\<close> for a one-character separator.\<close>

fun split_on :: "char \<Rightarrow> string \<Rightarrow> string list" where
  "split_on c [] = [[]]"
| "split_on c (x # xs) =
     (if x = c then [] # split_on c xs
      else (case split_on c xs of [] \<Rightarrow> [[x]] | w # ws \<Rightarrow> (x # w) # ws))"

text \<open>\<open>s.split()\<close>: maximal runs of non-space characters.\<close>

definition split_ws :: "string \<Rightarrow> string list" where
  "split_ws s = filter (\<lambda>w. w \<noteq> [])
     (split_on (CHR '' '') (List.map (\<lambda>c. if is_space c then CHR '' '' else c) s))"

definition quoted :: "string \<Rightarrow> string" where
  "quoted s = [CHR 0x27] @ s @ [CHR 0x27]"

definition digit_char :: "nat \<Rightarrow> char" where
  "digit_char n = char_of (48 + n)"

fun nat_str :: "nat \<Rightarrow> string" where
  "nat_str n = (if n < 10 then [digit_char n] else nat_str (n div 10) @ [digit_char (n mod 10)])"

declare nat_str.simps [simp del]

definition int_str :: "int \<Rightarrow> string" where
  "int_str i = (if i < 0 then CHR ''-'' # nat_str (nat (- i)) else nat_str (nat i))"

text \<open>Truthiness of an optional string: an absent or empty one is not given.\<close>

definition given :: "string option \<Rightarrow> string option" where
  "given v = (case v of None \<Rightarrow> None | Some s \<Rightarrow> if s = [] then None else Some s)"

lemma given_simps [simp]: "given None = None" "given (Some []) = None" "given (Some (c # s)) = Some (c # s)"
  by (simp_all add: given_def)

lemma split_on_nonempty [simp]: "split_on c s \<noteq> []"
  by (induction c s rule: split_on.induct) (auto split: list.splits)

lemma lower_char_idem [simp]: "lower_char (lower_char c) = lower_char c"
proof (cases c)
  case (Char b0 b1 b2 b3 b4 b5 b6 b7)
  show ?thesis unfolding Char
    by (cases b0; cases b1; cases b2; cases b3; cases b4; cases b5; cases b6; cases b7)
      (simp_all add: lower_char_def Let_def)
qed

lemma lower_idem [simp]: "lower (lower s) = lower s"
  by (simp add: lower_def)

lemma lower_append [simp]: "lower (a @ b) = lower a @ lower b"
  by (simp add: lower_def)

section \<open>Numbers in text\<close>

text \<open>
  \<open>int(s)\<close>: surrounding white space, an optional sign, decimal digits with single
  underscores between them, at most 4300 digits. \<open>None\<close> is the ValueError.
\<close>

definition is_digit :: "char \<Rightarrow> bool" where
  "is_digit c = (let n = (of_char c :: nat) in 48 \<le> n \<and> n \<le> 57)"

fun digit_groups :: "bool \<Rightarrow> string \<Rightarrow> bool" where
  "digit_groups prev [] = prev"
| "digit_groups prev (c # cs) =
     (if is_digit c then digit_groups True cs else c = CHR ''_'' \<and> prev \<and> digit_groups False cs)"

definition digits_value :: "string \<Rightarrow> nat" where
  "digits_value s = foldl (\<lambda>n c. 10 * n + (of_char c - 48)) 0 (filter is_digit s)"

definition py_nat :: "string \<Rightarrow> nat option" where
  "py_nat s = (if digit_groups False s \<and> length (filter is_digit s) \<le> 4300
               then Some (digits_value s) else None)"

definition py_int :: "string \<Rightarrow> int option" where
  "py_int s =
     (case strip s of
        [] \<Rightarrow> None
      | c # cs \<Rightarrow>
          (if c = CHR ''-'' then map_option (\<lambda>n. - int n) (py_nat cs)
           else if c = CHR ''+'' then map_option int (py_nat cs)
           else map_option int (py_nat (c # cs))))"

text \<open>\<open>int(str(n))\<close>, for numbers of at most 4300 digits.\<close>

lemma digit_char_simps [simp]:
  assumes "k < 10"
  shows "is_digit (digit_char k)" "of_char (digit_char k) = 48 + k"
proof -
  show "of_char (digit_char k) = 48 + k" using assms by (simp add: digit_char_def)
  with assms show "is_digit (digit_char k)" by (simp add: is_digit_def Let_def)
qed

lemma nat_str_digits: "list_all is_digit (nat_str n) \<and> nat_str n \<noteq> [] \<and> foldl (\<lambda>n c. 10 * n + (of_char c - 48)) 0 (nat_str n) = n"
proof (induction n rule: nat_str.induct)
  case (1 n)
  then show ?case by (subst (1 2 3) nat_str.simps) (auto simp: list_all_append)
qed

lemma digit_groups_all: "list_all is_digit s \<Longrightarrow> digit_groups prev s = (prev \<or> s \<noteq> [])"
  by (induction s arbitrary: prev) auto

lemma py_nat_str: "length (nat_str n) \<le> 4300 \<Longrightarrow> py_nat (nat_str n) = Some n"
  using nat_str_digits [of n] filter_True [of "nat_str n" is_digit]
  unfolding py_nat_def digits_value_def by (auto simp: digit_groups_all list_all_iff [symmetric])

lemma strip_of_none: "list_all (\<lambda>c. \<not> p c) s \<Longrightarrow> strip_of p s = s"
proof -
  assume "list_all (\<lambda>c. \<not> p c) s"
  have "dropWhile p t = t" if "\<forall>c\<in>set t. \<not> p c" for t using that by (cases t) auto
  from this [of s] this [of "rev s"] \<open>list_all _ s\<close> show ?thesis by (simp add: strip_of_def list_all_iff)
qed

lemma digit_not_space: "is_digit c \<Longrightarrow> \<not> is_space c \<and> c \<noteq> CHR ''-'' \<and> c \<noteq> CHR ''+'' \<and> c \<noteq> CHR 0x22 \<and> c \<noteq> CHR ''*''"
  by (auto simp: is_digit_def is_space_def Let_def)

lemma int_str_clean: "list_all (\<lambda>c. \<not> is_space c \<and> c \<noteq> CHR 0x22 \<and> c \<noteq> CHR ''*'') (int_str n)"
proof -
  have minus: "\<not> is_space (CHR ''-'')" by code_simp
  have "list_all (\<lambda>c. \<not> is_space c \<and> c \<noteq> CHR 0x22 \<and> c \<noteq> CHR ''*'') (nat_str k)" for k
    using nat_str_digits [of k] by (auto elim!: list.pred_mono_strong dest: digit_not_space)
  with minus show ?thesis by (simp add: int_str_def)
qed

lemma py_int_str:
  assumes "length (nat_str (nat \<bar>n\<bar>)) \<le> 4300"
  shows "py_int (int_str n) = Some n"
proof -
  have strip: "strip (int_str n) = int_str n"
    unfolding strip_def by (rule strip_of_none, rule list.pred_mono_strong [OF int_str_clean]) simp
  show ?thesis
  proof (cases "n < 0")
    case True
    then have "int_str n = CHR ''-'' # nat_str (nat (- n))" by (simp add: int_str_def)
    moreover have "py_nat (nat_str (nat (- n))) = Some (nat (- n))"
      using assms True by (intro py_nat_str) simp
    ultimately show ?thesis unfolding py_int_def strip using True by simp
  next
    case False
    obtain c cs where s: "nat_str (nat n) = c # cs" using nat_str_digits [of "nat n"] by (cases "nat_str (nat n)") auto
    then have "is_digit c" using nat_str_digits [of "nat n"] by auto
    then have c: "c \<noteq> CHR ''-''" "c \<noteq> CHR ''+''" using digit_not_space by auto
    have "int_str n = c # cs" using False s by (simp add: int_str_def)
    moreover have "py_nat (c # cs) = Some (nat n)"
      using assms False py_nat_str [of "nat n"] s by simp
    ultimately show ?thesis unfolding py_int_def strip using False c by simp
  qed
qed

section \<open>Sorting by a relation\<close>

fun insert_by :: "('a \<Rightarrow> 'a \<Rightarrow> bool) \<Rightarrow> 'a \<Rightarrow> 'a list \<Rightarrow> 'a list" where
  "insert_by le a [] = [a]"
| "insert_by le a (b # bs) = (if le a b then a # b # bs else b # insert_by le a bs)"

definition sort_by :: "('a \<Rightarrow> 'a \<Rightarrow> bool) \<Rightarrow> 'a list \<Rightarrow> 'a list" where
  "sort_by le xs = foldr (insert_by le) xs []"

lemma mset_insert_by [simp]: "set (insert_by le a xs) = insert a (set xs)"
  by (induction xs) auto

lemma set_sort_by [simp]: "set (sort_by le xs) = set xs"
  by (induction xs) (auto simp: sort_by_def)

section \<open>Dictionaries\<close>

definition dset :: "'k \<Rightarrow> 'v \<Rightarrow> ('k \<times> 'v) list \<Rightarrow> ('k \<times> 'v) list" where
  "dset k v d = AList.update k v d"

definition ddel :: "'k \<Rightarrow> ('k \<times> 'v) list \<Rightarrow> ('k \<times> 'v) list" where
  "ddel k d = filter (\<lambda>p. fst p \<noteq> k) d"

text \<open>\<open>d.update(e)\<close>, also \<open>{**d, **e}\<close>.\<close>

definition dmerge :: "('k \<times> 'v) list \<Rightarrow> ('k \<times> 'v) list \<Rightarrow> ('k \<times> 'v) list" where
  "dmerge d e = fold (\<lambda>(k, v). dset k v) e d"

definition dkeys :: "('k \<times> 'v) list \<Rightarrow> 'k list" where
  "dkeys d = List.map fst d"

lemma map_of_dset [simp]: "map_of (dset k v d) = (map_of d)(k \<mapsto> v)"
  by (simp add: dset_def update_conv')

lemma keys_dset [simp]: "fst ` set (dset k v d) = insert k (fst ` set d)"
  by (simp add: dset_def dom_update)

lemma set_dset: "set (dset k v d) \<subseteq> insert (k, v) (set d)"
  unfolding dset_def by (induction d) auto

lemma distinct_dset: "distinct (dkeys d) \<Longrightarrow> distinct (dkeys (dset k v d))"
  by (simp add: dset_def dkeys_def distinct_update)

lemma map_of_ddel [simp]: "map_of (ddel k d) = (map_of d)(k := None)"
  by (induction d) (auto simp: ddel_def fun_eq_iff)

lemma keys_ddel [simp]: "fst ` set (ddel k d) = fst ` set d - {k}"
  by (auto simp: ddel_def image_iff)

lemma set_dkeys [simp]: "set (dkeys d) = fst ` set d"
  by (simp add: dkeys_def)

lemma dmerge_Nil [simp]: "dmerge d [] = d"
  by (simp add: dmerge_def)

lemma dmerge_Cons [simp]: "dmerge d ((k, v) # e) = dmerge (dset k v d) e"
  by (simp add: dmerge_def)

lemma keys_dmerge [simp]: "fst ` set (dmerge d e) = fst ` set d \<union> fst ` set e"
proof (induction e arbitrary: d)
  case (Cons p e)
  then show ?case by (cases p) auto
qed simp

lemma distinct_dmerge: "distinct (dkeys d) \<Longrightarrow> distinct (dkeys (dmerge d e))"
proof (induction e arbitrary: d)
  case (Cons p e)
  then show ?case by (cases p) (simp add: distinct_dset)
qed simp

lemma map_of_dmerge:
  "map_of (dmerge d e) k = (case map_of (rev e) k of Some v \<Rightarrow> Some v | None \<Rightarrow> map_of d k)"
proof (induction e arbitrary: d)
  case (Cons p e)
  obtain k' v where p: "p = (k', v)" by (cases p)
  show ?case
    by (simp add: p Cons.IH map_add_def split: option.splits)
qed simp

lemma map_of_rev_distinct:
  assumes "distinct (dkeys e)"
  shows "map_of (rev e) = map_of e"
proof (rule map_of_eqI)
  show "set (map fst (rev e)) = set (map fst e)" by simp
next
  have "distinct (map fst (rev e))" using assms by (simp add: dkeys_def rev_map [symmetric])
  then show "\<forall>k\<in>set (map fst (rev e)). map_of (rev e) k = map_of e k"
    using assms by (auto simp: dkeys_def map_of_eq_Some_iff)
qed

section \<open>Lists of documents\<close>

text \<open>
  What a collection does to its documents: \<open>find_one\<close>, \<open>insert_one\<close>, \<open>update_one\<close>,
  \<open>delete_one\<close> act on the first match in natural order.
\<close>

fun upd_first :: "('d \<Rightarrow> bool) \<Rightarrow> ('d \<Rightarrow> 'd) \<Rightarrow> 'd list \<Rightarrow> 'd list" where
  "upd_first p f [] = []"
| "upd_first p f (x # xs) = (if p x then f x # xs else x # upd_first p f xs)"

fun del_first :: "('d \<Rightarrow> bool) \<Rightarrow> 'd list \<Rightarrow> 'd list" where
  "del_first p [] = []"
| "del_first p (x # xs) = (if p x then xs else x # del_first p xs)"

lemma find_split:
  assumes "List.find p xs = Some e"
  obtains us vs where "xs = us @ e # vs" "\<forall>u\<in>set us. \<not> p u" "p e"
    "\<And>f. upd_first p f xs = us @ f e # vs" "del_first p xs = us @ vs"
proof -
  have "\<exists>us vs. xs = us @ e # vs \<and> (\<forall>u\<in>set us. \<not> p u) \<and> p e
      \<and> (\<forall>f. upd_first p f xs = us @ f e # vs) \<and> del_first p xs = us @ vs"
    using assms
  proof (induction xs)
    case (Cons x xs)
    show ?case
    proof (cases "p x")
      case True
      with Cons.prems show ?thesis by (intro exI [of _ "[]"] exI [of _ xs]) auto
    next
      case False
      with Cons obtain us vs where "xs = us @ e # vs" "\<forall>u\<in>set us. \<not> p u" "p e"
        "\<forall>f. upd_first p f xs = us @ f e # vs" "del_first p xs = us @ vs" by auto
      with False show ?thesis by (intro exI [of _ "x # us"] exI [of _ vs]) auto
    qed
  qed simp
  with that show thesis by blast
qed

lemma find_Some_in: "List.find p xs = Some e \<Longrightarrow> e \<in> set xs \<and> p e"
  by (erule find_split) simp

lemma find_append_last: "\<forall>e\<in>set xs. \<not> p e \<Longrightarrow> p y \<Longrightarrow> List.find p (xs @ [y]) = Some y"
  by (induction xs) auto

lemma find_None_all: "List.find p xs = None \<longleftrightarrow> (\<forall>e\<in>set xs. \<not> p e)"
  by (auto simp: find_None_iff)

lemma set_upd_first: "set (upd_first p f xs) \<subseteq> set xs \<union> f ` {e \<in> set xs. p e}"
  by (induction xs) auto

lemma set_del_first: "set (del_first p xs) \<subseteq> set xs"
  by (induction xs) auto

lemma upd_first_none: "\<forall>e\<in>set xs. \<not> p e \<Longrightarrow> upd_first p f xs = xs"
  by (induction xs) auto

lemma del_first_none: "\<forall>e\<in>set xs. \<not> p e \<Longrightarrow> del_first p xs = xs"
  by (induction xs) auto

lemma sorted_wrt_upd:
  assumes "sorted_wrt R xs" "List.find p xs = Some e"
    and "\<And>a b. R a b \<Longrightarrow> R b a" "\<forall>z\<in>set (del_first p xs). R (f e) z"
  shows "sorted_wrt R (upd_first p f xs)"
  using assms by (auto elim!: find_split simp: sorted_wrt_append)

lemma sorted_wrt_del: "sorted_wrt R xs \<Longrightarrow> sorted_wrt R (del_first p xs)"
  by (induction xs) (auto dest: subsetD [OF set_del_first])

text \<open>With at most one match, the first update is the update everywhere.\<close>

lemma upd_first_map:
  "sorted_wrt (\<lambda>a b. \<not> (p a \<and> p b)) xs \<Longrightarrow> upd_first p f xs = List.map (\<lambda>b. if p b then f b else b) xs"
proof (induction xs)
  case (Cons x xs)
  show ?case
  proof (cases "p x")
    case True
    with Cons.prems have "\<forall>b\<in>set xs. \<not> p b" by auto
    then have "List.map (\<lambda>b. if p b then f b else b) xs = xs" by (simp add: map_idI)
    with True show ?thesis by simp
  next
    case False
    with Cons show ?thesis by simp
  qed
qed simp

lemma distinct_map_del_first: "distinct (List.map f xs) \<Longrightarrow> distinct (List.map f (del_first p xs))"
  by (induction xs) (auto dest: subsetD [OF set_del_first])

lemma distinct_sorted_wrt: "distinct (List.map h xs) \<longleftrightarrow> sorted_wrt (\<lambda>a b. h a \<noteq> h b) xs"
  by (induction xs) auto

lemma upd_first_distinct:
  assumes "distinct (List.map h xs)"
  shows "upd_first (\<lambda>e. h e = k) f xs = List.map (\<lambda>b. if h b = k then f b else b) xs"
proof (rule upd_first_map)
  show "sorted_wrt (\<lambda>a b. \<not> (h a = k \<and> h b = k)) xs"
    using assms unfolding distinct_sorted_wrt by (rule sorted_wrt_mono_rel [rotated]) auto
qed

end
