(* ===== verification/Values.thy ===== *)
theory Values
  imports Prelude
begin

text \<open>
  The values that flow through the service: JSON / BSON values as a tagged union, Python's
  truth test and equality on them, and dictionary access by a dotted path
  (\<open>_get_path\<close> of cmdboss/repository.py).

  An ObjectId is represented by the number its twelve bytes spell; how it is written as text
  belongs to the \<open>bson\<close> package and is a parameter of the model (theory World).
\<close>

type_synonym oid = nat
type_synonym time = real

datatype val =
    VNone
  | VBool bool
  | VInt int
  | VNum real
  | VStr string
  | VTime time
  | VId oid
  | VList "val list"
  | VDict "(string \<times> val) list"

type_synonym dict = "(string \<times> val) list"

definition dget :: "dict \<Rightarrow> string \<Rightarrow> val" where
  "dget d k = (case map_of d k of None \<Rightarrow> VNone | Some v \<Rightarrow> v)"

fun truthy :: "val \<Rightarrow> bool" where
  "truthy VNone = False"
| "truthy (VBool b) = b"
| "truthy (VInt i) = (i \<noteq> 0)"
| "truthy (VNum r) = (r \<noteq> 0)"
| "truthy (VStr s) = (s \<noteq> [])"
| "truthy (VTime t) = True"
| "truthy (VId i) = True"
| "truthy (VList xs) = (xs \<noteq> [])"
| "truthy (VDict d) = (d \<noteq> [])"

section \<open>Python equality\<close>

text \<open>
  \<open>True == 1 == 1.0\<close>; dictionaries compare without regard to order, lists elementwise.
\<close>

fun num_of :: "val \<Rightarrow> real option" where
  "num_of (VBool b) = Some (if b then 1 else 0)"
| "num_of (VInt i) = Some (of_int i)"
| "num_of (VNum r) = Some r"
| "num_of _ = None"

fun py_eq :: "val \<Rightarrow> val \<Rightarrow> bool"
  and py_eq_list :: "val list \<Rightarrow> val list \<Rightarrow> bool"
  and py_eq_items :: "(string \<times> val) list \<Rightarrow> (string \<times> val) list \<Rightarrow> bool" where
  "py_eq (VList xs) w = (case w of VList ys \<Rightarrow> py_eq_list xs ys | _ \<Rightarrow> False)"
| "py_eq (VDict d) w =
     (case w of VDict e \<Rightarrow> length d = length e \<and> py_eq_items d e | _ \<Rightarrow> False)"
| "py_eq v w = (case num_of v of Some r \<Rightarrow> num_of w = Some r | None \<Rightarrow> v = w)"
| "py_eq_list [] ys = (ys = [])"
| "py_eq_list (x # xs) ys = (case ys of [] \<Rightarrow> False | y # ys' \<Rightarrow> py_eq x y \<and> py_eq_list xs ys')"
| "py_eq_items [] e = True"
| "py_eq_items ((k, v) # d) e =
     ((case map_of e k of None \<Rightarrow> False | Some w \<Rightarrow> py_eq v w) \<and> py_eq_items d e)"

text \<open>Well-formed values: no dictionary inside has a repeated key.\<close>

fun wf_val :: "val \<Rightarrow> bool"
  and wf_list :: "val list \<Rightarrow> bool"
  and wf_items :: "(string \<times> val) list \<Rightarrow> bool" where
  "wf_val (VList xs) = wf_list xs"
| "wf_val (VDict d) = (distinct (dkeys d) \<and> wf_items d)"
| "wf_val _ = True"
| "wf_list [] = True"
| "wf_list (x # xs) = (wf_val x \<and> wf_list xs)"
| "wf_items [] = True"
| "wf_items ((k, v) # d) = (wf_val v \<and> wf_items d)"

lemma py_eq_refl:
  "wf_val v \<Longrightarrow> py_eq v v"
  "wf_list xs \<Longrightarrow> py_eq_list xs xs"
  "distinct (dkeys e) \<Longrightarrow> set d \<subseteq> set e \<Longrightarrow> wf_items d \<Longrightarrow> py_eq_items d e"
  by (induction v and xs and d arbitrary: and and e rule: wf_val_wf_list_wf_items.induct)
    (auto simp: dkeys_def map_of_eq_Some_iff [THEN iffD2])

section \<open>Dotted paths\<close>

text \<open>Resolve a dotted path: a step into something that is no dictionary gives \<open>None\<close>.\<close>

fun path_steps :: "val \<Rightarrow> string list \<Rightarrow> val" where
  "path_steps cur [] = cur"
| "path_steps cur (p # ps) =
     (case cur of VDict d \<Rightarrow> path_steps (dget d p) ps | _ \<Rightarrow> VNone)"

definition get_path :: "dict \<Rightarrow> string \<Rightarrow> val" where
  "get_path doc path = path_steps (VDict doc) (split_on (CHR ''.'') path)"

end
