(* ===== verification/Errors.thy ===== *)
theory Errors
  imports Values
begin

text \<open>
  The domain errors of cmdboss/errors.py: the exception classes with their error code, HTTP
  status and default message, the constructor, the envelope they are rendered as, and the
  response of the exception handlers. The other exceptions that cross the components
  (pymongo's DuplicateKeyError, an unreachable database, Python's own errors) are
  constructors of \<open>exn\<close>; \<open>Invalid v\<close> is pydantic's ValidationError on the input \<open>v\<close>,
  \<open>InvalidRequest v\<close> FastAPI's RequestValidationError on it,
  \<open>BadValue m\<close> a ValueError with its message.
\<close>

datatype err_class =
    AppError | NotFoundError | ConflictError | ValidationFailedError | BadRequestError
  | UnauthorizedError | ForbiddenError | PreconditionRequiredError | PreconditionFailedError
  | RateLimitedError | PayloadTooLargeError

fun class_code :: "err_class \<Rightarrow> string" where
  "class_code AppError = ''internal_error''"
| "class_code NotFoundError = ''not_found''"
| "class_code ConflictError = ''conflict''"
| "class_code ValidationFailedError = ''validation_failed''"
| "class_code BadRequestError = ''bad_request''"
| "class_code UnauthorizedError = ''unauthorized''"
| "class_code ForbiddenError = ''forbidden''"
| "class_code PreconditionRequiredError = ''precondition_required''"
| "class_code PreconditionFailedError = ''revision_conflict''"
| "class_code RateLimitedError = ''rate_limited''"
| "class_code PayloadTooLargeError = ''payload_too_large''"

text \<open>PreconditionFailedError extends ConflictError and inherits its status.\<close>

fun class_status :: "err_class \<Rightarrow> int" where
  "class_status AppError = 500"
| "class_status NotFoundError = 404"
| "class_status ConflictError = 409"
| "class_status ValidationFailedError = 422"
| "class_status BadRequestError = 400"
| "class_status UnauthorizedError = 401"
| "class_status ForbiddenError = 403"
| "class_status PreconditionRequiredError = 428"
| "class_status PreconditionFailedError = 409"
| "class_status RateLimitedError = 429"
| "class_status PayloadTooLargeError = 413"

fun class_message :: "err_class \<Rightarrow> string" where
  "class_message AppError = ''An unexpected error occurred.''"
| "class_message NotFoundError = ''Resource not found.''"
| "class_message ConflictError = ''Resource conflict.''"
| "class_message ValidationFailedError = ''Payload failed schema validation.''"
| "class_message BadRequestError = ''Bad request.''"
| "class_message UnauthorizedError = ''Authentication required.''"
| "class_message ForbiddenError = ''Insufficient privileges.''"
| "class_message PreconditionRequiredError =
     ''This operation requires an If-Match revision precondition.''"
| "class_message PreconditionFailedError =
     ''The resource was modified by another writer (revision mismatch).''"
| "class_message RateLimitedError = ''Rate limit exceeded.''"
| "class_message PayloadTooLargeError = ''Request body too large.''"

text \<open>\<open>isinstance(exc, ConflictError)\<close>.\<close>

fun is_conflict :: "err_class \<Rightarrow> bool" where
  "is_conflict ConflictError = True"
| "is_conflict PreconditionFailedError = True"
| "is_conflict _ = False"

record app_error =
  ae_class :: err_class
  ae_code :: string
  ae_status :: int
  ae_message :: string
  ae_details :: dict

text \<open>\<open>AppError.__init__\<close>: an absent or empty argument leaves the class's own value.\<close>

definition mk_error ::
  "err_class \<Rightarrow> string option \<Rightarrow> dict option \<Rightarrow> string option \<Rightarrow> int option \<Rightarrow> app_error" where
  "mk_error c msg details code st = \<lparr>
     ae_class = c,
     ae_code = (case code of Some k \<Rightarrow> if k \<noteq> [] then k else class_code c | None \<Rightarrow> class_code c),
     ae_status = (case st of Some n \<Rightarrow> if n \<noteq> 0 then n else class_status c | None \<Rightarrow> class_status c),
     ae_message = (case msg of Some m \<Rightarrow> if m \<noteq> [] then m else class_message c
                     | None \<Rightarrow> class_message c),
     ae_details = (case details of Some d \<Rightarrow> d | None \<Rightarrow> [])\<rparr>"

datatype exn =
    App app_error
  | DuplicateKey
  | MongoError
  | Invalid val
  | InvalidRequest val
  | BadValue string
  | PyError string

definition err :: "err_class \<Rightarrow> string \<Rightarrow> dict \<Rightarrow> exn" where
  "err c msg details = App (mk_error c (Some msg) (Some details) None None)"

definition err_code :: "err_class \<Rightarrow> string \<Rightarrow> string \<Rightarrow> dict \<Rightarrow> exn" where
  "err_code c msg code details = App (mk_error c (Some msg) (Some details) (Some code) None)"

fun opt_str :: "string option \<Rightarrow> val" where
  "opt_str None = VNone"
| "opt_str (Some s) = VStr s"

fun opt_int :: "int option \<Rightarrow> val" where
  "opt_int None = VNone"
| "opt_int (Some i) = VInt i"

text \<open>\<open>AppError.to_envelope\<close>.\<close>

definition to_envelope :: "app_error \<Rightarrow> string option \<Rightarrow> dict" where
  "to_envelope e rid = [(''error'', VDict
     [(''code'', VStr (ae_code e)),
      (''message'', VStr (ae_message e)),
      (''details'', VDict (ae_details e)),
      (''request_id'', opt_str rid)])]"

record response =
  rs_status :: int
  rs_body :: val
  rs_headers :: "(string \<times> string) list"

text \<open>\<open>_json\<close>.\<close>

definition json_response :: "int \<Rightarrow> dict \<Rightarrow> string option \<Rightarrow> response" where
  "json_response st payload rid = \<lparr>rs_status = st, rs_body = VDict payload,
     rs_headers = (case rid of Some r \<Rightarrow> if r \<noteq> [] then [(''X-Request-ID'', r)] else [] | None \<Rightarrow> [])\<rparr>"

text \<open>\<open>int(details["retry_after"]) + 1\<close>: \<open>int\<close> of a float truncates towards zero.\<close>

definition py_trunc :: "real \<Rightarrow> int" where
  "py_trunc r = (if 0 \<le> r then \<lfloor>r\<rfloor> else \<lceil>r\<rceil>)"

fun int_of_val :: "val \<Rightarrow> int" where
  "int_of_val (VInt i) = i"
| "int_of_val (VNum r) = py_trunc r"
| "int_of_val (VBool b) = (if b then 1 else 0)"
| "int_of_val _ = 0"

text \<open>\<open>_handle_app_error\<close>.\<close>

definition handle_app_error :: "app_error \<Rightarrow> string option \<Rightarrow> response" where
  "handle_app_error e rid =
     (let resp = json_response (ae_status e) (to_envelope e rid) rid in
      if ae_code e = ''rate_limited'' then
        (case map_of (ae_details e) ''retry_after'' of
           Some v \<Rightarrow> resp\<lparr>rs_headers :=
             dset ''Retry-After'' (int_str (int_of_val v + 1)) (rs_headers resp)\<rparr>
         | None \<Rightarrow> resp)
      else resp)"

text \<open>\<open>_safe_errors\<close>: only the location, message and type of each validation error.\<close>

definition safe_error :: "dict \<Rightarrow> dict" where
  "safe_error e =
     [(''loc'', (case map_of e ''loc'' of Some v \<Rightarrow> v | None \<Rightarrow> VList [])),
      (''msg'', (case map_of e ''msg'' of Some v \<Rightarrow> v | None \<Rightarrow> VStr [])),
      (''type'', (case map_of e ''type'' of Some v \<Rightarrow> v | None \<Rightarrow> VStr []))]"

definition safe_errors :: "dict list \<Rightarrow> dict list" where
  "safe_errors es = List.map safe_error es"

definition handle_validation :: "string \<Rightarrow> dict list \<Rightarrow> string option \<Rightarrow> response" where
  "handle_validation msg errors rid =
     (let e = mk_error ValidationFailedError (Some msg)
                (Some [(''errors'', VList (List.map VDict (safe_errors errors)))]) None None
      in json_response (ae_status e) (to_envelope e rid) rid)"

text \<open>
  The handlers of \<open>install_exception_handlers\<close>, chosen by the exception's class;
  \<open>errors\<close> gives pydantic's list of errors for an input it rejects.
\<close>

definition handle_exn :: "(val \<Rightarrow> dict list) \<Rightarrow> exn \<Rightarrow> string option \<Rightarrow> response" where
  "handle_exn errors ex rid =
     (case ex of
        App e \<Rightarrow> handle_app_error e rid
      | InvalidRequest v \<Rightarrow> handle_validation ''Request validation failed.'' (errors v) rid
      | Invalid v \<Rightarrow> handle_validation ''Schema validation failed.'' (errors v) rid
      | _ \<Rightarrow> (let e = mk_error AppError (Some ''An unexpected error occurred.'') None None None
              in json_response (ae_status e) (to_envelope e rid) rid))"

definition handle_http_exception :: "int \<Rightarrow> string \<Rightarrow> string option \<Rightarrow> response" where
  "handle_http_exception st detail rid = json_response st
     [(''error'', VDict [(''code'', VStr (''http_'' @ int_str st)), (''message'', VStr detail),
        (''details'', VDict []), (''request_id'', opt_str rid)])] rid"

lemma mk_error_class [simp]: "ae_class (mk_error c m d k s) = c"
  by (simp add: mk_error_def)

lemma err_simps [simp]:
  "err c m d = App e \<longleftrightarrow> e = mk_error c (Some m) (Some d) None None"
  "err c m d \<noteq> DuplicateKey" "err c m d \<noteq> MongoError" "err c m d \<noteq> PyError p" "err c m d \<noteq> Invalid v"
  "err c m d \<noteq> BadValue k" "err_code c m n d \<noteq> BadValue k"
  "err c m d \<noteq> InvalidRequest v" "err_code c m k d \<noteq> InvalidRequest v"
  "err_code c m k d = App e \<longleftrightarrow> e = mk_error c (Some m) (Some d) (Some k) None"
  "err_code c m k d \<noteq> DuplicateKey" "err_code c m k d \<noteq> MongoError"
  "err_code c m k d \<noteq> PyError p" "err_code c m k d \<noteq> Invalid v"
  by (auto simp: err_def err_code_def)

end
