(* ===== verification/Schema.thy ===== *)
theory Schema
  imports Values
begin

text \<open>
  cmdboss/schema.py: the declarative description of a CI type (\<open>FieldSpec\<close>, \<open>IndexSpec\<close>,
  \<open>CITypeDefinition\<close>), its validators, and the compiler from a field map to the model that
  validates payloads. The regular expression compiler (\<open>re.compile\<close>) is the parameter
  \<open>re_ok\<close> and pydantic's \<open>create_model\<close> the parameter \<open>refuses\<close>; what pydantic does with a compiled
  model is a parameter of theory World.
\<close>

section \<open>Data\<close>

datatype ftype = FString | FInteger | FNumber | FBoolean | FDatetime | FArray | FObject | FReference

datatype scalar = SString | SInteger | SNumber | SBoolean | SDatetime | SReference

record field_spec =
  fs_type :: ftype
  fs_required :: bool
  fs_description :: "string option"
  fs_default :: val
  fs_min_length :: "int option"
  fs_max_length :: "int option"
  fs_pattern :: "string option"
  fs_minimum :: "real option"
  fs_maximum :: "real option"
  fs_enum :: "val list option"
  fs_items :: "scalar option"
  fs_min_items :: "int option"
  fs_max_items :: "int option"
  fs_ref_type :: "string option"

text \<open>\<open>FieldSpec(type=t)\<close> with every other field left at its default.\<close>

definition plain_spec :: "ftype \<Rightarrow> field_spec" where
  "plain_spec t = \<lparr>fs_type = t, fs_required = False, fs_description = None, fs_default = VNone,
     fs_min_length = None, fs_max_length = None, fs_pattern = None, fs_minimum = None,
     fs_maximum = None, fs_enum = None, fs_items = None, fs_min_items = None,
     fs_max_items = None, fs_ref_type = None\<rparr>"

record index_spec =
  ix_fields :: "string list"
  ix_unique :: bool

record type_def =
  td_name :: string
  td_description :: "string option"
  td_fields :: "(string \<times> field_spec) list"
  td_indexes :: "index_spec list"

section \<open>Validators\<close>

datatype spec_error =
    NegativeLength
  | BadPattern
  | ArrayNeedsItems | ItemsOnlyForArrays | EnumOnlyForScalars | PatternOnlyForStrings
  | ReferenceNeedsRefType | MinimumExceedsMaximum | MinLengthExceedsMaxLength
  | MinItemsExceedsMaxItems | RequiredWithDefault
  | BadTypeName | NoFields | BadFieldName string | ReservedField string | KeywordField string
  | EmptyIndex | IndexUnknownFields "string list"

text \<open>\<open>Field(default=None, ge=0)\<close>.\<close>

fun ge_zero :: "int option \<Rightarrow> bool" where
  "ge_zero None = True"
| "ge_zero (Some n) = (0 \<le> n)"

text \<open>\<open>lo is not None and hi is not None and lo > hi\<close>.\<close>

fun exceeds :: "('a :: linorder) option \<Rightarrow> 'a option \<Rightarrow> bool" where
  "exceeds (Some lo) (Some hi) = (lo > hi)"
| "exceeds _ _ = False"

definition valid_regex :: "(string \<Rightarrow> bool) \<Rightarrow> string option \<Rightarrow> bool" where
  "valid_regex re_ok v = (case v of None \<Rightarrow> True | Some r \<Rightarrow> re_ok r)"

definition coherent :: "field_spec \<Rightarrow> spec_error option" where
  "coherent s =
     (if fs_type s = FArray \<and> fs_items s = None then Some ArrayNeedsItems
      else if fs_items s \<noteq> None \<and> fs_type s \<noteq> FArray then Some ItemsOnlyForArrays
      else if fs_enum s \<noteq> None \<and> fs_type s \<notin> {FString, FInteger, FNumber}
        then Some EnumOnlyForScalars
      else if fs_pattern s \<noteq> None \<and> fs_type s \<notin> {FString, FReference}
        then Some PatternOnlyForStrings
      else if fs_type s = FReference \<and> (fs_ref_type s = None \<or> fs_ref_type s = Some [])
        then Some ReferenceNeedsRefType
      else if exceeds (fs_minimum s) (fs_maximum s) then Some MinimumExceedsMaximum
      else if exceeds (fs_min_length s) (fs_max_length s) then Some MinLengthExceedsMaxLength
      else if exceeds (fs_min_items s) (fs_max_items s) then Some MinItemsExceedsMaxItems
      else if fs_required s \<and> fs_default s \<noteq> VNone then Some RequiredWithDefault
      else None)"

text \<open>A field specification as pydantic builds it: field constraints, then the validators.\<close>

definition check_field_spec :: "(string \<Rightarrow> bool) \<Rightarrow> field_spec \<Rightarrow> spec_error option" where
  "check_field_spec re_ok s =
     (if \<not> (ge_zero (fs_min_length s) \<and> ge_zero (fs_max_length s)
            \<and> ge_zero (fs_min_items s) \<and> ge_zero (fs_max_items s)) then Some NegativeLength
      else if \<not> valid_regex re_ok (fs_pattern s) then Some BadPattern
      else coherent s)"

definition is_lower_az :: "char \<Rightarrow> bool" where
  "is_lower_az c = (let n = (of_char c :: nat) in 97 \<le> n \<and> n \<le> 122)"

definition is_alpha :: "char \<Rightarrow> bool" where
  "is_alpha c = (let n = (of_char c :: nat) in (65 \<le> n \<and> n \<le> 90) \<or> (97 \<le> n \<and> n \<le> 122))"

text \<open>
  \<open>re.match(r"^F[R]{0,62}$", s)\<close> for two character classes: \<open>$\<close> also matches just
  before a newline that ends the string.
\<close>

definition re_token :: "(char \<Rightarrow> bool) \<Rightarrow> (char \<Rightarrow> bool) \<Rightarrow> string \<Rightarrow> bool" where
  "re_token first rest s =
     (case s of [] \<Rightarrow> False
      | c # cs \<Rightarrow> first c \<and>
          (let body = (if cs \<noteq> [] \<and> last cs = CHR 0x0A then butlast cs else cs)
           in length body \<le> 62 \<and> list_all rest body))"

definition name_re :: "string \<Rightarrow> bool" where
  "name_re s = re_token is_lower_az (\<lambda>c. is_lower_az c \<or> is_digit c \<or> c = CHR ''_'') s"

definition field_re :: "string \<Rightarrow> bool" where
  "field_re s = re_token is_alpha (\<lambda>c. is_alpha c \<or> is_digit c \<or> c = CHR ''_'') s"

definition reserved_fields :: "string list" where
  "reserved_fields = [''id'', ''_id'', ''_meta'']"

text \<open>\<open>keyword.iskeyword\<close>.\<close>

definition py_keywords :: "string list" where
  "py_keywords = [''False'', ''None'', ''True'', ''and'', ''as'', ''assert'', ''async'', ''await'',
     ''break'', ''class'', ''continue'', ''def'', ''del'', ''elif'', ''else'', ''except'',
     ''finally'', ''for'', ''from'', ''global'', ''if'', ''import'', ''in'', ''is'', ''lambda'',
     ''nonlocal'', ''not'', ''or'', ''pass'', ''raise'', ''return'', ''try'', ''while'', ''with'',
     ''yield'']"

definition valid_name :: "string \<Rightarrow> spec_error + string" where
  "valid_name v = (let v = lower (strip v) in if name_re v then Inr v else Inl BadTypeName)"

fun check_field_names :: "string list \<Rightarrow> spec_error option" where
  "check_field_names [] = None"
| "check_field_names (f # fs) =
     (if \<not> field_re f then Some (BadFieldName f)
      else if f \<in> set reserved_fields then Some (ReservedField f)
      else if f \<in> set py_keywords then Some (KeywordField f)
      else check_field_names fs)"

fun check_indexes :: "string list \<Rightarrow> index_spec list \<Rightarrow> spec_error option" where
  "check_indexes declared [] = None"
| "check_indexes declared (i # is) =
     (let unknown = filter (\<lambda>f. f \<notin> set declared) (ix_fields i) in
      if unknown \<noteq> [] then Some (IndexUnknownFields unknown) else check_indexes declared is)"

definition validate_fields :: "type_def \<Rightarrow> spec_error option" where
  "validate_fields d =
     (if td_fields d = [] then Some NoFields
      else case check_field_names (dkeys (td_fields d)) of
        Some e \<Rightarrow> Some e
      | None \<Rightarrow> check_indexes (dkeys (td_fields d)) (td_indexes d))"

fun check_specs :: "(string \<Rightarrow> bool) \<Rightarrow> (string \<times> field_spec) list \<Rightarrow> spec_error option" where
  "check_specs re_ok [] = None"
| "check_specs re_ok ((f, s) # fs) =
     (case check_field_spec re_ok s of Some e \<Rightarrow> Some e | None \<Rightarrow> check_specs re_ok fs)"

text \<open>
  A request body becomes a \<open>CITypeDefinition\<close>: the name validator, the nested field and
  index specifications (an index lists at least one field), then the model validator.
\<close>

definition make_type_def :: "(string \<Rightarrow> bool) \<Rightarrow> type_def \<Rightarrow> spec_error + type_def" where
  "make_type_def re_ok raw =
     (case valid_name (td_name raw) of Inl e \<Rightarrow> Inl e
      | Inr n \<Rightarrow>
        (case check_specs re_ok (td_fields raw) of Some e \<Rightarrow> Inl e
         | None \<Rightarrow>
           (if list_ex (\<lambda>i. ix_fields i = []) (td_indexes raw) then Inl EmptyIndex
            else let d = raw\<lparr>td_name := n\<rparr> in
              case validate_fields d of Some e \<Rightarrow> Inl e | None \<Rightarrow> Inr d)))"

section \<open>Compiling a field map\<close>

datatype ann =
    APrim ftype
  | AItems scalar
  | ALiteral "val list"

record field_def =
  fd_ann :: ann
  fd_optional :: bool
  fd_required :: bool
  fd_default :: val
  fd_constraints :: dict

record model =
  mdl_name :: string
  mdl_fields :: "(string \<times> field_def) list"

text \<open>\<open>None\<close> is the KeyError of \<open>_PRIMITIVES[spec.items]\<close>.\<close>

definition annotate :: "field_spec \<Rightarrow> ann option" where
  "annotate s =
     (case fs_enum s of
        Some vs \<Rightarrow> Some (ALiteral vs)
      | None \<Rightarrow>
          (if fs_type s = FArray then map_option AItems (fs_items s)
           else Some (APrim (fs_type s))))"

definition opt_kw :: "string \<Rightarrow> ('a \<Rightarrow> val) \<Rightarrow> 'a option \<Rightarrow> dict" where
  "opt_kw k f v = (case v of None \<Rightarrow> [] | Some a \<Rightarrow> [(k, f a)])"

definition constraints :: "field_spec \<Rightarrow> dict" where
  "constraints s =
     (let kw = (case fs_description s of Some d \<Rightarrow> if d \<noteq> [] then [(''description'', VStr d)] else []
                | None \<Rightarrow> []) in
      if fs_enum s \<noteq> None then kw
      else if fs_type s \<in> {FString, FReference} then
        kw @ opt_kw ''min_length'' VInt (fs_min_length s)
           @ opt_kw ''max_length'' VInt (fs_max_length s)
           @ opt_kw ''pattern'' VStr (fs_pattern s)
      else if fs_type s \<in> {FInteger, FNumber} then
        kw @ opt_kw ''ge'' VNum (fs_minimum s) @ opt_kw ''le'' VNum (fs_maximum s)
      else if fs_type s = FArray then
        kw @ opt_kw ''min_length'' VInt (fs_min_items s)
           @ opt_kw ''max_length'' VInt (fs_max_items s)
      else kw)"

definition compile_field :: "field_spec \<Rightarrow> field_def option" where
  "compile_field s =
     (case annotate s of None \<Rightarrow> None
      | Some a \<Rightarrow>
          Some (if fs_required s
                then \<lparr>fd_ann = a, fd_optional = False, fd_required = True, fd_default = VNone,
                      fd_constraints = constraints s\<rparr>
                else \<lparr>fd_ann = a, fd_optional = True, fd_required = False,
                      fd_default = fs_default s, fd_constraints = constraints s\<rparr>))"

fun compile_fields ::
  "(string \<times> field_spec) list \<Rightarrow> (string \<times> field_def) list option" where
  "compile_fields [] = Some []"
| "compile_fields ((f, s) # fs) =
     (case compile_field s of None \<Rightarrow> None
      | Some d \<Rightarrow> (case compile_fields fs of None \<Rightarrow> None | Some ds \<Rightarrow> Some ((f, d) # ds)))"

text \<open>\<open>name.capitalize()\<close>.\<close>

definition capitalize :: "string \<Rightarrow> string" where
  "capitalize s = (case s of [] \<Rightarrow> [] | c # cs \<Rightarrow> upper_char c # lower cs)"

text \<open>
  \<open>compile_model\<close> gives the class or the name of the exception that building it raises: the KeyError of
  the table of primitives, or what \<open>create_model\<close> raises on these field definitions. That is
  pydantic's decision (it refuses patterns its regular expression engine cannot compile, enumerations
  it cannot make a \<open>Literal\<close> of, some attribute names), so it is the parameter \<open>refuses\<close>.
\<close>

definition compile_model ::
  "(model \<Rightarrow> string option) \<Rightarrow> string \<Rightarrow> (string \<times> field_spec) list \<Rightarrow> string + model" where
  "compile_model refuses name fds =
     (case compile_fields fds of
        None \<Rightarrow> Inl ''KeyError''
      | Some fs \<Rightarrow>
          (let m = \<lparr>mdl_name = capitalize name @ ''CI'', mdl_fields = fs\<rparr> in
           case refuses m of Some e \<Rightarrow> Inl e | None \<Rightarrow> Inr m))"

definition compile_from_definition :: "(model \<Rightarrow> string option) \<Rightarrow> type_def \<Rightarrow> string + model" where
  "compile_from_definition refuses d = compile_model refuses (td_name d) (td_fields d)"

end
