(* ===== verification/Graph_Schema.thy ===== *)
theory Graph_Schema
  imports Schema
begin

text \<open>
  cmdboss/graph_schema.py: the declarative contract of a relationship type, its validators, and
  the two endpoint tests.
\<close>

datatype cardinality = OneToOne | OneToMany | ManyToOne | ManyToMany

record rel_def =
  rd_name :: string
  rd_description :: "string option"
  rd_from_types :: "string list"
  rd_to_types :: "string list"
  rd_cardinality :: cardinality
  rd_dependency :: bool
  rd_inverse_name :: "string option"
  rd_allow_self :: bool

text \<open>
  A cardinality limits how many edges leave a node, how many enter it, both, or neither; one is
  below another when it allows no more.
\<close>

definition single_source :: "cardinality \<Rightarrow> bool" where
  "single_source c = (c \<in> {OneToOne, ManyToOne})"

definition single_target :: "cardinality \<Rightarrow> bool" where
  "single_target c = (c \<in> {OneToOne, OneToMany})"

instantiation cardinality :: order
begin

definition less_eq_cardinality :: "cardinality \<Rightarrow> cardinality \<Rightarrow> bool" where
  "less_eq_cardinality a b = ((single_source b \<longrightarrow> single_source a) \<and> (single_target b \<longrightarrow> single_target a))"

definition less_cardinality :: "cardinality \<Rightarrow> cardinality \<Rightarrow> bool" where
  "less_cardinality a b = (a \<le> b \<and> \<not> b \<le> a)"

instance
proof
  fix a b :: cardinality
  show "a \<le> b \<Longrightarrow> b \<le> a \<Longrightarrow> a = b"
    by (cases a; cases b) (simp_all add: less_eq_cardinality_def single_source_def single_target_def)
qed (auto simp: less_eq_cardinality_def less_cardinality_def)

end

lemma one_to_one_least [simp]: "OneToOne \<le> c" and many_to_many_greatest [simp]: "c \<le> ManyToMany"
  by (simp_all add: less_eq_cardinality_def single_source_def single_target_def)

definition any_type :: string where
  "any_type = ''*''"

text \<open>\<open>RelationshipTypeDefinition(name=n)\<close> with the other fields left at their defaults.\<close>

definition plain_rel :: "string \<Rightarrow> rel_def" where
  "plain_rel n = \<lparr>rd_name = n, rd_description = None, rd_from_types = [any_type],
     rd_to_types = [any_type], rd_cardinality = ManyToMany, rd_dependency = False,
     rd_inverse_name = None, rd_allow_self = False\<rparr>"

datatype rel_error = BadRelName | NoTypes | BadTypeToken string | StarWithTypes

definition valid_rel_name :: "string \<Rightarrow> rel_error + string" where
  "valid_rel_name v = (let v = lower (strip v) in if name_re v then Inr v else Inl BadRelName)"

text \<open>\<open>_TYPE_TOKEN_RE\<close>: a name, or a star, before the end or a final newline.\<close>

definition token_re :: "string \<Rightarrow> bool" where
  "token_re s = (name_re s \<or> s = ''*'' \<or> s = ''*'' @ [CHR 0x0A])"

fun clean_tokens :: "string list \<Rightarrow> rel_error + string list" where
  "clean_tokens [] = Inr []"
| "clean_tokens (t # ts) =
     (let t = lower (strip t) in
      if \<not> token_re t then Inl (BadTypeToken t)
      else case clean_tokens ts of Inl e \<Rightarrow> Inl e | Inr cs \<Rightarrow> Inr (t # cs))"

definition valid_type_tokens :: "string list \<Rightarrow> rel_error + string list" where
  "valid_type_tokens v =
     (if v = [] then Inl NoTypes
      else case clean_tokens v of Inl e \<Rightarrow> Inl e
        | Inr cleaned \<Rightarrow>
            (if any_type \<in> set cleaned \<and> length cleaned > 1 then Inl StarWithTypes
             else Inr cleaned))"

definition make_rel_def :: "rel_def \<Rightarrow> rel_error + rel_def" where
  "make_rel_def raw =
     (case valid_rel_name (rd_name raw) of Inl e \<Rightarrow> Inl e
      | Inr n \<Rightarrow>
        (case valid_type_tokens (rd_from_types raw) of Inl e \<Rightarrow> Inl e
         | Inr fs \<Rightarrow>
           (case valid_type_tokens (rd_to_types raw) of Inl e \<Rightarrow> Inl e
            | Inr ts \<Rightarrow> Inr (raw\<lparr>rd_name := n, rd_from_types := fs, rd_to_types := ts\<rparr>))))"

definition allows_from :: "rel_def \<Rightarrow> string \<Rightarrow> bool" where
  "allows_from d t = (any_type \<in> set (rd_from_types d) \<or> t \<in> set (rd_from_types d))"

definition allows_to :: "rel_def \<Rightarrow> string \<Rightarrow> bool" where
  "allows_to d t = (any_type \<in> set (rd_to_types d) \<or> t \<in> set (rd_to_types d))"

end
