(* ===== verification/Config.thy ===== *)
theory Config
  imports Values
begin

text \<open>
  cmdboss/config.py: the settings record with its defaults, the two field validators, and the
  merge of a legacy \<open>config.json\<close> with the process environment. Reading the file and the
  \<open>json\<close> parser are parameters.
\<close>

record settings =
  app_name :: string
  environment :: string
  host :: string
  port :: int
  mongo_uri :: string
  db_name :: string
  mongo_max_pool_size :: int
  mongo_min_pool_size :: int
  mongo_server_selection_timeout_ms :: int
  log_level :: string
  log_json :: bool
  metrics_enabled :: bool
  auth_enabled :: bool
  bootstrap_admin_key :: "string option"
  cors_origins :: "string list"
  schema_cache_ttl_seconds :: time
  default_page_size :: int
  max_page_size :: int
  event_bus_max_queue :: int
  use_transactions :: bool
  outbox_enabled :: bool
  outbox_poll_interval_seconds :: time
  outbox_batch_size :: nat
  cache_invalidation_enabled :: bool
  cache_invalidation_poll_seconds :: time
  idempotency_enabled :: bool
  idempotency_ttl_seconds :: int
  graph_max_depth :: nat
  discovery_default_on_missing :: string
  webhooks_enabled :: bool
  webhook_timeout_seconds :: time
  webhook_max_attempts :: nat
  outbox_max_attempts :: int
  outbox_backoff_base_seconds :: time
  outbox_backoff_cap_seconds :: time
  auth_mode :: string
  auth_last_used_throttle_seconds :: time
  jwt_secret :: "string option"
  jwt_algorithm :: string
  jwt_public_key :: "string option"
  jwt_issuer :: "string option"
  jwt_audience :: "string option"
  jwt_scope_claim :: string
  jwt_name_claim :: string
  rate_limit_enabled :: bool
  rate_limit_requests :: int
  rate_limit_window_seconds :: time
  max_body_bytes :: int
  security_headers_enabled :: bool
  hsts_enabled :: bool

text \<open>The defaults of class \<open>Settings\<close>.\<close>

definition default_settings :: settings where
  "default_settings = \<lparr>
     app_name = ''CMDBoss'',
     environment = ''development'',
     host = ''0.0.0.0'',
     port = 8000,
     mongo_uri = ''mongodb://localhost:27017'',
     db_name = ''cmdboss'',
     mongo_max_pool_size = 100,
     mongo_min_pool_size = 0,
     mongo_server_selection_timeout_ms = 5000,
     log_level = ''INFO'',
     log_json = True,
     metrics_enabled = True,
     auth_enabled = True,
     bootstrap_admin_key = None,
     cors_origins = [''http://localhost:3000''],
     schema_cache_ttl_seconds = 30,
     default_page_size = 50,
     max_page_size = 500,
     event_bus_max_queue = 10000,
     use_transactions = True,
     outbox_enabled = True,
     outbox_poll_interval_seconds = 1,
     outbox_batch_size = 100,
     cache_invalidation_enabled = True,
     cache_invalidation_poll_seconds = 2,
     idempotency_enabled = True,
     idempotency_ttl_seconds = 86400,
     graph_max_depth = 10,
     discovery_default_on_missing = ''mark'',
     webhooks_enabled = True,
     webhook_timeout_seconds = 5,
     webhook_max_attempts = 3,
     outbox_max_attempts = 5,
     outbox_backoff_base_seconds = 2,
     outbox_backoff_cap_seconds = 300,
     auth_mode = ''api_key'',
     auth_last_used_throttle_seconds = 60,
     jwt_secret = None,
     jwt_algorithm = ''HS256'',
     jwt_public_key = None,
     jwt_issuer = None,
     jwt_audience = None,
     jwt_scope_claim = ''scope'',
     jwt_name_claim = ''sub'',
     rate_limit_enabled = False,
     rate_limit_requests = 600,
     rate_limit_window_seconds = 60,
     max_body_bytes = 1048576,
     security_headers_enabled = True,
     hsts_enabled = False\<rparr>"

section \<open>Field validators\<close>

definition normalise_log_level :: "string \<Rightarrow> string option" where
  "normalise_log_level v = (let v = upper v in
     if v \<in> set [''DEBUG'', ''INFO'', ''WARNING'', ''ERROR'', ''CRITICAL''] then Some v else None)"

text \<open>\<open>json_loads\<close> stands for \<open>json.loads\<close>; \<open>None\<close> is its ValueError.\<close>

definition split_origins :: "(string \<Rightarrow> val option) \<Rightarrow> val \<Rightarrow> val option" where
  "split_origins json_loads v =
     (case v of
        VStr s \<Rightarrow>
          (let stripped = strip s in
           if starts_with ''['' stripped then json_loads stripped
           else Some (VList (List.map VStr
                  (filter (\<lambda>o'. o' \<noteq> []) (List.map strip (split_on (CHR '','') stripped))))))
      | _ \<Rightarrow> Some v)"

section \<open>Legacy configuration\<close>

text \<open>
  \<open>read_json path\<close> is \<open>None\<close> for a file that does not exist, \<open>Some None\<close> for one
  that cannot be read or parsed, and \<open>Some (Some d)\<close> for a JSON object.
\<close>

definition load_legacy_config ::
  "(string \<Rightarrow> dict option option) \<Rightarrow> string \<Rightarrow> (string \<rightharpoonup> string) \<Rightarrow> dict" where
  "load_legacy_config read_json default_path environ =
     (let path = (case environ ''CMDBOSS_CONFIG_PATH'' of
                    Some p \<Rightarrow> if p \<noteq> [] then p else default_path | None \<Rightarrow> default_path) in
      case read_json path of
        None \<Rightarrow> []
      | Some None \<Rightarrow> []
      | Some (Some raw) \<Rightarrow> filter (\<lambda>(k, v). \<not> starts_with ''_'' k) raw)"

definition legacy_keys :: "string list" where
  "legacy_keys = [''mongo_uri'', ''db_name'', ''host'', ''port'', ''log_level'', ''cors_origins'']"

definition env_name :: "string \<Rightarrow> string" where
  "env_name key = ''CMDBOSS_'' @ upper key"

text \<open>The keyword arguments that \<open>get_settings\<close> passes to \<open>Settings\<close>.\<close>

definition mapped_settings :: "dict \<Rightarrow> (string \<rightharpoonup> string) \<Rightarrow> dict" where
  "mapped_settings legacy environ =
     fold (\<lambda>key m. if map_of legacy key \<noteq> None \<and> environ (env_name key) = None
                   then dset key (dget legacy key) m else m)
       legacy_keys []"

end
