(* ===== verification/World.thy ===== *)
theory World
  imports Errors Graph_Schema Config
begin

text \<open>
  The state the components share and the effects they have on it.

  \<^item> The documents of each MongoDB collection are records; \<open>db\<close> holds the collections,
    \<open>worker\<close> what one worker process keeps in memory.
  \<^item> An action takes the world and returns a value or an exception together with the world it
    leaves behind: an exception does not undo what was written before it.
  \<^item> Everything that is decided outside the program is in the record \<open>ext\<close>: clocks, fresh
    identifiers, database faults, the text form of ObjectIds and timestamps, the SHA-256 hash,
    the exception that pydantic's \<open>create_model\<close> raises on the field definitions of a model (\<open>None\<close>:
    it builds the class), pydantic's run of a compiled model, its list of errors and the JSON schema it gives, the
    metrics in \<open>prometheus_client\<close>'s exposition format, the regular
    expressions \<open>re\<close> compiles, the jwt decoder, the json codec, Python's \<open>str\<close> of a
    composite value, HMAC, the HTTP client (\<open>None\<close> is an exception), and MongoDB's comparison
    of values: \<open>x_before desc a b\<close> (\<open>a\<close> sorts no later than \<open>b\<close>), \<open>x_beyond desc a b\<close>
    (\<open>$lt\<close> or \<open>$gt\<close>), \<open>x_match a b\<close> (\<open>{field: b}\<close>). The choices are indexed by
    the number of the interaction (\<open>w_n\<close>), which every outside call advances.
\<close>

section \<open>Documents\<close>

record ci_meta =
  m_type :: string
  m_revision :: int
  m_schema_version :: int
  m_created_at :: time
  m_updated_at :: time
  m_created_by :: string
  m_updated_by :: string
  m_source :: "string option"
  m_external_id :: "string option"
  m_run_id :: "string option"
  m_last_seen :: "time option"
  m_status :: "string option"
  m_missing_run :: "string option"

record ci_doc =
  c_id :: oid
  c_fields :: dict
  c_meta :: ci_meta

record type_doc =
  t_id :: oid
  t_name :: string
  t_description :: "string option"
  t_fields :: "(string \<times> field_spec) list"
  t_indexes :: "index_spec list"
  t_version :: int
  t_active :: bool
  t_created_at :: time
  t_updated_at :: time
  t_created_by :: string
  t_updated_by :: string

record rel_type_doc =
  rt_id :: oid
  rt_def :: rel_def
  rt_active :: bool
  rt_created_at :: time
  rt_updated_at :: time
  rt_created_by :: string
  rt_updated_by :: string

record edge =
  e_id :: oid
  e_rel_type :: string
  e_dependency :: bool
  e_from_type :: string
  e_from_id :: oid
  e_to_type :: string
  e_to_id :: oid
  e_attributes :: dict
  e_revision :: int
  e_created_at :: time
  e_updated_at :: time
  e_created_by :: string
  e_updated_by :: string
  e_source :: "string option"
  e_run_id :: "string option"

record audit_entry =
  a_id :: string
  a_ts :: time
  a_action :: string
  a_entity_type :: string
  a_entity_id :: "string option"
  a_actor :: string
  a_schema_version :: "int option"
  a_revision :: "int option"
  a_request_id :: "string option"
  a_before :: "dict option"
  a_after :: "dict option"
  a_changes :: dict

record event =
  ev_id :: string
  ev_type :: string
  ev_entity_type :: string
  ev_entity_id :: "string option"
  ev_actor :: string
  ev_ts :: string
  ev_payload :: dict

datatype ostatus = Pending | Sent | Dead

record outbox_doc =
  o_id :: string
  o_status :: ostatus
  o_attempts :: int
  o_created_at :: time
  o_next :: "time option"
  o_event :: event
  o_sent_at :: "time option"
  o_failed_at :: "time option"
  o_last_error :: "string option"

record api_key =
  k_id :: oid
  k_name :: string
  k_hash :: string
  k_prefix :: string
  k_scopes :: "string list"
  k_active :: bool
  k_created_at :: time
  k_expires_at :: "time option"
  k_last_used :: "time option"
  k_rotated_at :: "time option"
  k_revoked_at :: "time option"

datatype istatus = IPending | IDone

record idem_rec =
  i_id :: string
  i_status :: istatus
  i_response :: "dict option"
  i_created_at :: time
  i_completed_at :: "time option"

record run_doc =
  r_id :: string
  r_provider :: string
  r_source :: string
  r_on_missing :: string
  r_status :: string
  r_started_at :: time
  r_finished_at :: "time option"
  r_actor :: string
  r_error :: "string option"
  r_report :: "dict option"

record webhook =
  h_id :: oid
  h_url :: string
  h_event_types :: "string list"
  h_secret :: "string option"
  h_active :: bool
  h_created_at :: time

record index_model =
  im_name :: string
  im_keys :: "string list"
  im_unique :: bool

record db =
  d_cis :: "string \<Rightarrow> ci_doc list"
  d_ci_indexes :: "string \<Rightarrow> index_model list"
  d_types :: "type_doc list"
  d_rel_types :: "rel_type_doc list"
  d_edges :: "edge list"
  d_audit :: "audit_entry list"
  d_outbox :: "outbox_doc list"
  d_keys :: "api_key list"
  d_idem :: "idem_rec list"
  d_runs :: "run_doc list"
  d_webhooks :: "webhook list"

section \<open>One worker process, and the world\<close>

record worker =
  wk_type_cache :: "string \<rightharpoonup> time \<times> type_doc option"
  wk_model_cache :: "string \<rightharpoonup> int \<times> model"
  wk_rel_cache :: "string \<rightharpoonup> time \<times> rel_type_doc option"
  wk_buckets :: "(string \<times> (time \<times> int)) list"
  wk_bus :: "event list"
  wk_metrics_on :: bool
  wk_metrics :: "(string \<times> (string \<times> string) list) list"
  wk_watermark :: time
  wk_http :: "(string \<times> dict \<times> string) list"
  wk_slept :: "time list"

record world =
  w_db :: db
  w_worker :: worker
  w_n :: nat

record ext =
  x_now :: "nat \<Rightarrow> time"
  x_mono :: "nat \<Rightarrow> time"
  x_oid :: "nat \<Rightarrow> oid"
  x_uuid :: "nat \<Rightarrow> string"
  x_token :: "nat \<Rightarrow> string"
  x_fault :: "nat \<Rightarrow> bool"
  x_oid_parse :: "string \<Rightarrow> oid option"
  x_oid_str :: "oid \<Rightarrow> string"
  x_iso :: "time \<Rightarrow> string"
  x_str :: "exn \<Rightarrow> string"
  x_sha256 :: "string \<Rightarrow> string"
  x_validate :: "model \<Rightarrow> dict \<Rightarrow> dict list + dict"
  x_float :: "string \<Rightarrow> val option"
  x_before :: "bool \<Rightarrow> val \<Rightarrow> val \<Rightarrow> bool"
  x_beyond :: "bool \<Rightarrow> val \<Rightarrow> val \<Rightarrow> bool"
  x_match :: "val \<Rightarrow> val \<Rightarrow> bool"
  x_dumps :: "val \<Rightarrow> string option"
  x_loads :: "string \<Rightarrow> val option"
  x_iso_parse :: "string \<Rightarrow> time option"
  x_jwt :: "nat \<Rightarrow> string \<Rightarrow> string \<Rightarrow> string \<Rightarrow> string option \<Rightarrow> string option \<Rightarrow> dict option"
  x_repr :: "val \<Rightarrow> string"
  x_hmac :: "string \<Rightarrow> string \<Rightarrow> string"
  x_send :: "nat \<Rightarrow> string \<Rightarrow> dict \<Rightarrow> string \<Rightarrow> int option"
  x_errors :: "val \<Rightarrow> dict list"
  x_regex :: "string \<Rightarrow> bool"
  x_schema :: "model \<Rightarrow> val"
  x_refuses :: "model \<Rightarrow> string option"
  x_render :: "(string \<times> (string \<times> string) list) list \<Rightarrow> string"

section \<open>Actions\<close>

type_synonym 'a act = "world \<Rightarrow> (exn + 'a) \<times> world"

definition ret :: "'a \<Rightarrow> 'a act" where
  "ret a = (\<lambda>w. (Inr a, w))"

definition raise_exn :: "exn \<Rightarrow> 'a act" where
  "raise_exn e = (\<lambda>w. (Inl e, w))"

definition seq :: "'a act \<Rightarrow> ('a \<Rightarrow> 'b act) \<Rightarrow> 'b act" where
  "seq m f = (\<lambda>w. case m w of (Inl e, w') \<Rightarrow> (Inl e, w') | (Inr a, w') \<Rightarrow> f a w')"

text \<open>\<open>try: m  except: h\<close>; the handler may raise again.\<close>

definition catch_exn :: "'a act \<Rightarrow> (exn \<Rightarrow> 'a act) \<Rightarrow> 'a act" where
  "catch_exn m h = (\<lambda>w. case m w of (Inl e, w') \<Rightarrow> h e w' | (Inr a, w') \<Rightarrow> (Inr a, w'))"

definition asks :: "(world \<Rightarrow> 'a) \<Rightarrow> 'a act" where
  "asks f = (\<lambda>w. (Inr (f w), w))"

definition on_worker :: "(worker \<Rightarrow> worker) \<Rightarrow> unit act" where
  "on_worker f = (\<lambda>w. (Inr (), w\<lparr>w_worker := f (w_worker w)\<rparr>))"

fun each :: "('a \<Rightarrow> unit act) \<Rightarrow> 'a list \<Rightarrow> unit act" where
  "each f [] = ret ()"
| "each f (y # ys) = seq (f y) (\<lambda>_. each f ys)"

fun fold_act :: "('b \<Rightarrow> 'a \<Rightarrow> 'b act) \<Rightarrow> 'b \<Rightarrow> 'a list \<Rightarrow> 'b act" where
  "fold_act f b [] = ret b"
| "fold_act f b (y # ys) = seq (f b y) (\<lambda>b'. fold_act f b' ys)"

section \<open>The outside: clocks, identifiers, metrics\<close>

definition bump :: "world \<Rightarrow> world" where
  "bump w = w\<lparr>w_n := Suc (w_n w)\<rparr>"

definition draw :: "(nat \<Rightarrow> 'a) \<Rightarrow> 'a act" where
  "draw f = (\<lambda>w. (Inr (f (w_n w)), bump w))"

definition utcnow :: "ext \<Rightarrow> time act" where
  "utcnow x = draw (x_now x)"

definition parse_object_id :: "ext \<Rightarrow> string \<Rightarrow> oid act" where
  "parse_object_id x value =
     (case x_oid_parse x value of
        Some i \<Rightarrow> ret i
      | None \<Rightarrow> raise_exn (err BadRequestError ''Invalid id format.'' [(''id'', VStr value)]))"

fun jsonable :: "ext \<Rightarrow> val \<Rightarrow> val"
  and jsonable_list :: "ext \<Rightarrow> val list \<Rightarrow> val list"
  and jsonable_dict :: "ext \<Rightarrow> dict \<Rightarrow> dict" where
  "jsonable x (VId i) = VStr (x_oid_str x i)"
| "jsonable x (VTime t) = VStr (x_iso x t)"
| "jsonable x (VDict d) = VDict (jsonable_dict x d)"
| "jsonable x (VList vs) = VList (jsonable_list x vs)"
| "jsonable x v = v"
| "jsonable_list x [] = []"
| "jsonable_list x (v # vs) = jsonable x v # jsonable_list x vs"
| "jsonable_dict x [] = []"
| "jsonable_dict x ((k, v) # d) = (k, jsonable x v) # jsonable_dict x d"

definition counter_names :: "string list" where
  "counter_names = [''http_requests_total'', ''ci_operations_total'', ''events_published_total'',
     ''events_dropped_total'']"

text \<open>\<open>_Metrics.incr\<close>: nothing happens when metrics are off or the counter is not registered.\<close>

definition metrics_incr :: "string \<Rightarrow> (string \<times> string) list \<Rightarrow> unit act" where
  "metrics_incr name labels = on_worker (\<lambda>k.
     if wk_metrics_on k \<and> name \<in> set counter_names
     then k\<lparr>wk_metrics := (name, labels) # wk_metrics k\<rparr> else k)"

section \<open>Collections\<close>

text \<open>
  A handle on one collection: its documents, their replacement, and when the unique indexes
  (with \<open>_id\<close> among them) keep two documents apart. Each call is one interaction and may
  fail as a whole, leaving the database as it was.
\<close>

record 'd coll =
  co_docs :: "db \<Rightarrow> 'd list"
  co_put :: "('d list \<Rightarrow> 'd list) \<Rightarrow> db \<Rightarrow> db"
  co_clash :: "db \<Rightarrow> 'd \<Rightarrow> 'd \<Rightarrow> bool"

definition db_call :: "ext \<Rightarrow> (db \<Rightarrow> (exn + 'a) \<times> db) \<Rightarrow> 'a act" where
  "db_call x f = (\<lambda>w.
     if x_fault x (w_n w) then (Inl MongoError, bump w)
     else case f (w_db w) of (r, d) \<Rightarrow> (r, (bump w)\<lparr>w_db := d\<rparr>))"

definition find_many :: "ext \<Rightarrow> 'd coll \<Rightarrow> ('d \<Rightarrow> bool) \<Rightarrow> 'd list act" where
  "find_many x c p = db_call x (\<lambda>d. (Inr (filter p (co_docs c d)), d))"

definition find_one :: "ext \<Rightarrow> 'd coll \<Rightarrow> ('d \<Rightarrow> bool) \<Rightarrow> 'd option act" where
  "find_one x c p = db_call x (\<lambda>d. (Inr (List.find p (co_docs c d)), d))"

definition count_docs :: "ext \<Rightarrow> 'd coll \<Rightarrow> ('d \<Rightarrow> bool) \<Rightarrow> nat act" where
  "count_docs x c p = db_call x (\<lambda>d. (Inr (length (filter p (co_docs c d))), d))"

definition insert_one :: "ext \<Rightarrow> 'd coll \<Rightarrow> 'd \<Rightarrow> unit act" where
  "insert_one x c doc = db_call x (\<lambda>d.
     if list_ex (co_clash c d doc) (co_docs c d) then (Inl DuplicateKey, d)
     else (Inr (), co_put c (\<lambda>docs. docs @ [doc]) d))"

text \<open>\<open>update_one\<close> gives the number of documents matched.\<close>

definition update_one :: "ext \<Rightarrow> 'd coll \<Rightarrow> ('d \<Rightarrow> bool) \<Rightarrow> ('d \<Rightarrow> 'd) \<Rightarrow> nat act" where
  "update_one x c p f = db_call x (\<lambda>d.
     case List.find p (co_docs c d) of
       None \<Rightarrow> (Inr 0, d)
     | Some e \<Rightarrow>
         (if list_ex (co_clash c d (f e)) (del_first p (co_docs c d)) then (Inl DuplicateKey, d)
          else (Inr 1, co_put c (upd_first p f) d)))"

definition find_one_and_update ::
  "ext \<Rightarrow> 'd coll \<Rightarrow> ('d \<Rightarrow> bool) \<Rightarrow> ('d \<Rightarrow> 'd) \<Rightarrow> 'd option act" where
  "find_one_and_update x c p f = db_call x (\<lambda>d.
     case List.find p (co_docs c d) of
       None \<Rightarrow> (Inr None, d)
     | Some e \<Rightarrow>
         (if list_ex (co_clash c d (f e)) (del_first p (co_docs c d)) then (Inl DuplicateKey, d)
          else (Inr (Some (f e)), co_put c (upd_first p f) d)))"

definition delete_one :: "ext \<Rightarrow> 'd coll \<Rightarrow> ('d \<Rightarrow> bool) \<Rightarrow> nat act" where
  "delete_one x c p = db_call x (\<lambda>d.
     (Inr (if list_ex p (co_docs c d) then 1 else 0), co_put c (del_first p) d))"

definition delete_many :: "ext \<Rightarrow> 'd coll \<Rightarrow> ('d \<Rightarrow> bool) \<Rightarrow> unit act" where
  "delete_many x c p = db_call x (\<lambda>d. (Inr (), co_put c (filter (\<lambda>e. \<not> p e)) d))"

section \<open>Transactions\<close>

text \<open>
  \<open>transaction\<close> of cmdboss/db.py: without transaction support the body runs as it is; with
  it, a session is started, the body runs, and the database changes are kept only if the body
  returns and the commit succeeds.
\<close>

definition transaction :: "ext \<Rightarrow> bool \<Rightarrow> 'a act \<Rightarrow> 'a act" where
  "transaction x enabled body = (\<lambda>w.
     if \<not> enabled then body w
     else if x_fault x (w_n w) then (Inl MongoError, bump w)
     else case body (bump w) of
         (Inl e, w') \<Rightarrow> (Inl e, w'\<lparr>w_db := w_db w\<rparr>)
       | (Inr a, w') \<Rightarrow>
           (if x_fault x (w_n w') then (Inl MongoError, (bump w')\<lparr>w_db := w_db w\<rparr>)
            else (Inr a, bump w')))"

end
