(* ===== verification/Actions.thy ===== *)
theory Actions
  imports World
begin

text \<open>
  Reasoning about actions.

  \<^item> \<open>wp m Q E w\<close>: run from \<open>w\<close>, action \<open>m\<close> either returns and \<open>Q\<close> holds of its
    value and world, or raises and \<open>E\<close> holds. Its equations execute an action
    symbolically (collection \<open>run_simps\<close>).
  \<^item> \<open>keeps I m\<close>: however \<open>m\<close> ends, it keeps the database predicate \<open>I\<close>; the rules in
    \<open>keeps_intros\<close> follow the structure of the action.
  \<^item> \<open>reads m\<close>: \<open>m\<close> never changes the database.
\<close>

definition wp :: "'a act \<Rightarrow> ('a \<Rightarrow> world \<Rightarrow> bool) \<Rightarrow> (exn \<Rightarrow> world \<Rightarrow> bool) \<Rightarrow> world \<Rightarrow> bool" where
  "wp m Q E w = (case m w of (Inr a, w') \<Rightarrow> Q a w' | (Inl e, w') \<Rightarrow> E e w')"

definition keeps :: "(db \<Rightarrow> bool) \<Rightarrow> 'a act \<Rightarrow> bool" where
  "keeps I m = (\<forall>w. I (w_db w) \<longrightarrow> I (w_db (snd (m w))))"

definition reads :: "'a act \<Rightarrow> bool" where
  "reads m = (\<forall>w. w_db (snd (m w)) = w_db w)"

lemma wp_returns: "wp m Q E w \<Longrightarrow> m w = (Inr a, w') \<Longrightarrow> Q a w'"
  by (simp add: wp_def)

lemma wp_raises: "wp m Q E w \<Longrightarrow> m w = (Inl e, w') \<Longrightarrow> E e w'"
  by (simp add: wp_def)

lemma wpI:
  "(\<And>a w'. m w = (Inr a, w') \<Longrightarrow> Q a w') \<Longrightarrow> (\<And>e w'. m w = (Inl e, w') \<Longrightarrow> E e w') \<Longrightarrow> wp m Q E w"
  by (auto simp: wp_def split: prod.splits sum.splits)

lemma wp_mono:
  "wp m Q E w \<Longrightarrow> (\<And>a w'. Q a w' \<Longrightarrow> Q' a w') \<Longrightarrow> (\<And>e w'. E e w' \<Longrightarrow> E' e w') \<Longrightarrow> wp m Q' E' w"
  by (auto simp: wp_def split: prod.splits sum.splits)

lemma wp_conj:
  "wp m Q E w \<Longrightarrow> wp m Q' E' w \<Longrightarrow> wp m (\<lambda>a w. Q a w \<and> Q' a w) (\<lambda>e w. E e w \<and> E' e w) w"
  by (auto simp: wp_def split: prod.splits sum.splits)

lemma wp_True [simp]: "wp m (\<lambda>_ _. True) (\<lambda>_ _. True) w"
  by (auto simp: wp_def split: prod.splits sum.splits)

lemma bump_simps [simp]:
  "w_db (bump w) = w_db w" "w_worker (bump w) = w_worker w" "w_n (bump w) = Suc (w_n w)"
  "(bump w)\<lparr>w_db := w_db w\<rparr> = bump w"
  by (simp_all add: bump_def)

section \<open>Symbolic execution\<close>

lemma wp_ret [run_simps]: "wp (ret a) Q E = Q a"
  by (simp add: wp_def ret_def fun_eq_iff)

lemma wp_raise [run_simps]: "wp (raise_exn e) Q E = E e"
  by (simp add: wp_def raise_exn_def fun_eq_iff)

lemma wp_seq [run_simps]: "wp (seq m f) Q E = wp m (\<lambda>a. wp (f a) Q E) E"
  by (simp add: wp_def seq_def fun_eq_iff split: prod.splits sum.splits)

lemma wp_catch [run_simps]: "wp (catch_exn m h) Q E = wp m Q (\<lambda>e. wp (h e) Q E)"
  by (simp add: wp_def catch_exn_def fun_eq_iff split: prod.splits sum.splits)

lemma wp_asks [run_simps]: "wp (asks f) Q E w = Q (f w) w"
  by (simp add: wp_def asks_def)

lemma wp_on_worker [run_simps]:
  "wp (on_worker f) Q E w = Q () (w\<lparr>w_worker := f (w_worker w)\<rparr>)"
  by (simp add: wp_def on_worker_def)

lemma wp_draw [run_simps]: "wp (draw f) Q E w = Q (f (w_n w)) (bump w)"
  by (simp add: wp_def draw_def)

lemma wp_utcnow [run_simps]: "wp (utcnow x) Q E w = Q (x_now x (w_n w)) (bump w)"
  by (simp add: utcnow_def wp_draw)

lemma wp_db_call [run_simps]:
  "wp (db_call x f) Q E w =
     (if x_fault x (w_n w) then E MongoError (bump w)
      else case f (w_db w) of (Inr a, d) \<Rightarrow> Q a ((bump w)\<lparr>w_db := d\<rparr>)
         | (Inl e, d) \<Rightarrow> E e ((bump w)\<lparr>w_db := d\<rparr>))"
  by (simp add: wp_def db_call_def split: prod.splits sum.splits)

lemma wp_find_many [run_simps]:
  "wp (find_many x c p) Q E w =
     (if x_fault x (w_n w) then E MongoError (bump w)
      else Q (filter p (co_docs c (w_db w))) (bump w))"
  by (simp add: find_many_def wp_db_call)

lemma wp_find_one [run_simps]:
  "wp (find_one x c p) Q E w =
     (if x_fault x (w_n w) then E MongoError (bump w)
      else Q (List.find p (co_docs c (w_db w))) (bump w))"
  by (simp add: find_one_def wp_db_call)

lemma wp_count_docs [run_simps]:
  "wp (count_docs x c p) Q E w =
     (if x_fault x (w_n w) then E MongoError (bump w)
      else Q (length (filter p (co_docs c (w_db w)))) (bump w))"
  by (simp add: count_docs_def wp_db_call)

lemma wp_insert_one [run_simps]:
  "wp (insert_one x c doc) Q E w =
     (if x_fault x (w_n w) then E MongoError (bump w)
      else if list_ex (co_clash c (w_db w) doc) (co_docs c (w_db w)) then E DuplicateKey (bump w)
      else Q () ((bump w)\<lparr>w_db := co_put c (\<lambda>docs. docs @ [doc]) (w_db w)\<rparr>))"
  by (simp add: insert_one_def wp_db_call)

lemma wp_update_one [run_simps]:
  "wp (update_one x c p f) Q E w =
     (if x_fault x (w_n w) then E MongoError (bump w)
      else case List.find p (co_docs c (w_db w)) of
        None \<Rightarrow> Q 0 (bump w)
      | Some e \<Rightarrow>
          (if list_ex (co_clash c (w_db w) (f e)) (del_first p (co_docs c (w_db w)))
           then E DuplicateKey (bump w)
           else Q 1 ((bump w)\<lparr>w_db := co_put c (upd_first p f) (w_db w)\<rparr>)))"
  by (simp add: update_one_def wp_db_call split: option.splits)

lemma wp_find_one_and_update [run_simps]:
  "wp (find_one_and_update x c p f) Q E w =
     (if x_fault x (w_n w) then E MongoError (bump w)
      else case List.find p (co_docs c (w_db w)) of
        None \<Rightarrow> Q None (bump w)
      | Some e \<Rightarrow>
          (if list_ex (co_clash c (w_db w) (f e)) (del_first p (co_docs c (w_db w)))
           then E DuplicateKey (bump w)
           else Q (Some (f e)) ((bump w)\<lparr>w_db := co_put c (upd_first p f) (w_db w)\<rparr>)))"
  by (simp add: find_one_and_update_def wp_db_call split: option.splits)

lemma wp_delete_one [run_simps]:
  "wp (delete_one x c p) Q E w =
     (if x_fault x (w_n w) then E MongoError (bump w)
      else Q (if list_ex p (co_docs c (w_db w)) then 1 else 0)
             ((bump w)\<lparr>w_db := co_put c (del_first p) (w_db w)\<rparr>))"
  by (simp add: delete_one_def wp_db_call)

lemma wp_delete_many [run_simps]:
  "wp (delete_many x c p) Q E w =
     (if x_fault x (w_n w) then E MongoError (bump w)
      else Q () ((bump w)\<lparr>w_db := co_put c (filter (\<lambda>e. \<not> p e)) (w_db w)\<rparr>))"
  by (simp add: delete_many_def wp_db_call)

lemma wp_metrics_incr [run_simps]:
  "wp (metrics_incr n l) Q E w = Q () (snd (metrics_incr n l w))"
  by (simp add: metrics_incr_def wp_on_worker) (simp add: on_worker_def)

lemma metrics_incr_world [simp]:
  "w_db (snd (metrics_incr n l w)) = w_db w" "w_n (snd (metrics_incr n l w)) = w_n w"
  "fst (metrics_incr n l w) = Inr ()"
  by (simp_all add: metrics_incr_def on_worker_def)

lemma wp_transaction [run_simps]:
  "wp (transaction x en m) Q E w =
     (if \<not> en then wp m Q E w
      else if x_fault x (w_n w) then E MongoError (bump w)
      else wp m (\<lambda>a w'. if x_fault x (w_n w') then E MongoError ((bump w')\<lparr>w_db := w_db w\<rparr>)
                        else Q a (bump w'))
                (\<lambda>e w'. E e (w'\<lparr>w_db := w_db w\<rparr>)) (bump w))"
  by (simp add: wp_def transaction_def split: prod.splits sum.splits)

lemma wp_if [run_simps]: "wp (if b then m else m') Q E w = (if b then wp m Q E w else wp m' Q E w)"
  by simp

lemma wp_option [run_simps]:
  "wp (case v of None \<Rightarrow> m | Some a \<Rightarrow> f a) Q E w =
     (case v of None \<Rightarrow> wp m Q E w | Some a \<Rightarrow> wp (f a) Q E w)"
  by (simp split: option.splits)

lemma wp_sum [run_simps]:
  "wp (case v of Inl a \<Rightarrow> f a | Inr b \<Rightarrow> g b) Q E w =
     (case v of Inl a \<Rightarrow> wp (f a) Q E w | Inr b \<Rightarrow> wp (g b) Q E w)"
  by (simp split: sum.splits)

text \<open>A transaction that does not return leaves the database alone.\<close>

lemma transaction_atomic:
  "transaction x True m w = (Inl e, w') \<Longrightarrow> w_db w' = w_db w"
  by (auto simp: transaction_def split: if_splits prod.splits sum.splits)

lemma transaction_commits:
  assumes "transaction x True m w = (Inr a, w')"
  obtains w'' where "m (bump w) = (Inr a, w'')" "w' = bump w''"
  using assms by (auto simp: transaction_def split: if_splits prod.splits sum.splits)

section \<open>Reading\<close>

named_theorems reads_intros "actions that leave the database alone"

lemma readsI: "(\<And>w. w_db (snd (m w)) = w_db w) \<Longrightarrow> reads m"
  by (simp add: reads_def)

lemma readsD: "reads m \<Longrightarrow> m w = (r, w') \<Longrightarrow> w_db w' = w_db w"
  by (metis reads_def snd_conv)

lemma wp_reads: "reads m \<Longrightarrow> wp m (\<lambda>_ w'. w_db w' = w_db w) (\<lambda>_ w'. w_db w' = w_db w) w"
  by (auto simp: wp_def reads_def split: prod.splits sum.splits) (metis snd_conv)+

lemma reads_prim [reads_intros]:
  "reads (ret a)" "reads (raise_exn e)" "reads (asks g)" "reads (on_worker f)" "reads (draw h)"
  "reads (utcnow x)" "reads (find_many x c p)" "reads (find_one x c p)" "reads (count_docs x c p)"
  "reads (metrics_incr n l)"
  by (auto simp: reads_def ret_def raise_exn_def asks_def on_worker_def draw_def utcnow_def
      find_many_def find_one_def count_docs_def db_call_def)

lemma reads_round_trip [reads_intros]: "reads (db_call x (\<lambda>d. (r, d)))"
  by (simp add: reads_def db_call_def)

lemma reads_seq [reads_intros]: "reads m \<Longrightarrow> (\<And>a. reads (f a)) \<Longrightarrow> reads (seq m f)"
  by (auto simp: reads_def seq_def split: prod.splits sum.splits) (metis snd_conv)+

lemma reads_catch [reads_intros]: "reads m \<Longrightarrow> (\<And>e. reads (h e)) \<Longrightarrow> reads (catch_exn m h)"
  by (auto simp: reads_def catch_exn_def split: prod.splits sum.splits) (metis snd_conv)+

lemma reads_if [reads_intros]: "reads m \<Longrightarrow> reads m' \<Longrightarrow> reads (if b then m else m')"
  by simp

lemma reads_option [reads_intros]:
  "reads m \<Longrightarrow> (\<And>a. reads (f a)) \<Longrightarrow> reads (case v of None \<Rightarrow> m | Some a \<Rightarrow> f a)"
  by (cases v) auto

lemma reads_sum [reads_intros]:
  "(\<And>a. reads (f a)) \<Longrightarrow> (\<And>a. reads (g a)) \<Longrightarrow> reads (case v of Inl a \<Rightarrow> f a | Inr a \<Rightarrow> g a)"
  by (cases v) auto

lemma reads_parse_object_id [reads_intros]: "reads (parse_object_id x v)"
  by (auto simp: parse_object_id_def intro: reads_intros)

lemma wp_read_seq:
  assumes "reads m" "\<And>a w'. m w = (Inr a, w') \<Longrightarrow> w_db w' = w_db w \<Longrightarrow> wp (f a) Q E w'"
    "\<And>e w'. w_db w' = w_db w \<Longrightarrow> E e w'"
  shows "wp (seq m f) Q E w"
  unfolding wp_seq by (rule wpI) (use assms readsD [OF assms(1)] in blast)+

lemma run_wp: "m w = r \<longleftrightarrow> wp m (\<lambda>a w'. r = (Inr a, w')) (\<lambda>e w'. r = (Inl e, w')) w"
  by (auto simp: wp_def split: prod.splits sum.splits)

text \<open>
  A transaction as its caller sees it: what the body establishes of the database, or the
  database as it was.
\<close>

lemma wp_txn:
  assumes "wp m (\<lambda>a w'. P a (w_db w')) (\<lambda>_ w'. en \<or> F (w_db w')) (if en then bump w else w)"
    "en \<Longrightarrow> F (w_db w)"
  shows "wp (transaction x en m) (\<lambda>a w'. P a (w_db w')) (\<lambda>_ w'. F (w_db w')) w"
  using assms
  by (cases en) (auto simp: wp_def transaction_def split: prod.splits sum.splits)

lemma wp_parse_object_id [run_simps]:
  "wp (parse_object_id x v) Q E w =
     (case x_oid_parse x v of Some i \<Rightarrow> Q i w
      | None \<Rightarrow> E (err BadRequestError ''Invalid id format.'' [(''id'', VStr v)]) w)"
  by (simp add: parse_object_id_def run_simps split: option.splits)

lemma wp_parse_seq:
  assumes "\<And>oid. x_oid_parse x v = Some oid \<Longrightarrow> wp (f oid) Q E w"
    "E (err BadRequestError ''Invalid id format.'' [(''id'', VStr v)]) w"
  shows "wp (seq (parse_object_id x v) f) Q E w"
  using assms by (simp add: wp_seq wp_parse_object_id split: option.splits)

lemma wp_txn_seq:
  assumes "\<And>w. w_db w = d \<Longrightarrow> wp m (\<lambda>a w'. P a (w_db w')) (\<lambda>_ _. True) w" "w_db w = d"
    and "\<And>a w'. P a (w_db w') \<Longrightarrow> wp (f a) Q E w'"
    and "\<And>e w'. (en \<Longrightarrow> w_db w' = d) \<Longrightarrow> E e w'"
  shows "wp (seq (transaction x en m) f) Q E w"
proof -
  have "wp (transaction x en m) (\<lambda>a w'. P a (w_db w')) (\<lambda>_ w'. en \<longrightarrow> w_db w' = d) w"
    by (rule wp_txn) (use assms(1,2) in \<open>auto elim!: wp_mono\<close>)
  then show ?thesis
    unfolding wp_seq by (rule wp_mono) (use assms(3,4) in auto)
qed

text \<open>A loop: what holds of the elements done so far and of the accumulator.\<close>

lemma wp_fold_act:
  assumes "\<And>pre y b w. prefix @ ys = pre @ y # drop (Suc (length pre)) (prefix @ ys) \<Longrightarrow> y \<in> set ys \<Longrightarrow> I pre b w \<Longrightarrow>
      wp (f b y) (\<lambda>b' w'. I (pre @ [y]) b' w') E w"
    and "I prefix b w"
  shows "wp (fold_act f b ys) (\<lambda>b' w'. I (prefix @ ys) b' w') E w"
  using assms
proof (induction ys arbitrary: prefix b w)
  case (Cons y ys)
  have "wp (f b y) (\<lambda>b' w'. I (prefix @ [y]) b' w') E w"
    by (rule Cons.prems(1)) (use Cons.prems(2) in auto)
  moreover have "wp (fold_act f b' ys) (\<lambda>b' w'. I (prefix @ y # ys) b' w') E w'"
    if "I (prefix @ [y]) b' w'" for b' w'
    using Cons.IH [of "prefix @ [y]" b' w'] Cons.prems(1) that by simp
  ultimately show ?case by (auto simp: wp_seq elim!: wp_mono)
qed (simp add: wp_ret)

lemmas wp_loop = wp_fold_act [where prefix = "[]", simplified]

lemma reads_each [reads_intros]: "(\<And>y. y \<in> set ys \<Longrightarrow> reads (f y)) \<Longrightarrow> reads (each f ys)"
  by (induction ys) (auto intro: reads_intros)

section \<open>Invariants of the database\<close>

lemma keepsI: "(\<And>w. I (w_db w) \<Longrightarrow> I (w_db (snd (m w)))) \<Longrightarrow> keeps I m"
  by (simp add: keeps_def)

lemma keepsD: "keeps I m \<Longrightarrow> I (w_db w) \<Longrightarrow> m w = (r, w') \<Longrightarrow> I (w_db w')"
  by (metis keeps_def snd_conv)

lemma keeps_wp:
  "keeps I m \<longleftrightarrow> (\<forall>w. I (w_db w) \<longrightarrow> wp m (\<lambda>_ w'. I (w_db w')) (\<lambda>_ w'. I (w_db w')) w)"
  by (auto simp: keeps_def wp_def split: prod.splits sum.splits) (metis snd_conv sum.exhaust surj_pair)

lemma keeps_reads: "reads m \<Longrightarrow> keeps I m"
  by (simp add: keeps_def reads_def)

lemma keeps_conj: "keeps I m \<Longrightarrow> keeps J m \<Longrightarrow> keeps (\<lambda>d. I d \<and> J d) m"
  by (simp add: keeps_def)

lemma keeps_prim [keeps_intros]:
  "keeps I (ret a)" "keeps I (raise_exn e)" "keeps I (asks g)" "keeps I (on_worker f)"
  "keeps I (draw h)" "keeps I (utcnow x)" "keeps I (find_many x c p)" "keeps I (find_one x c p)"
  "keeps I (count_docs x c p)" "keeps I (metrics_incr n l)" "keeps I (parse_object_id x v)"
  by (rule keeps_reads, rule reads_intros)+

lemma keeps_seq [keeps_intros]: "keeps I m \<Longrightarrow> (\<And>a. keeps I (f a)) \<Longrightarrow> keeps I (seq m f)"
  by (fastforce simp: keeps_def seq_def split: prod.splits sum.splits)

lemma keeps_catch [keeps_intros]:
  "keeps I m \<Longrightarrow> (\<And>e. keeps I (h e)) \<Longrightarrow> keeps I (catch_exn m h)"
  by (fastforce simp: keeps_def catch_exn_def split: prod.splits sum.splits)

lemma keeps_if [keeps_intros]: "keeps I m \<Longrightarrow> keeps I m' \<Longrightarrow> keeps I (if b then m else m')"
  by simp

lemma keeps_option [keeps_intros]:
  "keeps I m \<Longrightarrow> (\<And>a. keeps I (f a)) \<Longrightarrow> keeps I (case v of None \<Rightarrow> m | Some a \<Rightarrow> f a)"
  by (cases v) auto

lemma keeps_sum [keeps_intros]:
  "(\<And>a. keeps I (f a)) \<Longrightarrow> (\<And>a. keeps I (g a)) \<Longrightarrow>
   keeps I (case v of Inl a \<Rightarrow> f a | Inr a \<Rightarrow> g a)"
  by (cases v) auto

lemma keeps_let [keeps_intros]: "(\<And>a. keeps I (f a)) \<Longrightarrow> keeps I (let a = v in f a)"
  by simp

lemma keeps_prod [keeps_intros]:
  "(\<And>a b. keeps I (f a b)) \<Longrightarrow> keeps I (case v of (a, b) \<Rightarrow> f a b)"
  by (cases v) auto

lemma keeps_each [keeps_intros]: "(\<And>y. keeps I (f y)) \<Longrightarrow> keeps I (each f ys)"
  by (induction ys) (auto intro: keeps_intros)

lemma keeps_fold_act [keeps_intros]:
  "(\<And>b y. keeps I (f b y)) \<Longrightarrow> keeps I (fold_act f b ys)"
  by (induction ys arbitrary: b) (auto intro: keeps_intros)

lemma keeps_transaction [keeps_intros]: "keeps I m \<Longrightarrow> keeps I (transaction x en m)"
  by (auto simp: keeps_def transaction_def split: prod.splits sum.splits)
     (metis bump_simps(1) snd_conv)+

lemma keeps_insert_one:
  "(\<And>d. I d \<Longrightarrow> \<not> list_ex (co_clash c d doc) (co_docs c d) \<Longrightarrow> I (co_put c (\<lambda>docs. docs @ [doc]) d))
   \<Longrightarrow> keeps I (insert_one x c doc)"
  by (auto simp: keeps_def insert_one_def db_call_def)

lemma keeps_update_one:
  "(\<And>d e. I d \<Longrightarrow> List.find p (co_docs c d) = Some e \<Longrightarrow>
      \<not> list_ex (co_clash c d (f e)) (del_first p (co_docs c d)) \<Longrightarrow> I (co_put c (upd_first p f) d))
   \<Longrightarrow> keeps I (update_one x c p f)"
  by (auto simp: keeps_def update_one_def db_call_def split: option.splits)

lemma keeps_find_one_and_update:
  "(\<And>d e. I d \<Longrightarrow> List.find p (co_docs c d) = Some e \<Longrightarrow>
      \<not> list_ex (co_clash c d (f e)) (del_first p (co_docs c d)) \<Longrightarrow> I (co_put c (upd_first p f) d))
   \<Longrightarrow> keeps I (find_one_and_update x c p f)"
  by (auto simp: keeps_def find_one_and_update_def db_call_def split: option.splits)

lemma keeps_delete_one:
  "(\<And>d. I d \<Longrightarrow> I (co_put c (del_first p) d)) \<Longrightarrow> keeps I (delete_one x c p)"
  by (auto simp: keeps_def delete_one_def db_call_def)

lemma keeps_delete_many:
  "(\<And>d. I d \<Longrightarrow> I (co_put c (filter (\<lambda>e. \<not> p e)) d)) \<Longrightarrow> keeps I (delete_many x c p)"
  by (auto simp: keeps_def delete_many_def db_call_def)

end
