(* ===== verification/RateLimit.thy ===== *)
theory RateLimit
  imports Actions
begin

text \<open>
  cmdboss/ratelimit.py: the fixed-window limiter of one worker. \<open>check\<close> is the method;
  \<open>hit\<close> is its effect on the table of buckets. The reference limiter \<open>own_hit\<close> knows a
  single key and never evicts; \<open>served_own\<close> shows that the table behaves, for each key, like
  a reference limiter of its own.
\<close>

type_synonym bucket = "time \<times> int"
type_synonym buckets = "(string \<times> bucket) list"

record limiter =
  lm_limit :: int
  lm_window :: time
  lm_max_keys :: nat

definition default_max_keys :: nat where
  "default_max_keys = 100000"

definition stale :: "limiter \<Rightarrow> time \<Rightarrow> bucket \<Rightarrow> bool" where
  "stale L now b = (now - fst b \<ge> lm_window L)"

text \<open>\<open>_evict\<close>: the stale buckets go.\<close>

definition evict :: "limiter \<Rightarrow> time \<Rightarrow> buckets \<Rightarrow> buckets" where
  "evict L now bs = filter (\<lambda>p. \<not> stale L now (snd p)) bs"

text \<open>The bucket after this hit, from the one found (or a fresh one).\<close>

definition counted :: "limiter \<Rightarrow> time \<Rightarrow> bucket option \<Rightarrow> bucket" where
  "counted L now b =
     (case b of
        None \<Rightarrow> (now, 1)
      | Some (start, count) \<Rightarrow> if stale L now (start, count) then (now, 1) else (start, count + 1))"

definition verdict :: "limiter \<Rightarrow> time \<Rightarrow> bucket \<Rightarrow> bool \<times> time" where
  "verdict L now b =
     (if snd b > lm_limit L then (False, max 0 (lm_window L - (now - fst b))) else (True, 0))"

definition hit :: "limiter \<Rightarrow> time \<Rightarrow> string \<Rightarrow> buckets \<Rightarrow> (bool \<times> time) \<times> buckets" where
  "hit L now key bs =
     (let b = counted L now (map_of bs key);
          bs = dset key b bs;
          bs = (if length bs > lm_max_keys L then evict L now bs else bs)
      in (verdict L now b, bs))"

definition check :: "ext \<Rightarrow> limiter \<Rightarrow> string \<Rightarrow> (bool \<times> time) act" where
  "check x L key =
     seq (draw (x_mono x)) (\<lambda>now.
     seq (asks (\<lambda>w. hit L now key (wk_buckets (w_worker w)))) (\<lambda>r.
     seq (on_worker (\<lambda>k. k\<lparr>wk_buckets := snd r\<rparr>)) (\<lambda>_.
     ret (fst r))))"

section \<open>A table of buckets is one limiter per key\<close>

text \<open>The verdicts on a sequence of hits, by the table and by a limiter for one key.\<close>

fun serve :: "limiter \<Rightarrow> (time \<times> string) list \<Rightarrow> buckets \<Rightarrow> bool list" where
  "serve L [] bs = []"
| "serve L ((t, k) # hs) bs = (let r = hit L t k bs in fst (fst r) # serve L hs (snd r))"

fun own :: "limiter \<Rightarrow> time list \<Rightarrow> bucket option \<Rightarrow> bool list" where
  "own L [] b = []"
| "own L (t # ts) b = (let b' = counted L t b in fst (verdict L t b') # own L ts (Some b'))"

definition times_of :: "string \<Rightarrow> (time \<times> string) list \<Rightarrow> time list" where
  "times_of k hs = List.map fst (filter (\<lambda>h. snd h = k) hs)"

definition verdicts_of :: "string \<Rightarrow> (time \<times> string) list \<Rightarrow> bool list \<Rightarrow> bool list" where
  "verdicts_of k hs vs = List.map snd (filter (\<lambda>p. snd (fst p) = k) (zip hs vs))"

text \<open>The table may have lost a bucket the reference still holds, when that one is stale.\<close>

definition tracks :: "limiter \<Rightarrow> time \<Rightarrow> bucket option \<Rightarrow> bucket option \<Rightarrow> bool" where
  "tracks L now found b = (found = b \<or> (found = None \<and> (\<exists>c. b = Some c \<and> stale L now c)))"

lemma map_of_evict:
  assumes "distinct (dkeys bs)"
  shows "map_of (evict L now bs) k =
    (case map_of bs k of None \<Rightarrow> None | Some b \<Rightarrow> if stale L now b then None else Some b)"
  using assms
  by (induction bs) (auto simp: evict_def dkeys_def split: option.splits dest: map_of_SomeD
      intro: rev_image_eqI)

lemma tracks_later: "tracks L s found b \<Longrightarrow> s \<le> t \<Longrightarrow> tracks L t found b"
  by (auto simp: tracks_def stale_def)

lemma tracks_counted: "tracks L now found b \<Longrightarrow> counted L now found = counted L now b"
  by (auto simp: tracks_def counted_def)

lemma hit_tracks:
  assumes "distinct (dkeys bs)" "r = hit L now k bs"
  shows "distinct (dkeys (snd r))" "tracks L now (map_of (snd r) k) (Some (counted L now (map_of bs k)))"
    "k' \<noteq> k \<Longrightarrow> tracks L now (map_of bs k') b \<Longrightarrow> tracks L now (map_of (snd r) k') b"
proof -
  have d: "distinct (dkeys (dset k (counted L now (map_of bs k)) bs))"
    using assms(1) by (rule distinct_dset)
  then show "distinct (dkeys (snd r))"
    by (auto simp: assms(2) hit_def Let_def evict_def dkeys_def distinct_map_filter)
  show "tracks L now (map_of (snd r) k) (Some (counted L now (map_of bs k)))"
    by (auto simp: assms(2) hit_def Let_def map_of_evict [OF d] tracks_def)
  show "tracks L now (map_of (snd r) k') b" if "k' \<noteq> k" "tracks L now (map_of bs k') b"
    using that by (auto simp: assms(2) hit_def Let_def map_of_evict [OF d] tracks_def split: option.splits)
qed

lemma served_own:
  assumes "distinct (dkeys bs)" "tracks L now (map_of bs k) b" "sorted (now # List.map fst hs)"
  shows "verdicts_of k hs (serve L hs bs) = own L (times_of k hs) b"
  using assms
proof (induction hs arbitrary: bs b now)
  case (Cons h hs)
  obtain t key where h: "h = (t, key)" by (cases h)
  let ?r = "hit L t key bs"
  have sorted: "sorted (t # List.map fst hs)" "now \<le> t" using Cons.prems(3) h by auto
  have tr: "tracks L t (map_of bs k) b" by (rule tracks_later [OF Cons.prems(2) sorted(2)])
  note after = hit_tracks [OF Cons.prems(1) refl [of ?r]]
  show ?case
  proof (cases "key = k")
    case True
    have "fst ?r = verdict L t (counted L t b)"
      by (simp add: hit_def Let_def True tracks_counted [OF tr])
    moreover have "tracks L t (map_of (snd ?r) k) (Some (counted L t b))"
      using after(2) tracks_counted [OF tr] by (simp add: True)
    ultimately show ?thesis
      using Cons.IH [OF after(1) _ sorted(1), of "Some (counted L t b)"]
      by (simp add: h True verdicts_of_def times_of_def Let_def)
  next
    case False
    with Cons.IH [OF after(1) after(3) sorted(1), of b] tr show ?thesis
      by (simp add: h verdicts_of_def times_of_def Let_def)
  qed
qed (simp add: verdicts_of_def times_of_def)

section \<open>How many hits pass\<close>

text \<open>Those allowed within a span as long as the window.\<close>

definition passed :: "limiter \<Rightarrow> time \<Rightarrow> time list \<Rightarrow> bool list \<Rightarrow> nat" where
  "passed L a ts vs =
     length (filter (\<lambda>p. snd p \<and> a \<le> fst p \<and> fst p < a + lm_window L) (zip ts vs))"

lemma passed_Cons [simp]:
  "passed L a (t # ts) (v # vs) =
     (if v \<and> a \<le> t \<and> t < a + lm_window L then 1 else 0) + passed L a ts vs"
  by (simp add: passed_def)

lemma passed_Nil [simp]: "passed L a [] vs = 0"
  by (simp add: passed_def)

lemma length_own [simp]: "length (own L ts b) = length ts"
  by (induction ts arbitrary: b) (simp_all add: Let_def)

lemma passed_after:
  "\<forall>t\<in>set ts. a + lm_window L \<le> t \<Longrightarrow> passed L a ts vs = 0"
  by (force simp: passed_def filter_empty_conv dest!: set_zip_leftD)

definition budget :: "limiter \<Rightarrow> time \<Rightarrow> bucket option \<Rightarrow> nat" where
  "budget L a b = (case b of None \<Rightarrow> 2 * nat (lm_limit L)
     | Some (s, c) \<Rightarrow> nat (lm_limit L - c) + (if a \<le> s then 0 else nat (lm_limit L)))"

lemma passed_within:
  assumes "sorted ts" "\<forall>t\<in>set ts. a \<le> t" "case b of None \<Rightarrow> True | Some (s, c) \<Rightarrow> 0 \<le> c"
  shows "passed L a ts (own L ts b) \<le> budget L a b"
  using assms
proof (induction ts arbitrary: b)
  case (Cons t ts)
  let ?b = "counted L t b"
  show ?case
  proof (cases "t < a + lm_window L")
    case False
    with Cons.prems(1) have "\<forall>t\<in>set (t # ts). a + lm_window L \<le> t" by auto
    then show ?thesis by (metis passed_after zero_le)
  next
    case True
    have "passed L a ts (own L ts (Some ?b)) \<le> budget L a (Some ?b)"
      using Cons.prems by (intro Cons.IH) (auto simp: counted_def split: option.splits)
    moreover have "budget L a (Some ?b) + (if snd ?b \<le> lm_limit L then 1 else 0) \<le> budget L a b"
      using Cons.prems(2,3) True
      by (cases b) (auto simp: counted_def budget_def stale_def)
    ultimately show ?thesis
      using True Cons.prems(2) by (simp add: Let_def verdict_def split: if_splits)
  qed
qed simp

lemma passed_own:
  assumes "sorted ts" "case b of None \<Rightarrow> True | Some (s, c) \<Rightarrow> 0 \<le> c"
  shows "passed L a ts (own L ts b) \<le> 2 * nat (lm_limit L)"
  using assms
proof (induction ts arbitrary: b)
  case (Cons t ts)
  show ?case
  proof (cases "a \<le> t")
    case True
    then have "passed L a (t # ts) (own L (t # ts) b) \<le> budget L a b"
      using Cons.prems by (intro passed_within) auto
    also have "\<dots> \<le> 2 * nat (lm_limit L)"
      using Cons.prems(2) by (auto simp: budget_def split: option.splits)
    finally show ?thesis .
  next
    case False
    have "passed L a ts (own L ts (Some (counted L t b))) \<le> 2 * nat (lm_limit L)"
      using Cons.prems by (intro Cons.IH) (auto simp: counted_def split: option.splits)
    with False show ?thesis by (simp add: Let_def)
  qed
qed simp

lemma served_alone:
  assumes "sorted (List.map fst hs)"
  shows "verdicts_of k hs (serve L hs []) = own L (times_of k hs) None"
proof (cases hs)
  case (Cons h hs')
  with assms have "sorted (fst h # List.map fst hs)" by auto
  from served_own [where bs = "[]" and b = None, OF _ _ this]
  show ?thesis by (simp add: dkeys_def tracks_def)
qed (simp add: verdicts_of_def times_of_def)

section \<open>Properties\<close>

text \<open>
  C11. Keys do not disturb each other and eviction is invisible: over any sequence of hits in
  time order, the verdicts that one key gets from the shared table, stale buckets evicted or
  not, are those of a limiter that serves this key alone and never forgets a bucket.
\<close>

theorem limiter_per_key:
  assumes "sorted (List.map fst hs)"
  shows "verdicts_of k hs (serve L hs []) = own L (times_of k hs) None"
  using assms by (rule served_alone)

definition sample_hits :: "(time \<times> string) list" where
  "sample_hits = [(0, ''a''), (1, ''b''), (2, ''a''), (3, ''a''), (12, ''a'')]"

definition sample_limiter :: limiter where
  "sample_limiter = \<lparr>lm_limit = 2, lm_window = 10, lm_max_keys = 1\<rparr>"

lemma sample_sorted: "sorted (List.map fst sample_hits)"
  by (simp add: sample_hits_def)

lemma sample_limit: "lm_limit sample_limiter = 2"
  by (simp add: sample_limiter_def)

text \<open>The third hit within the window is refused, the one after it passes.\<close>

theorem limiter_per_key_witness:
  "verdicts_of ''a'' sample_hits (serve sample_limiter sample_hits []) = [True, True, False, True]"
proof -
  have "times_of ''a'' sample_hits = [0, 2, 3, 12]" by (simp add: times_of_def sample_hits_def)
  then show ?thesis
    unfolding limiter_per_key [OF sample_sorted]
    by (simp add: Let_def counted_def verdict_def stale_def sample_limiter_def)
qed

text \<open>
  C12. The cost of a fixed window: within any span as long as the window, one key passes at
  most twice the configured number of times, whatever the other keys do.
\<close>

theorem limiter_bound:
  assumes "sorted (List.map fst hs)"
  shows "passed L a (times_of k hs) (verdicts_of k hs (serve L hs [])) \<le> 2 * nat (lm_limit L)"
proof -
  have "sorted (times_of k hs)"
    using assms by (induction hs) (auto simp: times_of_def)
  then have "passed L a (times_of k hs) (own L (times_of k hs) None) \<le> 2 * nat (lm_limit L)"
    by (rule passed_own) simp
  then show ?thesis by (simp add: served_alone [OF assms])
qed

theorem limiter_bound_witness:
  "passed sample_limiter 1 (times_of ''a'' sample_hits)
     (verdicts_of ''a'' sample_hits (serve sample_limiter sample_hits [])) \<le> 4"
  using limiter_bound [OF sample_sorted, of sample_limiter 1 "''a''"] by (simp add: sample_limit)

text \<open>
  The Retry-After of a refusal is enough: a key refused at one time passes at its next hit
  once the announced delay has gone by, for any positive limit.
\<close>

theorem retry_after_suffices:
  assumes "verdict L now (counted L now b) = (False, delay)" "now + delay \<le> t" "1 \<le> lm_limit L"
  shows "fst (verdict L t (counted L t (Some (counted L now b))))"
  using assms by (auto simp: verdict_def counted_def stale_def split: option.splits if_splits)

theorem retry_after_suffices_witness:
  "verdict sample_limiter 3 (counted sample_limiter 3 (Some (0, 2))) = (False, 7) \<and>
   fst (verdict sample_limiter 10 (counted sample_limiter 10 (Some (counted sample_limiter 3 (Some (0, 2))))))"
  using retry_after_suffices [of sample_limiter 3 "Some (0, 2)" 7 10]
  by (simp add: sample_limiter_def counted_def verdict_def stale_def)

end
