(* ===== verification/Collections.thy ===== *)
theory Collections
  imports Actions
begin

text \<open>
  The collections of cmdboss/db.py with their unique indexes (\<open>ensure_core_indexes\<close>), the
  per-type indexes of a CI collection (\<open>ensure_ci_indexes\<close>), and what MongoDB promises of a
  collection, as the locale \<open>collection\<close>: a write replaces the documents it is given, and
  no write lets two documents share an \<open>_id\<close> or a unique index key.
\<close>

section \<open>The handles\<close>

definition ci_collection_name :: "string \<Rightarrow> string" where
  "ci_collection_name t = ''ci_'' @ t"

text \<open>A missing field counts as null in a unique index.\<close>

definition index_key :: "index_model \<Rightarrow> ci_doc \<Rightarrow> val list" where
  "index_key i e = List.map (dget (c_fields e)) (im_keys i)"

definition ci_clash :: "index_model list \<Rightarrow> ci_doc \<Rightarrow> ci_doc \<Rightarrow> bool" where
  "ci_clash ixs a b =
     (c_id a = c_id b \<or> list_ex (\<lambda>i. im_unique i \<and> index_key i a = index_key i b) ixs)"

definition ci_coll :: "string \<Rightarrow> ci_doc coll" where
  "ci_coll t = (let n = ci_collection_name t in
     \<lparr>co_docs = (\<lambda>d. d_cis d n),
      co_put = (\<lambda>f d. d\<lparr>d_cis := (d_cis d)(n := f (d_cis d n))\<rparr>),
      co_clash = (\<lambda>d. ci_clash (d_ci_indexes d n))\<rparr>)"

text \<open>\<open>_ci_types\<close>, with \<open>uq_type_name\<close>.\<close>

definition types_coll :: "type_doc coll" where
  "types_coll = \<lparr>co_docs = d_types, co_put = (\<lambda>f d. d\<lparr>d_types := f (d_types d)\<rparr>),
     co_clash = (\<lambda>_ a b. t_id a = t_id b \<or> t_name a = t_name b)\<rparr>"

text \<open>\<open>_rel_types\<close>, with \<open>uq_rel_type_name\<close>.\<close>

definition rel_types_coll :: "rel_type_doc coll" where
  "rel_types_coll = \<lparr>co_docs = d_rel_types, co_put = (\<lambda>f d. d\<lparr>d_rel_types := f (d_rel_types d)\<rparr>),
     co_clash = (\<lambda>_ a b. rt_id a = rt_id b \<or> rd_name (rt_def a) = rd_name (rt_def b))\<rparr>"

definition edge_key :: "edge \<Rightarrow> string \<times> (string \<times> oid) \<times> (string \<times> oid)" where
  "edge_key e = (e_rel_type e, (e_from_type e, e_from_id e), (e_to_type e, e_to_id e))"

text \<open>\<open>_relationships\<close>, with \<open>uq_edge\<close>.\<close>

definition edges_coll :: "edge coll" where
  "edges_coll = \<lparr>co_docs = d_edges, co_put = (\<lambda>f d. d\<lparr>d_edges := f (d_edges d)\<rparr>),
     co_clash = (\<lambda>_ a b. e_id a = e_id b \<or> edge_key a = edge_key b)\<rparr>"

definition audit_coll :: "audit_entry coll" where
  "audit_coll = \<lparr>co_docs = d_audit, co_put = (\<lambda>f d. d\<lparr>d_audit := f (d_audit d)\<rparr>),
     co_clash = (\<lambda>_ a b. a_id a = a_id b)\<rparr>"

definition outbox_coll :: "outbox_doc coll" where
  "outbox_coll = \<lparr>co_docs = d_outbox, co_put = (\<lambda>f d. d\<lparr>d_outbox := f (d_outbox d)\<rparr>),
     co_clash = (\<lambda>_ a b. o_id a = o_id b)\<rparr>"

text \<open>\<open>_api_keys\<close>, with \<open>uq_key_hash\<close>.\<close>

definition keys_coll :: "api_key coll" where
  "keys_coll = \<lparr>co_docs = d_keys, co_put = (\<lambda>f d. d\<lparr>d_keys := f (d_keys d)\<rparr>),
     co_clash = (\<lambda>_ a b. k_id a = k_id b \<or> k_hash a = k_hash b)\<rparr>"

definition idem_coll :: "idem_rec coll" where
  "idem_coll = \<lparr>co_docs = d_idem, co_put = (\<lambda>f d. d\<lparr>d_idem := f (d_idem d)\<rparr>),
     co_clash = (\<lambda>_ a b. i_id a = i_id b)\<rparr>"

definition runs_coll :: "run_doc coll" where
  "runs_coll = \<lparr>co_docs = d_runs, co_put = (\<lambda>f d. d\<lparr>d_runs := f (d_runs d)\<rparr>),
     co_clash = (\<lambda>_ a b. r_id a = r_id b)\<rparr>"

definition webhooks_coll :: "webhook coll" where
  "webhooks_coll = \<lparr>co_docs = d_webhooks, co_put = (\<lambda>f d. d\<lparr>d_webhooks := f (d_webhooks d)\<rparr>),
     co_clash = (\<lambda>_ a b. h_id a = h_id b)\<rparr>"

section \<open>Cursors\<close>

text \<open>\<open>cursor.limit(n)\<close>: zero means no limit.\<close>

definition cursor_limit :: "nat \<Rightarrow> 'a list \<Rightarrow> 'a list" where
  "cursor_limit n xs = (if n = 0 then xs else take n xs)"

lemma set_cursor_limit: "set (cursor_limit n xs) \<subseteq> set xs"
  by (auto simp: cursor_limit_def dest: in_set_takeD)

section \<open>The contract of a collection\<close>

definition separated :: "'d coll \<Rightarrow> db \<Rightarrow> bool" where
  "separated c d = sorted_wrt (\<lambda>a b. \<not> co_clash c d a b) (co_docs c d)"

locale collection =
  fixes c :: "'d coll"
    and ident :: "'d \<Rightarrow> 'i"
  assumes docs_put: "co_docs c (co_put c f d) = f (co_docs c d)"
    and clash_put: "co_clash c (co_put c f d) = co_clash c d"
    and clash_sym: "co_clash c d a b \<Longrightarrow> co_clash c d b a"
    and clash_ident: "ident a = ident b \<Longrightarrow> co_clash c d a b"
begin

lemma separated_put:
  "sorted_wrt (\<lambda>a b. \<not> co_clash c d a b) (f (co_docs c d)) \<Longrightarrow> separated c (co_put c f d)"
  by (simp add: separated_def docs_put clash_put)

lemma separated_upd:
  assumes "separated c d" "List.find p (co_docs c d) = Some e"
    and "\<not> list_ex (co_clash c d (f e)) (del_first p (co_docs c d))"
  shows "separated c (co_put c (upd_first p f) d)"
proof (rule separated_put, rule sorted_wrt_upd)
  show "sorted_wrt (\<lambda>a b. \<not> co_clash c d a b) (co_docs c d)"
    using assms(1) by (simp add: separated_def)
  show "List.find p (co_docs c d) = Some e" by (rule assms(2))
  show "\<And>a b. \<not> co_clash c d a b \<Longrightarrow> \<not> co_clash c d b a" by (blast dest: clash_sym)
  show "\<forall>z\<in>set (del_first p (co_docs c d)). \<not> co_clash c d (f e) z"
    using assms(3) by (simp add: list_ex_iff)
qed

lemma insert_keeps_separated: "keeps (separated c) (insert_one x c doc)"
  by (rule keeps_insert_one, rule separated_put)
     (auto simp: separated_def sorted_wrt_append list_ex_iff dest: clash_sym)

lemma update_keeps_separated: "keeps (separated c) (update_one x c p f)"
  by (rule keeps_update_one) (rule separated_upd)

lemma find_update_keeps_separated: "keeps (separated c) (find_one_and_update x c p f)"
  by (rule keeps_find_one_and_update) (rule separated_upd)

lemma delete_keeps_separated:
  "keeps (separated c) (delete_one x c p)" "keeps (separated c) (delete_many x c p)"
  by (rule keeps_delete_one, rule separated_put, simp add: separated_def sorted_wrt_del)
     (rule keeps_delete_many, rule separated_put, simp add: separated_def sorted_wrt_filter)

lemmas keeps_separated = insert_keeps_separated update_keeps_separated
  find_update_keeps_separated delete_keeps_separated

lemma separated_unique:
  assumes "separated c d" "a \<in> set (co_docs c d)" "b \<in> set (co_docs c d)" "co_clash c d a b"
  shows "a = b"
proof (rule ccontr)
  assume "a \<noteq> b"
  with assms(2,3) obtain us vs ws where
    "co_docs c d = us @ a # vs @ b # ws \<or> co_docs c d = us @ b # vs @ a # ws"
    by (metis in_set_conv_decomp Un_iff set_append set_ConsD append_assoc append_Cons)
  with assms(1,4) show False
    by (auto simp: separated_def sorted_wrt_append dest: clash_sym)
qed

lemma separated_ident:
  "separated c d \<Longrightarrow> a \<in> set (co_docs c d) \<Longrightarrow> b \<in> set (co_docs c d) \<Longrightarrow> ident a = ident b \<Longrightarrow> a = b"
  by (blast intro: separated_unique clash_ident)

lemma find_ident:
  assumes "separated c d" "a \<in> set (co_docs c d)"
  shows "List.find (\<lambda>e. ident e = ident a) (co_docs c d) = Some a"
proof (cases "List.find (\<lambda>e. ident e = ident a) (co_docs c d)")
  case None
  with assms(2) show ?thesis by (auto simp: find_None_all)
next
  case (Some b)
  with assms show ?thesis by (auto dest!: find_Some_in dest: separated_ident)
qed

lemma insert_found:
  assumes "insert_one x c doc w = (Inr (), w')"
  shows "List.find (\<lambda>e. ident e = ident doc) (co_docs c (w_db w')) = Some doc"
proof -
  have fresh: "\<not> list_ex (co_clash c (w_db w) doc) (co_docs c (w_db w))"
    and d: "w_db w' = co_put c (\<lambda>docs. docs @ [doc]) (w_db w)"
    using assms by (auto simp: insert_one_def db_call_def split: if_splits)
  have "\<forall>e\<in>set (co_docs c (w_db w)). ident e \<noteq> ident doc"
    using fresh clash_ident by (fastforce simp: list_ex_iff)
  then have "List.find (\<lambda>e. ident e = ident doc) (co_docs c (w_db w) @ [doc]) = Some doc"
    by (rule find_append_last) simp
  then show ?thesis by (simp add: d docs_put)
qed

end

interpretation cis: collection "ci_coll t" c_id
  by unfold_locales (auto simp: ci_coll_def ci_clash_def Let_def list_ex_iff)

interpretation types: collection types_coll t_id
  by unfold_locales (auto simp: types_coll_def)

interpretation rel_types: collection rel_types_coll rt_id
  by unfold_locales (auto simp: rel_types_coll_def)

interpretation edges: collection edges_coll e_id
  by unfold_locales (auto simp: edges_coll_def)

interpretation audits: collection audit_coll a_id
  by unfold_locales (auto simp: audit_coll_def)

interpretation outbox: collection outbox_coll o_id
  by unfold_locales (auto simp: outbox_coll_def)

interpretation api_keys: collection keys_coll k_id
  by unfold_locales (auto simp: keys_coll_def)

interpretation idem: collection idem_coll i_id
  by unfold_locales (auto simp: idem_coll_def)

interpretation runs: collection runs_coll r_id
  by unfold_locales (auto simp: runs_coll_def)

interpretation hooks: collection webhooks_coll h_id
  by unfold_locales (auto simp: webhooks_coll_def)

section \<open>Indexes of a CI collection\<close>

text \<open>
  \<open>ensure_ci_indexes\<close>: two system indexes and one per declaration, named by position. The
  server refuses a name that is taken by an index with other keys or uniqueness, and a unique
  index that documents already violate.
\<close>

definition user_indexes :: "index_spec list \<Rightarrow> index_model list" where
  "user_indexes ixs = List.map (\<lambda>(i, ix). \<lparr>im_name = ''ix_user_'' @ nat_str i,
     im_keys = ix_fields ix, im_unique = ix_unique ix\<rparr>) (List.zip [0..<length ixs] ixs)"

definition system_indexes :: "index_model list" where
  "system_indexes =
     [\<lparr>im_name = ''ix_meta_updated_at'', im_keys = [''_meta.updated_at'', ''_id''], im_unique = False\<rparr>,
      \<lparr>im_name = ''ix_meta_source'', im_keys = [''_meta.source'', ''_meta.external_id''],
       im_unique = False\<rparr>]"

definition index_conflict :: "index_model list \<Rightarrow> index_model \<Rightarrow> bool" where
  "index_conflict old i = list_ex (\<lambda>j. im_name j = im_name i \<and> j \<noteq> i) old"

definition violates :: "ci_doc list \<Rightarrow> index_model \<Rightarrow> bool" where
  "violates docs i = (im_unique i \<and> \<not> distinct (List.map (index_key i) docs))"

definition create_indexes :: "ext \<Rightarrow> string \<Rightarrow> index_model list \<Rightarrow> unit act" where
  "create_indexes x coll models = db_call x (\<lambda>d.
     let old = d_ci_indexes d coll;
         new = filter (\<lambda>i. i \<notin> set old) models in
     if list_ex (index_conflict old) models \<or> list_ex (violates (d_cis d coll)) new
     then (Inl MongoError, d)
     else (Inr (), d\<lparr>d_ci_indexes := (d_ci_indexes d)(coll := old @ new)\<rparr>))"

definition ensure_ci_indexes :: "ext \<Rightarrow> string \<Rightarrow> index_spec list \<Rightarrow> unit act" where
  "ensure_ci_indexes x type_name ixs =
     create_indexes x (ci_collection_name type_name) (system_indexes @ user_indexes ixs)"

end
