(* ===== verification/Sample_World.thy ===== *)
theory Sample_World
  imports Actions
begin

text \<open>
  A concrete outside world for the witnesses of the properties: clocks that count interactions,
  identifiers written in unary, no faults, and a validator that accepts every payload.
\<close>

definition ext0 :: ext where
  "ext0 = \<lparr>x_now = (\<lambda>n. real n), x_mono = (\<lambda>n. real n), x_oid = (\<lambda>n. n + 100),
     x_uuid = (\<lambda>n. replicate n (CHR ''u'')), x_token = (\<lambda>n. replicate n (CHR ''k'')),
     x_fault = (\<lambda>_. False), x_oid_parse = (\<lambda>s. Some (length s)),
     x_oid_str = (\<lambda>n. replicate n (CHR ''a'')), x_iso = (\<lambda>_. ''t''), x_str = (\<lambda>_. ''error''),
     x_sha256 = (\<lambda>s. s), x_validate = (\<lambda>_ d. Inr d), x_float = (\<lambda>_. None),
     x_before = (\<lambda>_ _ _. True), x_beyond = (\<lambda>_ _ _. False), x_match = (\<lambda>_ _. True),
     x_dumps = (\<lambda>_. None), x_loads = (\<lambda>_. None), x_iso_parse = (\<lambda>_. None),
     x_jwt = (\<lambda>_ _ _ _ _ _. None), x_repr = (\<lambda>_. ''?''), x_hmac = (\<lambda>k b. k @ b),
     x_send = (\<lambda>_ _ _ _. Some 200), x_errors = (\<lambda>_. []),
     x_regex = (\<lambda>_. True), x_schema = (\<lambda>_. VNone), x_refuses = (\<lambda>_. None),
     x_render = (\<lambda>_. [])\<rparr>"

lemma ext0_fields [simp]:
  "x_now ext0 n = real n" "x_mono ext0 n = real n" "x_oid ext0 n = n + 100"
  "x_uuid ext0 n = replicate n (CHR ''u'')" "x_token ext0 n = replicate n (CHR ''k'')"
  "x_fault ext0 n = False" "x_oid_parse ext0 s = Some (length s)"
  "x_oid_str ext0 n = replicate n (CHR ''a'')" "x_iso ext0 t = ''t''" "x_str ext0 e = ''error''"
  "x_sha256 ext0 s = s" "x_validate ext0 m d = Inr d" "x_regex ext0 r" "x_refuses ext0 m = None"
  by (simp_all add: ext0_def)

definition worker0 :: worker where
  "worker0 = \<lparr>wk_type_cache = Map.empty, wk_model_cache = Map.empty, wk_rel_cache = Map.empty,
     wk_buckets = [], wk_bus = [], wk_metrics_on = True, wk_metrics = [], wk_watermark = 0, wk_http = [], wk_slept = []\<rparr>"

definition world_at :: "db \<Rightarrow> nat \<Rightarrow> world" where
  "world_at d n = \<lparr>w_db = d, w_worker = worker0, w_n = n\<rparr>"

text \<open>A database with nothing in it.\<close>

definition bare_db :: db where
  "bare_db = \<lparr>d_cis = (\<lambda>_. []), d_ci_indexes = (\<lambda>_. []), d_types = [], d_rel_types = [],
     d_edges = [], d_audit = [], d_outbox = [], d_keys = [], d_idem = [], d_runs = [],
     d_webhooks = []\<rparr>"

lemma world_at_simps [simp]:
  "w_db (world_at d n) = d" "w_n (world_at d n) = n" "w_worker (world_at d n) = worker0"
  by (simp_all add: world_at_def)

end
