(* ===== verification/Security.thy ===== *)
theory Security
  imports RateLimit Collections Sample_World "HOL-Library.List_Lexorder" "HOL-Library.Char_ord"
begin

text \<open>
  cmdboss/security.py: principals and scopes, the two authentication providers, the lifecycle of
  API keys, and the dependencies \<open>get_principal\<close> and \<open>require\<close> of the routes. The
  request path works against any providers that keep the contract \<open>auth_scheme\<close>; the JWT
  decoder and the SHA-256 hash are parameters.
\<close>

section \<open>Principals and scopes\<close>

record principal =
  p_id :: string
  p_name :: string
  p_scopes :: "string list"

definition scope_admin :: string where
  "scope_admin = ''admin''"

definition all_scopes :: "string list" where
  "all_scopes = [''types:read'', ''types:write'', ''ci:read'', ''ci:write'', ''admin'']"

definition role_presets :: "string \<rightharpoonup> string list" where
  "role_presets = [''reader'' \<mapsto> [''types:read'', ''ci:read''],
     ''writer'' \<mapsto> [''types:read'', ''ci:read'', ''ci:write''], ''admin'' \<mapsto> [''admin'']]"

definition is_admin :: "principal \<Rightarrow> bool" where
  "is_admin p = (scope_admin \<in> set (p_scopes p))"

definition has_scope :: "principal \<Rightarrow> string \<Rightarrow> bool" where
  "has_scope p scope = (is_admin p \<or> scope \<in> set (p_scopes p))"

section \<open>API keys\<close>

definition key_expired :: "ext \<Rightarrow> api_key \<Rightarrow> bool act" where
  "key_expired x k =
     (case k_expires_at k of
        None \<Rightarrow> ret False
      | Some e \<Rightarrow> seq (utcnow x) (\<lambda>t. ret (e \<le> t)))"

definition key_principal :: "ext \<Rightarrow> api_key \<Rightarrow> principal" where
  "key_principal x k = \<lparr>p_id = x_oid_str x (k_id k), p_name = k_name k, p_scopes = k_scopes k\<rparr>"

definition last_used_due :: "time \<Rightarrow> time \<Rightarrow> api_key \<Rightarrow> bool" where
  "last_used_due throttle now k =
     (case k_last_used k of None \<Rightarrow> True | Some used \<Rightarrow> now - used \<ge> throttle)"

text \<open>\<open>ApiKeyAuthProvider.authenticate\<close>.\<close>

definition api_key_authenticate :: "ext \<Rightarrow> time \<Rightarrow> string \<Rightarrow> principal option act" where
  "api_key_authenticate x throttle credentials =
     (if credentials = [] then ret None
      else
      seq (find_one x keys_coll (\<lambda>k. k_hash k = x_sha256 x credentials \<and> k_active k)) (\<lambda>doc.
      case doc of
        None \<Rightarrow> ret None
      | Some k \<Rightarrow>
          seq (key_expired x k) (\<lambda>expired.
          if expired then ret None
          else
          seq (utcnow x) (\<lambda>now.
          seq (if last_used_due throttle now k
               then seq (update_one x keys_coll (\<lambda>d. k_id d = k_id k)
                           (\<lambda>d. d\<lparr>k_last_used := Some now\<rparr>)) (\<lambda>_. ret ())
               else ret ()) (\<lambda>_.
          ret (Some (key_principal x k)))))))"

section \<open>Bearer tokens\<close>

text \<open>\<open>str(v)\<close>; of a composite value it is a parameter.\<close>

definition py_str :: "ext \<Rightarrow> val \<Rightarrow> string" where
  "py_str x v =
     (case v of VStr s \<Rightarrow> s | VInt i \<Rightarrow> int_str i | VNone \<Rightarrow> ''None''
      | VBool b \<Rightarrow> if b then ''True'' else ''False'' | _ \<Rightarrow> x_repr x v)"

definition jwt_key :: "settings \<Rightarrow> string option" where
  "jwt_key cfg = given (if starts_with ''RS'' (jwt_algorithm cfg) then jwt_public_key cfg
                        else jwt_secret cfg)"

definition jwt_scopes :: "ext \<Rightarrow> settings \<Rightarrow> dict \<Rightarrow> string list" where
  "jwt_scopes x cfg claims =
     (case dget claims (jwt_scope_claim cfg) of
        VStr s \<Rightarrow> split_ws s
      | VList vs \<Rightarrow> List.map (py_str x) vs
      | _ \<Rightarrow> [])"

definition claim_str :: "ext \<Rightarrow> dict \<Rightarrow> string \<Rightarrow> string \<Rightarrow> string" where
  "claim_str x claims k other =
     (case map_of claims k of None \<Rightarrow> other | Some v \<Rightarrow> py_str x v)"

definition jwt_principal :: "ext \<Rightarrow> settings \<Rightarrow> dict \<Rightarrow> principal" where
  "jwt_principal x cfg claims =
     (let name = claim_str x claims (jwt_name_claim cfg) ''jwt-user'' in
      \<lparr>p_id = claim_str x claims ''sub'' name, p_name = name, p_scopes = jwt_scopes x cfg claims\<rparr>)"

text \<open>
  \<open>JwtAuthProvider.authenticate\<close>: audience and issuer are checked when they are configured;
  every failure of the decoder gives \<open>None\<close>.
\<close>

definition jwt_authenticate :: "ext \<Rightarrow> settings \<Rightarrow> string \<Rightarrow> principal option act" where
  "jwt_authenticate x cfg credentials =
     (case jwt_key cfg of
        None \<Rightarrow> ret None
      | Some key \<Rightarrow>
          if credentials = [] then ret None
          else
          seq (draw (\<lambda>n. x_jwt x n credentials key (jwt_algorithm cfg)
                 (given (jwt_audience cfg)) (given (jwt_issuer cfg)))) (\<lambda>claims.
          ret (map_option (jwt_principal x cfg) claims)))"

section \<open>The lifecycle of API keys\<close>

definition new_key ::
  "ext \<Rightarrow> oid \<Rightarrow> string \<Rightarrow> string \<Rightarrow> string list \<Rightarrow> time \<Rightarrow> time option \<Rightarrow> api_key" where
  "new_key x i name raw scopes now expires_at = \<lparr>k_id = i, k_name = name,
     k_hash = x_sha256 x raw, k_prefix = take 8 raw, k_scopes = scopes, k_active = True,
     k_created_at = now, k_expires_at = expires_at, k_last_used = None, k_rotated_at = None,
     k_revoked_at = None\<rparr>"

text \<open>\<open>list(dict.fromkeys(scopes))\<close> keeps the first occurrence of each.\<close>

definition fromkeys :: "string list \<Rightarrow> string list" where
  "fromkeys xs = rev (remdups (rev xs))"

definition unknown_scopes :: "ext \<Rightarrow> string list \<Rightarrow> exn" where
  "unknown_scopes x scopes = BadValue (''unknown scopes: '' @
     x_repr x (VList (List.map VStr (sort (filter (\<lambda>s. s \<notin> set all_scopes) scopes)))))"

definition create_api_key ::
  "ext \<Rightarrow> string \<Rightarrow> string list \<Rightarrow> time option \<Rightarrow> (string \<times> api_key) act" where
  "create_api_key x name scopes expires_at =
     (let scopes = fromkeys scopes in
      if \<not> set scopes \<subseteq> set all_scopes then raise_exn (unknown_scopes x scopes)
      else
      seq (draw (x_token x)) (\<lambda>raw.
      seq (utcnow x) (\<lambda>now.
      seq (draw (x_oid x)) (\<lambda>i.
      let record = new_key x i name raw scopes now expires_at in
      seq (insert_one x keys_coll record) (\<lambda>_.
      ret (raw, record))))))"

definition key_not_found :: "string \<Rightarrow> exn" where
  "key_not_found key_id = err NotFoundError (''API key '' @ quoted key_id @ '' not found.'')
     [(''id'', VStr key_id)]"

definition rotated :: "ext \<Rightarrow> string \<Rightarrow> time \<Rightarrow> api_key \<Rightarrow> api_key" where
  "rotated x raw now k = k\<lparr>k_hash := x_sha256 x raw, k_prefix := take 8 raw,
     k_rotated_at := Some now\<rparr>"

definition rotate_api_key :: "ext \<Rightarrow> string \<Rightarrow> (string \<times> dict) act" where
  "rotate_api_key x key_id =
     seq (parse_object_id x key_id) (\<lambda>oid.
     seq (find_one x keys_coll (\<lambda>k. k_id k = oid \<and> k_active k)) (\<lambda>existing.
     case existing of
       None \<Rightarrow> raise_exn (key_not_found key_id)
     | Some k \<Rightarrow>
         seq (draw (x_token x)) (\<lambda>raw.
         seq (utcnow x) (\<lambda>now.
         seq (update_one x keys_coll (\<lambda>k. k_id k = oid) (rotated x raw now)) (\<lambda>_.
         ret (raw, [(''id'', VStr key_id), (''name'', VStr (k_name k)),
                    (''prefix'', VStr (take 8 raw)),
                    (''scopes'', VList (List.map VStr (k_scopes k)))]))))))"

definition revoke_api_key :: "ext \<Rightarrow> string \<Rightarrow> unit act" where
  "revoke_api_key x key_id =
     seq (parse_object_id x key_id) (\<lambda>oid.
     seq (utcnow x) (\<lambda>now.
     seq (update_one x keys_coll (\<lambda>k. k_id k = oid \<and> k_active k)
            (\<lambda>k. k\<lparr>k_active := False, k_revoked_at := Some now\<rparr>)) (\<lambda>matched.
     if matched = 0 then raise_exn (key_not_found key_id) else ret ())))"

text \<open>A failed insert is logged and swallowed.\<close>

definition ensure_bootstrap_admin :: "ext \<Rightarrow> settings \<Rightarrow> unit act" where
  "ensure_bootstrap_admin x cfg =
     (case given (bootstrap_admin_key cfg) of
        None \<Rightarrow> ret ()
      | Some raw \<Rightarrow>
          seq (count_docs x keys_coll k_active) (\<lambda>existing.
          if existing > 0 then ret ()
          else
          seq (utcnow x) (\<lambda>now.
          seq (draw (x_oid x)) (\<lambda>i.
          catch_exn (insert_one x keys_coll
                (new_key x i ''bootstrap-admin'' raw [scope_admin] now None)) (\<lambda>_. ret ())))))"

section \<open>The request path\<close>

record credentials =
  cr_api_key :: "string option"
  cr_authorization :: string

text \<open>What the lifespan attaches to the application: providers and limiter.\<close>

record gate =
  gt_ext :: ext
  gt_cfg :: settings
  gt_auth :: "string \<Rightarrow> principal option act"
  gt_jwt :: "(string \<Rightarrow> principal option act) option"
  gt_limiter :: "limiter option"

definition authenticate :: "gate \<Rightarrow> credentials \<Rightarrow> principal option act" where
  "authenticate A rq =
     (let mode = auth_mode (gt_cfg A) in
      seq (if mode = ''api_key'' \<or> mode = ''both''
           then (case given (cr_api_key rq) of None \<Rightarrow> ret None | Some key \<Rightarrow> gt_auth A key)
           else ret None) (\<lambda>first.
      case first of
        Some p \<Rightarrow> ret (Some p)
      | None \<Rightarrow>
          if (mode = ''jwt'' \<or> mode = ''both'') \<and> starts_with ''Bearer '' (cr_authorization rq)
          then (case gt_jwt A of None \<Rightarrow> ret None
                | Some jwt \<Rightarrow> jwt (drop 7 (cr_authorization rq)))
          else ret None))"

definition anonymous :: principal where
  "anonymous = \<lparr>p_id = ''anonymous'', p_name = ''anonymous'', p_scopes = [scope_admin]\<rparr>"

definition unauthorized :: exn where
  "unauthorized = err UnauthorizedError ''Missing or invalid credentials.'' []"

text \<open>\<open>round(r, 2)\<close>: to the nearest hundredth, ties to the even one.\<close>

definition round_half_even :: "real \<Rightarrow> int" where
  "round_half_even r = (let f = \<lfloor>r\<rfloor>; d = r - of_int f in
     if d < 1/2 then f else if d > 1/2 then f + 1 else if even f then f else f + 1)"

definition round2 :: "real \<Rightarrow> real" where
  "round2 r = of_int (round_half_even (100 * r)) / 100"

definition rate_limited :: "time \<Rightarrow> exn" where
  "rate_limited retry_after = err RateLimitedError ''Rate limit exceeded.''
     [(''retry_after'', VNum (round2 retry_after))]"

definition get_principal :: "gate \<Rightarrow> credentials \<Rightarrow> principal act" where
  "get_principal A rq =
     (if \<not> auth_enabled (gt_cfg A) then ret anonymous
      else
      seq (authenticate A rq) (\<lambda>found.
      case found of
        None \<Rightarrow> raise_exn unauthorized
      | Some p \<Rightarrow>
          (case gt_limiter A of
             None \<Rightarrow> ret p
           | Some L \<Rightarrow>
               seq (check (gt_ext A) L (p_id p)) (\<lambda>v.
               if \<not> fst v then raise_exn (rate_limited (snd v)) else ret p))))"

definition forbidden :: "string list \<Rightarrow> string list \<Rightarrow> exn" where
  "forbidden scopes missing = err ForbiddenError ''Insufficient scope for this operation.''
     [(''required'', VList (List.map VStr scopes)), (''missing'', VList (List.map VStr missing))]"

definition require :: "gate \<Rightarrow> string list \<Rightarrow> credentials \<Rightarrow> principal act" where
  "require A scopes rq =
     seq (get_principal A rq) (\<lambda>p.
     let missing = filter (\<lambda>s. \<not> has_scope p s) scopes in
     if missing \<noteq> [] then raise_exn (forbidden scopes missing) else ret p)"

text \<open>The gate that the lifespan builds.\<close>

definition make_gate :: "ext \<Rightarrow> settings \<Rightarrow> gate" where
  "make_gate x cfg = \<lparr>gt_ext = x, gt_cfg = cfg,
     gt_auth = api_key_authenticate x (auth_last_used_throttle_seconds cfg),
     gt_jwt = (if auth_mode cfg = ''jwt'' \<or> auth_mode cfg = ''both''
               then Some (jwt_authenticate x cfg) else None),
     gt_limiter = (if rate_limit_enabled cfg
       then Some \<lparr>lm_limit = rate_limit_requests cfg, lm_window = rate_limit_window_seconds cfg,
                  lm_max_keys = default_max_keys\<rparr>
       else None)\<rparr>"

section \<open>What a provider owes the request path\<close>

text \<open>Two databases that differ in nothing but when keys were last used.\<close>

definition same_key :: "api_key \<Rightarrow> api_key \<Rightarrow> bool" where
  "same_key a b = (b\<lparr>k_last_used := k_last_used a\<rparr> = a)"

definition only_used :: "db \<Rightarrow> db \<Rightarrow> bool" where
  "only_used d d' = (d' = d\<lparr>d_keys := d_keys d'\<rparr> \<and> list_all2 same_key (d_keys d) (d_keys d'))"

definition later :: "world \<Rightarrow> world \<Rightarrow> bool" where
  "later w w' = (only_used (w_db w) (w_db w') \<and> w_n w \<le> w_n w')"

lemma same_key_refl [simp]: "same_key a a"
  by (simp add: same_key_def)

lemma same_key_trans: "same_key a b \<Longrightarrow> same_key b c \<Longrightarrow> same_key a c"
  by (cases a; cases b; cases c) (simp add: same_key_def)

lemma same_key_fields:
  "same_key a b \<Longrightarrow> k_id b = k_id a \<and> k_name b = k_name a \<and> k_hash b = k_hash a \<and>
     k_scopes b = k_scopes a \<and> k_active b = k_active a \<and> k_expires_at b = k_expires_at a"
  by (cases a; cases b) (simp add: same_key_def)

lemma only_used_refl [simp]: "only_used d d"
  by (simp add: only_used_def list.rel_refl)

lemma only_used_trans:
  assumes "only_used a b" "only_used b c"
  shows "only_used a c"
proof -
  have "c = a\<lparr>d_keys := d_keys c\<rparr>" using assms by (metis only_used_def db.update_convs(8) db.surjective)
  moreover have "list_all2 same_key (d_keys a) (d_keys c)"
    using assms unfolding only_used_def
    by (auto intro: list_all2_trans [of same_key same_key same_key, OF same_key_trans])
  ultimately show ?thesis by (simp add: only_used_def)
qed

lemma later_refl [simp]: "later w w"
  by (simp add: later_def)

lemma later_trans: "later a b \<Longrightarrow> later b c \<Longrightarrow> later a c"
  by (auto simp: later_def intro: only_used_trans)

lemma later_bump [simp]: "later w (bump w)"
  by (simp add: later_def)

locale auth_scheme =
  fixes auth :: "string \<Rightarrow> principal option act"
    and vouches :: "string \<Rightarrow> principal \<Rightarrow> world \<Rightarrow> bool"
  assumes auth_law:
      "wp (auth cred)
         (\<lambda>r w'. later w w' \<and> (\<forall>p. r = Some p \<longrightarrow> vouches cred p w))
         (\<lambda>_ w'. later w w') w"
    and vouches_later: "later w w' \<Longrightarrow> vouches cred p w' \<Longrightarrow> vouches cred p w"
begin

lemma auth_step:
  assumes "later w0 w"
  shows "wp (auth cred) (\<lambda>r w'. later w0 w' \<and> (\<forall>p. r = Some p \<longrightarrow> vouches cred p w0))
         (\<lambda>_ w'. later w0 w') w"
  by (rule wp_mono [OF auth_law])
    (use assms in \<open>auto intro: later_trans vouches_later\<close>)

end

text \<open>Both providers of a gate.\<close>

locale auth_schemes = key: auth_scheme key_auth key_vouches + jwt: auth_scheme jwt_auth jwt_vouches
  for key_auth key_vouches jwt_auth jwt_vouches
begin

definition vouched :: "gate \<Rightarrow> credentials \<Rightarrow> principal \<Rightarrow> world \<Rightarrow> bool" where
  "vouched A rq p w =
     ((auth_mode (gt_cfg A) \<in> {''api_key'', ''both''} \<and>
         (\<exists>cred. given (cr_api_key rq) = Some cred \<and> key_vouches cred p w)) \<or>
      (auth_mode (gt_cfg A) \<in> {''jwt'', ''both''} \<and> starts_with ''Bearer '' (cr_authorization rq) \<and>
         jwt_vouches (drop 7 (cr_authorization rq)) p w))"

lemma authenticate_law:
  assumes "gt_auth A = key_auth" "\<And>f. gt_jwt A = Some f \<Longrightarrow> f = jwt_auth"
  shows "wp (authenticate A rq)
     (\<lambda>r w'. later w w' \<and> (\<forall>p. r = Some p \<longrightarrow> vouched A rq p w)) (\<lambda>_ w'. later w w') w"
proof -
  let ?m = "auth_mode (gt_cfg A)"
  have first: "wp (gt_auth A c) (\<lambda>r w'. later w w' \<and> (\<forall>p. r = Some p \<longrightarrow> key_vouches c p w))
     (\<lambda>_ w'. later w w') w" for c
    unfolding assms(1) by (rule key.auth_law)
  have second: "wp (if (?m = ''jwt'' \<or> ?m = ''both'') \<and> starts_with ''Bearer '' (cr_authorization rq)
          then (case gt_jwt A of None \<Rightarrow> ret None | Some jwt \<Rightarrow> jwt (drop 7 (cr_authorization rq)))
          else ret None)
     (\<lambda>r w'. later w w' \<and> (\<forall>p. r = Some p \<longrightarrow> vouched A rq p w)) (\<lambda>_ w'. later w w') w1"
    if "later w w1" for w1
    using that assms(2)
    by (auto simp: run_simps vouched_def split: option.splits
        intro!: wp_mono [OF jwt.auth_step [OF that]])
  have "wp (if ?m = ''api_key'' \<or> ?m = ''both''
           then (case given (cr_api_key rq) of None \<Rightarrow> ret None | Some key \<Rightarrow> gt_auth A key)
           else ret None)
     (\<lambda>r w'. later w w' \<and> (\<forall>p. r = Some p \<longrightarrow> vouched A rq p w)) (\<lambda>_ w'. later w w') w"
    by (auto simp: run_simps vouched_def split: option.splits intro!: wp_mono [OF first])
  then show ?thesis
    unfolding authenticate_def Let_def wp_seq
    by (rule wp_mono) (use second in \<open>auto simp: wp_ret split: option.splits\<close>)
qed

end

section \<open>The two providers\<close>

lemma keys_put: "co_docs keys_coll d = d_keys d" "co_put keys_coll f d = d\<lparr>d_keys := f (d_keys d)\<rparr>"
  "co_clash keys_coll d a b = (k_id a = k_id b \<or> k_hash a = k_hash b)"
  by (simp_all add: keys_coll_def)

text \<open>A key that is active, not expired at some reading of the clock, and has this hash.\<close>

definition key_vouches :: "ext \<Rightarrow> string \<Rightarrow> principal \<Rightarrow> world \<Rightarrow> bool" where
  "key_vouches x cred p w = (cred \<noteq> [] \<and> (\<exists>k\<in>set (d_keys (w_db w)).
     k_hash k = x_sha256 x cred \<and> k_active k \<and> p = key_principal x k \<and>
     (\<forall>e. k_expires_at k = Some e \<longrightarrow> (\<exists>i\<ge>w_n w. x_now x i < e))))"

definition jwt_vouches :: "ext \<Rightarrow> settings \<Rightarrow> string \<Rightarrow> principal \<Rightarrow> world \<Rightarrow> bool" where
  "jwt_vouches x cfg cred p w = (cred \<noteq> [] \<and> (\<exists>key i claims. jwt_key cfg = Some key \<and> w_n w \<le> i \<and>
     x_jwt x i cred key (jwt_algorithm cfg) (given (jwt_audience cfg)) (given (jwt_issuer cfg))
       = Some claims \<and> p = jwt_principal x cfg claims))"

lemma touch_same_key:
  "list_all2 same_key ks (upd_first p (\<lambda>k. k\<lparr>k_last_used := v\<rparr>) ks)"
  by (induction ks) (auto simp: list.rel_refl same_key_def)

lemma only_used_touch:
  "only_used d (d\<lparr>d_keys := upd_first p (\<lambda>k. k\<lparr>k_last_used := v\<rparr>) (d_keys d)\<rparr>)"
  by (simp add: only_used_def touch_same_key)

lemma key_vouches_later:
  assumes "later w w'" "key_vouches x cred p w'"
  shows "key_vouches x cred p w"
proof -
  obtain k' where k': "k' \<in> set (d_keys (w_db w'))" "k_hash k' = x_sha256 x cred" "k_active k'"
    "p = key_principal x k'" "\<forall>e. k_expires_at k' = Some e \<longrightarrow> (\<exists>i\<ge>w_n w'. x_now x i < e)" "cred \<noteq> []"
    using assms(2) by (auto simp: key_vouches_def)
  have "list_all2 same_key (d_keys (w_db w)) (d_keys (w_db w'))" "w_n w \<le> w_n w'"
    using assms(1) by (auto simp: later_def only_used_def)
  with k'(1) obtain k where k: "k \<in> set (d_keys (w_db w))" "same_key k k'"
    by (metis list_all2_conv_all_nth in_set_conv_nth)
  with k' same_key_fields [OF k(2)] \<open>w_n w \<le> w_n w'\<close> show ?thesis
    unfolding key_vouches_def key_principal_def by (intro conjI bexI [of _ k]) (auto dest: order_trans)
qed

lemma api_key_law:
  "wp (api_key_authenticate x throttle cred)
     (\<lambda>r w'. later w w' \<and> (\<forall>p. r = Some p \<longrightarrow> key_vouches x cred p w)) (\<lambda>_ w'. later w w') w"
proof -
  have "key_vouches x cred (key_principal x k) w"
    if "cred \<noteq> []" "List.find (\<lambda>k. k_hash k = x_sha256 x cred \<and> k_active k) (d_keys (w_db w)) = Some k"
      "\<forall>e. k_expires_at k = Some e \<longrightarrow> x_now x (Suc (w_n w)) < e" for k
    using that(1,3) find_Some_in [OF that(2)] unfolding key_vouches_def
    by (intro conjI bexI [of _ k]) (auto intro: exI [of _ "Suc (w_n w)"])
  then show ?thesis
    unfolding api_key_authenticate_def key_expired_def
    by (auto simp: run_simps keys_put later_def only_used_touch split: option.splits)
qed

lemma jwt_law:
  "wp (jwt_authenticate x cfg cred)
     (\<lambda>r w'. later w w' \<and> (\<forall>p. r = Some p \<longrightarrow> jwt_vouches x cfg cred p w)) (\<lambda>_ w'. later w w') w"
  by (auto simp: jwt_authenticate_def run_simps jwt_vouches_def split: option.splits)

lemma jwt_vouches_later: "later w w' \<Longrightarrow> jwt_vouches x cfg cred p w' \<Longrightarrow> jwt_vouches x cfg cred p w"
  unfolding jwt_vouches_def later_def by (blast intro: order_trans)

interpretation gate: auth_schemes "api_key_authenticate x throttle" "key_vouches x"
  "jwt_authenticate x cfg" "jwt_vouches x cfg"
  by unfold_locales (rule api_key_law key_vouches_later jwt_law jwt_vouches_later; assumption?)+

text \<open>The principal of a request that passed, in terms of the database before it.\<close>

definition entitled :: "gate \<Rightarrow> credentials \<Rightarrow> principal \<Rightarrow> world \<Rightarrow> bool" where
  "entitled A rq p w =
     (let x = gt_ext A; mode = auth_mode (gt_cfg A) in
      (mode \<in> {''api_key'', ''both''} \<and>
         (\<exists>cred. given (cr_api_key rq) = Some cred \<and> key_vouches x cred p w)) \<or>
      (mode \<in> {''jwt'', ''both''} \<and> starts_with ''Bearer '' (cr_authorization rq) \<and>
         jwt_vouches x (gt_cfg A) (drop 7 (cr_authorization rq)) p w))"

lemma check_later: "wp (check x L k) (\<lambda>_ w'. later w w') (\<lambda>_ w'. later w w') w"
  by (simp add: check_def run_simps later_def)

lemma authenticate_entitled:
  assumes "A = make_gate x cfg"
  shows "wp (authenticate A rq)
     (\<lambda>r w'. later w w' \<and> (\<forall>p. r = Some p \<longrightarrow> entitled A rq p w)) (\<lambda>_ w'. later w w') w"
  by (rule wp_mono [OF gate.authenticate_law [where x = x and cfg = cfg and
          throttle = "auth_last_used_throttle_seconds cfg"]])
    (auto simp: assms make_gate_def entitled_def gate.vouched_def split: if_splits)

lemma get_principal_effect:
  assumes "A = make_gate x cfg"
  shows "wp (get_principal A rq)
     (\<lambda>p w'. later w w' \<and> (if auth_enabled cfg then entitled A rq p w else p = anonymous))
     (\<lambda>_ w'. later w w') w"
proof -
  have fields: "gt_ext A = x" "gt_cfg A = cfg" by (simp_all add: assms make_gate_def)
  note found = authenticate_entitled [OF assms, of rq w]
  have count: "wp (check x L k) (\<lambda>_ w2. later w w2) (\<lambda>_ w2. later w w2) w1" if "later w w1" for L k w1
    by (rule wp_mono [OF check_later]) (use that in \<open>auto intro: later_trans\<close>)
  show ?thesis
  proof (cases "auth_enabled cfg")
    case True
    show ?thesis
      unfolding get_principal_def fields wp_seq [of "authenticate A rq"] wp_if
      using True
      by (auto intro!: wp_mono [OF found] wp_mono [OF count]
          simp: wp_option wp_raise wp_ret wp_seq [of "check _ _ _"] wp_if split: option.splits)
  qed (simp add: get_principal_def fields run_simps)
qed

lemma make_gate_fields:
  "gt_ext (make_gate x cfg) = x" "gt_cfg (make_gate x cfg) = cfg"
  by (simp_all add: make_gate_def)

lemma make_gate_limiter: "gt_limiter (make_gate x cfg) = Some L \<Longrightarrow> rate_limit_enabled cfg"
  by (simp add: make_gate_def split: if_splits)

section \<open>What the key provider answers\<close>

lemma find_key:
  assumes "separated keys_coll d" "k \<in> set (d_keys d)"
  shows "List.find (\<lambda>e. k_id e = k_id k) (d_keys d) = Some k"
  using api_keys.find_ident [of d k] assms by (simp add: keys_put)

lemma same_hash:
  assumes "separated keys_coll d" "k \<in> set (d_keys d)" "k' \<in> set (d_keys d)" "k_hash k' = k_hash k"
  shows "k' = k"
  using api_keys.separated_unique [OF assms(1), of k' k] assms(2-4) by (simp add: keys_put)

lemma clash_free:
  assumes "separated keys_coll d" "k \<in> set (d_keys d)"
    "b \<in> set (del_first (\<lambda>e. k_id e = k_id k) (d_keys d))"
  shows "k_id k \<noteq> k_id b \<and> k_hash k \<noteq> k_hash b"
proof -
  from find_key [OF assms(1,2)] obtain us vs where "d_keys d = us @ k # vs"
    "del_first (\<lambda>e. k_id e = k_id k) (d_keys d) = us @ vs"
    by (elim find_split)
  with assms(1,3) show ?thesis
    by (fastforce simp: separated_def keys_put sorted_wrt_append)
qed

lemma find_by_hash:
  assumes "separated keys_coll d" "k \<in> set (d_keys d)" "k_active k" "k_hash k = h"
  shows "List.find (\<lambda>e. k_hash e = h \<and> k_active e) (d_keys d) = Some k"
proof (cases "List.find (\<lambda>e. k_hash e = h \<and> k_active e) (d_keys d)")
  case None
  with assms(2-4) show ?thesis by (auto simp: find_None_all)
next
  case (Some b)
  with assms same_hash [OF assms(1,2), of b] show ?thesis by (auto dest!: find_Some_in)
qed

lemma touch_no_clash:
  assumes "separated keys_coll d" "k \<in> set (d_keys d)"
  shows "\<not> list_ex (co_clash keys_coll d' (k\<lparr>k_last_used := v\<rparr>)) (del_first (\<lambda>e. k_id e = k_id k) (d_keys d))"
  using clash_free [OF assms] by (auto simp: list_ex_iff keys_put)

definition expired_at :: "time \<Rightarrow> api_key \<Rightarrow> bool" where
  "expired_at t k = (case k_expires_at k of None \<Rightarrow> False | Some e \<Rightarrow> e \<le> t)"

text \<open>
  The answer to a secret: the owner of the active key with its hash, unless that key has expired at
  the reading of the clock that follows the lookup. Only the database can keep the answer back, by
  a fault, or because its unique indexes do not hold.
\<close>

definition db_failed :: "ext \<Rightarrow> world \<Rightarrow> exn \<Rightarrow> bool" where
  "db_failed x w e = (e = MongoError \<and> (\<exists>i. x_fault x i) \<or>
     e = DuplicateKey \<and> \<not> separated keys_coll (w_db w))"

definition key_answer :: "ext \<Rightarrow> string \<Rightarrow> world \<Rightarrow> principal option" where
  "key_answer x cred w =
     (if cred = [] then None
      else case List.find (\<lambda>k. k_hash k = x_sha256 x cred \<and> k_active k) (d_keys (w_db w)) of
        None \<Rightarrow> None
      | Some k \<Rightarrow> if expired_at (x_now x (Suc (w_n w))) k then None else Some (key_principal x k))"

lemma key_answered:
  "wp (api_key_authenticate x throttle cred) (\<lambda>r w'. r = key_answer x cred w \<and> w_worker w' = w_worker w)
     (\<lambda>e _. db_failed x w e) w"
proof (cases "List.find (\<lambda>k. k_hash k = x_sha256 x cred \<and> k_active k) (d_keys (w_db w))")
  case None
  then show ?thesis
    by (auto simp: api_key_authenticate_def key_answer_def db_failed_def run_simps keys_put(1))
next
  case (Some k)
  then have "k \<in> set (d_keys (w_db w))" by (auto dest: find_Some_in)
  note own = find_key [OF _ this] touch_no_clash [OF _ this]
  show ?thesis
    by (auto simp: api_key_authenticate_def key_answer_def key_expired_def expired_at_def db_failed_def run_simps
        keys_put(1,2) Some own split: option.splits)
qed

text \<open>Use of keys changes neither which are apart nor which one is found.\<close>

lemma used_found:
  assumes "list_all2 same_key ks ks'" "List.find (\<lambda>k. k_hash k = h \<and> k_active k) ks = r"
  shows "rel_option same_key r (List.find (\<lambda>k. k_hash k = h \<and> k_active k) ks')"
  using assms by (induction arbitrary: r rule: list_all2_induct) (auto dest: same_key_fields split: if_splits)

lemma used_separated:
  assumes "only_used d d'" "separated keys_coll d"
  shows "separated keys_coll d'"
proof -
  let ?f = "\<lambda>k. (k_id k, k_hash k)" and ?R = "\<lambda>a b. fst a \<noteq> fst b \<and> snd a \<noteq> snd b"
  have "List.map ?f ks' = List.map ?f ks" if "list_all2 same_key ks ks'" for ks ks'
    using that by (induction rule: list_all2_induct) (auto dest: same_key_fields)
  then have "List.map ?f (d_keys d') = List.map ?f (d_keys d)"
    using assms(1) by (simp add: only_used_def)
  moreover have "separated keys_coll d \<longleftrightarrow> sorted_wrt ?R (List.map ?f (d_keys d))" for d
    by (simp add: separated_def keys_put sorted_wrt_map)
  ultimately show ?thesis using assms(2) by simp
qed

lemma used_answer:
  assumes "only_used (w_db w) (w_db w')" "List.find (\<lambda>k. k_hash k = x_sha256 x cred \<and> k_active k) (d_keys (w_db w)) = r"
  shows "key_answer x cred w' = (if cred = [] then None else case r of None \<Rightarrow> None
     | Some k \<Rightarrow> if expired_at (x_now x (Suc (w_n w'))) k then None else Some (key_principal x k))"
proof -
  have "list_all2 same_key (d_keys (w_db w)) (d_keys (w_db w'))" using assms(1) by (simp add: only_used_def)
  from used_found [OF this assms(2)] show ?thesis
    by (cases r; cases "List.find (\<lambda>k. k_hash k = x_sha256 x cred \<and> k_active k) (d_keys (w_db w'))")
      (auto simp: key_answer_def expired_at_def key_principal_def dest: same_key_fields)
qed

section \<open>Who gets through\<close>

text \<open>
  C6. A route guarded by scopes lets a request through only with a principal that holds every
  one of them: an anonymous administrator when authentication is off, otherwise the owner of an
  active, unexpired API key with the hash of the presented secret, or the subject of a bearer
  token the decoder accepted, each only under a mode that enables it. However the check ends,
  it changes nothing in the database but when keys were last used.
\<close>

theorem require_sound:
  "wp (require (make_gate x cfg) scopes rq)
     (\<lambda>p w'. list_all (has_scope p) scopes \<and> only_used (w_db w) (w_db w') \<and>
        (if auth_enabled cfg then entitled (make_gate x cfg) rq p w else p = anonymous))
     (\<lambda>_ w'. only_used (w_db w) (w_db w')) w"
  unfolding require_def wp_seq
  by (rule wp_mono [OF get_principal_effect [OF refl, of x cfg rq w]])
    (auto simp: run_simps Let_def later_def list_all_iff filter_empty_conv)

text \<open>
  Each way to be refused has a situation of its own. Credentials are beyond doubt when the mode
  admits them and every reading of the clock and of the decoder from now on vouches for them. The
  rate of a principal is the count its bucket reaches by this request.
\<close>

definition beyond_doubt :: "gate \<Rightarrow> credentials \<Rightarrow> world \<Rightarrow> bool" where
  "beyond_doubt A rq w =
     (let x = gt_ext A; cfg = gt_cfg A; token = drop 7 (cr_authorization rq) in
      (auth_mode cfg \<in> {''api_key'', ''both''} \<and> (\<exists>cred. given (cr_api_key rq) = Some cred \<and>
         (\<forall>w'. w_db w' = w_db w \<longrightarrow> w_n w \<le> w_n w' \<longrightarrow> key_answer x cred w' \<noteq> None))) \<or>
      (auth_mode cfg \<in> {''jwt'', ''both''} \<and> starts_with ''Bearer '' (cr_authorization rq) \<and> token \<noteq> [] \<and>
         (\<exists>key. jwt_key cfg = Some key \<and> (\<forall>i\<ge>w_n w. x_jwt x i token key (jwt_algorithm cfg)
            (given (jwt_audience cfg)) (given (jwt_issuer cfg)) \<noteq> None))))"

definition rate_at :: "limiter \<Rightarrow> time \<Rightarrow> principal \<Rightarrow> world \<Rightarrow> bucket" where
  "rate_at L now p w = counted L now (map_of (wk_buckets (w_worker w)) (p_id p))"

definition within_rate :: "gate \<Rightarrow> principal \<Rightarrow> world \<Rightarrow> bool" where
  "within_rate A p w =
     (case gt_limiter A of None \<Rightarrow> True
      | Some L \<Rightarrow> \<exists>i\<ge>w_n w. snd (rate_at L (x_mono (gt_ext A) i) p w) \<le> lm_limit L)"

definition over_rate :: "gate \<Rightarrow> principal \<Rightarrow> time \<Rightarrow> world \<Rightarrow> bool" where
  "over_rate A p retry_after w =
     (case gt_limiter A of None \<Rightarrow> False
      | Some L \<Rightarrow> \<exists>i\<ge>w_n w. let now = x_mono (gt_ext A) i; b = rate_at L now p w in
          lm_limit L < snd b \<and> retry_after = max 0 (lm_window L - (now - fst b)))"

definition accepted :: "gate \<Rightarrow> credentials \<Rightarrow> principal \<Rightarrow> world \<Rightarrow> bool" where
  "accepted A rq p w = (if auth_enabled (gt_cfg A) then entitled A rq p w \<and> within_rate A p w else p = anonymous)"

definition refusal :: "gate \<Rightarrow> string list \<Rightarrow> credentials \<Rightarrow> world \<Rightarrow> exn \<Rightarrow> bool" where
  "refusal A scopes rq w e =
     (db_failed (gt_ext A) w e \<or>
      (auth_enabled (gt_cfg A) \<and> \<not> beyond_doubt A rq w \<and> e = unauthorized) \<or>
      (\<exists>p r. auth_enabled (gt_cfg A) \<and> entitled A rq p w \<and> over_rate A p r w \<and> e = rate_limited r) \<or>
      (\<exists>p. accepted A rq p w \<and> list_ex (\<lambda>s. \<not> has_scope p s) scopes \<and>
         e = forbidden scopes (filter (\<lambda>s. \<not> has_scope p s) scopes)))"

lemma jwt_answered:
  "wp (jwt_authenticate x cfg cred)
     (\<lambda>r w'. w_worker w' = w_worker w \<and> (r = None \<longrightarrow> cred = [] \<or> (\<forall>key. jwt_key cfg = Some key \<longrightarrow>
        x_jwt x (w_n w) cred key (jwt_algorithm cfg) (given (jwt_audience cfg)) (given (jwt_issuer cfg)) = None)))
     (\<lambda>_ _. False) w"
  by (auto simp: jwt_authenticate_def run_simps split: option.splits)

lemma authenticate_answered:
  assumes A: "A = make_gate x cfg"
  shows "wp (authenticate A rq)
     (\<lambda>r w'. w_worker w' = w_worker w \<and> (r = None \<longrightarrow> \<not> beyond_doubt A rq w)) (\<lambda>e _. db_failed x w e) w"
proof -
  have fields: "gt_ext A = x" "gt_cfg A = cfg" by (simp_all add: A make_gate_def)
  let ?by_key = "auth_mode cfg = ''api_key'' \<or> auth_mode cfg = ''both''"
  let ?by_token = "(auth_mode cfg = ''jwt'' \<or> auth_mode cfg = ''both'') \<and> starts_with ''Bearer '' (cr_authorization rq)"
  let ?no_key = "\<lambda>w'. w_worker w' = w_worker w \<and> w_n w \<le> w_n w' \<and> (?by_key \<longrightarrow>
     (\<forall>cred. given (cr_api_key rq) = Some cred \<longrightarrow> key_answer x cred w = None))"
  have key: "wp (api_key_authenticate x t cred)
     (\<lambda>r w'. r = key_answer x cred w \<and> w_worker w' = w_worker w \<and> w_n w \<le> w_n w') (\<lambda>e _. db_failed x w e) w" for t cred
    by (rule wp_mono [OF wp_conj [OF key_answered api_key_law]]) (auto simp: later_def)
  have first: "wp (if ?by_key then (case given (cr_api_key rq) of None \<Rightarrow> ret None | Some key \<Rightarrow> gt_auth A key) else ret None)
     (\<lambda>r w'. w_worker w' = w_worker w \<and> (r = None \<longrightarrow> ?no_key w')) (\<lambda>e _. db_failed x w e) w"
    by (auto simp: A make_gate_def run_simps split: option.splits intro!: wp_mono [OF key])
  have second: "wp (if ?by_token then (case gt_jwt A of None \<Rightarrow> ret None | Some jwt \<Rightarrow> jwt (drop 7 (cr_authorization rq))) else ret None)
     (\<lambda>r w''. w_worker w'' = w_worker w \<and> (r = None \<longrightarrow> \<not> beyond_doubt A rq w)) (\<lambda>e _. db_failed x w e) w'" if "?no_key w'" for w'
  proof (cases ?by_token)
    case True
    then have "gt_jwt A = Some (jwt_authenticate x cfg)" by (auto simp: A make_gate_def)
    with True show ?thesis
      by (auto intro!: wp_mono [OF jwt_answered])
        (use that in \<open>auto simp: beyond_doubt_def Let_def fields\<close>)
  next
    case False
    with that show ?thesis
      by (auto simp: run_simps beyond_doubt_def Let_def fields)
  qed
  show ?thesis
    unfolding authenticate_def Let_def wp_seq fields
  proof (rule wp_mono [OF first], goal_cases)
    case (1 r w')
    then show ?case using second [of w'] by (cases r) (simp_all add: wp_ret)
  qed simp
qed

lemma authenticate_db_error:
  "wp (authenticate (make_gate x cfg) rq) (\<lambda>_ _. True) (\<lambda>e _. e = MongoError \<or> e = DuplicateKey) w"
  by (rule wp_mono [OF authenticate_answered [OF refl]]) (auto simp: db_failed_def)

lemma check_rate:
  assumes "gt_limiter A = Some L" "gt_ext A = x" "w_worker w' = w_worker w" "w_n w \<le> w_n w'"
  shows "wp (check x L (p_id p))
     (\<lambda>v _. if fst v then within_rate A p w else over_rate A p (snd v) w) (\<lambda>_ _. False) w'"
  using assms
  by (auto simp: check_def hit_def verdict_def run_simps within_rate_def over_rate_def rate_at_def Let_def)

lemma limited_rate:
  assumes "A = make_gate x cfg" "auth_enabled cfg" "entitled A rq p w" "w_worker w' = w_worker w" "w_n w \<le> w_n w'"
  shows "wp (case gt_limiter A of None \<Rightarrow> ret p
       | Some L \<Rightarrow> seq (check (gt_ext A) L (p_id p)) (\<lambda>v. if \<not> fst v then raise_exn (rate_limited (snd v)) else ret p))
     (\<lambda>p _. accepted A rq p w) (\<lambda>e _. refusal A scopes rq w e) w'"
proof (cases "gt_limiter A")
  case None
  with assms(1-3) show ?thesis by (simp add: wp_ret accepted_def within_rate_def make_gate_fields)
next
  case (Some L)
  have "wp (check (gt_ext A) L (p_id p))
     (\<lambda>v _. if fst v then within_rate A p w else over_rate A p (snd v) w) (\<lambda>_ _. False) w'"
    by (rule check_rate [OF Some refl assms(4,5)])
  then show ?thesis
    unfolding Some option.case wp_seq
    by (rule wp_mono)
      (use assms(1-3) in \<open>auto simp: wp_ret wp_raise accepted_def refusal_def make_gate_fields split: if_splits\<close>)
qed

text \<open>
  C7. A guarded route lets through and refuses each in its own situation. It answers 401 only when
  authentication is on and the credentials are not beyond doubt, 429 only to an entitled principal
  that this request takes over its rate, with the time until its window ends, and 403 only to an
  accepted principal - entitled and within its rate - naming exactly the required scopes it lacks;
  apart from these only a fault of the database ends the check. Who is let through was accepted.
\<close>

theorem require_refusals:
  "wp (require (make_gate x cfg) scopes rq) (\<lambda>p _. accepted (make_gate x cfg) rq p w)
     (\<lambda>e _. refusal (make_gate x cfg) scopes rq w e) w"
proof -
  let ?A = "make_gate x cfg"
  have found: "wp (authenticate ?A rq)
     (\<lambda>r w'. w_worker w' = w_worker w \<and> w_n w \<le> w_n w' \<and> (r = None \<longrightarrow> \<not> beyond_doubt ?A rq w) \<and>
        (\<forall>p. r = Some p \<longrightarrow> entitled ?A rq p w)) (\<lambda>e _. db_failed x w e) w"
    by (rule wp_mono [OF wp_conj [OF authenticate_answered [OF refl] authenticate_entitled [OF refl]]])
      (auto simp: later_def)
  have "wp (get_principal ?A rq) (\<lambda>p _. accepted ?A rq p w) (\<lambda>e _. refusal ?A scopes rq w e) w"
  proof (cases "auth_enabled cfg")
    case True
    have "wp (seq (authenticate ?A rq) (\<lambda>found. case found of None \<Rightarrow> raise_exn unauthorized
         | Some p \<Rightarrow> (case gt_limiter ?A of None \<Rightarrow> ret p
             | Some L \<Rightarrow> seq (check (gt_ext ?A) L (p_id p)) (\<lambda>v.
                 if \<not> fst v then raise_exn (rate_limited (snd v)) else ret p))))
       (\<lambda>p _. accepted ?A rq p w) (\<lambda>e _. refusal ?A scopes rq w e) w"
      unfolding wp_seq [of "authenticate ?A rq"]
    proof (rule wp_mono [OF found], goal_cases)
      case (1 r w')
      then show ?case
        using limited_rate [OF refl True, of x rq _ w w']
        by (cases r) (auto simp: True wp_raise refusal_def [of _ _ _ _ unauthorized] make_gate_fields)
    qed (simp add: refusal_def make_gate_fields)
    with True show ?thesis by (simp add: get_principal_def make_gate_fields)
  next
    case False
    then show ?thesis by (simp add: get_principal_def make_gate_fields run_simps accepted_def)
  qed
  then show ?thesis
    unfolding require_def wp_seq Let_def
    by (rule wp_mono) (auto simp: run_simps refusal_def list_ex_iff filter_empty_conv)
qed

section \<open>Revocation and rotation\<close>

text \<open>
  C8. Once a revocation has returned, the secret of that key opens nothing: at no later request,
  whatever use of other keys came in between, does the API key provider vouch for anyone who
  presents a secret with the hash of the revoked key.
\<close>

theorem revoked_key_rejected:
  assumes "separated keys_coll (w_db w)" "k \<in> set (d_keys (w_db w))"
    and "x_oid_parse x i = Some (k_id k)" "revoke_api_key x i w = (Inr (), w')"
    and "x_sha256 x cred = k_hash k" "only_used (w_db w') (w_db w'')"
  shows "wp (api_key_authenticate x throttle cred) (\<lambda>r _. r = None) (\<lambda>_ _. True) w''"
proof -
  have "wp (revoke_api_key x i)
     (\<lambda>_ w'. (\<exists>e. List.find (\<lambda>e. k_id e = k_id k \<and> k_active e) (d_keys (w_db w)) = Some e) \<and>
        d_keys (w_db w') = upd_first (\<lambda>e. k_id e = k_id k \<and> k_active e)
          (\<lambda>e. e\<lparr>k_active := False, k_revoked_at := Some (x_now x (w_n w))\<rparr>) (d_keys (w_db w)))
     (\<lambda>_ _. True) w"
    unfolding revoke_api_key_def by (auto simp: run_simps assms(3) keys_put split: option.splits)
  from wp_returns [OF this assms(4)] obtain e where
    e: "List.find (\<lambda>e. k_id e = k_id k \<and> k_active e) (d_keys (w_db w)) = Some e"
    and w': "d_keys (w_db w') = upd_first (\<lambda>e. k_id e = k_id k \<and> k_active e)
      (\<lambda>e. e\<lparr>k_active := False, k_revoked_at := Some (x_now x (w_n w))\<rparr>) (d_keys (w_db w))"
    by blast
  have "e = k"
    using find_Some_in [OF e] api_keys.separated_ident [OF assms(1), of e k] assms(2) by (simp add: keys_put)
  have gone: "k_active b = False" if b: "b \<in> set (d_keys (w_db w'))" "k_hash b = k_hash k" for b
  proof -
    obtain us vs where l: "d_keys (w_db w) = us @ k # vs"
      and l': "d_keys (w_db w') = us @ k\<lparr>k_active := False, k_revoked_at := Some (x_now x (w_n w))\<rparr> # vs"
      using e unfolding \<open>e = k\<close> w' by (elim find_split) metis
    have "b \<noteq> k" if "b \<in> set us \<union> set vs"
      using that assms(1) l by (auto simp: separated_def keys_put sorted_wrt_append)
    with b same_hash [OF assms(1,2), of b] show ?thesis
      by (auto simp: l l')
  qed
  have "\<not> k_active b" if b: "b \<in> set (d_keys (w_db w''))" "k_hash b = x_sha256 x cred" for b
  proof -
    from assms(6) b(1) obtain a where "a \<in> set (d_keys (w_db w'))" "same_key a b"
      unfolding only_used_def by (metis list_all2_conv_all_nth in_set_conv_nth)
    with gone [of a] b(2) assms(5) same_key_fields [of a b] show ?thesis by simp
  qed
  then have "List.find (\<lambda>k. k_hash k = x_sha256 x cred \<and> k_active k) (d_keys (w_db w'')) = None"
    by (auto simp: find_None_all)
  then show ?thesis
    by (auto simp: api_key_authenticate_def run_simps keys_put)
qed

definition key0 :: api_key where
  "key0 = \<lparr>k_id = 3, k_name = ''ops'', k_hash = ''secret'', k_prefix = ''secret'',
     k_scopes = [''ci:read''], k_active = True, k_created_at = 0, k_expires_at = None,
     k_last_used = None, k_rotated_at = None, k_revoked_at = None\<rparr>"

definition keyed_db :: db where
  "keyed_db = bare_db\<lparr>d_keys := [key0]\<rparr>"

lemma keyed_db_simps [simp]: "d_keys keyed_db = [key0]"
  by (simp add: keyed_db_def)

lemma key0_simps [simp]:
  "k_id key0 = 3" "k_hash key0 = ''secret''" "k_active key0" "k_expires_at key0 = None"
  "k_last_used key0 = None" "k_scopes key0 = [''ci:read'']" "k_name key0 = ''ops''"
  by (simp_all add: key0_def)

lemma keyed_separated: "separated keys_coll keyed_db"
  by (simp add: separated_def keys_put)

theorem revoked_key_rejected_witness:
  "\<exists>w'. revoke_api_key ext0 ''abc'' (world_at keyed_db 0) = (Inr (), w') \<and>
     wp (api_key_authenticate ext0 60 ''secret'') (\<lambda>r _. r = None) (\<lambda>_ _. True) w'"
proof -
  have "wp (revoke_api_key ext0 ''abc'') (\<lambda>_ _. True) (\<lambda>_ _. False) (world_at keyed_db 0)"
    by (simp add: revoke_api_key_def run_simps keys_put)
  then obtain w' where run: "revoke_api_key ext0 ''abc'' (world_at keyed_db 0) = (Inr (), w')"
    by (auto simp: wp_def split: prod.splits sum.splits)
  from revoked_key_rejected [of "world_at keyed_db 0" key0 ext0 "''abc''", OF _ _ _ run, of "''secret''" w' 60]
    keyed_separated run show ?thesis by (intro exI [of _ w']) simp
qed

lemma rotate_separated: "keeps (separated keys_coll) (rotate_api_key x i)"
  unfolding rotate_api_key_def by (intro keeps_intros keeps_reads reads_intros api_keys.keeps_separated)

text \<open>
  C9. A rotation that returns has replaced the secret and nothing else. From then on, whatever use
  of keys comes in between, the API key provider gives nobody to one who presents the old secret and
  the same principal as before to one who presents the new one - unless the key has expired by then:
  a rotation takes an expired key too and leaves its expiry alone, and its new secret opens nothing.
  A check that ends otherwise met a fault of the database.
\<close>

theorem rotated_key_replaced:
  assumes "separated keys_coll (w_db w)" "k \<in> set (d_keys (w_db w))" "k_active k"
    and "x_oid_parse x i = Some (k_id k)" "rotate_api_key x i w = (Inr (raw, info), w')"
    and "raw \<noteq> []" "x_sha256 x cred = k_hash k" "x_sha256 x cred \<noteq> x_sha256 x raw"
    and "only_used (w_db w') (w_db w'')"
  shows "(\<exists>now. rotated x raw now k \<in> set (d_keys (w_db w'))) \<and>
    wp (api_key_authenticate x throttle cred) (\<lambda>r _. r = None) (\<lambda>e _. e = MongoError \<and> (\<exists>n. x_fault x n)) w'' \<and>
    wp (api_key_authenticate x throttle raw)
      (\<lambda>r _. r = (if expired_at (x_now x (Suc (w_n w''))) k then None else Some (key_principal x k)))
      (\<lambda>e _. e = MongoError \<and> (\<exists>n. x_fault x n)) w''"
proof -
  have old: "List.find (\<lambda>e. k_id e = k_id k \<and> k_active e) (d_keys (w_db w)) = Some k"
    using api_keys.separated_ident [OF assms(1), of _ k] assms(2,3)
    by (cases "List.find (\<lambda>e. k_id e = k_id k \<and> k_active e) (d_keys (w_db w))")
      (auto simp: find_None_all keys_put dest!: find_Some_in)
  have "wp (rotate_api_key x i)
     (\<lambda>r w'. \<exists>now. d_keys (w_db w') =
        upd_first (\<lambda>e. k_id e = k_id k) (rotated x (fst r) now) (d_keys (w_db w)))
     (\<lambda>_ _. True) w"
    unfolding rotate_api_key_def
    by (auto simp: run_simps assms(4) keys_put old find_key [OF assms(1,2)])
  from wp_returns [OF this assms(5)] obtain now where
    w': "d_keys (w_db w') = upd_first (\<lambda>e. k_id e = k_id k) (rotated x raw now) (d_keys (w_db w))"
    by auto
  from find_key [OF assms(1,2)] obtain us vs where l: "d_keys (w_db w) = us @ k # vs"
    and l': "d_keys (w_db w') = us @ rotated x raw now k # vs"
    unfolding w' by (elim find_split) metis
  let ?k = "rotated x raw now k"
  have k: "?k \<in> set (d_keys (w_db w'))" "k_active ?k" "k_hash ?k = x_sha256 x raw"
    "key_principal x ?k = key_principal x k" "expired_at t ?k = expired_at t k" for t
    using assms(3) by (simp_all add: l' rotated_def key_principal_def expired_at_def)
  have sep: "separated keys_coll (w_db w')"
    using rotate_separated assms(1,5) unfolding keeps_def by (metis snd_conv)
  have "k_hash b \<noteq> k_hash k" if "b \<in> set us \<union> set vs" for b
    using that assms(1) l by (auto simp: separated_def keys_put sorted_wrt_append)
  then have gone: "List.find (\<lambda>e. k_hash e = x_sha256 x cred \<and> k_active e) (d_keys (w_db w')) = None"
    using assms(7,8) by (auto simp: l' find_None_all rotated_def)
  note later = used_separated [OF assms(9) sep]
  have answer: "wp (api_key_authenticate x throttle c) (\<lambda>r _. r = key_answer x c w'')
     (\<lambda>e _. e = MongoError \<and> (\<exists>n. x_fault x n)) w''" for c
    by (rule wp_mono [OF key_answered]) (use later in \<open>auto simp: db_failed_def\<close>)
  have "key_answer x cred w'' = None"
    using used_answer [OF assms(9) gone] by simp
  moreover have "key_answer x raw w'' = (if expired_at (x_now x (Suc (w_n w''))) k then None else Some (key_principal x k))"
    using used_answer [OF assms(9) find_by_hash [OF sep k(1-3)]] assms(6) k(4,5) by simp
  ultimately show ?thesis using k(1) answer [of cred] answer [of raw] by auto
qed

theorem rotated_key_replaced_witness:
  "\<exists>raw info w'. rotate_api_key ext0 ''abc'' (world_at keyed_db 1) = (Inr (raw, info), w') \<and>
     (\<exists>now. rotated ext0 raw now key0 \<in> set (d_keys (w_db w'))) \<and>
     wp (api_key_authenticate ext0 60 ''secret'') (\<lambda>r _. r = None) (\<lambda>_ _. False) w' \<and>
     wp (api_key_authenticate ext0 60 raw) (\<lambda>r _. r = Some (key_principal ext0 key0)) (\<lambda>_ _. False) w'"
proof -
  have "wp (rotate_api_key ext0 ''abc'') (\<lambda>r _. fst r = ''kk'') (\<lambda>_ _. False) (world_at keyed_db 1)"
    by (simp add: rotate_api_key_def run_simps keys_put numeral_2_eq_2)
  then obtain info w' where run: "rotate_api_key ext0 ''abc'' (world_at keyed_db 1) = (Inr (''kk'', info), w')"
    by (auto simp: wp_def split: prod.splits sum.splits)
  from rotated_key_replaced [of "world_at keyed_db 1" key0 ext0 "''abc''", OF _ _ _ _ run, of "''secret''" w' 60]
    keyed_separated run show ?thesis
    by (intro exI [of _ "''kk''"] exI [of _ info] exI [of _ w']) (simp add: expired_at_def)
qed

text \<open>
  C10. A valid key gets through: with authentication on in a mode that admits API keys, no rate
  limit and a working database, a request that presents the secret of an active, unexpired key
  with the required scopes is let in as the owner of that key.
\<close>

theorem valid_key_admitted:
  assumes "auth_enabled cfg" "auth_mode cfg \<in> {''api_key'', ''both''}" "\<not> rate_limit_enabled cfg"
    and "\<And>n. \<not> x_fault x n" "separated keys_coll (w_db w)"
    and "k \<in> set (d_keys (w_db w))" "k_active k" "x_sha256 x cred = k_hash k"
    and "cr_api_key rq = Some cred" "cred \<noteq> []"
    and "\<And>e n. k_expires_at k = Some e \<Longrightarrow> x_now x n < e"
    and "list_all (has_scope (key_principal x k)) scopes"
  shows "\<exists>w'. require (make_gate x cfg) scopes rq w = (Inr (key_principal x k), w')"
proof -
  have found: "List.find (\<lambda>e. k_hash e = k_hash k \<and> k_active e) (d_keys (w_db w)) = Some k"
    by (rule find_by_hash) (use assms in auto)
  have "\<not> co_clash keys_coll (w_db w) (k\<lparr>k_last_used := v\<rparr>) b"
    if "b \<in> set (del_first (\<lambda>e. k_id e = k_id k) (d_keys (w_db w)))" for b v
    using that clash_free [OF assms(5,6)] by (auto simp: keys_put)
  moreover have "\<forall>e n. k_expires_at k = Some e \<longrightarrow> \<not> e \<le> x_now x n"
    using assms(11) by (simp add: not_le)
  ultimately have admitted: "wp (api_key_authenticate x t cred) (\<lambda>r _. r = Some (key_principal x k)) (\<lambda>_ _. False) w" for t
    using assms(4,7,10) found find_key [OF assms(5,6)]
    by (auto simp: api_key_authenticate_def key_expired_def run_simps keys_put(1,2) assms(8)
        list_ex_iff split: option.splits)
  have "wp (require (make_gate x cfg) scopes rq) (\<lambda>r _. r = key_principal x k) (\<lambda>_ _. False) w"
    using assms(1-3,9,10,12) unfolding require_def get_principal_def authenticate_def Let_def
    by (auto simp: make_gate_def run_simps given_def list_all_iff filter_empty_conv
        intro!: wp_mono [OF admitted])
  then show ?thesis by (auto simp: wp_def split: prod.splits sum.splits)
qed

theorem valid_key_admitted_witness:
  "\<exists>w'. require (make_gate ext0 default_settings) [''ci:read'']
     \<lparr>cr_api_key = Some ''secret'', cr_authorization = []\<rparr> (world_at keyed_db 0)
     = (Inr (key_principal ext0 key0), w')"
  by (rule valid_key_admitted [where cred = "''secret''"])
    (simp_all add: default_settings_def keyed_separated key_principal_def has_scope_def)

end
