(* ===== verification/Registry.thy ===== *)
theory Registry
  imports Collections "HOL-Library.List_Lexorder" "HOL-Library.Char_ord"
begin

text \<open>
  cmdboss/registry.py: the persistent registry of CI types with its two per-worker caches. The
  locale \<open>ttl_cache\<close> states what a per-worker document cache owes its callers; the lemmas
  about \<open>registry_ok\<close> show that reusing a model compiled for the same version is the same
  as compiling the current fields; \<open>serves\<close> tells which models can serve a request in a given
  world.
\<close>

section \<open>Stored field specifications\<close>

fun ftype_str :: "ftype \<Rightarrow> string" where
  "ftype_str FString = ''string''"
| "ftype_str FInteger = ''integer''"
| "ftype_str FNumber = ''number''"
| "ftype_str FBoolean = ''boolean''"
| "ftype_str FDatetime = ''datetime''"
| "ftype_str FArray = ''array''"
| "ftype_str FObject = ''object''"
| "ftype_str FReference = ''reference''"

fun scalar_str :: "scalar \<Rightarrow> string" where
  "scalar_str SString = ''string''"
| "scalar_str SInteger = ''integer''"
| "scalar_str SNumber = ''number''"
| "scalar_str SBoolean = ''boolean''"
| "scalar_str SDatetime = ''datetime''"
| "scalar_str SReference = ''reference''"

definition opt_val :: "('a \<Rightarrow> val) \<Rightarrow> 'a option \<Rightarrow> val" where
  "opt_val f v = (case v of None \<Rightarrow> VNone | Some a \<Rightarrow> f a)"

text \<open>\<open>FieldSpec.model_dump\<close>, as a type document keeps it.\<close>

definition spec_dict :: "field_spec \<Rightarrow> dict" where
  "spec_dict s =
     [(''type'', VStr (ftype_str (fs_type s))), (''required'', VBool (fs_required s)),
      (''description'', opt_str (fs_description s)), (''default'', fs_default s),
      (''min_length'', opt_int (fs_min_length s)), (''max_length'', opt_int (fs_max_length s)),
      (''pattern'', opt_str (fs_pattern s)), (''minimum'', opt_val VNum (fs_minimum s)),
      (''maximum'', opt_val VNum (fs_maximum s)), (''enum'', opt_val VList (fs_enum s)),
      (''items'', opt_val (\<lambda>i. VStr (scalar_str i)) (fs_items s)),
      (''min_items'', opt_int (fs_min_items s)), (''max_items'', opt_int (fs_max_items s)),
      (''ref_type'', opt_str (fs_ref_type s))]"

section \<open>Operations\<close>

definition cache_get :: "ext \<Rightarrow> string \<Rightarrow> type_doc option option act" where
  "cache_get x name =
     seq (asks (\<lambda>w. wk_type_cache (w_worker w) name)) (\<lambda>entry.
     case entry of
       None \<Rightarrow> ret None
     | Some en \<Rightarrow>
         seq (draw (x_mono x)) (\<lambda>t.
         if t \<ge> fst en
         then seq (on_worker (\<lambda>k. k\<lparr>wk_type_cache := (wk_type_cache k)(name := None)\<rparr>)) (\<lambda>_.
              ret None)
         else ret (Some (snd en))))"

definition cache_put :: "ext \<Rightarrow> settings \<Rightarrow> string \<Rightarrow> type_doc option \<Rightarrow> unit act" where
  "cache_put x cfg name doc =
     seq (draw (x_mono x)) (\<lambda>t.
     on_worker (\<lambda>k. k\<lparr>wk_type_cache :=
       (wk_type_cache k)(name \<mapsto> (t + schema_cache_ttl_seconds cfg, doc))\<rparr>))"

definition drop_type :: "string \<Rightarrow> worker \<Rightarrow> worker" where
  "drop_type name k = k\<lparr>wk_type_cache := (wk_type_cache k)(name := None),
                        wk_model_cache := (wk_model_cache k)(name := None)\<rparr>"

definition invalidate :: "string \<Rightarrow> unit act" where
  "invalidate name = on_worker (drop_type name)"

definition active_named :: "string \<Rightarrow> type_doc \<Rightarrow> bool" where
  "active_named name t = (t_name t = name \<and> t_active t)"

definition get_type :: "ext \<Rightarrow> settings \<Rightarrow> string \<Rightarrow> type_doc option act" where
  "get_type x cfg name =
     (let name = lower name in
      seq (cache_get x name) (\<lambda>cached.
      case cached of
        Some doc \<Rightarrow> ret doc
      | None \<Rightarrow>
          seq (find_one x types_coll (active_named name)) (\<lambda>doc.
          seq (cache_put x cfg name doc) (\<lambda>_.
          ret doc))))"

definition type_not_found :: "string \<Rightarrow> exn" where
  "type_not_found name = err NotFoundError (''CI type '' @ quoted name @ '' not found.'')
     [(''type'', VStr name)]"

definition get_type_strict :: "ext \<Rightarrow> string \<Rightarrow> type_doc act" where
  "get_type_strict x name =
     (let name = lower name in
      seq (find_one x types_coll (active_named name)) (\<lambda>doc.
      case doc of None \<Rightarrow> raise_exn (type_not_found name) | Some t \<Rightarrow> ret t))"

definition list_types :: "ext \<Rightarrow> bool \<Rightarrow> type_doc list act" where
  "list_types x include_inactive =
     seq (find_many x types_coll (\<lambda>t. include_inactive \<or> t_active t)) (\<lambda>docs.
     ret (sort_key t_name docs))"

text \<open>
  The model of the fields of a type document: their specifications are validated again (the first that fails
  raises pydantic's ValidationError) and then compiled.
\<close>

definition model_of :: "ext \<Rightarrow> string \<Rightarrow> (string \<times> field_spec) list \<Rightarrow> exn + model" where
  "model_of x name fds =
     (case List.find (\<lambda>p. check_field_spec (x_regex x) (snd p) \<noteq> None) fds of
        Some p \<Rightarrow> Inl (Invalid (VDict (spec_dict (snd p))))
      | None \<Rightarrow>
          (case compile_model (x_refuses x) name fds of
             Inl e \<Rightarrow> Inl (PyError e) | Inr m \<Rightarrow> Inr m))"

definition compile :: "ext \<Rightarrow> settings \<Rightarrow> string \<Rightarrow> model act" where
  "compile x cfg name =
     (let name = lower name in
      seq (get_type x cfg name) (\<lambda>doc.
      case doc of
        None \<Rightarrow> raise_exn (type_not_found name)
      | Some t \<Rightarrow>
          seq (asks (\<lambda>w. wk_model_cache (w_worker w) name)) (\<lambda>cached.
          case (case cached of Some vm \<Rightarrow> if fst vm = t_version t then Some (snd vm) else None
                | None \<Rightarrow> None) of
            Some m \<Rightarrow> ret m
          | None \<Rightarrow>
              (case model_of x name (t_fields t) of
                 Inl e \<Rightarrow> raise_exn e
               | Inr m \<Rightarrow>
                   seq (on_worker (\<lambda>k. k\<lparr>wk_model_cache :=
                          (wk_model_cache k)(name \<mapsto> (t_version t, m))\<rparr>)) (\<lambda>_.
                   ret m)))))"

definition create_type :: "ext \<Rightarrow> type_def \<Rightarrow> string \<Rightarrow> type_doc act" where
  "create_type x def actor =
     seq (utcnow x) (\<lambda>now.
     seq (draw (x_oid x)) (\<lambda>oid.
     let doc = \<lparr>t_id = oid, t_name = td_name def, t_description = td_description def,
                t_fields = td_fields def, t_indexes = td_indexes def, t_version = 1,
                t_active = True, t_created_at = now, t_updated_at = now,
                t_created_by = actor, t_updated_by = actor\<rparr> in
     seq (catch_exn (insert_one x types_coll doc)
            (\<lambda>ex. if ex = DuplicateKey
                  then raise_exn (err ConflictError
                         (''CI type '' @ quoted (td_name def) @ '' already exists.'')
                         [(''type'', VStr (td_name def))])
                  else raise_exn ex)) (\<lambda>_.
     seq (ensure_ci_indexes x (td_name def) (td_indexes def)) (\<lambda>_.
     seq (invalidate (td_name def)) (\<lambda>_.
     ret doc)))))"

definition new_schema :: "type_def \<Rightarrow> int \<Rightarrow> time \<Rightarrow> string \<Rightarrow> type_doc \<Rightarrow> type_doc" where
  "new_schema def version now actor t = t\<lparr>t_description := td_description def,
     t_fields := td_fields def, t_indexes := td_indexes def, t_version := version,
     t_updated_at := now, t_updated_by := actor\<rparr>"

definition update_type :: "ext \<Rightarrow> string \<Rightarrow> type_def \<Rightarrow> string \<Rightarrow> type_doc act" where
  "update_type x name def actor =
     (let name = lower name in
      if td_name def \<noteq> name
      then raise_exn (err ConflictError ''Type name in body does not match the URL.''
             [(''url'', VStr name), (''body'', VStr (td_name def))])
      else
      seq (get_type_strict x name) (\<lambda>existing.
      seq (utcnow x) (\<lambda>now.
      seq (update_one x types_coll (active_named name)
             (new_schema def (t_version existing + 1) now actor)) (\<lambda>_.
      seq (ensure_ci_indexes x name (td_indexes def)) (\<lambda>_.
      seq (invalidate name) (\<lambda>_.
      get_type_strict x name))))))"

definition deactivate_type :: "ext \<Rightarrow> string \<Rightarrow> string \<Rightarrow> unit act" where
  "deactivate_type x name actor =
     (let name = lower name in
      seq (utcnow x) (\<lambda>now.
      seq (update_one x types_coll (active_named name)
             (\<lambda>t. t\<lparr>t_active := False, t_updated_at := now, t_updated_by := actor\<rparr>)) (\<lambda>matched.
      if matched = 0 then raise_exn (type_not_found name)
      else invalidate name)))"

section \<open>What a document cache owes its callers\<close>

lemma types_put: "co_docs types_coll d = d_types d" "co_put types_coll f d = d\<lparr>d_types := f (d_types d)\<rparr>"
  "co_clash types_coll d a b = (t_id a = t_id b \<or> t_name a = t_name b)"
  by (simp_all add: types_coll_def)

lemma cache_reads [reads_intros]:
  "reads (cache_get x n)" "reads (cache_put x cfg n doc)" "reads (invalidate n)"
  by (simp_all add: cache_get_def cache_put_def invalidate_def reads_intros)

lemma get_type_lower: "get_type x cfg (lower n) = get_type x cfg n"
  by (simp add: get_type_def)

lemma get_type_reads [reads_intros]: "reads (get_type x cfg n)"
  by (simp add: get_type_def Let_def reads_intros)

lemma get_type_strict_reads [reads_intros]: "reads (get_type_strict x n)"
  by (simp add: get_type_strict_def Let_def reads_intros)

lemma compile_reads [reads_intros]: "reads (compile x cfg n)"
  by (auto simp: compile_def Let_def intro!: reads_intros)

locale ttl_cache =
  fixes entry :: "worker \<Rightarrow> string \<Rightarrow> (time \<times> 'd option) option"
    and drop_entry :: "string \<Rightarrow> worker \<Rightarrow> worker"
    and fetch :: "ext \<Rightarrow> string \<Rightarrow> 'd option act"
    and stored :: "string \<Rightarrow> db \<Rightarrow> 'd option"
    and ttl :: time
  assumes entry_drop: "entry (drop_entry n k) m = (if m = n then None else entry k m)"
    and hit: "entry (w_worker w) n = Some (t, doc) \<Longrightarrow> lower n = n \<Longrightarrow> x_mono x (w_n w) < t \<Longrightarrow>
       fetch x n w = (Inr doc, bump w)"
    and miss: "entry (w_worker w) n = None \<or>
         (\<exists>t doc. entry (w_worker w) n = Some (t, doc) \<and> t \<le> x_mono x (w_n w)) \<Longrightarrow>
       lower n = n \<Longrightarrow> fetch x n w = (Inr doc', w') \<Longrightarrow>
       doc' = stored n (w_db w) \<and> w_db w' = w_db w \<and>
       (\<exists>i. w_n w \<le> i \<and> i < w_n w' \<and> entry (w_worker w') n = Some (x_mono x i + ttl, doc'))"
begin

lemma fetch_after_drop:
  assumes "fetch x n (w\<lparr>w_worker := drop_entry n (w_worker w)\<rparr>) = (Inr doc, w')" "lower n = n"
  shows "doc = stored n (w_db w)"
  using miss [of "w\<lparr>w_worker := drop_entry n (w_worker w)\<rparr>" n x doc w'] assms by (simp add: entry_drop)

text \<open>
  A value served after the database changed is one that a fetch put there less than a
  time-to-live ago.
\<close>

lemma fetch_fresh:
  assumes "fetch x n w = (Inr doc, w')" "lower n = n"
    "\<And>t d. entry (w_worker w) n = Some (t, d) \<Longrightarrow> t \<le> x_mono x (w_n w)"
  shows "doc = stored n (w_db w)"
proof -
  have "entry (w_worker w) n = None \<or>
      (\<exists>t d. entry (w_worker w) n = Some (t, d) \<and> t \<le> x_mono x (w_n w))"
    using assms(3) by (cases "entry (w_worker w) n") auto
  from miss [OF this assms(2,1)] show ?thesis by simp
qed

text \<open>Two fetches in a row agree, whatever happened to the database in between, within the TTL.\<close>

lemma fetch_stable:
  assumes "fetch x n w = (Inr doc, w')" "lower n = n"
    "entry (w_worker w) n = None" "w_worker w'' = w_worker w'"
    "\<And>i. w_n w \<le> i \<Longrightarrow> i < w_n w' \<Longrightarrow> x_mono x (w_n w'') < x_mono x i + ttl"
  shows "fetch x n w'' = (Inr doc, bump w'')"
proof -
  from miss [OF disjI1 [OF assms(3)] assms(2,1)] obtain i where
    "w_n w \<le> i" "i < w_n w'" "entry (w_worker w'') n = Some (x_mono x i + ttl, doc)"
    using assms(4) by auto
  then show ?thesis using hit assms(2,5) by blast
qed

end

definition stored_type :: "string \<Rightarrow> db \<Rightarrow> type_doc option" where
  "stored_type n d = List.find (active_named n) (d_types d)"

lemma wp_get_type [run_simps]:
  "wp (get_type x cfg n) Q E w =
     (let put = (\<lambda>w. Q (stored_type (lower n) (w_db w))
            ((bump (bump w))\<lparr>w_worker := (w_worker w)\<lparr>wk_type_cache := (wk_type_cache (w_worker w))
              (lower n \<mapsto> (x_mono x (Suc (w_n w)) + schema_cache_ttl_seconds cfg,
                          stored_type (lower n) (w_db w)))\<rparr>\<rparr>));
          query = (\<lambda>w. if x_fault x (w_n w) then E MongoError (bump w) else put w) in
      case wk_type_cache (w_worker w) (lower n) of
        None \<Rightarrow> query w
      | Some (t, doc) \<Rightarrow>
          (if t \<le> x_mono x (w_n w)
           then query ((bump w)\<lparr>w_worker := (w_worker w)\<lparr>wk_type_cache :=
                  (wk_type_cache (w_worker w))(lower n := None)\<rparr>\<rparr>)
           else Q doc (bump w)))"
  by (auto simp: get_type_def cache_get_def cache_put_def Let_def run_simps types_put
      stored_type_def split: option.splits)

interpretation type_cache: ttl_cache wk_type_cache drop_type "\<lambda>x. get_type x cfg" stored_type
  "schema_cache_ttl_seconds cfg"
proof unfold_locales
  fix n k m
  show "wk_type_cache (drop_type n k) m = (if m = n then None else wk_type_cache k m)"
    by (simp add: drop_type_def)
next
  fix w :: world and n t doc and x :: ext
  assume "wk_type_cache (w_worker w) n = Some (t, doc)" "lower n = n" "x_mono x (w_n w) < t"
  then show "get_type x cfg n w = (Inr doc, bump w)"
    by (simp add: run_wp [of "get_type x cfg n" w] wp_get_type)
next
  fix w :: world and n doc' w' and x :: ext
  assume "wk_type_cache (w_worker w) n = None \<or>
      (\<exists>t doc. wk_type_cache (w_worker w) n = Some (t, doc) \<and> t \<le> x_mono x (w_n w))"
    "lower n = n" "get_type x cfg n w = (Inr doc', w')"
  then show "doc' = stored_type n (w_db w) \<and> w_db w' = w_db w \<and>
      (\<exists>i. w_n w \<le> i \<and> i < w_n w' \<and>
        wk_type_cache (w_worker w') n = Some (x_mono x i + schema_cache_ttl_seconds cfg, doc'))"
    by (auto simp: run_wp [of "get_type x cfg n" w] wp_get_type Let_def split: if_splits)
      (force intro: exI [of _ "Suc (w_n w)"] exI [of _ "Suc (Suc (w_n w))"])+
qed

section \<open>One version, one set of fields\<close>

text \<open>
  \<open>h name version\<close> is the field map ever stored under that version. Documents, cached
  documents and cached models agree with it, and no version beyond the stored one was used.
\<close>

type_synonym history = "string \<Rightarrow> int \<rightharpoonup> (string \<times> field_spec) list"

definition doc_ok :: "history \<Rightarrow> type_doc \<Rightarrow> bool" where
  "doc_ok h t = (h (t_name t) (t_version t) = Some (t_fields t))"

definition types_ok :: "history \<Rightarrow> type_doc list \<Rightarrow> bool" where
  "types_ok h ts = (distinct (List.map t_name ts) \<and>
     (\<forall>t\<in>set ts. doc_ok h t \<and> (\<forall>v. t_version t < v \<longrightarrow> h (t_name t) v = None)) \<and>
     (\<forall>n. n \<notin> t_name ` set ts \<longrightarrow> h n = Map.empty))"

definition cache_ok :: "ext \<Rightarrow> history \<Rightarrow> worker \<Rightarrow> bool" where
  "cache_ok x h k = ((\<forall>n e t. wk_type_cache k n = Some (e, Some t) \<longrightarrow> t_name t = n \<and> doc_ok h t) \<and>
     (\<forall>n v m. wk_model_cache k n = Some (v, m) \<longrightarrow>
        (\<exists>fs. h n v = Some fs \<and> model_of x n fs = Inr m)))"

definition registry_ok :: "ext \<Rightarrow> history \<Rightarrow> world \<Rightarrow> bool" where
  "registry_ok x h w = (types_ok h (d_types (w_db w)) \<and> cache_ok x h (w_worker w))"

lemma stored_type_ok:
  "types_ok h (d_types d) \<Longrightarrow> stored_type n d = Some t \<Longrightarrow> t_name t = n \<and> t_active t \<and> doc_ok h t"
  by (auto simp: types_ok_def stored_type_def active_named_def dest!: find_Some_in)

lemma get_type_ok:
  assumes "registry_ok x h w"
  shows "wp (get_type x cfg n)
           (\<lambda>r w'. registry_ok x h w' \<and> (\<forall>t. r = Some t \<longrightarrow> t_name t = lower n \<and> doc_ok h t))
           (\<lambda>_ w'. registry_ok x h w') w"
  using assms stored_type_ok [of h "w_db w" "lower n"]
  by (auto simp: wp_get_type Let_def registry_ok_def cache_ok_def split: option.splits)

text \<open>
  Compiling through the cache gives what compiling the fetched document's fields gives, and
  raises what that raises.
\<close>

lemma compile_ok:
  assumes "registry_ok x h w"
  shows "wp (compile x cfg n)
           (\<lambda>m w'. registry_ok x h w' \<and> (\<exists>t w1. get_type x cfg n w = (Inr (Some t), w1) \<and>
              model_of x (lower n) (t_fields t) = Inr m))
           (\<lambda>e w'. registry_ok x h w' \<and> (e = MongoError \<or> e = type_not_found (lower n) \<or>
              (\<exists>t w1. get_type x cfg n w = (Inr (Some t), w1) \<and>
                 model_of x (lower n) (t_fields t) = Inl e))) w"
proof -
  let ?Q = "\<lambda>m w'. registry_ok x h w' \<and> (\<exists>t w1. get_type x cfg n w = (Inr (Some t), w1) \<and>
              model_of x (lower n) (t_fields t) = Inr m)"
  have "wp (get_type x cfg n) (\<lambda>r w'. get_type x cfg n w = (Inr r, w') \<and> registry_ok x h w' \<and>
          (\<forall>t. r = Some t \<longrightarrow> t_name t = lower n \<and> doc_ok h t))
        (\<lambda>e w'. registry_ok x h w' \<and> e = MongoError) w"
  proof (rule wpI)
    fix a w' assume run: "get_type x cfg n w = (Inr a, w')"
    with wp_returns [OF get_type_ok [OF assms] run]
    show "get_type x cfg n w = (Inr a, w') \<and> registry_ok x h w' \<and>
          (\<forall>t. a = Some t \<longrightarrow> t_name t = lower n \<and> doc_ok h t)" by simp
  next
    fix e w' assume run: "get_type x cfg n w = (Inl e, w')"
    then have "e = MongoError"
      by (auto simp: run_wp [of "get_type x cfg n" w] wp_get_type Let_def
          split: option.splits if_splits)
    with wp_raises [OF get_type_ok [OF assms] run] show "registry_ok x h w' \<and> e = MongoError" by simp
  qed
  then show ?thesis
    unfolding compile_def Let_def wp_seq get_type_lower
  proof (rule wp_mono, goal_cases)
    case (1 r w')
    then show ?case
      by (auto simp: run_simps registry_ok_def doc_ok_def split: option.splits sum.splits)
        (fastforce simp: cache_ok_def)+
  qed (auto simp: registry_ok_def)
qed

section \<open>Which model serves a request\<close>

text \<open>
  What a lookup of a type can give in this world: the active document stored under the name, or the
  worker's cached answer, which may be that there is none. The model that serves a request is
  the one compiled from such a document, or the one cached for its version.
\<close>

definition known_type :: "string \<Rightarrow> world \<Rightarrow> type_doc option \<Rightarrow> bool" where
  "known_type n w r = (r = stored_type n (w_db w) \<or> (\<exists>e. wk_type_cache (w_worker w) n = Some (e, r)))"

definition serves :: "ext \<Rightarrow> string \<Rightarrow> world \<Rightarrow> model \<Rightarrow> bool" where
  "serves x n w m = (\<exists>t. known_type n w (Some t) \<and>
     (model_of x n (t_fields t) = Inr m \<or> wk_model_cache (w_worker w) n = Some (t_version t, m)))"

text \<open>Why a type has no model: none is known, or a known one does not compile, or the database fails.\<close>

definition no_model :: "ext \<Rightarrow> string \<Rightarrow> world \<Rightarrow> exn \<Rightarrow> bool" where
  "no_model x n w e = (e = MongoError \<and> (\<exists>i. x_fault x i) \<or>
     known_type n w None \<and> (\<exists>ty. lower ty = n \<and> e = type_not_found ty) \<or>
     (\<exists>t. known_type n w (Some t) \<and> model_of x n (t_fields t) = Inl e))"

text \<open>Lookups learn nothing that was not known before.\<close>

definition learns_nothing :: "string \<Rightarrow> world \<Rightarrow> world \<Rightarrow> bool" where
  "learns_nothing n w w' = (w_db w' = w_db w \<and> (\<forall>r. known_type n w' r \<longrightarrow> known_type n w r) \<and>
     wk_model_cache (w_worker w') n = wk_model_cache (w_worker w) n)"

lemma get_type_known:
  "wp (get_type x cfg ty) (\<lambda>r w'. learns_nothing (lower ty) w w' \<and> known_type (lower ty) w r)
     (\<lambda>e w'. w_db w' = w_db w \<and> e = MongoError \<and> (\<exists>i. x_fault x i)) w"
  by (auto simp: wp_get_type Let_def learns_nothing_def known_type_def split: option.splits)

lemma serves_earlier: "learns_nothing n w w' \<Longrightarrow> serves x n w' m \<Longrightarrow> serves x n w m"
  unfolding learns_nothing_def serves_def by metis

lemma no_model_earlier: "learns_nothing n w w' \<Longrightarrow> no_model x n w' e \<Longrightarrow> no_model x n w e"
  unfolding learns_nothing_def no_model_def by metis

lemma compile_serves:
  "wp (compile x cfg ty) (\<lambda>m w'. w_db w' = w_db w \<and> serves x (lower ty) w m)
     (\<lambda>e w'. w_db w' = w_db w \<and> no_model x (lower ty) w e) w"
proof -
  let ?n = "lower ty"
  have found: "wp (get_type x cfg ?n)
     (\<lambda>r w'. learns_nothing ?n w w' \<and> known_type ?n w r)
     (\<lambda>e w'. w_db w' = w_db w \<and> no_model x ?n w e) w"
    by (rule wp_mono [OF get_type_known]) (auto simp: no_model_def)
  have "\<exists>ty'. lower ty' = ?n \<and> type_not_found ?n = type_not_found ty'"
    by (rule exI [of _ ?n]) simp
  then show ?thesis
    unfolding compile_def Let_def wp_seq
    by (intro wp_mono [OF found])
      (auto simp: run_simps learns_nothing_def serves_def no_model_def split: option.splits sum.splits if_splits)
qed

text \<open>
  With caches that agree with the history of the type, that model is the compiled form of fields the
  type had; with caches that know nothing of it, of the fields it has.
\<close>

lemma serves_history:
  assumes "registry_ok x h w" "serves x n w m"
  shows "\<exists>v fs. h n v = Some fs \<and> model_of x n fs = Inr m"
  using assms stored_type_ok [of h "w_db w" n]
  unfolding registry_ok_def cache_ok_def serves_def known_type_def doc_ok_def by (metis option.inject)

lemma serves_cold:
  assumes "wk_type_cache (w_worker w) n = None" "wk_model_cache (w_worker w) n = None" "serves x n w m"
  shows "\<exists>t. stored_type n (w_db w) = Some t \<and> model_of x n (t_fields t) = Inr m"
  using assms by (metis serves_def known_type_def option.distinct(1))

end
