(* ===== verification/Audit_Log.thy ===== *)
theory Audit_Log
  imports Collections
begin

text \<open>
  cmdboss/audit.py: the field-level difference of two serialized documents, the write of an
  audit record, and the history query. The theorems say what a difference contains, and that
  the log only ever grows at its end.
\<close>

section \<open>The difference of two documents\<close>

definition or_empty :: "dict option \<Rightarrow> dict" where
  "or_empty d = (case d of None \<Rightarrow> [] | Some e \<Rightarrow> e)"

definition diff_keys :: "dict \<Rightarrow> dict \<Rightarrow> string list" where
  "diff_keys b a = filter (\<lambda>k. k \<notin> set [''_meta'', ''id''] \<and> \<not> py_eq (dget b k) (dget a k))
     (remdups (dkeys b @ dkeys a))"

definition diff :: "ext \<Rightarrow> dict option \<Rightarrow> dict option \<Rightarrow> dict" where
  "diff x before after =
     (let b = or_empty before; a = or_empty after in
      List.map (\<lambda>k. (k, VDict [(''from'', jsonable x (dget b k)), (''to'', jsonable x (dget a k))]))
        (diff_keys b a))"

section \<open>Writing and reading records\<close>

record audit_args =
  aa_action :: string
  aa_entity_type :: string
  aa_entity_id :: "string option"
  aa_actor :: string
  aa_before :: "dict option"
  aa_after :: "dict option"
  aa_schema_version :: "int option"
  aa_revision :: "int option"
  aa_request_id :: "string option"

definition audit_record :: "ext \<Rightarrow> audit_args \<Rightarrow> unit act" where
  "audit_record x g =
     seq (draw (x_uuid x)) (\<lambda>uid.
     seq (utcnow x) (\<lambda>ts.
     insert_one x audit_coll \<lparr>
       a_id = uid,
       a_ts = ts,
       a_action = aa_action g,
       a_entity_type = aa_entity_type g,
       a_entity_id = aa_entity_id g,
       a_actor = aa_actor g,
       a_schema_version = aa_schema_version g,
       a_revision = aa_revision g,
       a_request_id = aa_request_id g,
       a_before = map_option (jsonable_dict x) (aa_before g),
       a_after = map_option (jsonable_dict x) (aa_after g),
       a_changes = (if aa_action g = ''update'' then diff x (aa_before g) (aa_after g) else [])\<rparr>))"

text \<open>Newest first; each record with its timestamp as text.\<close>

definition list_for :: "ext \<Rightarrow> string \<Rightarrow> string \<Rightarrow> nat \<Rightarrow> (string \<times> audit_entry) list act" where
  "list_for x entity_type entity_id limit =
     seq (find_many x audit_coll (\<lambda>a. a_entity_type a = entity_type \<and> a_entity_id a = Some entity_id))
       (\<lambda>docs. ret (List.map (\<lambda>a. (x_iso x (a_ts a), a))
          (cursor_limit limit (sort_key (\<lambda>a. - a_ts a) docs))))"

section \<open>Lemmas\<close>

lemma diff_lookup:
  "map_of (diff x before after) k =
     (if k \<in> set (diff_keys (or_empty before) (or_empty after))
      then Some (VDict [(''from'', jsonable x (dget (or_empty before) k)),
                        (''to'', jsonable x (dget (or_empty after) k))])
      else None)"
  by (simp add: diff_def Let_def map_of_map_restrict [unfolded comp_def restrict_map_def])

lemma diff_keys_iff:
  "k \<in> set (diff_keys b a) \<longleftrightarrow>
     k \<noteq> ''_meta'' \<and> k \<noteq> ''id'' \<and> \<not> py_eq (dget b k) (dget a k)"
proof -
  have "py_eq (dget b k) (dget a k)" if "k \<notin> fst ` set b" "k \<notin> fst ` set a"
    using that by (simp add: dget_def map_of_eq_None_iff [THEN iffD2])
  then show ?thesis by (auto simp: diff_keys_def)
qed

text \<open>What a successful or failed write does to the log: nothing but one record at the end.\<close>

definition log_extends :: "audit_entry list \<Rightarrow> db \<Rightarrow> bool" where
  "log_extends l d = (\<exists>new. d_audit d = l @ new)"

lemma log_extends_append: "log_extends l d \<Longrightarrow> log_extends l (d\<lparr>d_audit := d_audit d @ new\<rparr>)"
  by (auto simp: log_extends_def)

lemma audit_record_grows [keeps_intros]: "keeps (log_extends l) (audit_record x g)"
  unfolding audit_record_def
  by (intro keeps_intros keeps_insert_one) (auto simp: audit_coll_def log_extends_def)

lemma list_for_reads [reads_intros]: "reads (list_for x t i n)"
  by (auto simp: list_for_def intro: reads_intros)

definition made_entry :: "ext \<Rightarrow> nat \<Rightarrow> audit_args \<Rightarrow> audit_entry" where
  "made_entry x n g = \<lparr>a_id = x_uuid x n, a_ts = x_now x (Suc n), a_action = aa_action g,
     a_entity_type = aa_entity_type g, a_entity_id = aa_entity_id g, a_actor = aa_actor g,
     a_schema_version = aa_schema_version g, a_revision = aa_revision g,
     a_request_id = aa_request_id g,
     a_before = map_option (jsonable_dict x) (aa_before g),
     a_after = map_option (jsonable_dict x) (aa_after g),
     a_changes = (if aa_action g = ''update'' then diff x (aa_before g) (aa_after g) else [])\<rparr>"

lemma wp_audit_record [run_simps]:
  "wp (audit_record x g) Q E w =
     (if x_fault x (Suc (Suc (w_n w))) then E MongoError (bump (bump (bump w)))
      else if x_uuid x (w_n w) \<in> a_id ` set (d_audit (w_db w))
        then E DuplicateKey (bump (bump (bump w)))
      else Q () ((bump (bump (bump w)))\<lparr>w_db := (w_db w)\<lparr>d_audit :=
             d_audit (w_db w) @ [made_entry x (w_n w) g]\<rparr>\<rparr>))"
  by (auto simp: audit_record_def run_simps audit_coll_def made_entry_def list_ex_iff)

end
