(* ===== verification/Outbox.thy ===== *)
theory Outbox
  imports Collections "HOL-Library.Option_ord"
begin

text \<open>
  cmdboss/events.py and cmdboss/outbox.py: events, the in-memory bus, the durable outbox with
  retry, backoff and dead-lettering, and one pass of the dispatcher. The dispatcher works
  against any bus whose \<open>publish\<close> leaves the database alone (locale \<open>event_bus\<close>).
\<close>

section \<open>Events and the in-memory bus\<close>

definition new_event ::
  "ext \<Rightarrow> string \<Rightarrow> string \<Rightarrow> string option \<Rightarrow> string \<Rightarrow> dict \<Rightarrow> event act" where
  "new_event x type entity_type entity_id actor payload =
     seq (draw (x_uuid x)) (\<lambda>uid.
     seq (utcnow x) (\<lambda>ts.
     ret \<lparr>ev_id = uid, ev_type = type, ev_entity_type = entity_type, ev_entity_id = entity_id,
          ev_actor = actor, ev_ts = x_iso x ts, ev_payload = payload\<rparr>))"

text \<open>\<open>asyncio.Queue(maxsize=n).full()\<close>: a non-positive size is unbounded.\<close>

definition queue_full :: "int \<Rightarrow> 'a list \<Rightarrow> bool" where
  "queue_full n q = (0 < n \<and> n \<le> int (length q))"

text \<open>\<open>InMemoryEventBus.publish\<close>: a full queue drops the event and counts the drop.\<close>

definition bus_publish :: "settings \<Rightarrow> event \<Rightarrow> unit act" where
  "bus_publish cfg ev =
     seq (metrics_incr ''events_published_total'' [(''event_type'', ev_type ev)]) (\<lambda>_.
     seq (asks (\<lambda>w. wk_bus (w_worker w))) (\<lambda>q.
     if queue_full (event_bus_max_queue cfg) q
     then metrics_incr ''events_dropped_total'' []
     else on_worker (\<lambda>k. k\<lparr>wk_bus := wk_bus k @ [ev]\<rparr>)))"

section \<open>The outbox\<close>

definition outbox_add :: "ext \<Rightarrow> event \<Rightarrow> unit act" where
  "outbox_add x ev =
     seq (utcnow x) (\<lambda>now.
     insert_one x outbox_coll \<lparr>
       o_id = ev_id ev,
       o_status = Pending,
       o_attempts = 0,
       o_created_at = now,
       o_next = Some now,
       o_event = ev,
       o_sent_at = None,
       o_failed_at = None,
       o_last_error = None\<rparr>)"

text \<open>Earliest due first; a missing due time sorts before every time.\<close>

definition fetch_pending :: "ext \<Rightarrow> nat \<Rightarrow> outbox_doc list act" where
  "fetch_pending x limit =
     seq (find_many x outbox_coll (\<lambda>o'. o_status o' = Pending)) (\<lambda>docs.
     ret (cursor_limit limit (sort_key o_next docs)))"

definition mark_sent :: "ext \<Rightarrow> string \<Rightarrow> unit act" where
  "mark_sent x oid =
     seq (utcnow x) (\<lambda>now.
     seq (update_one x outbox_coll (\<lambda>o'. o_id o' = oid)
            (\<lambda>o'. o'\<lparr>o_status := Sent, o_sent_at := Some now\<rparr>)) (\<lambda>_.
     ret ()))"

definition reschedule :: "ext \<Rightarrow> string \<Rightarrow> int \<Rightarrow> time \<Rightarrow> exn \<Rightarrow> unit act" where
  "reschedule x oid attempts next_at error =
     seq (update_one x outbox_coll (\<lambda>o'. o_id o' = oid)
            (\<lambda>o'. o'\<lparr>o_attempts := attempts, o_next := Some next_at,
                     o_last_error := Some (take 300 (x_str x error))\<rparr>)) (\<lambda>_.
     ret ())"

definition mark_dead :: "ext \<Rightarrow> string \<Rightarrow> int \<Rightarrow> exn \<Rightarrow> unit act" where
  "mark_dead x oid attempts error =
     seq (utcnow x) (\<lambda>now.
     seq (update_one x outbox_coll (\<lambda>o'. o_id o' = oid)
            (\<lambda>o'. o'\<lparr>o_status := Dead, o_attempts := attempts, o_failed_at := Some now,
                     o_last_error := Some (take 300 (x_str x error))\<rparr>)) (\<lambda>_.
     metrics_incr ''events_dropped_total'' []))"

text \<open>Latest failure first; a missing failure time sorts last in a descending sort.\<close>

definition fetch_dead :: "ext \<Rightarrow> nat \<Rightarrow> outbox_doc list act" where
  "fetch_dead x limit =
     seq (find_many x outbox_coll (\<lambda>o'. o_status o' = Dead)) (\<lambda>docs.
     ret (cursor_limit limit
       (sort_key (\<lambda>o'. map_option uminus (o_failed_at o')) (filter (\<lambda>o'. o_failed_at o' \<noteq> None) docs)
        @ filter (\<lambda>o'. o_failed_at o' = None) docs)))"

definition replay :: "ext \<Rightarrow> string \<Rightarrow> bool act" where
  "replay x oid =
     seq (utcnow x) (\<lambda>now.
     seq (update_one x outbox_coll (\<lambda>o'. o_id o' = oid \<and> o_status o' = Dead)
            (\<lambda>o'. o'\<lparr>o_status := Pending, o_attempts := 0, o_next := Some now,
                     o_last_error := None\<rparr>)) (\<lambda>n.
     ret (n > 0)))"

section \<open>The dispatcher\<close>

definition backoff :: "settings \<Rightarrow> int \<Rightarrow> time" where
  "backoff cfg attempts =
     min (outbox_backoff_base_seconds cfg * 2 powi (attempts - 1)) (outbox_backoff_cap_seconds cfg)"

text \<open>The \<open>except\<close> branch: one more attempt, then dead or rescheduled.\<close>

definition on_failure :: "ext \<Rightarrow> settings \<Rightarrow> time \<Rightarrow> outbox_doc \<Rightarrow> exn \<Rightarrow> unit act" where
  "on_failure x cfg now doc ex =
     (let attempts = o_attempts doc + 1 in
      if attempts \<ge> outbox_max_attempts cfg then mark_dead x (o_id doc) attempts ex
      else reschedule x (o_id doc) attempts (now + backoff cfg attempts) ex)"

definition not_due :: "time \<Rightarrow> outbox_doc \<Rightarrow> bool" where
  "not_due now doc = (case o_next doc of None \<Rightarrow> False | Some t \<Rightarrow> t > now)"

definition dispatch_doc ::
  "ext \<Rightarrow> settings \<Rightarrow> (event \<Rightarrow> unit act) \<Rightarrow> time \<Rightarrow> nat \<Rightarrow> outbox_doc \<Rightarrow> nat act" where
  "dispatch_doc x cfg publish now delivered doc =
     (if not_due now doc then ret delivered
      else catch_exn
        (seq (publish (o_event doc)) (\<lambda>_.
         seq (mark_sent x (o_id doc)) (\<lambda>_.
         ret (delivered + 1))))
        (\<lambda>ex. seq (on_failure x cfg now doc ex) (\<lambda>_. ret delivered)))"

definition dispatch_once :: "ext \<Rightarrow> settings \<Rightarrow> (event \<Rightarrow> unit act) \<Rightarrow> nat act" where
  "dispatch_once x cfg publish =
     seq (utcnow x) (\<lambda>now.
     seq (fetch_pending x (outbox_batch_size cfg)) (\<lambda>docs.
     fold_act (dispatch_doc x cfg publish now) 0 docs))"

section \<open>Lemmas\<close>

lemma bus_publish_reads [reads_intros]: "reads (bus_publish cfg ev)"
  by (auto simp: bus_publish_def intro: reads_intros)

lemma bus_publish_returns: "fst (bus_publish cfg ev w) = Inr ()"
  by (simp add: bus_publish_def seq_def asks_def on_worker_def metrics_incr_def)

lemma new_event_reads [reads_intros]: "reads (new_event x t et ei a p)"
  by (auto simp: new_event_def intro: reads_intros)

definition made_event ::
  "ext \<Rightarrow> nat \<Rightarrow> string \<Rightarrow> string \<Rightarrow> string option \<Rightarrow> string \<Rightarrow> dict \<Rightarrow> event" where
  "made_event x n t et ei a p = \<lparr>ev_id = x_uuid x n, ev_type = t, ev_entity_type = et,
     ev_entity_id = ei, ev_actor = a, ev_ts = x_iso x (x_now x (Suc n)), ev_payload = p\<rparr>"

lemma wp_new_event [run_simps]:
  "wp (new_event x t et ei a p) Q E w = Q (made_event x (w_n w) t et ei a p) (bump (bump w))"
  by (simp add: new_event_def run_simps made_event_def)

definition fresh_outbox :: "time \<Rightarrow> event \<Rightarrow> outbox_doc" where
  "fresh_outbox now ev = \<lparr>o_id = ev_id ev, o_status = Pending, o_attempts = 0, o_created_at = now,
     o_next = Some now, o_event = ev, o_sent_at = None, o_failed_at = None, o_last_error = None\<rparr>"

lemma wp_outbox_add [run_simps]:
  "wp (outbox_add x ev) Q E w =
     (if x_fault x (Suc (w_n w)) then E MongoError (bump (bump w))
      else if ev_id ev \<in> o_id ` set (d_outbox (w_db w)) then E DuplicateKey (bump (bump w))
      else Q () ((bump (bump w))\<lparr>w_db := (w_db w)\<lparr>d_outbox :=
             d_outbox (w_db w) @ [fresh_outbox (x_now x (w_n w)) ev]\<rparr>\<rparr>))"
  by (auto simp: outbox_add_def run_simps outbox_coll_def fresh_outbox_def list_ex_iff)

subsection \<open>Backoff\<close>

lemma backoff_le_cap: "backoff cfg n \<le> outbox_backoff_cap_seconds cfg"
  by (simp add: backoff_def)

lemma backoff_nonneg:
  "0 \<le> outbox_backoff_base_seconds cfg \<Longrightarrow> 0 \<le> outbox_backoff_cap_seconds cfg \<Longrightarrow> 0 \<le> backoff cfg n"
  by (simp add: backoff_def)

lemma backoff_mono:
  assumes "0 \<le> outbox_backoff_base_seconds cfg" "m \<le> n"
  shows "backoff cfg m \<le> backoff cfg n"
proof -
  have "(2::real) powi (m - 1) \<le> 2 powi (n - 1)"
    using assms(2) by (intro power_int_increasing) auto
  then show ?thesis
    using assms(1) by (auto simp: backoff_def intro: min.coboundedI1 mult_left_mono)
qed

subsection \<open>Well-formed outbox documents\<close>

definition outbox_ok :: "settings \<Rightarrow> outbox_doc \<Rightarrow> bool" where
  "outbox_ok cfg o' = (0 \<le> o_attempts o' \<and>
     (o_status o' = Pending \<longrightarrow> o_attempts o' = 0 \<or> o_attempts o' < outbox_max_attempts cfg) \<and>
     (o_status o' = Dead \<longrightarrow> 1 \<le> o_attempts o' \<and> outbox_max_attempts cfg \<le> o_attempts o'))"

definition outbox_inv :: "settings \<Rightarrow> db \<Rightarrow> bool" where
  "outbox_inv cfg d = (\<forall>o'\<in>set (d_outbox d). outbox_ok cfg o')"

lemma outbox_put: "co_docs outbox_coll d = d_outbox d"
  "co_put outbox_coll f d = d\<lparr>d_outbox := f (d_outbox d)\<rparr>"
  by (simp_all add: outbox_coll_def)

lemma outbox_inv_upd:
  assumes "\<And>o'. outbox_ok cfg o' \<Longrightarrow> p o' \<Longrightarrow> outbox_ok cfg (f o')"
  shows "keeps (outbox_inv cfg) (update_one x outbox_coll p f)"
proof (rule keeps_update_one)
  fix d e
  assume "outbox_inv cfg d"
  then show "outbox_inv cfg (co_put outbox_coll (upd_first p f) d)"
    using assms set_upd_first [of p f "d_outbox d"]
    by (auto simp: outbox_inv_def outbox_put)
qed

lemma outbox_add_inv [keeps_intros]: "keeps (outbox_inv cfg) (outbox_add x ev)"
  unfolding outbox_add_def
  by (intro keeps_intros keeps_insert_one) (auto simp: outbox_inv_def outbox_put outbox_ok_def)

lemma mark_sent_inv [keeps_intros]: "keeps (outbox_inv cfg) (mark_sent x i)"
  unfolding mark_sent_def
  by (intro keeps_intros outbox_inv_upd) (auto simp: outbox_ok_def)

lemma replay_inv [keeps_intros]: "keeps (outbox_inv cfg) (replay x i)"
  unfolding replay_def
  by (intro keeps_intros outbox_inv_upd) (auto simp: outbox_ok_def)

section \<open>The state machine of an outbox document\<close>

text \<open>What one pass of the dispatcher may do to one document.\<close>

inductive dispatch_step :: "settings \<Rightarrow> outbox_doc \<Rightarrow> outbox_doc \<Rightarrow> bool" for cfg where
  deliver: "o_status o' = Pending \<Longrightarrow>
     dispatch_step cfg o' (o'\<lparr>o_status := Sent, o_sent_at := Some t\<rparr>)"
| retry: "o_status o' = Pending \<Longrightarrow> a = o_attempts o' + 1 \<Longrightarrow> a < outbox_max_attempts cfg \<Longrightarrow>
     dispatch_step cfg o' (o'\<lparr>o_attempts := a, o_next := Some (now + backoff cfg a),
       o_last_error := Some e\<rparr>)"
| die: "o_status o' = Pending \<Longrightarrow> a = o_attempts o' + 1 \<Longrightarrow> outbox_max_attempts cfg \<le> a \<Longrightarrow>
     dispatch_step cfg o' (o'\<lparr>o_status := Dead, o_attempts := a, o_failed_at := Some t,
       o_last_error := Some e\<rparr>)"

inductive outbox_step :: "settings \<Rightarrow> outbox_doc \<Rightarrow> outbox_doc \<Rightarrow> bool" for cfg where
  dispatch: "dispatch_step cfg a b \<Longrightarrow> outbox_step cfg a b"
| revive: "o_status a = Dead \<Longrightarrow>
     outbox_step cfg a (a\<lparr>o_status := Pending, o_attempts := 0, o_next := Some now,
       o_last_error := None\<rparr>)"

inductive_cases dispatch_stepE: "dispatch_step cfg a b"

lemma dispatch_step_id: "dispatch_step cfg a b \<Longrightarrow> o_id b = o_id a \<and> o_event b = o_event a"
  by (auto elim: dispatch_stepE)

lemma dispatch_step_pending: "dispatch_step cfg a b \<Longrightarrow> o_status a = Pending"
  by (auto elim: dispatch_stepE)

lemma dispatch_step_ok: "dispatch_step cfg a b \<Longrightarrow> outbox_ok cfg a \<Longrightarrow> outbox_ok cfg b"
  by (auto elim!: dispatch_stepE simp: outbox_ok_def)

definition at_most_one_step :: "settings \<Rightarrow> outbox_doc \<Rightarrow> outbox_doc \<Rightarrow> bool" where
  "at_most_one_step cfg a b = (a = b \<or> dispatch_step cfg a b)"

section \<open>The dispatcher against any bus\<close>

locale event_bus =
  fixes publish :: "event \<Rightarrow> unit act"
  assumes publish_reads: "reads (publish ev)"
begin

definition doc_effect :: "settings \<Rightarrow> outbox_doc \<Rightarrow> db \<Rightarrow> db \<Rightarrow> bool" where
  "doc_effect cfg doc d d' = (d' = d \<or>
     (\<exists>f. dispatch_step cfg doc (f doc) \<and>
          d' = d\<lparr>d_outbox := upd_first (\<lambda>o'. o_id o' = o_id doc) f (d_outbox d)\<rparr>))"

lemma no_effect [simp]: "doc_effect cfg doc d d"
  by (simp add: doc_effect_def)

lemma effectI:
  "dispatch_step cfg doc (f doc) \<Longrightarrow>
   doc_effect cfg doc d (d\<lparr>d_outbox := upd_first (\<lambda>o'. o_id o' = o_id doc) f (d_outbox d)\<rparr>)"
  by (auto simp: doc_effect_def)

lemma mark_sent_effect:
  assumes "o_status doc = Pending"
  shows "wp (mark_sent x (o_id doc)) (\<lambda>_ w'. doc_effect cfg doc (w_db w) (w_db w'))
           (\<lambda>_ w'. w_db w' = w_db w) w"
  using assms
  by (auto simp: mark_sent_def run_simps outbox_put split: option.splits
      intro!: effectI dispatch_step.deliver)

lemma on_failure_effect:
  assumes "o_status doc = Pending"
  shows "wp (on_failure x cfg now doc ex) (\<lambda>_ w'. doc_effect cfg doc (w_db w) (w_db w'))
           (\<lambda>_ w'. doc_effect cfg doc (w_db w) (w_db w')) w"
  using assms
  by (auto simp: on_failure_def mark_dead_def reschedule_def Let_def run_simps outbox_put
      split: option.splits intro!: effectI dispatch_step.retry dispatch_step.die)

lemma dispatch_doc_effect:
  assumes "o_status doc = Pending"
  shows "wp (dispatch_doc x cfg publish now n doc)
           (\<lambda>_ w'. doc_effect cfg doc (w_db w) (w_db w'))
           (\<lambda>_ w'. doc_effect cfg doc (w_db w) (w_db w')) w"
proof (cases "not_due now doc")
  case True
  then show ?thesis by (simp add: dispatch_doc_def run_simps)
next
  case False
  have fail: "wp (seq (on_failure x cfg now doc ex) (\<lambda>_. ret n))
           (\<lambda>_ w''. doc_effect cfg doc (w_db w) (w_db w''))
           (\<lambda>_ w''. doc_effect cfg doc (w_db w) (w_db w'')) w'"
    if "w_db w' = w_db w" for w' ex
    using on_failure_effect [OF assms, of x cfg now ex w'] that by (simp add: run_simps)
  have sent: "wp (mark_sent x (o_id doc)) (\<lambda>_ w''. doc_effect cfg doc (w_db w) (w_db w''))
           (\<lambda>_ w''. w_db w'' = w_db w) w'"
    if "w_db w' = w_db w" for w'
    using mark_sent_effect [OF assms, of x cfg w'] that by simp
  have "wp (seq (mark_sent x (o_id doc)) (\<lambda>_. ret (Suc n)))
           (\<lambda>_ w''. doc_effect cfg doc (w_db w) (w_db w''))
           (\<lambda>e. wp (seq (on_failure x cfg now doc e) (\<lambda>_. ret n))
              (\<lambda>_ w''. doc_effect cfg doc (w_db w) (w_db w''))
              (\<lambda>_ w''. doc_effect cfg doc (w_db w) (w_db w''))) w'"
    if "w_db w' = w_db w" for w'
    unfolding wp_seq wp_ret
    by (rule wp_mono [OF sent [OF that]]) (use fail in \<open>simp_all add: run_simps\<close>)
  then show ?thesis
    unfolding dispatch_doc_def using False fail
    by (simp only: if_False wp_catch wp_seq [of "publish _"])
       (rule wp_mono [OF wp_reads [OF publish_reads]], simp_all)
qed

text \<open>
  The pass relative to the documents \<open>l\<close> it started from: every document took at most one
  step, and those of the batch still to come took none.
\<close>

definition pass_inv :: "settings \<Rightarrow> outbox_doc list \<Rightarrow> outbox_doc list \<Rightarrow> db \<Rightarrow> bool" where
  "pass_inv cfg l todo d = list_all2 (\<lambda>a b. at_most_one_step cfg a b \<and>
     (o_id a \<in> o_id ` set todo \<longrightarrow> a = b)) l (d_outbox d)"

lemma pass_ids: "pass_inv cfg l todo d \<Longrightarrow> List.map o_id (d_outbox d) = List.map o_id l"
  unfolding pass_inv_def
  by (induction rule: list_all2_induct) (auto simp: at_most_one_step_def dest: dispatch_step_id)

lemma pass_step:
  assumes inv: "pass_inv cfg l (doc # todo) d" and eff: "doc_effect cfg doc d d'"
    and l: "distinct (List.map o_id l)" and doc: "doc \<in> set l" "o_id doc \<notin> o_id ` set todo"
  shows "pass_inv cfg l todo d'"
proof -
  have weak: "pass_inv cfg l todo d"
    using inv unfolding pass_inv_def by (rule list_all2_mono) auto
  from eff consider "d' = d" | f where "dispatch_step cfg doc (f doc)"
    "d' = d\<lparr>d_outbox := upd_first (\<lambda>o'. o_id o' = o_id doc) f (d_outbox d)\<rparr>"
    unfolding doc_effect_def by blast
  then show ?thesis
  proof cases
    case 1
    with weak show ?thesis by simp
  next
    case 2
    have "distinct (List.map o_id (d_outbox d))" using pass_ids [OF inv] l by simp
    then have d': "d_outbox d' = List.map (\<lambda>b. if o_id b = o_id doc then f b else b) (d_outbox d)"
      by (simp add: 2 upd_first_distinct)
    have same: "a = doc" if "a \<in> set l" "o_id a = o_id doc" for a
      using that doc(1) l by (auto simp: distinct_map dest: inj_onD)
    have step: "at_most_one_step cfg a (if o_id b = o_id doc then f b else b) \<and>
           (o_id a \<in> o_id ` set todo \<longrightarrow> a = (if o_id b = o_id doc then f b else b))"
      if "a \<in> set l" and "at_most_one_step cfg a b \<and> (o_id a \<in> o_id ` set (doc # todo) \<longrightarrow> a = b)"
      for a b
    proof (cases "o_id b = o_id doc")
      case True
      have ids: "o_id a = o_id b"
        using that(2) by (auto simp: at_most_one_step_def dest: dispatch_step_id)
      with True same [OF that(1)] have "a = doc" by simp
      with that(2) have "b = doc" by auto
      with 2(1) True \<open>a = doc\<close> doc(2) show ?thesis by (auto simp: at_most_one_step_def)
    next
      case False
      with that(2) show ?thesis by auto
    qed
    from inv show ?thesis
      unfolding pass_inv_def d' list_all2_map2
      by (rule list.rel_mono_strong) (rule step, simp_all)
  qed
qed

lemma dispatch_fold:
  assumes "pass_inv cfg l todo (w_db w)" "distinct (List.map o_id l)"
    "\<forall>doc\<in>set todo. doc \<in> set l \<and> o_status doc = Pending" "distinct (List.map o_id todo)"
  shows "wp (fold_act (dispatch_doc x cfg publish now) n todo)
           (\<lambda>_ w'. pass_inv cfg l [] (w_db w')) (\<lambda>_ w'. pass_inv cfg l [] (w_db w')) w"
  using assms
proof (induction todo arbitrary: n w)
  case Nil
  then show ?case by (simp add: run_simps)
next
  case (Cons doc todo)
  have "wp (dispatch_doc x cfg publish now n doc)
           (\<lambda>_ w'. doc_effect cfg doc (w_db w) (w_db w'))
           (\<lambda>_ w'. doc_effect cfg doc (w_db w) (w_db w')) w"
    using Cons.prems by (intro dispatch_doc_effect) simp
  moreover have next_inv: "pass_inv cfg l todo (w_db w')"
    if "doc_effect cfg doc (w_db w) (w_db w')" for w'
    using Cons.prems by (intro pass_step [OF Cons.prems(1) that]) auto
  moreover have "pass_inv cfg l [] d" if "pass_inv cfg l todo d" for d
    using that unfolding pass_inv_def by (rule list_all2_mono) auto
  ultimately show ?case
    using Cons.prems(2-4) unfolding fold_act.simps wp_seq
    by (elim wp_mono) (auto intro!: Cons.IH)
qed

lemma sort_key_distinct: "distinct (List.map h (sort_key k xs)) = distinct (List.map h xs)"
  by (simp add: distinct_map)

theorem dispatch_pass:
  assumes "separated outbox_coll (w_db w)"
  shows "wp (dispatch_once x cfg publish)
           (\<lambda>_ w'. list_all2 (at_most_one_step cfg) (d_outbox (w_db w)) (d_outbox (w_db w')))
           (\<lambda>_ w'. list_all2 (at_most_one_step cfg) (d_outbox (w_db w)) (d_outbox (w_db w'))) w"
proof -
  let ?l = "d_outbox (w_db w)"
  let ?todo = "cursor_limit (outbox_batch_size cfg)
                 (sort_key o_next (filter (\<lambda>o'. o_status o' = Pending) ?l))"
  have l: "distinct (List.map o_id ?l)"
    using assms by (simp add: separated_def outbox_coll_def distinct_sorted_wrt)
  then have todo: "distinct (List.map o_id ?todo)"
    by (simp add: cursor_limit_def take_map [symmetric] sort_key_distinct distinct_map_filter
        distinct_take)
  have start: "pass_inv cfg ?l ?todo (w_db w')" if "w_db w' = w_db w" for w'
    using that by (simp add: pass_inv_def at_most_one_step_def list.rel_refl)
  have "wp (fold_act (dispatch_doc x cfg publish now) n ?todo)
           (\<lambda>_ w'. pass_inv cfg ?l [] (w_db w')) (\<lambda>_ w'. pass_inv cfg ?l [] (w_db w')) w'"
    if "w_db w' = w_db w" for now n w'
    using that l todo start
    by (intro dispatch_fold) (auto dest!: subsetD [OF set_cursor_limit])
  then show ?thesis
    by (simp add: dispatch_once_def fetch_pending_def run_simps outbox_put pass_inv_def
        at_most_one_step_def [abs_def] list.rel_refl)
qed

end

end
