(* ===== verification/Idempotency.thy ===== *)
theory Idempotency
  imports Collections
begin

text \<open>
  cmdboss/idempotency.py: claiming a key by a unique insert, storing the response under it,
  and releasing a claim whose write failed.
\<close>

definition idem_key :: "string \<Rightarrow> string \<Rightarrow> string" where
  "idem_key scope key = scope @ '':'' @ key"

definition idem_get :: "ext \<Rightarrow> string \<Rightarrow> string \<Rightarrow> idem_rec option act" where
  "idem_get x scope key = find_one x idem_coll (\<lambda>r. i_id r = idem_key scope key)"

definition idem_claim :: "ext \<Rightarrow> string \<Rightarrow> string \<Rightarrow> bool act" where
  "idem_claim x scope key =
     seq (utcnow x) (\<lambda>now.
     catch_exn
       (seq (insert_one x idem_coll \<lparr>i_id = idem_key scope key, i_status = IPending,
               i_response = None, i_created_at = now, i_completed_at = None\<rparr>) (\<lambda>_.
        ret True))
       (\<lambda>ex. if ex = DuplicateKey then ret False else raise_exn ex))"

definition idem_store_result :: "ext \<Rightarrow> string \<Rightarrow> string \<Rightarrow> dict \<Rightarrow> unit act" where
  "idem_store_result x scope key response =
     seq (utcnow x) (\<lambda>now.
     seq (update_one x idem_coll (\<lambda>r. i_id r = idem_key scope key)
            (\<lambda>r. r\<lparr>i_status := IDone, i_response := Some response, i_completed_at := Some now\<rparr>))
       (\<lambda>_. ret ()))"

text \<open>Best effort: a failure to release is logged and ignored.\<close>

definition idem_release :: "ext \<Rightarrow> string \<Rightarrow> string \<Rightarrow> unit act" where
  "idem_release x scope key =
     catch_exn
       (seq (delete_one x idem_coll (\<lambda>r. i_id r = idem_key scope key \<and> i_status r = IPending))
          (\<lambda>_. ret ()))
       (\<lambda>ex. ret ())"

definition pending_rec :: "ext \<Rightarrow> nat \<Rightarrow> string \<Rightarrow> string \<Rightarrow> idem_rec" where
  "pending_rec x n scope key = \<lparr>i_id = idem_key scope key, i_status = IPending,
     i_response = None, i_created_at = x_now x n, i_completed_at = None\<rparr>"

lemma idem_put: "co_docs idem_coll d = d_idem d" "co_put idem_coll f d = d\<lparr>d_idem := f (d_idem d)\<rparr>"
  "co_clash idem_coll d a b = (i_id a = i_id b)"
  by (simp_all add: idem_coll_def)

lemma idem_get_reads [reads_intros]: "reads (idem_get x s k)"
  by (simp add: idem_get_def reads_intros)

lemma wp_idem_get [run_simps]:
  "wp (idem_get x s k) Q E w = (if x_fault x (w_n w) then E MongoError (bump w)
     else Q (List.find (\<lambda>r. i_id r = idem_key s k) (d_idem (w_db w))) (bump w))"
  by (simp add: idem_get_def run_simps idem_put)

lemma wp_idem_claim [run_simps]:
  "wp (idem_claim x s k) Q E w =
     (if x_fault x (Suc (w_n w)) then E MongoError (bump (bump w))
      else if idem_key s k \<in> i_id ` set (d_idem (w_db w)) then Q False (bump (bump w))
      else Q True ((bump (bump w))\<lparr>w_db := (w_db w)\<lparr>d_idem :=
             d_idem (w_db w) @ [pending_rec x (w_n w) s k]\<rparr>\<rparr>))"
  by (auto simp: idem_claim_def run_simps idem_put pending_rec_def list_ex_iff)

text \<open>A scope has no colon in it, so two keys of different types never collide.\<close>

lemma idem_key_inj:
  assumes "CHR '':'' \<notin> set s" "CHR '':'' \<notin> set s'" "idem_key s k = idem_key s' k'"
  shows "s = s' \<and> k = k'"
proof -
  have cut: "takeWhile (\<lambda>c. c \<noteq> CHR '':'') (t @ CHR '':'' # r) = t"
    if "CHR '':'' \<notin> set t" for t r
    using that by (induction t) auto
  from assms(3) have eq: "s @ CHR '':'' # k = s' @ CHR '':'' # k'" by (simp add: idem_key_def)
  then have "s = s'" using cut [OF assms(1), of k] cut [OF assms(2), of k'] by simp
  with eq show ?thesis by simp
qed

end
