(* ===== verification/Cursor.thy ===== *)
theory Cursor
  imports Actions
begin

text \<open>
  cmdboss/cursor.py: opaque pagination tokens. The base64 codec of Python's standard library is
  modelled (its decoder skips foreign characters and stops at complete padding); the json codec,
  the text form of timestamps and of ObjectIds are parameters. The lemma \<open>wp_decode_encode\<close>
  is the round trip.
\<close>

section \<open>base64.urlsafe_b64encode and urlsafe_b64decode\<close>

text \<open>Bytes are characters below 256.\<close>

definition b64_char :: "nat \<Rightarrow> char" where
  "b64_char n =
     (if n < 26 then char_of (65 + n) else if n < 52 then char_of (71 + n)
      else if n < 62 then char_of (n - 4) else if n = 62 then CHR ''-'' else CHR ''_'')"

text \<open>The standard alphabet's \<open>+\<close> and \<open>/\<close> are accepted as well.\<close>

definition b64_value :: "char \<Rightarrow> nat option" where
  "b64_value c = (let n = (of_char c :: nat) in
     if 65 \<le> n \<and> n \<le> 90 then Some (n - 65)
     else if 97 \<le> n \<and> n \<le> 122 then Some (n - 71)
     else if 48 \<le> n \<and> n \<le> 57 then Some (n + 4)
     else if n = 45 \<or> n = 43 then Some 62
     else if n = 95 \<or> n = 47 then Some 63
     else None)"

abbreviation byte :: "char \<Rightarrow> nat" where
  "byte c \<equiv> of_char c"

fun b64_encode :: "string \<Rightarrow> string" where
  "b64_encode [] = []"
| "b64_encode [a] = [b64_char (byte a div 4), b64_char (byte a mod 4 * 16), CHR ''='', CHR ''='']"
| "b64_encode [a, b] = [b64_char (byte a div 4), b64_char (byte a mod 4 * 16 + byte b div 16),
     b64_char (byte b mod 16 * 4), CHR ''='']"
| "b64_encode (a # b # c # r) = b64_char (byte a div 4) # b64_char (byte a mod 4 * 16 + byte b div 16) #
     b64_char (byte b mod 16 * 4 + byte c div 64) # b64_char (byte c mod 64) # b64_encode r"

text \<open>
  The decoder's loop: position in the quad, bits left over, padding seen. \<open>None\<close> is
  \<open>binascii.Error\<close>.
\<close>

fun b64_loop :: "nat \<Rightarrow> nat \<Rightarrow> nat \<Rightarrow> string \<Rightarrow> string option" where
  "b64_loop q left pads [] = (if q = 0 then Some [] else None)"
| "b64_loop q left pads (c # cs) =
     (if c = CHR ''='' then
        (if q \<ge> 2 \<and> q + (pads + 1) \<ge> 4 then Some []
         else b64_loop q left (if q \<ge> 2 then pads + 1 else pads) cs)
      else case b64_value c of
        None \<Rightarrow> b64_loop q left pads cs
      | Some v \<Rightarrow>
          (if q = 0 then b64_loop 1 v 0 cs
           else if q = 1 then
             map_option ((#) (char_of (left * 4 + v div 16))) (b64_loop 2 (v mod 16) 0 cs)
           else if q = 2 then
             map_option ((#) (char_of (left * 16 + v div 4))) (b64_loop 3 (v mod 4) 0 cs)
           else
             map_option ((#) (char_of (left * 64 + v))) (b64_loop 0 0 0 cs)))"

definition b64_decode :: "string \<Rightarrow> string option" where
  "b64_decode s = b64_loop 0 0 0 s"

lemma b64_value_char: "n < 64 \<Longrightarrow> b64_value (b64_char n) = Some n \<and> b64_char n \<noteq> CHR ''=''"
  by (auto simp: b64_char_def b64_value_def Let_def char_of_eq_iff take_bit_eq_mod)

lemma byte_less [simp]: "byte c < 256"
  using of_char_mod_256 [of c, where 'a = nat] by (metis mod_less_divisor zero_less_numeral)

lemma b64_step [simp]:
  "n < 64 \<Longrightarrow> b64_loop 0 l p (b64_char n # cs) = b64_loop 1 n 0 cs"
  "n < 64 \<Longrightarrow> b64_loop (Suc 0) l p (b64_char n # cs) =
     map_option ((#) (char_of (l * 4 + n div 16))) (b64_loop 2 (n mod 16) 0 cs)"
  "n < 64 \<Longrightarrow> b64_loop 2 l p (b64_char n # cs) =
     map_option ((#) (char_of (l * 16 + n div 4))) (b64_loop 3 (n mod 4) 0 cs)"
  "n < 64 \<Longrightarrow> b64_loop 3 l p (b64_char n # cs) =
     map_option ((#) (char_of (l * 64 + n))) (b64_loop 0 0 0 cs)"
  by (simp_all add: b64_value_char)

lemma b64_end [simp]:
  "b64_loop 0 l p [] = Some []" "b64_loop 2 l 0 [CHR ''='', CHR ''=''] = Some []"
  "b64_loop 3 l 0 [CHR ''=''] = Some []"
  by simp_all

declare b64_loop.simps [simp del]

lemma quad_bounds [simp]:
  "byte a div 4 < 64" "byte a mod 4 * 16 < 64" "byte a mod 4 * 16 + byte b div 16 < 64"
  "byte b mod 16 * 4 < 64" "byte b mod 16 * 4 + byte c div 64 < 64" "byte c mod 64 < 64"
proof -
  have "byte a div 4 < 64" "byte b div 16 < 16" "byte c div 64 < 4"
    using byte_less [of a] byte_less [of b] byte_less [of c] by (simp_all add: less_mult_imp_div_less)
  moreover have "byte a mod 4 < 4" "byte b mod 16 < 16" by simp_all
  ultimately show "byte a div 4 < 64" "byte a mod 4 * 16 < 64"
    "byte a mod 4 * 16 + byte b div 16 < 64" "byte b mod 16 * 4 < 64"
    "byte b mod 16 * 4 + byte c div 64 < 64" "byte c mod 64 < 64" by linarith+
qed

lemma high_bits [simp]: "byte b div 16 < 16" "byte c div 64 < 4"
  using byte_less [of b] byte_less [of c] by (simp_all add: less_mult_imp_div_less)

theorem b64_roundtrip: "b64_decode (b64_encode s) = Some s"
  unfolding b64_decode_def
proof (induction s rule: b64_encode.induct)
  case (4 a b c r)
  then show ?case by simp
qed simp_all

lemma b64_char_ascii: "n < 64 \<Longrightarrow> byte (b64_char n) < 128"
  by (auto simp: b64_char_def)

lemma b64_encode_ascii: "list_all (\<lambda>c. byte c < 128) (b64_encode s)"
  by (induction s rule: b64_encode.induct) (simp_all add: b64_char_ascii)

section \<open>Tokens\<close>

definition encode_cursor :: "ext \<Rightarrow> val \<Rightarrow> oid \<Rightarrow> string act" where
  "encode_cursor x sort_value last_id =
     (let payload = (case sort_value of
            VTime t \<Rightarrow> VDict [(''v'', VStr (x_iso x t)), (''i'', VStr (x_oid_str x last_id)),
                              (''t'', VStr ''dt'')]
          | _ \<Rightarrow> VDict [(''v'', sort_value), (''i'', VStr (x_oid_str x last_id)),
                        (''t'', VStr ''raw'')])
      in case x_dumps x payload of
           None \<Rightarrow> raise_exn (PyError ''TypeError'')
         | Some raw \<Rightarrow> ret (b64_encode raw))"

definition bad_cursor :: "string \<Rightarrow> exn" where
  "bad_cursor token = err BadRequestError ''Invalid pagination cursor.'' [(''cursor'', VStr token)]"

text \<open>\<open>ObjectId(v)\<close>: of null it is a fresh identifier.\<close>

definition oid_of_val :: "ext \<Rightarrow> string \<Rightarrow> val \<Rightarrow> oid act" where
  "oid_of_val x token v =
     (case v of
        VNone \<Rightarrow> draw (x_oid x)
      | VStr s \<Rightarrow> (case x_oid_parse x s of None \<Rightarrow> raise_exn (bad_cursor token) | Some i \<Rightarrow> ret i)
      | _ \<Rightarrow> raise_exn (bad_cursor token))"

text \<open>The parsed payload: its \<open>v\<close>, read as a timestamp when tagged so.\<close>

definition cursor_value :: "ext \<Rightarrow> dict \<Rightarrow> val option" where
  "cursor_value x d =
     (case map_of d ''v'' of
        None \<Rightarrow> None
      | Some v \<Rightarrow>
          (if dget d ''t'' = VStr ''dt''
           then (case v of VStr s \<Rightarrow> map_option VTime (x_iso_parse x s) | _ \<Rightarrow> None)
           else Some v))"

definition decode_cursor :: "ext \<Rightarrow> string \<Rightarrow> (val \<times> oid) act" where
  "decode_cursor x token =
     (if \<not> list_all (\<lambda>c. byte c < 128) token then raise_exn (bad_cursor token)
      else case b64_decode token of
        None \<Rightarrow> raise_exn (bad_cursor token)
      | Some raw \<Rightarrow>
          (case x_loads x raw of
             Some (VDict d) \<Rightarrow>
               (case cursor_value x d of
                  None \<Rightarrow> raise_exn (bad_cursor token)
                | Some value \<Rightarrow>
                    (case map_of d ''i'' of
                       None \<Rightarrow> raise_exn (bad_cursor token)
                     | Some i \<Rightarrow> seq (oid_of_val x token i) (\<lambda>last_id. ret (value, last_id))))
           | _ \<Rightarrow> raise_exn (bad_cursor token)))"

lemma encode_cursor_reads [reads_intros]: "reads (encode_cursor x v i)"
  by (auto simp: encode_cursor_def Let_def intro!: reads_intros)

lemma decode_cursor_reads [reads_intros]: "reads (decode_cursor x token)"
  by (auto simp: decode_cursor_def oid_of_val_def intro!: reads_intros split: option.splits val.splits)

text \<open>
  What the codecs promise: json reads back what it wrote, an identifier is read back from its
  text; a timestamp is, where its text form is exact.
\<close>

definition oid_codec :: "ext \<Rightarrow> bool" where
  "oid_codec x = (\<forall>i. x_oid_parse x (x_oid_str x i) = Some i)"

definition json_codec :: "ext \<Rightarrow> bool" where
  "json_codec x = (\<forall>v s. x_dumps x v = Some s \<longrightarrow> x_loads x s = Some v)"

definition iso_exact :: "ext \<Rightarrow> val \<Rightarrow> bool" where
  "iso_exact x v = (case v of VTime t \<Rightarrow> x_iso_parse x (x_iso x t) = Some t | _ \<Rightarrow> True)"

lemma wp_decode_encode:
  assumes "oid_codec x" "json_codec x" "iso_exact x v" "encode_cursor x v i w = (Inr token, w')"
  shows "wp (decode_cursor x token) Q E w2 = Q (v, i) w2"
proof -
  obtain raw tag u where raw: "token = b64_encode raw"
      "x_dumps x (VDict [(''v'', u), (''i'', VStr (x_oid_str x i)), (''t'', VStr tag)]) = Some raw"
    and u: "cursor_value x [(''v'', u), (''i'', VStr (x_oid_str x i)), (''t'', VStr tag)] = Some v"
    using assms
    by (auto simp: encode_cursor_def ret_def raise_exn_def Let_def cursor_value_def dget_def
        iso_exact_def split: val.splits option.splits)
  show ?thesis
    using assms(1,2) raw u b64_encode_ascii [of raw]
    by (auto simp: decode_cursor_def b64_roundtrip json_codec_def oid_codec_def oid_of_val_def
        run_simps)
qed

end
