(* ===== verification/Repository.thy ===== *)
theory Repository
  imports Registry Audit_Log Outbox Idempotency Cursor
begin

text \<open>
  cmdboss/repository.py: the configuration item repository. A document of a CI collection is a
  \<open>ci_doc\<close>: its identifier, its user fields and its \<open>_meta\<close> record. The relationship guard
  that the delete path consults is injected, here as the record \<open>rel_guard\<close>.
\<close>

section \<open>Serialization\<close>

fun opt_entry :: "string \<Rightarrow> ('a \<Rightarrow> val) \<Rightarrow> 'a option \<Rightarrow> dict" where
  "opt_entry k f None = []"
| "opt_entry k f (Some a) = [(k, f a)]"

definition meta_dict :: "ci_meta \<Rightarrow> dict" where
  "meta_dict m =
     [(''type'', VStr (m_type m)),
      (''revision'', VInt (m_revision m)),
      (''schema_version'', VInt (m_schema_version m)),
      (''created_at'', VTime (m_created_at m)),
      (''updated_at'', VTime (m_updated_at m)),
      (''created_by'', VStr (m_created_by m)),
      (''updated_by'', VStr (m_updated_by m))]
     @ opt_entry ''source'' VStr (m_source m)
     @ opt_entry ''external_id'' VStr (m_external_id m)
     @ opt_entry ''discovery_run_id'' VStr (m_run_id m)
     @ opt_entry ''last_seen'' VTime (m_last_seen m)
     @ opt_entry ''discovery_status'' VStr (m_status m)
     @ opt_entry ''missing_run_id'' VStr (m_missing_run m)"

text \<open>The raw document, as a query sees it.\<close>

definition raw_doc :: "ci_doc \<Rightarrow> dict" where
  "raw_doc e = (''_id'', VId (c_id e)) # c_fields e @ [(''_meta'', VDict (meta_dict (c_meta e)))]"

definition serialize :: "ext \<Rightarrow> ci_doc \<Rightarrow> dict" where
  "serialize x e =
     dset ''_meta'' (VDict (jsonable_dict x (meta_dict (c_meta e))))
       (dset ''id'' (VStr (x_oid_str x (c_id e))) (jsonable_dict x (c_fields e)))"

section \<open>Validation\<close>

definition error_summary :: "dict \<Rightarrow> val" where
  "error_summary e = VDict [(''loc'', dget e ''loc''), (''msg'', dget e ''msg''),
                            (''type'', dget e ''type'')]"

text \<open>The body is a dictionary already; the route declares it as one.\<close>

definition validate :: "ext \<Rightarrow> model \<Rightarrow> dict \<Rightarrow> dict act" where
  "validate x m payload =
     (case x_validate x m payload of
        Inl errors \<Rightarrow> raise_exn (err ValidationFailedError ''Payload failed schema validation.''
                        [(''errors'', VList (List.map error_summary errors))])
      | Inr data \<Rightarrow> ret data)"

definition bad_filter :: "string \<Rightarrow> exn" where
  "bad_filter raw = err BadRequestError ''Invalid filter value for field.'' [(''value'', VStr raw)]"

definition coerce_filter_value :: "ext \<Rightarrow> field_spec \<Rightarrow> string \<Rightarrow> exn + val" where
  "coerce_filter_value x spec raw =
     (case fs_type spec of
        FInteger \<Rightarrow> (case py_int raw of None \<Rightarrow> Inl (bad_filter raw) | Some i \<Rightarrow> Inr (VInt i))
      | FNumber \<Rightarrow> (case x_float x raw of None \<Rightarrow> Inl (bad_filter raw) | Some v \<Rightarrow> Inr v)
      | FBoolean \<Rightarrow> Inr (VBool (lower raw \<in> set [''1'', ''true'', ''yes'']))
      | _ \<Rightarrow> Inr (VStr raw))"

section \<open>The repository\<close>

record rel_guard =
  g_count_edges :: "string \<Rightarrow> string \<Rightarrow> nat act"
  g_detach_ci :: "string \<Rightarrow> string \<Rightarrow> string \<Rightarrow> string option \<Rightarrow> nat act"

record repo =
  rp_ext :: ext
  rp_cfg :: settings
  rp_idem :: bool
  rp_txn :: bool
  rp_guard :: "rel_guard option"

definition type_doc_for :: "repo \<Rightarrow> string \<Rightarrow> type_doc act" where
  "type_doc_for R type_name =
     seq (get_type (rp_ext R) (rp_cfg R) type_name) (\<lambda>doc.
     case doc of None \<Rightarrow> raise_exn (type_not_found type_name) | Some t \<Rightarrow> ret t)"

definition ci_not_found :: "string \<Rightarrow> string \<Rightarrow> exn" where
  "ci_not_found type_name item_id =
     err NotFoundError (type_name @ '' '' @ quoted item_id @ '' not found.'')
       [(''type'', VStr type_name), (''id'', VStr item_id)]"

text \<open>The audit record and the event that accompany every write, in the code's order.\<close>

definition log_change :: "ext \<Rightarrow> audit_args \<Rightarrow> string \<Rightarrow> dict \<Rightarrow> unit act" where
  "log_change x g ev_kind payload =
     seq (audit_record x g) (\<lambda>_.
     seq (new_event x ev_kind (aa_entity_type g) (aa_entity_id g) (aa_actor g) payload) (\<lambda>ev.
     outbox_add x ev))"

definition count_op :: "string \<Rightarrow> string \<Rightarrow> unit act" where
  "count_op ty op' = metrics_incr ''ci_operations_total'' [(''type'', ty), (''operation'', op')]"

section \<open>Create\<close>

definition in_progress :: exn where
  "in_progress = err_code ConflictError
     ''A request with this Idempotency-Key is already in progress.'' ''idempotency_in_progress'' []"

definition idempotency_precheck :: "ext \<Rightarrow> string \<Rightarrow> string \<Rightarrow> dict option act" where
  "idempotency_precheck x scope key =
     seq (idem_get x scope key) (\<lambda>rec.
     case rec of
       Some r \<Rightarrow> if i_status r = IDone then ret (i_response r) else raise_exn in_progress
     | None \<Rightarrow>
         seq (idem_claim x scope key) (\<lambda>claimed.
         if claimed then ret None
         else seq (idem_get x scope key) (\<lambda>rec.
           case rec of
             Some r \<Rightarrow> if i_status r = IDone then ret (i_response r) else raise_exn in_progress
           | None \<Rightarrow> raise_exn in_progress)))"

definition new_meta :: "string \<Rightarrow> int \<Rightarrow> time \<Rightarrow> string \<Rightarrow> ci_meta" where
  "new_meta type_name version now actor = \<lparr>m_type = type_name, m_revision = 1,
     m_schema_version = version, m_created_at = now, m_updated_at = now, m_created_by = actor,
     m_updated_by = actor, m_source = None, m_external_id = None, m_run_id = None,
     m_last_seen = None, m_status = None, m_missing_run = None\<rparr>"

definition change_args ::
  "string \<Rightarrow> string \<Rightarrow> string \<Rightarrow> string \<Rightarrow> dict option \<Rightarrow> dict option \<Rightarrow> int option \<Rightarrow> int option
   \<Rightarrow> string option \<Rightarrow> audit_args" where
  "change_args action ty i actor before after version revision rid = \<lparr>aa_action = action,
     aa_entity_type = ty, aa_entity_id = Some i, aa_actor = actor, aa_before = before,
     aa_after = after, aa_schema_version = version, aa_revision = revision,
     aa_request_id = rid\<rparr>"

text \<open>Insert a new document with its record and event; its serialized form.\<close>

definition insert_logged ::
  "ext \<Rightarrow> string \<Rightarrow> dict \<Rightarrow> ci_meta \<Rightarrow> string \<Rightarrow> string option \<Rightarrow> dict act" where
  "insert_logged x type_name data meta actor rid =
     seq (draw (x_oid x)) (\<lambda>oid.
     let doc = \<lparr>c_id = oid, c_fields = data, c_meta = meta\<rparr> in
     seq (insert_one x (ci_coll type_name) doc) (\<lambda>_.
     let ser = serialize x doc in
     seq (log_change x (change_args ''create'' type_name (x_oid_str x oid) actor None (Some ser)
            (Some (m_schema_version meta)) (Some 1) rid) ''ci.created'' ser) (\<lambda>_.
     ret ser)))"

definition create_txn ::
  "ext \<Rightarrow> string \<Rightarrow> dict \<Rightarrow> ci_meta \<Rightarrow> string \<Rightarrow> string option \<Rightarrow> string option \<Rightarrow> dict act" where
  "create_txn x type_name data meta actor rid use_key =
     seq (insert_logged x type_name data meta actor rid) (\<lambda>ser.
     seq (case use_key of None \<Rightarrow> ret () | Some key \<Rightarrow> idem_store_result x type_name key ser) (\<lambda>_.
     ret ser))"

text \<open>The key, when idempotency is in use for this request.\<close>

definition active_key :: "repo \<Rightarrow> string option \<Rightarrow> string option" where
  "active_key R idempotency_key =
     (case idempotency_key of
        None \<Rightarrow> None
      | Some key \<Rightarrow>
          if key \<noteq> [] \<and> rp_idem R \<and> idempotency_enabled (rp_cfg R) then Some key else None)"

definition create ::
  "repo \<Rightarrow> string \<Rightarrow> dict \<Rightarrow> string \<Rightarrow> string option \<Rightarrow> string option \<Rightarrow> dict act" where
  "create R type_name payload actor rid idempotency_key =
     (let x = rp_ext R; use_key = active_key R idempotency_key in
      seq (type_doc_for R type_name) (\<lambda>t.
      seq (compile x (rp_cfg R) type_name) (\<lambda>m.
      seq (validate x m payload) (\<lambda>data.
      seq (case use_key of None \<Rightarrow> ret None
           | Some key \<Rightarrow> idempotency_precheck x type_name key) (\<lambda>replayed.
      case replayed of
        Some response \<Rightarrow> ret response
      | None \<Rightarrow>
          seq (utcnow x) (\<lambda>now.
          seq (catch_exn
                 (transaction x (rp_txn R)
                   (create_txn x type_name data (new_meta type_name (t_version t) now actor)
                      actor rid use_key))
                 (\<lambda>ex. seq (case use_key of None \<Rightarrow> ret ()
                             | Some key \<Rightarrow> idem_release x type_name key) (\<lambda>_.
                       raise_exn ex))) (\<lambda>ser.
          seq (count_op type_name ''create'') (\<lambda>_.
          ret ser))))))))"

section \<open>Read\<close>

definition by_id :: "oid \<Rightarrow> ci_doc \<Rightarrow> bool" where
  "by_id oid e = (c_id e = oid)"

definition get :: "repo \<Rightarrow> string \<Rightarrow> string \<Rightarrow> dict act" where
  "get R type_name item_id =
     (let x = rp_ext R in
      seq (type_doc_for R type_name) (\<lambda>_.
      seq (parse_object_id x item_id) (\<lambda>oid.
      seq (find_one x (ci_coll type_name) (by_id oid)) (\<lambda>doc.
      case doc of None \<Rightarrow> raise_exn (ci_not_found type_name item_id)
      | Some e \<Rightarrow> ret (serialize x e)))))"

record paging =
  pg_limit :: int
  pg_returned :: nat
  pg_cursor :: "string option"
  pg_offset :: "int option"
  pg_next_offset :: "int option"
  pg_next_cursor :: "string option"
  pg_total :: "nat option"

record page =
  pp_items :: "dict list"
  pp_paging :: paging

definition parse_sort ::
  "string option \<Rightarrow> (string \<times> field_spec) list \<Rightarrow> exn + (string \<times> bool)" where
  "parse_sort s fds =
     (let s = (case s of None \<Rightarrow> [] | Some t \<Rightarrow> t) in
      if s = [] then Inr (''_meta.updated_at'', True)
      else
        let desc = starts_with ''-'' s; f = (if desc then tl s else s) in
        if f = ''created_at'' \<or> f = ''updated_at'' then Inr (''_meta.'' @ f, desc)
        else if f \<notin> set (dkeys fds)
          then Inl (err BadRequestError (''Cannot sort by unknown field '' @ quoted f @ ''.'')
                 [(''allowed'', VList (List.map VStr
                     (sort (dkeys fds @ [''created_at'', ''updated_at'']))))])
        else Inr (f, desc))"

definition reserved_query :: "string list" where
  "reserved_query = [''limit'', ''offset'', ''sort'', ''include_total'', ''cursor'']"

fun build_filter ::
  "ext \<Rightarrow> (string \<times> field_spec) list \<Rightarrow> (string \<times> string) list \<Rightarrow> dict \<Rightarrow> exn + dict" where
  "build_filter x fds [] q = Inr q"
| "build_filter x fds ((key, raw) # rest) q =
     (if key \<in> set reserved_query then build_filter x fds rest q
      else case map_of fds key of
        None \<Rightarrow> Inl (err BadRequestError (''Unknown filter field '' @ quoted key @ ''.'')
                  [(''allowed'', VList (List.map VStr (sort (dkeys fds))))])
      | Some spec \<Rightarrow>
          (case coerce_filter_value x spec raw of
             Inl e \<Rightarrow> Inl e
           | Inr v \<Rightarrow> build_filter x fds rest (dset key v q)))"

text \<open>\<open>{k: v, ...}\<close> and the keyset clause, against a raw document.\<close>

definition matches :: "ext \<Rightarrow> dict \<Rightarrow> ci_doc \<Rightarrow> bool" where
  "matches x q e = list_all (\<lambda>(k, v). x_match x (get_path (raw_doc e) k) v) q"

definition keyset :: "ext \<Rightarrow> string \<Rightarrow> bool \<Rightarrow> val \<Rightarrow> oid \<Rightarrow> ci_doc \<Rightarrow> bool" where
  "keyset x f desc value last_id e =
     (let u = get_path (raw_doc e) f in
      x_beyond x desc u value \<or>
      (x_match x u value \<and> (if desc then c_id e < last_id else c_id e > last_id)))"

text \<open>\<open>sort([(f, dir), ("_id", dir)])\<close>.\<close>

definition sorts_before :: "ext \<Rightarrow> string \<Rightarrow> bool \<Rightarrow> ci_doc \<Rightarrow> ci_doc \<Rightarrow> bool" where
  "sorts_before x f desc a b =
     (let u = get_path (raw_doc a) f; v = get_path (raw_doc b) f in
      x_before x desc u v \<and>
      (x_before x desc v u \<longrightarrow> (if desc then c_id b \<le> c_id a else c_id a \<le> c_id b)))"

definition clamp_limit :: "settings \<Rightarrow> int option \<Rightarrow> int" where
  "clamp_limit cfg limit =
     (let l = (case limit of None \<Rightarrow> default_page_size cfg
               | Some n \<Rightarrow> if n = 0 then default_page_size cfg else n)
      in max 1 (min l (max_page_size cfg)))"

record list_args =
  la_limit :: "int option"
  la_offset :: int
  la_sort :: "string option"
  la_cursor :: "string option"
  la_filters :: "(string \<times> string) list"
  la_include_total :: bool

definition list_items :: "repo \<Rightarrow> string \<Rightarrow> list_args \<Rightarrow> page act" where
  "list_items R type_name g =
     (let x = rp_ext R; cfg = rp_cfg R in
      seq (type_doc_for R type_name) (\<lambda>t.
      let limit = clamp_limit cfg (la_limit g); offset = max 0 (la_offset g) in
      case build_filter x (t_fields t) (la_filters g) [] of
        Inl e \<Rightarrow> raise_exn e
      | Inr fq \<Rightarrow>
      (case parse_sort (la_sort g) (t_fields t) of
        Inl e \<Rightarrow> raise_exn e
      | Inr sd \<Rightarrow>
      seq (case la_cursor g of
             None \<Rightarrow> ret (\<lambda>e. matches x fq e)
           | Some c \<Rightarrow>
               seq (decode_cursor x c) (\<lambda>vi.
               ret (\<lambda>e. matches x fq e \<and> keyset x (fst sd) (snd sd) (fst vi) (snd vi) e))) (\<lambda>query.
      seq (find_many x (ci_coll type_name) query) (\<lambda>found.
      let sorted' = sort_by (sorts_before x (fst sd) (snd sd)) found;
          raw_docs = take (nat limit)
            (if la_cursor g = None then drop (nat offset) sorted' else sorted');
          full_page = (int (length raw_docs) = limit) in
      seq (if full_page \<and> raw_docs \<noteq> []
           then seq (encode_cursor x (get_path (raw_doc (last raw_docs)) (fst sd))
                      (c_id (last raw_docs))) (\<lambda>c. ret (Some c))
           else ret None) (\<lambda>next_cursor.
      seq (if la_include_total g
           then seq (count_docs x (ci_coll type_name) (\<lambda>e. matches x fq e)) (\<lambda>n. ret (Some n))
           else ret None) (\<lambda>total.
      seq (count_op type_name ''list'') (\<lambda>_.
      ret \<lparr>pp_items = List.map (serialize x) raw_docs,
           pp_paging = \<lparr>pg_limit = limit, pg_returned = length raw_docs,
             pg_cursor = la_cursor g,
             pg_offset = (if la_cursor g = None then Some offset else None),
             pg_next_offset = (if la_cursor g = None \<and> full_page then Some (offset + limit)
                               else None),
             pg_next_cursor = next_cursor, pg_total = total\<rparr>\<rparr>))))))))"

section \<open>Update\<close>

text \<open>\<open>{"_id": oid, "_meta.revision": expected}\<close>: \<open>None\<close> matches no stored revision.\<close>

definition at_revision :: "oid \<Rightarrow> int option \<Rightarrow> ci_doc \<Rightarrow> bool" where
  "at_revision oid expected e = (c_id e = oid \<and> Some (m_revision (c_meta e)) = expected)"

definition set_fields :: "dict \<Rightarrow> time \<Rightarrow> string \<Rightarrow> int \<Rightarrow> int \<Rightarrow> ci_doc \<Rightarrow> ci_doc" where
  "set_fields data now actor version revision e = e\<lparr>c_fields := dmerge (c_fields e) data,
     c_meta := (c_meta e)\<lparr>m_updated_at := now, m_updated_by := actor,
       m_schema_version := version, m_revision := revision\<rparr>\<rparr>"

text \<open>The message's dash is no character of this model and written as a hyphen.\<close>

definition revision_mismatch :: "int option \<Rightarrow> int \<Rightarrow> exn" where
  "revision_mismatch expected current = err PreconditionFailedError
     ''Revision mismatch - resource was modified concurrently.''
     [(''expected_revision'', opt_int expected), (''current_revision'', VInt current)]"

text \<open>A partial update validates the stored fields with the payload merged in.\<close>

definition body_to_validate :: "bool \<Rightarrow> ci_doc \<Rightarrow> dict \<Rightarrow> dict" where
  "body_to_validate partial existing payload =
     (if partial then dmerge (c_fields existing) payload else payload)"

text \<open>The body of the transaction: \<open>t\<close> and \<open>m\<close> are the type document and its model.\<close>

definition update_txn ::
  "ext \<Rightarrow> string \<Rightarrow> string \<Rightarrow> dict \<Rightarrow> int option \<Rightarrow> bool \<Rightarrow> string \<Rightarrow> string option
   \<Rightarrow> type_doc \<Rightarrow> model \<Rightarrow> oid \<Rightarrow> dict act" where
  "update_txn x type_name item_id payload expected_revision partial actor rid t m oid =
     (let coll = ci_coll type_name in
      seq (find_one x coll (by_id oid)) (\<lambda>found.
      case found of
        None \<Rightarrow> raise_exn (ci_not_found type_name item_id)
      | Some existing \<Rightarrow>
          let before = serialize x existing in
          seq (validate x m (body_to_validate partial existing payload)) (\<lambda>data.
          let new_revision = m_revision (c_meta existing) + 1 in
          seq (utcnow x) (\<lambda>now.
          seq (find_one_and_update x coll (at_revision oid expected_revision)
                 (set_fields data now actor (t_version t) new_revision)) (\<lambda>updated.
          case updated of
            None \<Rightarrow>
              seq (find_one x coll (by_id oid)) (\<lambda>current.
              case current of
                None \<Rightarrow> raise_exn (ci_not_found type_name item_id)
              | Some c \<Rightarrow> raise_exn (revision_mismatch expected_revision
                           (m_revision (c_meta c))))
          | Some u \<Rightarrow>
              let after = serialize x u in
              seq (log_change x (change_args ''update'' type_name item_id actor (Some before)
                     (Some after) (Some (t_version t)) (Some new_revision) rid)
                     ''ci.updated'' after) (\<lambda>_.
              ret after)))))) "

definition update ::
  "repo \<Rightarrow> string \<Rightarrow> string \<Rightarrow> dict \<Rightarrow> int option \<Rightarrow> bool \<Rightarrow> string \<Rightarrow> string option \<Rightarrow> dict act" where
  "update R type_name item_id payload expected_revision partial actor rid =
     (let x = rp_ext R in
      seq (type_doc_for R type_name) (\<lambda>t.
      seq (compile x (rp_cfg R) type_name) (\<lambda>m.
      seq (parse_object_id x item_id) (\<lambda>oid.
      seq (transaction x (rp_txn R)
             (update_txn x type_name item_id payload expected_revision partial actor rid t m oid)) (\<lambda>after.
      seq (count_op type_name ''update'') (\<lambda>_.
      ret after))))))"

section \<open>Delete\<close>

definition has_relationships :: "string \<Rightarrow> string \<Rightarrow> nat \<Rightarrow> exn" where
  "has_relationships type_name item_id n = err_code ConflictError
     (type_name @ '' '' @ quoted item_id @ '' has '' @ nat_str n @
      '' relationship(s); delete blocked. Retry with ?detach=true to remove them.'')
     ''has_relationships'' [(''relationship_count'', VInt (int n))]"

definition guard_check ::
  "repo \<Rightarrow> string \<Rightarrow> string \<Rightarrow> string \<Rightarrow> string option \<Rightarrow> bool \<Rightarrow> unit act" where
  "guard_check R type_name item_id actor rid detach =
     (case rp_guard R of
        None \<Rightarrow> ret ()
      | Some g \<Rightarrow>
          seq (g_count_edges g type_name item_id) (\<lambda>n.
          if n > 0 then
            (if \<not> detach then raise_exn (has_relationships type_name item_id n)
             else seq (g_detach_ci g type_name item_id actor rid) (\<lambda>_. ret ()))
          else ret ()))"

definition delete_txn ::
  "repo \<Rightarrow> string \<Rightarrow> string \<Rightarrow> int option \<Rightarrow> string \<Rightarrow> string option \<Rightarrow> bool \<Rightarrow> oid \<Rightarrow> unit act" where
  "delete_txn R type_name item_id expected_revision actor rid detach oid =
     (let x = rp_ext R; coll = ci_coll type_name in
      seq (find_one x coll (by_id oid)) (\<lambda>found.
      case found of
        None \<Rightarrow> raise_exn (ci_not_found type_name item_id)
      | Some existing \<Rightarrow>
          let current = m_revision (c_meta existing) in
          if expected_revision \<noteq> None \<and> Some current \<noteq> expected_revision
          then raise_exn (revision_mismatch expected_revision current)
          else
            seq (guard_check R type_name item_id actor rid detach) (\<lambda>_.
            let before = serialize x existing in
            seq (delete_one x coll (by_id oid)) (\<lambda>_.
            log_change x (change_args ''delete'' type_name item_id actor (Some before) None
              (Some (m_schema_version (c_meta existing))) (Some current) rid)
              ''ci.deleted'' before))))"

definition delete ::
  "repo \<Rightarrow> string \<Rightarrow> string \<Rightarrow> int option \<Rightarrow> string \<Rightarrow> string option \<Rightarrow> bool \<Rightarrow> unit act" where
  "delete R type_name item_id expected_revision actor rid detach =
     (let x = rp_ext R in
      seq (type_doc_for R type_name) (\<lambda>_.
      seq (parse_object_id x item_id) (\<lambda>oid.
      seq (transaction x (rp_txn R)
             (delete_txn R type_name item_id expected_revision actor rid detach oid)) (\<lambda>_.
      count_op type_name ''delete''))))"

definition history_of :: "repo \<Rightarrow> string \<Rightarrow> string \<Rightarrow> nat \<Rightarrow> (string \<times> audit_entry) list act" where
  "history_of R type_name item_id limit =
     seq (type_doc_for R type_name) (\<lambda>_. list_for (rp_ext R) type_name item_id limit)"

section \<open>Discovery\<close>

datatype disc_action = Created | Updated | Unchanged

definition set_prov :: "string \<Rightarrow> string \<Rightarrow> string \<Rightarrow> time \<Rightarrow> ci_meta \<Rightarrow> ci_meta" where
  "set_prov source external_id run_id seen m = m\<lparr>m_source := Some source,
     m_external_id := Some external_id, m_run_id := Some run_id, m_last_seen := Some seen,
     m_status := Some ''present''\<rparr>"

definition on_meta :: "(ci_meta \<Rightarrow> ci_meta) \<Rightarrow> ci_doc \<Rightarrow> ci_doc" where
  "on_meta f e = e\<lparr>c_meta := f (c_meta e)\<rparr>"

definition owned_as :: "string \<Rightarrow> string \<Rightarrow> ci_doc \<Rightarrow> bool" where
  "owned_as source external_id e =
     (m_source (c_meta e) = Some source \<and> m_external_id (c_meta e) = Some external_id)"

definition discover_new ::
  "ext \<Rightarrow> string \<Rightarrow> type_doc \<Rightarrow> model \<Rightarrow> dict \<Rightarrow> (ci_meta \<Rightarrow> ci_meta) \<Rightarrow> string \<Rightarrow> string
   \<Rightarrow> (string \<times> disc_action) act" where
  "discover_new x type_name t m data prov run_id actor =
     seq (validate x m data) (\<lambda>validated.
     seq (utcnow x) (\<lambda>now.
     seq (draw (x_oid x)) (\<lambda>oid.
     let doc = \<lparr>c_id = oid, c_fields = validated,
                c_meta = prov (new_meta type_name (t_version t) now actor)\<rparr>;
         i = x_oid_str x oid; ser = serialize x doc in
     seq (insert_one x (ci_coll type_name) doc) (\<lambda>_.
     seq (log_change x (change_args ''create'' type_name i actor None (Some ser)
            (Some (t_version t)) (Some 1) (Some run_id)) ''ci.created'' ser) (\<lambda>_.
     seq (count_op type_name ''discovery_create'') (\<lambda>_.
     ret (i, Created)))))))"

definition discover_known ::
  "ext \<Rightarrow> string \<Rightarrow> type_doc \<Rightarrow> model \<Rightarrow> dict \<Rightarrow> (ci_meta \<Rightarrow> ci_meta) \<Rightarrow> string \<Rightarrow> string
   \<Rightarrow> ci_doc \<Rightarrow> (string \<times> disc_action) act" where
  "discover_known x type_name t m data prov run_id actor existing =
     (let coll = ci_coll type_name; i = x_oid_str x (c_id existing) in
      seq (validate x m (dmerge (c_fields existing) data)) (\<lambda>validated.
      seq (validate x m (c_fields existing)) (\<lambda>existing_norm.
      if py_eq (VDict validated) (VDict existing_norm) then
        seq (update_one x coll (by_id (c_id existing)) (on_meta prov)) (\<lambda>_.
        ret (i, Unchanged))
      else
        let before = serialize x existing; new_rev = m_revision (c_meta existing) + 1 in
        seq (utcnow x) (\<lambda>now.
        seq (find_one_and_update x coll (by_id (c_id existing))
               (\<lambda>e. on_meta prov (set_fields validated now actor (t_version t) new_rev e))) (\<lambda>updated.
        case updated of
          None \<Rightarrow> raise_exn (PyError ''AttributeError'')
        | Some u \<Rightarrow>
            let after = serialize x u in
            seq (log_change x (change_args ''update'' type_name i actor (Some before)
                   (Some after) (Some (t_version t)) (Some new_rev) (Some run_id))
                   ''ci.updated'' after) (\<lambda>_.
            seq (count_op type_name ''discovery_update'') (\<lambda>_.
            ret (i, Updated))))))))"

definition apply_discovery_txn ::
  "ext \<Rightarrow> string \<Rightarrow> dict \<Rightarrow> string \<Rightarrow> string \<Rightarrow> string \<Rightarrow> string \<Rightarrow> type_doc \<Rightarrow> model \<Rightarrow> time
   \<Rightarrow> (string \<times> disc_action) act" where
  "apply_discovery_txn x type_name data source external_id run_id actor t m seen =
     (let prov = set_prov source external_id run_id seen in
      seq (find_one x (ci_coll type_name) (owned_as source external_id)) (\<lambda>found.
      case found of
        None \<Rightarrow> discover_new x type_name t m data prov run_id actor
      | Some existing \<Rightarrow> discover_known x type_name t m data prov run_id actor existing))"

definition apply_discovery ::
  "repo \<Rightarrow> string \<Rightarrow> dict \<Rightarrow> string \<Rightarrow> string \<Rightarrow> string \<Rightarrow> string \<Rightarrow> (string \<times> disc_action) act" where
  "apply_discovery R type_name data source external_id run_id actor =
     (let x = rp_ext R in
      seq (type_doc_for R type_name) (\<lambda>t.
      seq (compile x (rp_cfg R) type_name) (\<lambda>m.
      seq (utcnow x) (\<lambda>seen.
      transaction x (rp_txn R)
        (apply_discovery_txn x type_name data source external_id run_id actor t m seen)))))"

text \<open>\<open>external_id -> ci_id\<close>; a later document wins.\<close>

definition iter_source :: "repo \<Rightarrow> string \<Rightarrow> string \<Rightarrow> (string \<times> string) list act" where
  "iter_source R type_name source =
     seq (find_many (rp_ext R) (ci_coll type_name) (\<lambda>e. m_source (c_meta e) = Some source)) (\<lambda>docs.
     ret (fold (\<lambda>e out. case m_external_id (c_meta e) of None \<Rightarrow> out
                | Some k \<Rightarrow> dset k (x_oid_str (rp_ext R) (c_id e)) out) docs []))"

definition flagged :: "string \<Rightarrow> time \<Rightarrow> string \<Rightarrow> int \<Rightarrow> ci_meta \<Rightarrow> ci_meta" where
  "flagged run_id now actor revision m = m\<lparr>m_status := Some ''missing'',
     m_missing_run := Some run_id, m_updated_at := now, m_updated_by := actor,
     m_revision := revision\<rparr>"

definition mark_missing_txn ::
  "ext \<Rightarrow> string \<Rightarrow> string \<Rightarrow> string \<Rightarrow> string \<Rightarrow> oid \<Rightarrow> unit act" where
  "mark_missing_txn x type_name item_id run_id actor oid =
     (let coll = ci_coll type_name in
      seq (find_one x coll (by_id oid)) (\<lambda>found.
      case found of
        None \<Rightarrow> ret ()
      | Some existing \<Rightarrow>
          let before = serialize x existing; new_rev = m_revision (c_meta existing) + 1 in
          seq (utcnow x) (\<lambda>now.
          seq (find_one_and_update x coll (by_id oid)
                 (on_meta (flagged run_id now actor new_rev))) (\<lambda>updated.
          case updated of
            None \<Rightarrow> raise_exn (PyError ''AttributeError'')
          | Some u \<Rightarrow>
              let after = serialize x u in
              log_change x (change_args ''update'' type_name item_id actor (Some before)
                (Some after) None (Some new_rev) (Some run_id)) ''ci.missing'' after))))"

definition mark_missing :: "repo \<Rightarrow> string \<Rightarrow> string \<Rightarrow> string \<Rightarrow> string \<Rightarrow> unit act" where
  "mark_missing R type_name item_id run_id actor =
     (let x = rp_ext R in
      seq (parse_object_id x item_id) (\<lambda>oid.
      transaction x (rp_txn R) (mark_missing_txn x type_name item_id run_id actor oid)))"

end
