(* ===== verification/Graph.thy ===== *)
theory Graph
  imports Repository
begin

text \<open>
  cmdboss/graph.py: the registry of relationship types with its cache, the edge repository with
  its integrity checks, the guard interface that the CI repository calls on delete, and the
  depth-bounded breadth-first traversal.
\<close>

section \<open>The relationship registry\<close>

definition drop_rel :: "string \<Rightarrow> worker \<Rightarrow> worker" where
  "drop_rel name k = k\<lparr>wk_rel_cache := (wk_rel_cache k)(name := None)\<rparr>"

definition rel_invalidate :: "string \<Rightarrow> unit act" where
  "rel_invalidate name = on_worker (drop_rel name)"

definition rel_active_named :: "string \<Rightarrow> rel_type_doc \<Rightarrow> bool" where
  "rel_active_named name t = (rd_name (rt_def t) = name \<and> rt_active t)"

definition rel_get_type :: "ext \<Rightarrow> settings \<Rightarrow> string \<Rightarrow> rel_type_doc option act" where
  "rel_get_type x cfg name =
     (let name = lower name;
          query = seq (find_one x rel_types_coll (rel_active_named name)) (\<lambda>doc.
                  seq (draw (x_mono x)) (\<lambda>t.
                  seq (on_worker (\<lambda>k. k\<lparr>wk_rel_cache :=
                         (wk_rel_cache k)(name \<mapsto> (t + schema_cache_ttl_seconds cfg, doc))\<rparr>)) (\<lambda>_.
                  ret doc))) in
      seq (asks (\<lambda>w. wk_rel_cache (w_worker w) name)) (\<lambda>entry.
      case entry of
        None \<Rightarrow> query
      | Some en \<Rightarrow>
          seq (draw (x_mono x)) (\<lambda>t.
          if t < fst en then ret (snd en) else query)))"

definition rel_not_found :: "string \<Rightarrow> exn" where
  "rel_not_found name = err NotFoundError (''Relationship type '' @ quoted name @ '' not found.'')
     [(''rel_type'', VStr name)]"

definition rel_get_type_strict :: "ext \<Rightarrow> string \<Rightarrow> rel_type_doc act" where
  "rel_get_type_strict x name =
     seq (find_one x rel_types_coll (rel_active_named (lower name))) (\<lambda>doc.
     case doc of None \<Rightarrow> raise_exn (rel_not_found name) | Some t \<Rightarrow> ret t)"

definition rel_list_types :: "ext \<Rightarrow> bool \<Rightarrow> rel_type_doc list act" where
  "rel_list_types x include_inactive =
     seq (find_many x rel_types_coll (\<lambda>t. include_inactive \<or> rt_active t)) (\<lambda>docs.
     ret (sort_key (\<lambda>t. rd_name (rt_def t)) docs))"

definition rel_create_type :: "ext \<Rightarrow> rel_def \<Rightarrow> string \<Rightarrow> rel_type_doc act" where
  "rel_create_type x def actor =
     seq (utcnow x) (\<lambda>now.
     seq (draw (x_oid x)) (\<lambda>oid.
     let doc = \<lparr>rt_id = oid, rt_def = def, rt_active = True, rt_created_at = now,
                rt_updated_at = now, rt_created_by = actor, rt_updated_by = actor\<rparr> in
     seq (catch_exn (insert_one x rel_types_coll doc)
            (\<lambda>ex. if ex = DuplicateKey
                  then raise_exn (err ConflictError
                    (''Relationship type '' @ quoted (rd_name def) @ '' already exists.'')
                    [(''rel_type'', VStr (rd_name def))])
                  else raise_exn ex)) (\<lambda>_.
     seq (rel_invalidate (rd_name def)) (\<lambda>_.
     ret doc))))"

text \<open>The cache is invalidated under the name as given, not in lower case.\<close>

definition rel_deactivate_type :: "ext \<Rightarrow> string \<Rightarrow> string \<Rightarrow> unit act" where
  "rel_deactivate_type x name actor =
     seq (utcnow x) (\<lambda>now.
     seq (update_one x rel_types_coll (rel_active_named (lower name))
            (\<lambda>t. t\<lparr>rt_active := False, rt_updated_at := now, rt_updated_by := actor\<rparr>)) (\<lambda>matched.
     if matched = 0 then raise_exn (rel_not_found name) else rel_invalidate name))"

fun card_str :: "cardinality \<Rightarrow> string" where
  "card_str OneToOne = ''one_to_one''"
| "card_str OneToMany = ''one_to_many''"
| "card_str ManyToOne = ''many_to_one''"
| "card_str ManyToMany = ''many_to_many''"

text \<open>The fields a definition is stored as and rebuilt from.\<close>

definition rel_def_dict :: "rel_def \<Rightarrow> dict" where
  "rel_def_dict d =
     [(''name'', VStr (rd_name d)), (''description'', opt_str (rd_description d)),
      (''from_types'', VList (List.map VStr (rd_from_types d))),
      (''to_types'', VList (List.map VStr (rd_to_types d))),
      (''cardinality'', VStr (card_str (rd_cardinality d))),
      (''dependency'', VBool (rd_dependency d)),
      (''inverse_name'', opt_str (rd_inverse_name d)),
      (''allow_self'', VBool (rd_allow_self d))]"

definition rel_def_of :: "ext \<Rightarrow> settings \<Rightarrow> string \<Rightarrow> rel_def act" where
  "rel_def_of x cfg rel_type =
     seq (rel_get_type x cfg rel_type) (\<lambda>doc.
     case doc of
       None \<Rightarrow> raise_exn (rel_not_found rel_type)
     | Some t \<Rightarrow>
         (case make_rel_def (rt_def t) of
            Inl e \<Rightarrow> raise_exn (Invalid (VDict (rel_def_dict (rt_def t))))
          | Inr d \<Rightarrow> ret d))"

section \<open>Edges\<close>

record rel_repo =
  rr_ext :: ext
  rr_cfg :: settings
  rr_txn :: bool

type_synonym node = "string \<times> oid"

abbreviation e_from :: "edge \<Rightarrow> node" where
  "e_from e \<equiv> (e_from_type e, e_from_id e)"

abbreviation e_to :: "edge \<Rightarrow> node" where
  "e_to e \<equiv> (e_to_type e, e_to_id e)"

definition edge_meta :: "edge \<Rightarrow> dict" where
  "edge_meta e =
     [(''revision'', VInt (e_revision e)), (''created_at'', VTime (e_created_at e)),
      (''updated_at'', VTime (e_updated_at e)), (''created_by'', VStr (e_created_by e)),
      (''updated_by'', VStr (e_updated_by e))]
     @ opt_entry ''source'' VStr (e_source e) @ opt_entry ''discovery_run_id'' VStr (e_run_id e)"

definition serialize_edge :: "ext \<Rightarrow> edge \<Rightarrow> dict" where
  "serialize_edge x e =
     [(''id'', VStr (x_oid_str x (e_id e))),
      (''rel_type'', VStr (e_rel_type e)),
      (''dependency'', VBool (e_dependency e)),
      (''from'', VDict [(''type'', VStr (e_from_type e)), (''id'', VStr (x_oid_str x (e_from_id e)))]),
      (''to'', VDict [(''type'', VStr (e_to_type e)), (''id'', VStr (x_oid_str x (e_to_id e)))]),
      (''attributes'', VDict (e_attributes e)),
      (''_meta'', VDict (jsonable_dict x (edge_meta e)))]"

section \<open>Traversal\<close>

datatype direction = Out | In

definition near :: "direction \<Rightarrow> edge \<Rightarrow> node" where
  "near dir e = (case dir of Out \<Rightarrow> e_from e | In \<Rightarrow> e_to e)"

definition far :: "direction \<Rightarrow> edge \<Rightarrow> node" where
  "far dir e = (case dir of Out \<Rightarrow> e_to e | In \<Rightarrow> e_from e)"

definition node_key :: "ext \<Rightarrow> node \<Rightarrow> string \<times> string" where
  "node_key x n = (fst n, x_oid_str x (snd n))"

text \<open>One edge of a level: the far node is reported and queued when its key is new.\<close>

record bfs_state =
  bs_visited :: "(string \<times> string) list"
  bs_nodes :: "(string \<times> string) list"
  bs_edges :: "dict list"
  bs_next :: "node list"

definition visit :: "ext \<Rightarrow> direction \<Rightarrow> edge \<Rightarrow> bfs_state \<Rightarrow> bfs_state" where
  "visit x dir e s =
     (let s = s\<lparr>bs_edges := bs_edges s @ [serialize_edge x e]\<rparr>;
          n = far dir e; key = node_key x n in
      if key \<in> set (bs_visited s) then s
      else s\<lparr>bs_visited := key # bs_visited s, bs_nodes := bs_nodes s @ [key],
             bs_next := bs_next s @ [n]\<rparr>)"

definition level_query :: "direction \<Rightarrow> bool \<Rightarrow> node list \<Rightarrow> edge \<Rightarrow> bool" where
  "level_query dir dependency_only frontier e =
     (near dir e \<in> set frontier \<and> (dependency_only \<longrightarrow> e_dependency e))"

fun bfs_levels :: "ext \<Rightarrow> direction \<Rightarrow> bool \<Rightarrow> nat \<Rightarrow> node list \<Rightarrow> bfs_state \<Rightarrow> bfs_state act" where
  "bfs_levels x dir dep 0 frontier s = ret (s\<lparr>bs_next := frontier\<rparr>)"
| "bfs_levels x dir dep (Suc n) frontier s =
     (if frontier = [] then ret (s\<lparr>bs_next := []\<rparr>)
      else seq (find_many x edges_coll (level_query dir dep frontier)) (\<lambda>es.
           let s' = fold (visit x dir) es (s\<lparr>bs_next := []\<rparr>) in
           bfs_levels x dir dep n (bs_next s') s'))"

text \<open>The nodes, the edges, and whether the depth bound cut the search.\<close>

definition bfs ::
  "rel_repo \<Rightarrow> node \<Rightarrow> direction \<Rightarrow> bool \<Rightarrow> ((string \<times> string) list \<times> dict list \<times> bool) act" where
  "bfs G start dir dep =
     (let x = rr_ext G in
      seq (bfs_levels x dir dep (graph_max_depth (rr_cfg G)) [start]
             \<lparr>bs_visited = [node_key x start], bs_nodes = [], bs_edges = [], bs_next = []\<rparr>) (\<lambda>s.
      ret (bs_nodes s, bs_edges s, bs_next s \<noteq> [])))"

definition node_val :: "string \<times> string \<Rightarrow> val" where
  "node_val n = VDict [(''type'', VStr (fst n)), (''id'', VStr (snd n))]"

definition dependencies :: "rel_repo \<Rightarrow> string \<Rightarrow> string \<Rightarrow> dict act" where
  "dependencies G ci_type ci_id =
     seq (parse_object_id (rr_ext G) ci_id) (\<lambda>oid.
     seq (bfs G (ci_type, oid) Out True) (\<lambda>r.
     ret [(''root'', node_val (ci_type, ci_id)),
          (''depends_on'', VList (List.map node_val (fst r))),
          (''edges'', VList (List.map VDict (fst (snd r)))),
          (''truncated'', VBool (snd (snd r))),
          (''max_depth'', VInt (int (graph_max_depth (rr_cfg G))))]))"

definition impact :: "rel_repo \<Rightarrow> string \<Rightarrow> string \<Rightarrow> dict act" where
  "impact G ci_type ci_id =
     seq (parse_object_id (rr_ext G) ci_id) (\<lambda>oid.
     seq (bfs G (ci_type, oid) In True) (\<lambda>r.
     ret [(''root'', node_val (ci_type, ci_id)),
          (''impacted'', VList (List.map node_val (fst r))),
          (''edges'', VList (List.map VDict (fst (snd r)))),
          (''truncated'', VBool (snd (snd r))),
          (''max_depth'', VInt (int (graph_max_depth (rr_cfg G))))]))"

definition neighbors ::
  "rel_repo \<Rightarrow> string \<Rightarrow> string \<Rightarrow> string \<Rightarrow> string option \<Rightarrow> dict act" where
  "neighbors G ci_type ci_id dir rel_type =
     (let x = rr_ext G in
      seq (parse_object_id x ci_id) (\<lambda>oid.
      let out = (dir = ''out'' \<or> dir = ''both''); inn = (dir = ''in'' \<or> dir = ''both'') in
      if \<not> out \<and> \<not> inn
      then raise_exn (err BadRequestError ''direction must be one of: in, out, both.'' [])
      else
        let rt = (case rel_type of None \<Rightarrow> [] | Some r \<Rightarrow> lower r) in
        seq (find_many x edges_coll (\<lambda>e.
               ((out \<and> e_from e = (ci_type, oid)) \<or> (inn \<and> e_to e = (ci_type, oid))) \<and>
               (rt \<noteq> [] \<longrightarrow> e_rel_type e = rt))) (\<lambda>es.
        ret [(''node'', node_val (ci_type, ci_id)), (''direction'', VStr dir),
             (''edges'', VList (List.map (\<lambda>e. VDict (serialize_edge x e)) es))])))"

section \<open>Creating an edge\<close>

definition card_violation :: "rel_def \<Rightarrow> string \<Rightarrow> exn" where
  "card_violation d side = err_code ConflictError
     (''Cardinality '' @ quoted (card_str (rd_cardinality d)) @ '': '' @ side @ '' already has a '' @
      quoted (rd_name d) @ '' relationship.'') ''cardinality_violation'' []"

definition check_cardinality :: "ext \<Rightarrow> rel_def \<Rightarrow> node \<Rightarrow> node \<Rightarrow> unit act" where
  "check_cardinality x d f t =
     seq (if rd_cardinality d \<in> {OneToOne, ManyToOne}
          then seq (count_docs x edges_coll (\<lambda>e. e_rel_type e = rd_name d \<and> e_from e = f)) (\<lambda>n.
               if n > 0 then raise_exn (card_violation d ''source'') else ret ())
          else ret ()) (\<lambda>_.
     if rd_cardinality d \<in> {OneToOne, OneToMany}
     then seq (count_docs x edges_coll (\<lambda>e. e_rel_type e = rd_name d \<and> e_to e = t)) (\<lambda>n.
          if n > 0 then raise_exn (card_violation d ''target'') else ret ())
     else ret ())"

definition dependency_cycle :: exn where
  "dependency_cycle = err_code ConflictError ''Relationship would create a dependency cycle.''
     ''dependency_cycle'' []"

definition check_no_cycle :: "rel_repo \<Rightarrow> node \<Rightarrow> node \<Rightarrow> unit act" where
  "check_no_cycle G f t =
     seq (bfs G t Out True) (\<lambda>r.
     if node_key (rr_ext G) f \<in> set (fst r) then raise_exn dependency_cycle else ret ())"

text \<open>\<open>if rel_def.dependency: await self._check_no_cycle(...)\<close>.\<close>

definition check_dependency :: "rel_repo \<Rightarrow> rel_def \<Rightarrow> node \<Rightarrow> node \<Rightarrow> unit act" where
  "check_dependency G d f t = (if rd_dependency d then check_no_cycle G f t else ret ())"

definition ci_exists :: "ext \<Rightarrow> node \<Rightarrow> bool act" where
  "ci_exists x n = seq (find_one x (ci_coll (fst n)) (by_id (snd n))) (\<lambda>doc. ret (doc \<noteq> None))"

definition type_not_allowed :: "string \<Rightarrow> string \<Rightarrow> string \<Rightarrow> string \<Rightarrow> string list \<Rightarrow> exn" where
  "type_not_allowed rel_type side ty key allowed = err BadRequestError
     (''Relationship '' @ quoted rel_type @ '' does not allow '' @ side @ '' type '' @ quoted ty @ ''.'')
     [(key, VList (List.map VStr allowed))]"

definition endpoint_missing :: "string \<Rightarrow> string \<Rightarrow> string \<Rightarrow> exn" where
  "endpoint_missing side ty i = err NotFoundError
     (side @ '' CI '' @ ty @ ''/'' @ i @ '' not found.'') []"

definition duplicate_edge :: exn where
  "duplicate_edge = err_code ConflictError ''An identical relationship already exists.''
     ''duplicate_edge'' []"

definition self_reference :: exn where
  "self_reference = err BadRequestError
     ''Self-referencing relationship is not allowed for this type.'' []"

record edge_args =
  ea_rel_type :: string
  ea_from_type :: string
  ea_from_id :: string
  ea_to_type :: string
  ea_to_id :: string
  ea_attributes :: "dict option"
  ea_actor :: string
  ea_request_id :: "string option"
  ea_provenance :: "(string \<times> string) option"

definition rel_entity :: "string \<Rightarrow> string" where
  "rel_entity name = ''rel:'' @ name"

text \<open>The checks that precede the write: the endpoints, or the error of the first that fails.\<close>

definition edge_checks :: "rel_repo \<Rightarrow> edge_args \<Rightarrow> rel_def \<Rightarrow> (node \<times> node) act" where
  "edge_checks G g d =
     (let x = rr_ext G; ft = lower (ea_from_type g); tt = lower (ea_to_type g) in
      if \<not> allows_from d ft
      then raise_exn (type_not_allowed (ea_rel_type g) ''source'' ft ''allowed_from'' (rd_from_types d))
      else if \<not> allows_to d tt
      then raise_exn (type_not_allowed (ea_rel_type g) ''target'' tt ''allowed_to'' (rd_to_types d))
      else
      seq (parse_object_id x (ea_from_id g)) (\<lambda>f_oid.
      seq (parse_object_id x (ea_to_id g)) (\<lambda>t_oid.
      let f = (ft, f_oid); t = (tt, t_oid) in
      if f = t \<and> \<not> rd_allow_self d then raise_exn self_reference
      else
      seq (ci_exists x f) (\<lambda>fe.
      if \<not> fe then raise_exn (endpoint_missing ''Source'' ft (ea_from_id g))
      else
      seq (ci_exists x t) (\<lambda>te.
      if \<not> te then raise_exn (endpoint_missing ''Target'' tt (ea_to_id g))
      else
      seq (check_cardinality x d f t) (\<lambda>_.
      seq (check_dependency G d f t) (\<lambda>_.
      ret (f, t))))))))"

definition new_edge :: "rel_def \<Rightarrow> node \<Rightarrow> node \<Rightarrow> edge_args \<Rightarrow> oid \<Rightarrow> time \<Rightarrow> edge" where
  "new_edge d f t g oid now = \<lparr>e_id = oid, e_rel_type = rd_name d, e_dependency = rd_dependency d,
     e_from_type = fst f, e_from_id = snd f, e_to_type = fst t, e_to_id = snd t,
     e_attributes = (case ea_attributes g of None \<Rightarrow> [] | Some a \<Rightarrow> a),
     e_revision = 1, e_created_at = now, e_updated_at = now, e_created_by = ea_actor g,
     e_updated_by = ea_actor g, e_source = map_option fst (ea_provenance g),
     e_run_id = map_option snd (ea_provenance g)\<rparr>"

definition edge_audit ::
  "string \<Rightarrow> string \<Rightarrow> string \<Rightarrow> string \<Rightarrow> dict option \<Rightarrow> dict option \<Rightarrow> string option \<Rightarrow> audit_args" where
  "edge_audit action rel i actor before after rid =
     change_args action (rel_entity rel) i actor before after None None rid"

definition create_edge_txn ::
  "ext \<Rightarrow> edge_args \<Rightarrow> rel_def \<Rightarrow> node \<Rightarrow> node \<Rightarrow> time \<Rightarrow> dict act" where
  "create_edge_txn x g d f t now =
     seq (draw (x_oid x)) (\<lambda>oid.
     let e = new_edge d f t g oid now; ser = serialize_edge x e in
     seq (insert_one x edges_coll e) (\<lambda>_.
     seq (log_change x (edge_audit ''create'' (rd_name d) (x_oid_str x oid) (ea_actor g)
            None (Some ser) (ea_request_id g)) ''relationship.created'' ser) (\<lambda>_.
     ret ser)))"

definition create_edge :: "rel_repo \<Rightarrow> edge_args \<Rightarrow> dict act" where
  "create_edge G g =
     (let x = rr_ext G in
      seq (rel_def_of x (rr_cfg G) (ea_rel_type g)) (\<lambda>d.
      seq (edge_checks G g d) (\<lambda>ft.
      seq (utcnow x) (\<lambda>now.
      seq (catch_exn
             (transaction x (rr_txn G) (create_edge_txn x g d (fst ft) (snd ft) now))
             (\<lambda>ex. if ex = DuplicateKey then raise_exn duplicate_edge else raise_exn ex)) (\<lambda>ser.
      seq (count_op (rel_entity (rd_name d)) ''create'') (\<lambda>_.
      ret ser))))))"

section \<open>Reading and deleting edges\<close>

definition edge_not_found :: "string \<Rightarrow> exn" where
  "edge_not_found i = err NotFoundError (''Relationship '' @ quoted i @ '' not found.'')
     [(''id'', VStr i)]"

definition edge_by_id :: "oid \<Rightarrow> edge \<Rightarrow> bool" where
  "edge_by_id oid e = (e_id e = oid)"

definition get_edge :: "rel_repo \<Rightarrow> string \<Rightarrow> dict act" where
  "get_edge G edge_id =
     seq (parse_object_id (rr_ext G) edge_id) (\<lambda>oid.
     seq (find_one (rr_ext G) edges_coll (edge_by_id oid)) (\<lambda>found.
     case found of None \<Rightarrow> raise_exn (edge_not_found edge_id)
     | Some e \<Rightarrow> ret (serialize_edge (rr_ext G) e)))"

record edge_filter =
  ef_rel_type :: "string option"
  ef_from_type :: "string option"
  ef_from_id :: "string option"
  ef_to_type :: "string option"
  ef_to_id :: "string option"

definition parse_given :: "ext \<Rightarrow> string option \<Rightarrow> oid option act" where
  "parse_given x v = (case given v of None \<Rightarrow> ret None
     | Some s \<Rightarrow> seq (parse_object_id x s) (\<lambda>i. ret (Some i)))"

fun agrees :: "'a option \<Rightarrow> 'a \<Rightarrow> bool" where
  "agrees None a = True"
| "agrees (Some b) a = (a = b)"

record edge_page =
  ep_items :: "dict list"
  ep_limit :: int
  ep_offset :: int
  ep_returned :: nat

definition list_edges :: "rel_repo \<Rightarrow> edge_filter \<Rightarrow> int \<Rightarrow> int \<Rightarrow> edge_page act" where
  "list_edges G q limit offset =
     (let x = rr_ext G in
      seq (parse_given x (ef_from_id q)) (\<lambda>fi.
      seq (parse_given x (ef_to_id q)) (\<lambda>ti.
      let limit = max 1 (min limit (max_page_size (rr_cfg G))) in
      seq (find_many x edges_coll (\<lambda>e.
             agrees (map_option lower (given (ef_rel_type q))) (e_rel_type e) \<and>
             agrees (map_option lower (given (ef_from_type q))) (e_from_type e) \<and>
             agrees fi (e_from_id e) \<and>
             agrees (map_option lower (given (ef_to_type q))) (e_to_type e) \<and>
             agrees ti (e_to_id e))) (\<lambda>es.
      let items = List.map (serialize_edge x)
            (take (nat limit) (drop (nat (max 0 offset)) (sort_key (\<lambda>e. - int (e_id e)) es))) in
      ret \<lparr>ep_items = items, ep_limit = limit, ep_offset = offset, ep_returned = length items\<rparr>))))"

text \<open>\<open>delete_edge\<close> ends in no counter.\<close>

definition edge_mismatch :: "int option \<Rightarrow> int \<Rightarrow> exn" where
  "edge_mismatch expected current = err PreconditionFailedError ''Revision mismatch.''
     [(''expected_revision'', opt_int expected), (''current_revision'', VInt current)]"

definition edge_deleted :: "ext \<Rightarrow> string \<Rightarrow> string option \<Rightarrow> edge \<Rightarrow> unit act" where
  "edge_deleted x actor rid e =
     (let ser = serialize_edge x e in
      log_change x (edge_audit ''delete'' (e_rel_type e) (x_oid_str x (e_id e)) actor (Some ser)
        None rid) ''relationship.deleted'' ser)"

definition delete_edge ::
  "rel_repo \<Rightarrow> string \<Rightarrow> int option \<Rightarrow> string \<Rightarrow> string option \<Rightarrow> unit act" where
  "delete_edge G edge_id expected_revision actor rid =
     (let x = rr_ext G in
      seq (parse_object_id x edge_id) (\<lambda>oid.
      transaction x (rr_txn G)
        (seq (find_one x edges_coll (edge_by_id oid)) (\<lambda>found.
         case found of
           None \<Rightarrow> raise_exn (edge_not_found edge_id)
         | Some e \<Rightarrow>
             if expected_revision \<noteq> None \<and> Some (e_revision e) \<noteq> expected_revision
             then raise_exn (edge_mismatch expected_revision (e_revision e))
             else
               seq (delete_one x edges_coll (edge_by_id oid)) (\<lambda>_.
               edge_deleted x actor rid e)))))"

section \<open>The guard of the CI repository\<close>

definition touches :: "node \<Rightarrow> edge \<Rightarrow> bool" where
  "touches n e = (e_from e = n \<or> e_to e = n)"

definition count_edges :: "rel_repo \<Rightarrow> string \<Rightarrow> string \<Rightarrow> nat act" where
  "count_edges G ci_type ci_id =
     seq (parse_object_id (rr_ext G) ci_id) (\<lambda>oid.
     count_docs (rr_ext G) edges_coll (touches (ci_type, oid)))"

definition detach_ci ::
  "rel_repo \<Rightarrow> string \<Rightarrow> string \<Rightarrow> string \<Rightarrow> string option \<Rightarrow> nat act" where
  "detach_ci G ci_type ci_id actor rid =
     (let x = rr_ext G in
      seq (parse_object_id x ci_id) (\<lambda>oid.
      seq (find_many x edges_coll (touches (ci_type, oid))) (\<lambda>es.
      if es = [] then ret 0
      else
        seq (delete_many x edges_coll (touches (ci_type, oid))) (\<lambda>_.
        seq (each (edge_deleted x actor rid) es) (\<lambda>_.
        ret (length es))))))"

definition graph_guard :: "rel_repo \<Rightarrow> rel_guard" where
  "graph_guard G = \<lparr>g_count_edges = count_edges G, g_detach_ci = detach_ci G\<rparr>"

definition iter_source_edges ::
  "rel_repo \<Rightarrow> string \<Rightarrow> ((string \<times> string \<times> string) \<times> string) list act" where
  "iter_source_edges G source =
     (let s = x_oid_str (rr_ext G) in
      seq (find_many (rr_ext G) edges_coll (\<lambda>e. e_source e = Some source)) (\<lambda>es.
      ret (fold (\<lambda>e out. dset (e_rel_type e, s (e_from_id e), s (e_to_id e)) (s (e_id e)) out) es [])))"

end
