(* ===== verification/Discovery.thy ===== *)
theory Discovery
  imports Graph
begin

text \<open>
  cmdboss/discovery: the snapshot a provider returns (base.py), the static provider, the provider
  registry, the reconciler that converges the CMDB to a snapshot, and the service that runs a
  provider and keeps a record of the run. A provider is a parameter of the service; what
  base.py asks of one is the locale \<open>reading_provider\<close>.
\<close>

section \<open>Snapshots\<close>

record discovered_ci =
  dc_type :: string
  dc_external_id :: string
  dc_data :: dict

record node_ref =
  nr_type :: string
  nr_external_id :: string

record discovered_edge =
  de_rel_type :: string
  de_from :: node_ref
  de_to :: node_ref
  de_attributes :: "dict option"

record discovery_result =
  dr_items :: "discovered_ci list"
  dr_relationships :: "discovered_edge list"

text \<open>
  \<open>model_validate\<close> of these classes on JSON input: unknown keys are forbidden, a string field
  takes a string and a \<open>dict\<close> field a dictionary. An edge end may be given under its alias or
  under its name, not both. \<open>None\<close> is a ValidationError.
\<close>

definition only_keys :: "string list \<Rightarrow> dict \<Rightarrow> bool" where
  "only_keys ks d = list_all (\<lambda>p. fst p \<in> set ks) d"

definition parse_ci :: "val \<Rightarrow> discovered_ci option" where
  "parse_ci v =
     (case v of
        VDict d \<Rightarrow>
          if only_keys [''type'', ''external_id'', ''data''] d then
            (case (map_of d ''type'', map_of d ''external_id'', map_of d ''data'') of
               (Some (VStr t), Some (VStr i), Some (VDict data)) \<Rightarrow>
                 Some \<lparr>dc_type = t, dc_external_id = i, dc_data = data\<rparr>
             | _ \<Rightarrow> None)
          else None
      | _ \<Rightarrow> None)"

definition two_strings :: "string \<Rightarrow> string \<Rightarrow> val \<Rightarrow> (string \<times> string) option" where
  "two_strings k l v =
     (case v of
        VDict d \<Rightarrow>
          if only_keys [k, l] d then
            (case (map_of d k, map_of d l) of (Some (VStr s), Some (VStr t)) \<Rightarrow> Some (s, t) | _ \<Rightarrow> None)
          else None
      | _ \<Rightarrow> None)"

definition parse_ref :: "val \<Rightarrow> node_ref option" where
  "parse_ref v = map_option (\<lambda>p. \<lparr>nr_type = fst p, nr_external_id = snd p\<rparr>)
     (two_strings ''type'' ''external_id'' v)"

definition aliased :: "dict \<Rightarrow> string \<Rightarrow> string \<Rightarrow> val option" where
  "aliased d a n =
     (case map_of d a of
        None \<Rightarrow> map_of d n
      | Some v \<Rightarrow> if map_of d n = None then Some v else None)"

definition parse_attributes :: "dict \<Rightarrow> dict option option" where
  "parse_attributes d =
     (case map_of d ''attributes'' of
        None \<Rightarrow> Some None
      | Some VNone \<Rightarrow> Some None
      | Some (VDict a) \<Rightarrow> Some (Some a)
      | _ \<Rightarrow> None)"

definition parse_edge :: "val \<Rightarrow> discovered_edge option" where
  "parse_edge v =
     (case v of
        VDict d \<Rightarrow>
          if only_keys [''rel_type'', ''from'', ''from_ref'', ''to'', ''to_ref'', ''attributes''] d then
            (case (map_of d ''rel_type'', Option.bind (aliased d ''from'' ''from_ref'') parse_ref,
                   Option.bind (aliased d ''to'' ''to_ref'') parse_ref, parse_attributes d) of
               (Some (VStr r), Some f, Some t, Some a) \<Rightarrow>
                 Some \<lparr>de_rel_type = r, de_from = f, de_to = t, de_attributes = a\<rparr>
             | _ \<Rightarrow> None)
          else None
      | _ \<Rightarrow> None)"

definition parse_list :: "(val \<Rightarrow> 'a option) \<Rightarrow> val \<Rightarrow> 'a list option" where
  "parse_list f v = (case v of VList vs \<Rightarrow> those (List.map f vs) | _ \<Rightarrow> None)"

definition parse_result :: "dict \<Rightarrow> discovery_result option" where
  "parse_result d =
     (case (parse_list parse_ci (dget d ''items''), parse_list parse_edge (dget d ''relationships'')) of
        (Some items, Some rels) \<Rightarrow> Some \<lparr>dr_items = items, dr_relationships = rels\<rparr>
      | _ \<Rightarrow> None)"

section \<open>Providers\<close>

record provider =
  pv_name :: string
  pv_discover :: "dict \<Rightarrow> discovery_result act"

definition static_input :: "dict \<Rightarrow> dict" where
  "static_input config =
     [(''items'', case map_of config ''items'' of None \<Rightarrow> VList [] | Some v \<Rightarrow> v),
      (''relationships'', case map_of config ''relationships'' of None \<Rightarrow> VList [] | Some v \<Rightarrow> v)]"

definition static_discover :: "dict \<Rightarrow> discovery_result act" where
  "static_discover config =
     (case parse_result (static_input config) of
        None \<Rightarrow> raise_exn (Invalid (VDict (static_input config)))
      | Some r \<Rightarrow> ret r)"

definition static_provider :: provider where
  "static_provider = \<lparr>pv_name = ''static'', pv_discover = static_discover\<rparr>"

type_synonym providers = "(string \<times> provider) list"

definition register :: "provider \<Rightarrow> providers \<Rightarrow> providers" where
  "register p ps = dset (pv_name p) p ps"

definition provider_names :: "providers \<Rightarrow> string list" where
  "provider_names ps = sort (dkeys ps)"

definition default_registry :: providers where
  "default_registry = register static_provider []"

section \<open>The reconciler\<close>

record ci_report =
  cr_created :: nat
  cr_updated :: nat
  cr_unchanged :: nat
  cr_deleted :: nat
  cr_marked :: nat
  cr_errors :: "dict list"

record rel_report =
  re_created :: nat
  re_unchanged :: nat
  re_deleted :: nat
  re_errors :: "dict list"

text \<open>The report with the ids assigned so far, which the loops of \<open>reconcile\<close> fill in.\<close>

record recon =
  rn_ids :: "((string \<times> string) \<times> string) list"
  rn_ci :: ci_report
  rn_rel :: rel_report

definition empty_recon :: recon where
  "empty_recon = \<lparr>rn_ids = [],
     rn_ci = \<lparr>cr_created = 0, cr_updated = 0, cr_unchanged = 0, cr_deleted = 0, cr_marked = 0,
              cr_errors = []\<rparr>,
     rn_rel = \<lparr>re_created = 0, re_unchanged = 0, re_deleted = 0, re_errors = []\<rparr>\<rparr>"

text \<open>The arguments every part of one run shares.\<close>

record run_args =
  ra_source :: string
  ra_run_id :: string
  ra_on_missing :: string
  ra_actor :: string

text \<open>\<open>try: m  except AppError as exc: h(exc)\<close>.\<close>

definition on_app_error :: "'a act \<Rightarrow> (app_error \<Rightarrow> 'a act) \<Rightarrow> 'a act" where
  "on_app_error m h = catch_exn m (\<lambda>ex. case ex of App e \<Rightarrow> h e | _ \<Rightarrow> raise_exn ex)"

definition error_entry :: "dict \<Rightarrow> app_error \<Rightarrow> dict" where
  "error_entry place e = place @ [(''code'', VStr (ae_code e)), (''message'', VStr (ae_message e))]"

definition add_ci_error :: "dict \<Rightarrow> recon \<Rightarrow> recon" where
  "add_ci_error e s = s\<lparr>rn_ci := (rn_ci s)\<lparr>cr_errors := cr_errors (rn_ci s) @ [e]\<rparr>\<rparr>"

definition add_rel_error :: "dict \<Rightarrow> recon \<Rightarrow> recon" where
  "add_rel_error e s = s\<lparr>rn_rel := (rn_rel s)\<lparr>re_errors := re_errors (rn_rel s) @ [e]\<rparr>\<rparr>"

fun count_action :: "disc_action \<Rightarrow> ci_report \<Rightarrow> ci_report" where
  "count_action Created r = r\<lparr>cr_created := cr_created r + 1\<rparr>"
| "count_action Updated r = r\<lparr>cr_updated := cr_updated r + 1\<rparr>"
| "count_action Unchanged r = r\<lparr>cr_unchanged := cr_unchanged r + 1\<rparr>"

text \<open>\<open>desired_by_type\<close>: by type, then by external id; a later item takes the place of an earlier one.\<close>

definition desired_by_type ::
  "discovered_ci list \<Rightarrow> (string \<times> (string \<times> discovered_ci) list) list" where
  "desired_by_type items =
     fold (\<lambda>i out. dset (dc_type i)
             (dset (dc_external_id i) i
                (case map_of out (dc_type i) of None \<Rightarrow> [] | Some d \<Rightarrow> d)) out) items []"

definition apply_item ::
  "repo \<Rightarrow> run_args \<Rightarrow> string \<Rightarrow> recon \<Rightarrow> string \<times> discovered_ci \<Rightarrow> recon act" where
  "apply_item R a type_name s p =
     on_app_error
       (seq (apply_discovery R type_name (dc_data (snd p)) (ra_source a) (fst p) (ra_run_id a) (ra_actor a)) (\<lambda>r.
        ret (s\<lparr>rn_ids := dset (type_name, fst p) (fst r) (rn_ids s),
               rn_ci := count_action (snd r) (rn_ci s)\<rparr>)))
       (\<lambda>e. ret (add_ci_error (error_entry
              [(''type'', VStr type_name), (''external_id'', VStr (fst p))] e) s))"

definition retire_item ::
  "repo \<Rightarrow> run_args \<Rightarrow> string \<Rightarrow> recon \<Rightarrow> string \<times> string \<Rightarrow> recon act" where
  "retire_item R a type_name s p =
     on_app_error
       (if ra_on_missing a = ''delete''
        then seq (delete R type_name (snd p) None (ra_actor a) (Some (ra_run_id a)) True) (\<lambda>_.
             ret (s\<lparr>rn_ci := (rn_ci s)\<lparr>cr_deleted := cr_deleted (rn_ci s) + 1\<rparr>\<rparr>))
        else seq (mark_missing R type_name (snd p) (ra_run_id a) (ra_actor a)) (\<lambda>_.
             ret (s\<lparr>rn_ci := (rn_ci s)\<lparr>cr_marked := cr_marked (rn_ci s) + 1\<rparr>\<rparr>)))
       (\<lambda>e. ret (add_ci_error (error_entry
              [(''type'', VStr type_name), (''id'', VStr (snd p))] e) s))"

definition reconcile_type ::
  "repo \<Rightarrow> run_args \<Rightarrow> recon \<Rightarrow> string \<times> (string \<times> discovered_ci) list \<Rightarrow> recon act" where
  "reconcile_type R a s g =
     seq (iter_source R (fst g) (ra_source a)) (\<lambda>existing.
     seq (fold_act (apply_item R a (fst g)) s (snd g)) (\<lambda>s.
     fold_act (retire_item R a (fst g)) s
       (filter (\<lambda>p. fst p \<notin> set (dkeys (snd g))) existing)))"

definition edge_request :: "run_args \<Rightarrow> discovered_edge \<Rightarrow> string \<Rightarrow> string \<Rightarrow> edge_args" where
  "edge_request a e f t = \<lparr>ea_rel_type = de_rel_type e, ea_from_type = nr_type (de_from e),
     ea_from_id = f, ea_to_type = nr_type (de_to e), ea_to_id = t,
     ea_attributes = de_attributes e, ea_actor = ra_actor a, ea_request_id = Some (ra_run_id a),
     ea_provenance = Some (ra_source a, ra_run_id a)\<rparr>"

definition end_id :: "recon \<Rightarrow> node_ref \<Rightarrow> string option" where
  "end_id s r = given (map_of (rn_ids s) (nr_type r, nr_external_id r))"

definition unresolved_endpoint :: "discovered_edge \<Rightarrow> dict" where
  "unresolved_endpoint e = [(''rel_type'', VStr (de_rel_type e)),
     (''code'', VStr ''unresolved_endpoint''),
     (''message'', VStr ''edge endpoint not present in this discovery result'')]"

type_synonym edge_keys = "(string \<times> string \<times> string) list"

text \<open>One edge of the snapshot; the keys of the resolved ones are collected on the way.\<close>

definition apply_edge ::
  "rel_repo \<Rightarrow> run_args \<Rightarrow> edge_keys \<times> recon \<Rightarrow> discovered_edge \<Rightarrow> (edge_keys \<times> recon) act" where
  "apply_edge G a ks e =
     (let keys = fst ks; s = snd ks in
      case (end_id s (de_from e), end_id s (de_to e)) of
        (Some f, Some t) \<Rightarrow>
          (let keys = (de_rel_type e, f, t) # keys in
           on_app_error
             (seq (create_edge G (edge_request a e f t)) (\<lambda>_.
              ret (keys, s\<lparr>rn_rel := (rn_rel s)\<lparr>re_created := re_created (rn_rel s) + 1\<rparr>\<rparr>)))
             (\<lambda>ex. ret (keys,
                if is_conflict (ae_class ex) \<and> ae_code ex = ''duplicate_edge''
                then s\<lparr>rn_rel := (rn_rel s)\<lparr>re_unchanged := re_unchanged (rn_rel s) + 1\<rparr>\<rparr>
                else add_rel_error (error_entry [(''rel_type'', VStr (de_rel_type e))] ex) s)))
      | _ \<Rightarrow> ret (keys, add_rel_error (unresolved_endpoint e) s))"

definition retire_edge ::
  "rel_repo \<Rightarrow> run_args \<Rightarrow> recon \<Rightarrow> (string \<times> string \<times> string) \<times> string \<Rightarrow> recon act" where
  "retire_edge G a s p =
     on_app_error
       (seq (delete_edge G (snd p) None (ra_actor a) (Some (ra_run_id a))) (\<lambda>_.
        ret (s\<lparr>rn_rel := (rn_rel s)\<lparr>re_deleted := re_deleted (rn_rel s) + 1\<rparr>\<rparr>)))
       (\<lambda>e. ret (add_rel_error (error_entry [(''id'', VStr (snd p))] e) s))"

definition reconcile_edges ::
  "rel_repo \<Rightarrow> run_args \<Rightarrow> discovered_edge list \<Rightarrow> recon \<Rightarrow> recon act" where
  "reconcile_edges G a es s =
     seq (fold_act (apply_edge G a) ([], s) es) (\<lambda>ks.
     seq (iter_source_edges G (ra_source a)) (\<lambda>existing.
     fold_act (retire_edge G a) (snd ks) (filter (\<lambda>p. fst p \<notin> set (fst ks)) existing)))"

definition reconcile :: "repo \<Rightarrow> rel_repo \<Rightarrow> discovery_result \<Rightarrow> run_args \<Rightarrow> recon act" where
  "reconcile R G res a =
     seq (fold_act (reconcile_type R a) empty_recon (desired_by_type (dr_items res))) (\<lambda>s.
     reconcile_edges G a (dr_relationships res) s)"

definition report_dict :: "recon \<Rightarrow> dict" where
  "report_dict s =
     (let c = rn_ci s; r = rn_rel s; n = (\<lambda>k. VInt (int k)) in
      [(''ci'', VDict [(''created'', n (cr_created c)), (''updated'', n (cr_updated c)),
          (''unchanged'', n (cr_unchanged c)), (''deleted'', n (cr_deleted c)),
          (''marked_missing'', n (cr_marked c)), (''errors'', VList (List.map VDict (cr_errors c)))]),
       (''relationships'', VDict [(''created'', n (re_created r)), (''unchanged'', n (re_unchanged r)),
          (''deleted'', n (re_deleted r)), (''errors'', VList (List.map VDict (re_errors r)))])])"

section \<open>Runs\<close>

record discovery =
  dv_cfg :: settings
  dv_repo :: repo
  dv_graph :: rel_repo
  dv_providers :: providers

definition provider_missing :: "providers \<Rightarrow> string \<Rightarrow> exn" where
  "provider_missing ps name = err NotFoundError
     (''Discovery provider '' @ quoted name @ '' is not registered.'')
     [(''available'', VList (List.map VStr (provider_names ps)))]"

definition run_metric :: "string \<Rightarrow> string \<Rightarrow> unit act" where
  "run_metric provider_name outcome = metrics_incr ''ci_operations_total''
     [(''type'', ''discovery:'' @ provider_name), (''operation'', outcome)]"

definition new_run :: "string \<Rightarrow> string \<Rightarrow> string \<Rightarrow> string \<Rightarrow> time \<Rightarrow> string \<Rightarrow> run_doc" where
  "new_run i provider_name source on_missing now actor = \<lparr>r_id = i, r_provider = provider_name,
     r_source = source, r_on_missing = on_missing, r_status = ''running'', r_started_at = now,
     r_finished_at = None, r_actor = actor, r_error = None, r_report = None\<rparr>"

definition run_failed :: "ext \<Rightarrow> exn \<Rightarrow> time \<Rightarrow> run_doc \<Rightarrow> run_doc" where
  "run_failed x ex now r = r\<lparr>r_status := ''failed'', r_finished_at := Some now,
     r_error := Some (take 500 (x_str x ex))\<rparr>"

definition run_completed :: "dict \<Rightarrow> time \<Rightarrow> run_doc \<Rightarrow> run_doc" where
  "run_completed report now r = r\<lparr>r_status := ''completed'', r_finished_at := Some now,
     r_report := Some report\<rparr>"

definition is_run :: "string \<Rightarrow> run_doc \<Rightarrow> bool" where
  "is_run i r = (r_id r = i)"

text \<open>The handler of the run: the record says failed, and the exception goes on.\<close>

definition fail_run :: "ext \<Rightarrow> string \<Rightarrow> string \<Rightarrow> exn \<Rightarrow> 'a act" where
  "fail_run x i provider_name ex =
     seq (utcnow x) (\<lambda>now.
     seq (update_one x runs_coll (is_run i) (run_failed x ex now)) (\<lambda>_.
     seq (run_metric provider_name ''failed'') (\<lambda>_.
     raise_exn ex)))"

definition run_result :: "string \<Rightarrow> string \<Rightarrow> string \<Rightarrow> dict \<Rightarrow> dict" where
  "run_result i provider_name source report =
     [(''run_id'', VStr i), (''provider'', VStr provider_name), (''source'', VStr source),
      (''status'', VStr ''completed''), (''report'', VDict report)]"

definition discovery_run ::
  "discovery \<Rightarrow> string \<Rightarrow> dict option \<Rightarrow> string option \<Rightarrow> string option \<Rightarrow> string \<Rightarrow> dict act" where
  "discovery_run D provider_name config source on_missing actor =
     (let x = rp_ext (dv_repo D) in
      case map_of (dv_providers D) provider_name of
        None \<Rightarrow> raise_exn (provider_missing (dv_providers D) provider_name)
      | Some p \<Rightarrow>
          (let source = (case given source of None \<Rightarrow> provider_name | Some s \<Rightarrow> s);
               on_missing = (case given on_missing of
                   None \<Rightarrow> discovery_default_on_missing (dv_cfg D) | Some m \<Rightarrow> m) in
           seq (draw (x_uuid x)) (\<lambda>i.
           seq (utcnow x) (\<lambda>now.
           seq (insert_one x runs_coll (new_run i provider_name source on_missing now actor)) (\<lambda>_.
           seq (catch_exn
                  (seq (pv_discover p (case config of None \<Rightarrow> [] | Some c \<Rightarrow> c)) (\<lambda>result.
                   seq (reconcile (dv_repo D) (dv_graph D) result
                          \<lparr>ra_source = source, ra_run_id = i, ra_on_missing = on_missing, ra_actor = actor\<rparr>) (\<lambda>s.
                   ret (report_dict s))))
                  (fail_run x i provider_name)) (\<lambda>report.
           seq (utcnow x) (\<lambda>finish.
           seq (update_one x runs_coll (is_run i) (run_completed report finish)) (\<lambda>_.
           seq (run_metric provider_name ''completed'') (\<lambda>_.
           ret (run_result i provider_name source report))))))))))"

definition serialize_run :: "ext \<Rightarrow> run_doc \<Rightarrow> dict" where
  "serialize_run x r =
     [(''provider'', VStr (r_provider r)), (''source'', VStr (r_source r)),
      (''on_missing'', VStr (r_on_missing r)), (''status'', VStr (r_status r)),
      (''started_at'', VStr (x_iso x (r_started_at r))), (''actor'', VStr (r_actor r))]
     @ opt_entry ''finished_at'' (\<lambda>t. VStr (x_iso x t)) (r_finished_at r)
     @ opt_entry ''error'' VStr (r_error r) @ opt_entry ''report'' VDict (r_report r)
     @ [(''run_id'', VStr (r_id r))]"

definition get_run :: "ext \<Rightarrow> string \<Rightarrow> dict act" where
  "get_run x run_id =
     seq (find_one x runs_coll (is_run run_id)) (\<lambda>found.
     case found of
       None \<Rightarrow> raise_exn (err NotFoundError (''Discovery run '' @ quoted run_id @ '' not found.'')
                 [(''run_id'', VStr run_id)])
     | Some r \<Rightarrow> ret (serialize_run x r))"

definition list_runs :: "ext \<Rightarrow> string option \<Rightarrow> int \<Rightarrow> dict list act" where
  "list_runs x source limit =
     seq (find_many x runs_coll (\<lambda>r. agrees (given source) (r_source r))) (\<lambda>rs.
     ret (List.map (serialize_run x)
       (take (nat (max 1 (min limit 200))) (sort_key (\<lambda>r. - r_started_at r) rs))))"

end
