(* ===== verification/Webhooks.thy ===== *)
theory Webhooks
  imports Outbox
begin

text \<open>
  cmdboss/webhooks.py and the consumer of cmdboss/events.py: the registry of endpoints, one turn
  of the bus's consumer loop, and the delivery of an event to the endpoints with its bounded
  retries. The HTTP client and HMAC are parameters; \<open>wk_http\<close> records the requests sent and
  \<open>wk_slept\<close> the pauses between them.
\<close>

section \<open>The registry of endpoints\<close>

definition webhook_body :: "webhook \<Rightarrow> val \<Rightarrow> dict" where
  "webhook_body h created = [(''url'', VStr (h_url h)),
     (''event_types'', VList (List.map VStr (h_event_types h))), (''active'', VBool (h_active h)),
     (''created_at'', created)]"

definition register_webhook ::
  "ext \<Rightarrow> string \<Rightarrow> string list option \<Rightarrow> string option \<Rightarrow> dict act" where
  "register_webhook x url event_types secret =
     seq (utcnow x) (\<lambda>now.
     seq (draw (x_oid x)) (\<lambda>oid.
     let h = \<lparr>h_id = oid, h_url = url,
              h_event_types = (case event_types of None \<Rightarrow> [] | Some ts \<Rightarrow> ts),
              h_secret = secret, h_active = True, h_created_at = now\<rparr> in
     seq (insert_one x webhooks_coll h) (\<lambda>_.
     ret (webhook_body h (VTime now) @ [(''id'', VStr (x_oid_str x oid)),
            (''has_secret'', VBool (given secret \<noteq> None))]))))"

definition list_webhooks :: "ext \<Rightarrow> dict list act" where
  "list_webhooks x =
     seq (find_many x webhooks_coll (\<lambda>_. True)) (\<lambda>hs.
     ret (List.map (\<lambda>h. webhook_body h (VStr (x_iso x (h_created_at h)))
            @ [(''id'', VStr (x_oid_str x (h_id h)))]) hs))"

definition wants :: "string \<Rightarrow> webhook \<Rightarrow> bool" where
  "wants event_type h = (h_event_types h = [] \<or> event_type \<in> set (h_event_types h))"

definition active_for :: "ext \<Rightarrow> string \<Rightarrow> webhook list act" where
  "active_for x event_type =
     seq (find_many x webhooks_coll h_active) (\<lambda>hs. ret (filter (wants event_type) hs))"

section \<open>Delivery\<close>

definition http_send :: "ext \<Rightarrow> string \<Rightarrow> dict \<Rightarrow> string \<Rightarrow> int option act" where
  "http_send x url headers body =
     seq (on_worker (\<lambda>k. k\<lparr>wk_http := wk_http k @ [(url, headers, body)]\<rparr>)) (\<lambda>_.
     draw (\<lambda>n. x_send x n url headers body))"

definition sleep :: "time \<Rightarrow> unit act" where
  "sleep t = on_worker (\<lambda>k. k\<lparr>wk_slept := wk_slept k @ [t]\<rparr>)"

definition retry_pause :: "nat \<Rightarrow> time" where
  "retry_pause attempt = min (0.1 * 2 ^ attempt) 2"

definition accepted :: "int option \<Rightarrow> bool" where
  "accepted st = (case st of None \<Rightarrow> False | Some s \<Rightarrow> 200 \<le> s \<and> s < 300)"

definition webhook_headers :: "ext \<Rightarrow> webhook \<Rightarrow> string \<Rightarrow> string \<Rightarrow> dict" where
  "webhook_headers x h body event_type =
     [(''Content-Type'', VStr ''application/json''), (''X-CMDBoss-Event'', VStr event_type)]
     @ (case given (h_secret h) of None \<Rightarrow> []
        | Some secret \<Rightarrow> [(''X-CMDBoss-Signature'', VStr (''sha256='' @ x_hmac x secret body))])"

text \<open>
  The loop over \<open>range(max_attempts)\<close>, from attempt \<open>i\<close> with \<open>n\<close> attempts left. A send
  that raises and a status outside 2xx go the same way.
\<close>

fun attempts :: "ext \<Rightarrow> nat \<Rightarrow> string \<Rightarrow> dict \<Rightarrow> string \<Rightarrow> nat \<Rightarrow> nat \<Rightarrow> unit act" where
  "attempts x max_attempts url headers body i 0 = ret ()"
| "attempts x max_attempts url headers body i (Suc n) =
     seq (http_send x url headers body) (\<lambda>st.
     if accepted st
     then metrics_incr ''events_published_total'' [(''event_type'', ''webhook.delivered'')]
     else if i + 1 \<ge> max_attempts then metrics_incr ''events_dropped_total'' []
     else seq (sleep (retry_pause i)) (\<lambda>_. attempts x max_attempts url headers body (i + 1) n))"

definition deliver :: "ext \<Rightarrow> settings \<Rightarrow> webhook \<Rightarrow> string \<Rightarrow> string \<Rightarrow> unit act" where
  "deliver x cfg h body event_type =
     attempts x (webhook_max_attempts cfg) (h_url h) (webhook_headers x h body event_type) body
       0 (webhook_max_attempts cfg)"

definition event_json :: "event \<Rightarrow> val" where
  "event_json ev = VDict
     [(''id'', VStr (ev_id ev)), (''type'', VStr (ev_type ev)),
      (''entity_type'', VStr (ev_entity_type ev)), (''entity_id'', opt_str (ev_entity_id ev)),
      (''actor'', VStr (ev_actor ev)), (''ts'', VStr (ev_ts ev)), (''payload'', VDict (ev_payload ev))]"

definition handle_event :: "ext \<Rightarrow> settings \<Rightarrow> event \<Rightarrow> unit act" where
  "handle_event x cfg ev =
     seq (active_for x (ev_type ev)) (\<lambda>hooks.
     if hooks = [] then ret ()
     else case x_dumps x (event_json ev) of
         None \<Rightarrow> raise_exn (PyError ''TypeError'')
       | Some body \<Rightarrow> each (\<lambda>h. deliver x cfg h body (ev_type ev)) hooks)"

section \<open>The consumer of the bus\<close>

text \<open>
  One turn of \<open>InMemoryEventBus._run\<close>: the oldest event goes to every subscriber; a
  subscriber that raises is logged. Only the webhook subscriber has effects.
\<close>

definition consume_one :: "(event \<Rightarrow> unit act) list \<Rightarrow> bool act" where
  "consume_one handlers =
     seq (asks (\<lambda>w. wk_bus (w_worker w))) (\<lambda>q.
     case q of
       [] \<Rightarrow> ret False
     | ev # rest \<Rightarrow>
         seq (on_worker (\<lambda>k. k\<lparr>wk_bus := rest\<rparr>)) (\<lambda>_.
         seq (each (\<lambda>h. catch_exn (h ev) (\<lambda>_. ret ())) handlers) (\<lambda>_.
         ret True)))"

definition log_event :: "event \<Rightarrow> unit act" where
  "log_event ev = ret ()"

definition subscribers :: "ext \<Rightarrow> settings \<Rightarrow> (event \<Rightarrow> unit act) list" where
  "subscribers x cfg = log_event # (if webhooks_enabled cfg then [handle_event x cfg] else [])"

section \<open>What is sent\<close>

lemma metrics_incr_worker [simp]:
  "wk_http (w_worker (snd (metrics_incr n l w))) = wk_http (w_worker w)"
  "wk_slept (w_worker (snd (metrics_incr n l w))) = wk_slept (w_worker w)"
  by (simp_all add: metrics_incr_def on_worker_def)

lemma wp_http_send [run_simps]:
  "wp (http_send x url headers body) Q E w =
     Q (x_send x (w_n w) url headers body)
       (bump (w\<lparr>w_worker := (w_worker w)\<lparr>wk_http := wk_http (w_worker w) @ [(url, headers, body)]\<rparr>\<rparr>))"
  by (simp add: http_send_def run_simps)

lemma wp_sleep [run_simps]:
  "wp (sleep t) Q E w = Q () (w\<lparr>w_worker := (w_worker w)\<lparr>wk_slept := wk_slept (w_worker w) @ [t]\<rparr>\<rparr>)"
  by (simp add: sleep_def run_simps)

text \<open>The attempts that the answers call for: up to the first accepted one, never more than the bound.\<close>

fun needed :: "(nat \<Rightarrow> int option) \<Rightarrow> nat \<Rightarrow> nat" where
  "needed answer 0 = 0"
| "needed answer (Suc n) = (if accepted (answer 0) then 1 else Suc (needed (\<lambda>i. answer (Suc i)) n))"

definition sent :: "world \<Rightarrow> (string \<times> dict \<times> string) list \<Rightarrow> time list \<Rightarrow> world \<Rightarrow> bool" where
  "sent w reqs pauses w' =
     (wk_http (w_worker w') = wk_http (w_worker w) @ reqs \<and>
      wk_slept (w_worker w') = wk_slept (w_worker w) @ pauses \<and> w_db w' = w_db w)"

lemma sent_refl [simp]: "sent w [] [] w"
  by (simp add: sent_def)

lemma sent_trans: "sent a r p b \<Longrightarrow> sent b r' p' c \<Longrightarrow> sent a (r @ r') (p @ p') c"
  by (simp add: sent_def)

lemma needed_bound: "needed answer n \<le> n"
  by (induction answer n rule: needed.induct) auto

lemma needed_positive: "0 < n \<Longrightarrow> 0 < needed answer n"
  by (cases n) auto

lemma attempts_effect:
  assumes "i + n = m"
  shows "wp (attempts x m url headers body i n)
     (\<lambda>_ w'. let k = needed (\<lambda>j. x_send x (w_n w + j) url headers body) n in
        sent w (replicate k (url, headers, body)) (List.map retry_pause [i..<i + k - 1]) w' \<and>
        w_n w' = w_n w + k)
     (\<lambda>_ _. False) w"
  using assms
proof (induction n arbitrary: i w)
  case (Suc n)
  let ?w = "bump (w\<lparr>w_worker := (w_worker w)\<lparr>wk_http := wk_http (w_worker w) @ [(url, headers, body)]\<rparr>\<rparr>)"
  let ?w' = "?w\<lparr>w_worker := (w_worker ?w)\<lparr>wk_slept := wk_slept (w_worker ?w) @ [retry_pause i]\<rparr>\<rparr>"
  let ?k = "needed (\<lambda>j. x_send x (Suc (w_n w + j)) url headers body) n"
  show ?case
  proof (cases "n = 0")
    case True
    with Suc.prems show ?thesis by (simp add: run_simps sent_def)
  next
    case False
    then have m: "\<not> m \<le> Suc i" using Suc.prems by simp
    have "wp (attempts x m url headers body (Suc i) n)
       (\<lambda>_ w'. sent w (replicate (Suc ?k) (url, headers, body)) (List.map retry_pause [i..<i + ?k]) w' \<and>
          w_n w' = Suc (w_n w + ?k)) (\<lambda>_ _. False) ?w'"
      by (rule wp_mono [OF Suc.IH])
        (use Suc.prems needed_positive [of n] False in \<open>auto simp: sent_def Let_def upt_conv_Cons\<close>)
    with m show ?thesis
      by (simp add: run_simps Let_def) (simp add: sent_def)
  qed
qed (simp add: run_simps)

definition request_for :: "ext \<Rightarrow> event \<Rightarrow> string \<Rightarrow> webhook \<Rightarrow> string \<times> dict \<times> string" where
  "request_for x ev body h = (h_url h, webhook_headers x h body (ev_type ev), body)"

text \<open>The requests of one event: for each endpoint in turn, one request so many times.\<close>

definition fan_out :: "ext \<Rightarrow> event \<Rightarrow> string \<Rightarrow> webhook list \<Rightarrow> nat list \<Rightarrow> (string \<times> dict \<times> string) list" where
  "fan_out x ev body hs ks = concat (List.map2 (\<lambda>h k. replicate k (request_for x ev body h)) hs ks)"

definition attempts_within :: "settings \<Rightarrow> nat \<Rightarrow> bool" where
  "attempts_within cfg k = (k \<le> webhook_max_attempts cfg \<and> (k = 0) = (webhook_max_attempts cfg = 0))"

definition brief :: "time \<Rightarrow> bool" where
  "brief p = (0 < p \<and> p \<le> 2)"

lemma retry_pause_brief [simp]: "brief (retry_pause i)"
  by (simp add: brief_def retry_pause_def)

lemma deliver_effect:
  "wp (deliver x cfg h body ty)
     (\<lambda>_ w'. \<exists>k ps. attempts_within cfg k \<and> list_all brief ps \<and>
        sent w (replicate k (h_url h, webhook_headers x h body ty, body)) ps w') (\<lambda>_ _. False) w"
  unfolding deliver_def
proof (rule wp_mono [OF attempts_effect [OF add_0]], goal_cases)
  case (1 u w')
  have "attempts_within cfg (needed f (webhook_max_attempts cfg))" for f
    using needed_bound [of f "webhook_max_attempts cfg"] needed_positive [of "webhook_max_attempts cfg" f]
    unfolding attempts_within_def by linarith
  with 1 show ?case unfolding Let_def by (intro exI conjI) (auto simp: list_all_iff)
qed simp

lemma each_deliver_effect:
  "wp (each (\<lambda>h. deliver x cfg h body (ev_type ev)) hs)
     (\<lambda>_ w'. \<exists>ks ps. length ks = length hs \<and> list_all (attempts_within cfg) ks \<and> list_all brief ps \<and>
        sent w (fan_out x ev body hs ks) ps w') (\<lambda>_ _. False) w"
proof (induction hs arbitrary: w)
  case (Cons h hs)
  show ?case
    unfolding each.simps wp_seq
  proof (rule wp_mono [OF deliver_effect], elim exE conjE)
    fix w' k ps
    assume one: "attempts_within cfg k" "list_all brief ps"
      "sent w (replicate k (h_url h, webhook_headers x h body (ev_type ev), body)) ps w'"
    have "\<exists>ks' ps'. length ks' = Suc (length hs) \<and> list_all (attempts_within cfg) ks' \<and> list_all brief ps' \<and>
        sent w (fan_out x ev body (h # hs) ks') ps' w''"
      if "length ks = length hs" "list_all (attempts_within cfg) ks" "list_all brief qs"
        "sent w' (fan_out x ev body hs ks) qs w''" for ks qs w''
      using that one sent_trans [OF one(3) that(4)]
      by (intro exI [of _ "k # ks"] exI [of _ "ps @ qs"]) (simp add: fan_out_def request_for_def)
    then show "wp (each (\<lambda>h. deliver x cfg h body (ev_type ev)) hs)
       (\<lambda>_ w''. \<exists>ks' ps'. length ks' = length (h # hs) \<and> list_all (attempts_within cfg) ks' \<and>
          list_all brief ps' \<and> sent w (fan_out x ev body (h # hs) ks') ps' w'') (\<lambda>_ _. False) w'"
      by (intro wp_mono [OF Cons.IH]) auto
  qed simp
qed (auto simp: run_simps fan_out_def intro!: exI [of _ "[]"])

section \<open>Properties\<close>

text \<open>
  C21. Fan-out of an event: the requests sent are exactly those of the active endpoints that
  subscribe to its type, in order, each signed with the endpoint's own secret and sent at least
  once and at most \<open>webhook_max_attempts\<close> times, with pauses of at most two seconds; nothing else
  is sent, the database is only read, and when the handler raises nothing was sent at all.
\<close>

theorem event_fan_out:
  "wp (handle_event x cfg ev)
     (\<lambda>_ w'. \<exists>body ks ps. let hs = filter (\<lambda>h. h_active h \<and> wants (ev_type ev) h) (d_webhooks (w_db w)) in
        (hs = [] \<or> x_dumps x (event_json ev) = Some body) \<and> length ks = length hs \<and>
        list_all (attempts_within cfg) ks \<and> list_all brief ps \<and> sent w (fan_out x ev body hs ks) ps w')
     (\<lambda>_ w'. sent w [] [] w') w"
proof -
  have bumped: "sent w r p w'" if "sent (bump w) r p w'" for w r p w'
    using that by (simp add: sent_def)
  have docs: "co_docs webhooks_coll d = d_webhooks d" for d by (simp add: webhooks_coll_def)
  define hs where "hs = filter (\<lambda>h. h_active h \<and> wants (ev_type ev) h) (d_webhooks (w_db w))"
  have each: "wp (each (\<lambda>h. deliver x cfg h body (ev_type ev)) hs)
     (\<lambda>_ w'. \<exists>ks ps. length ks = length hs \<and> list_all (attempts_within cfg) ks \<and> list_all brief ps \<and>
        sent w (fan_out x ev body hs ks) ps w') (\<lambda>_ w'. sent w [] [] w') (bump w)" for body
    by (rule wp_mono [OF each_deliver_effect]) (auto dest!: bumped)
  have nil: "sent w [] [] (bump w)" by (simp add: sent_def)
  have "wp (active_for x (ev_type ev)) (\<lambda>r w'. r = hs \<and> w' = bump w) (\<lambda>_ w'. sent w [] [] w') w"
    by (simp add: active_for_def run_simps docs hs_def nil conj_commute)
  then show ?thesis
    unfolding handle_event_def hs_def [symmetric] wp_seq Let_def
  proof (rule wp_mono, goal_cases)
    case (1 r w')
    show ?case
    proof (cases "hs = []")
      case True
      with 1 nil show ?thesis by (auto simp: run_simps fan_out_def intro!: exI [of _ "[]"])
    next
      case False
      with 1 each nil show ?thesis
        by (cases "x_dumps x (event_json ev)") (auto simp: run_simps elim!: wp_mono)
    qed
  qed
qed

text \<open>
  C22. Delivery to one endpoint stops at the first answer in 2xx: with the answers the endpoint
  gives, the number of requests is the number of attempts up to the first accepted one, or the
  bound when none is; a pause of \<open>min(0.1 * 2^i, 2)\<close> seconds lies between attempts \<open>i\<close> and
  \<open>i + 1\<close>, none follows the last, and no failure of the endpoint is raised to the caller.
\<close>

theorem delivery_exact:
  "wp (deliver x cfg h body ty)
     (\<lambda>_ w'. let req = (h_url h, webhook_headers x h body ty, body);
                k = needed (\<lambda>j. x_send x (w_n w + j) (h_url h) (webhook_headers x h body ty) body)
                      (webhook_max_attempts cfg) in
        sent w (replicate k req) (List.map retry_pause [0..<k - 1]) w')
     (\<lambda>_ _. False) w"
  unfolding deliver_def by (rule wp_mono [OF attempts_effect [OF add_0]]) (auto simp: Let_def)

end
