(* ===== verification/Bodies.thy ===== *)
theory Bodies
  imports Security Discovery Webhooks
begin

text \<open>
  The JSON bodies of requests and responses: what \<open>_serialize_type\<close>, \<open>_serialize_rel_type\<close> and
  the routers put into a response, and the request models of cmdboss/routers. A timestamp that
  the code leaves as a datetime is \<open>VTime\<close>; FastAPI writes it in its ISO form.
\<close>

section \<open>Types\<close>

text \<open>\<open>IndexSpec.model_dump\<close>.\<close>

definition index_dict :: "index_spec \<Rightarrow> dict" where
  "index_dict i = [(''fields'', VList (List.map VStr (ix_fields i))), (''unique'', VBool (ix_unique i))]"

definition schema_dict ::
  "string \<Rightarrow> string option \<Rightarrow> (string \<times> field_spec) list \<Rightarrow> index_spec list \<Rightarrow> dict" where
  "schema_dict name descr fds ixs =
     [(''name'', VStr name), (''description'', opt_str descr),
      (''fields'', VDict (List.map (\<lambda>(k, s). (k, VDict (spec_dict s))) fds)),
      (''indexes'', VList (List.map (\<lambda>i. VDict (index_dict i)) ixs))]"

definition type_def_dict :: "type_def \<Rightarrow> dict" where
  "type_def_dict d = schema_dict (td_name d) (td_description d) (td_fields d) (td_indexes d)"

definition stamps_dict :: "bool \<Rightarrow> time \<Rightarrow> time \<Rightarrow> string \<Rightarrow> string \<Rightarrow> dict" where
  "stamps_dict active created updated created_by updated_by =
     [(''active'', VBool active), (''created_at'', VTime created), (''updated_at'', VTime updated),
      (''created_by'', VStr created_by), (''updated_by'', VStr updated_by)]"

definition serialize_type :: "ext \<Rightarrow> type_doc \<Rightarrow> dict" where
  "serialize_type x t =
     schema_dict (t_name t) (t_description t) (t_fields t) (t_indexes t)
     @ [(''version'', VInt (t_version t))]
     @ stamps_dict (t_active t) (t_created_at t) (t_updated_at t) (t_created_by t) (t_updated_by t)
     @ [(''id'', VStr (x_oid_str x (t_id t)))]"

definition serialize_rel_type :: "ext \<Rightarrow> rel_type_doc \<Rightarrow> dict" where
  "serialize_rel_type x t =
     rel_def_dict (rt_def t)
     @ stamps_dict (rt_active t) (rt_created_at t) (rt_updated_at t) (rt_created_by t) (rt_updated_by t)
     @ [(''id'', VStr (x_oid_str x (rt_id t)))]"

text \<open>\<open>_definition_from_doc\<close>: the definition is validated again.\<close>

definition raw_definition :: "type_doc \<Rightarrow> type_def" where
  "raw_definition t = \<lparr>td_name = t_name t, td_description = t_description t,
     td_fields = t_fields t, td_indexes = t_indexes t\<rparr>"

definition definition_from_doc :: "ext \<Rightarrow> type_doc \<Rightarrow> type_def act" where
  "definition_from_doc x t =
     (case make_type_def (x_regex x) (raw_definition t) of
        Inl e \<Rightarrow> raise_exn (Invalid (VDict (type_def_dict (raw_definition t))))
      | Inr d \<Rightarrow> ret d)"

definition json_schema_for :: "ext \<Rightarrow> type_def \<Rightarrow> val act" where
  "json_schema_for x d =
     (case compile_from_definition (x_refuses x) d of
        Inl e \<Rightarrow> raise_exn (PyError e)
      | Inr m \<Rightarrow> ret (x_schema x m))"

definition with_schema :: "ext \<Rightarrow> type_def \<Rightarrow> dict \<Rightarrow> dict act" where
  "with_schema x d stored =
     seq (json_schema_for x d) (\<lambda>js. ret (dset ''json_schema'' js stored))"

section \<open>Pages, records, keys\<close>

definition paging_dict :: "paging \<Rightarrow> dict" where
  "paging_dict p =
     [(''limit'', VInt (pg_limit p)), (''returned'', VInt (int (pg_returned p)))]
     @ (case pg_cursor p of
          Some c \<Rightarrow> [(''cursor'', VStr c)]
        | None \<Rightarrow> [(''offset'', opt_int (pg_offset p)), (''next_offset'', opt_int (pg_next_offset p))])
     @ [(''next_cursor'', opt_str (pg_next_cursor p))]
     @ opt_entry ''total'' (\<lambda>n. VInt (int n)) (pg_total p)"

definition page_dict :: "page \<Rightarrow> dict" where
  "page_dict p = [(''items'', VList (List.map VDict (pp_items p))),
     (''paging'', VDict (paging_dict (pp_paging p)))]"

definition edge_page_dict :: "edge_page \<Rightarrow> dict" where
  "edge_page_dict p = [(''items'', VList (List.map VDict (ep_items p))),
     (''paging'', VDict [(''limit'', VInt (ep_limit p)), (''offset'', VInt (ep_offset p)),
        (''returned'', VInt (int (ep_returned p)))])]"

definition audit_dict :: "string \<times> audit_entry \<Rightarrow> dict" where
  "audit_dict p = (let a = snd p in
     [(''_id'', VStr (a_id a)), (''ts'', VStr (fst p)), (''action'', VStr (a_action a)),
      (''entity_type'', VStr (a_entity_type a)), (''entity_id'', opt_str (a_entity_id a)),
      (''actor'', VStr (a_actor a)), (''schema_version'', opt_int (a_schema_version a)),
      (''revision'', opt_int (a_revision a)), (''request_id'', opt_str (a_request_id a)),
      (''before'', opt_val VDict (a_before a)), (''after'', opt_val VDict (a_after a)),
      (''changes'', VDict (a_changes a))])"

definition event_dict :: "event \<Rightarrow> dict" where
  "event_dict ev =
     [(''id'', VStr (ev_id ev)), (''type'', VStr (ev_type ev)),
      (''entity_type'', VStr (ev_entity_type ev)), (''entity_id'', opt_str (ev_entity_id ev)),
      (''actor'', VStr (ev_actor ev)), (''ts'', VStr (ev_ts ev)), (''payload'', VDict (ev_payload ev))]"

fun ostatus_str :: "ostatus \<Rightarrow> string" where
  "ostatus_str Pending = ''pending''"
| "ostatus_str Sent = ''sent''"
| "ostatus_str Dead = ''dead''"

definition dead_dict :: "ext \<Rightarrow> outbox_doc \<Rightarrow> dict" where
  "dead_dict x ob =
     [(''_id'', VStr (o_id ob)), (''status'', VStr (ostatus_str (o_status ob))),
      (''attempts'', VInt (o_attempts ob)), (''created_at'', VStr (x_iso x (o_created_at ob))),
      (''next_attempt_at'', opt_val (\<lambda>t. VStr (x_iso x t)) (o_next ob)),
      (''event'', VDict (event_dict (o_event ob)))]
     @ opt_entry ''sent_at'' (\<lambda>t. VStr (x_iso x t)) (o_sent_at ob)
     @ opt_entry ''failed_at'' (\<lambda>t. VStr (x_iso x t)) (o_failed_at ob)
     @ opt_entry ''last_error'' VStr (o_last_error ob)"

text \<open>A stored key without its hash.\<close>

definition key_dict :: "ext \<Rightarrow> api_key \<Rightarrow> dict" where
  "key_dict x k =
     [(''name'', VStr (k_name k)), (''prefix'', VStr (k_prefix k)),
      (''scopes'', VList (List.map VStr (k_scopes k))), (''active'', VBool (k_active k)),
      (''created_at'', VStr (x_iso x (k_created_at k))),
      (''expires_at'', opt_val VTime (k_expires_at k))]
     @ opt_entry ''last_used_at'' VTime (k_last_used k)
     @ opt_entry ''rotated_at'' VTime (k_rotated_at k)
     @ opt_entry ''revoked_at'' VTime (k_revoked_at k)
     @ [(''id'', VStr (x_oid_str x (k_id k)))]"

section \<open>Request bodies\<close>

definition body_dict :: "val \<Rightarrow> dict act" where
  "body_dict v = (case v of VDict d \<Rightarrow> ret d | _ \<Rightarrow> raise_exn (InvalidRequest v))"

definition expect :: "bool \<Rightarrow> val \<Rightarrow> unit act" where
  "expect good v = (if good then ret () else raise_exn (InvalidRequest v))"

definition body_type_def :: "ext \<Rightarrow> type_def \<Rightarrow> type_def act" where
  "body_type_def x raw =
     (case make_type_def (x_regex x) raw of
        Inl e \<Rightarrow> raise_exn (InvalidRequest (VDict (type_def_dict raw))) | Inr d \<Rightarrow> ret d)"

definition body_rel_def :: "rel_def \<Rightarrow> rel_def act" where
  "body_rel_def raw =
     (case make_rel_def raw of
        Inl e \<Rightarrow> raise_exn (InvalidRequest (VDict (rel_def_dict raw))) | Inr d \<Rightarrow> ret d)"

text \<open>\<open>RelationshipCreate\<close>: the type, the two ends and the attributes.\<close>

record relationship_create =
  rc_rel_type :: string
  rc_from :: "string \<times> string"
  rc_to :: "string \<times> string"
  rc_attributes :: "dict option"

definition parse_relationship :: "val \<Rightarrow> relationship_create option" where
  "parse_relationship v =
     (case v of
        VDict d \<Rightarrow>
          if only_keys [''rel_type'', ''from'', ''from_'', ''to'', ''attributes''] d then
            (case (map_of d ''rel_type'', Option.bind (aliased d ''from'' ''from_'') (two_strings ''type'' ''id''),
                   Option.bind (map_of d ''to'') (two_strings ''type'' ''id''), parse_attributes d) of
               (Some (VStr r), Some f, Some t, Some a) \<Rightarrow>
                 Some \<lparr>rc_rel_type = r, rc_from = f, rc_to = t, rc_attributes = a\<rparr>
             | _ \<Rightarrow> None)
          else None
      | _ \<Rightarrow> None)"

definition body_relationship :: "val \<Rightarrow> relationship_create act" where
  "body_relationship v =
     (case parse_relationship v of None \<Rightarrow> raise_exn (InvalidRequest v) | Some b \<Rightarrow> ret b)"

end
