(* ===== verification/Routers.thy ===== *)
theory Routers
  imports Bodies
begin

text \<open>
  cmdboss/routers: the handlers of the routes, each from the request's parts to a response or an
  exception. \<open>Depends(require(...))\<close> runs before the handler and before the body is validated,
  as FastAPI does. \<open>app\<close> holds what the handlers take from \<open>app.state\<close>.
\<close>

record app =
  ap_ext :: ext
  ap_cfg :: settings
  ap_gate :: gate
  ap_repo :: repo
  ap_graph :: rel_repo
  ap_discovery :: discovery

text \<open>Of a request: credentials, the request id of the context, and the headers handlers read.\<close>

record request =
  rq_creds :: credentials
  rq_rid :: "string option"
  rq_if_match :: "string option"
  rq_idem_key :: "string option"

definition reply :: "int \<Rightarrow> dict \<Rightarrow> response act" where
  "reply st body = ret \<lparr>rs_status = st, rs_body = VDict body, rs_headers = []\<rparr>"

definition no_content :: "response act" where
  "no_content = ret \<lparr>rs_status = 204, rs_body = VNone, rs_headers = []\<rparr>"

definition guarded :: "app \<Rightarrow> request \<Rightarrow> string \<Rightarrow> (principal \<Rightarrow> response act) \<Rightarrow> response act" where
  "guarded A q scope f = seq (require (ap_gate A) [scope] (rq_creds q)) f"

section \<open>Preconditions\<close>

definition quote_char :: char where
  "quote_char = CHR 0x22"

text \<open>\<open>_set_etag\<close>.\<close>

definition etag :: "ext \<Rightarrow> dict \<Rightarrow> (string \<times> string) list" where
  "etag x doc =
     (case map_of doc ''_meta'' of
        Some (VDict m) \<Rightarrow>
          (case dget m ''revision'' of
             VNone \<Rightarrow> []
           | v \<Rightarrow> [(''ETag'', [quote_char] @ py_str x v @ [quote_char])])
      | _ \<Rightarrow> [])"

definition cleaned_tag :: "string \<Rightarrow> string" where
  "cleaned_tag value = strip_of (\<lambda>c. c = quote_char) (strip value)"

definition precondition_required :: exn where
  "precondition_required = err PreconditionRequiredError
     ''This operation requires an If-Match header carrying the current revision.'' []"

text \<open>\<open>_parse_if_match\<close> of routers/ci.py.\<close>

definition parse_if_match :: "string option \<Rightarrow> bool \<Rightarrow> int option act" where
  "parse_if_match value required =
     (case given value of
        None \<Rightarrow> if required then raise_exn precondition_required else ret None
      | Some v \<Rightarrow>
          if cleaned_tag v = ''*'' then ret None
          else (case py_int (cleaned_tag v) of
                  Some i \<Rightarrow> ret (Some i)
                | None \<Rightarrow> raise_exn (err BadRequestError ''If-Match must be an integer revision.''
                            [(''if_match'', VStr v)])))"

text \<open>\<open>_parse_if_match\<close> of routers/graph.py.\<close>

definition parse_edge_match :: "string option \<Rightarrow> int option act" where
  "parse_edge_match value =
     (case given value of
        None \<Rightarrow> ret None
      | Some v \<Rightarrow>
          if cleaned_tag v = ''*'' then ret None
          else (case py_int (cleaned_tag v) of
                  Some i \<Rightarrow> ret (Some i)
                | None \<Rightarrow> raise_exn (err BadRequestError ''If-Match must be an integer revision.'' [])))"

definition reply_doc :: "ext \<Rightarrow> int \<Rightarrow> dict \<Rightarrow> response act" where
  "reply_doc x st doc = ret \<lparr>rs_status = st, rs_body = VDict doc, rs_headers = etag x doc\<rparr>"

section \<open>Configuration items\<close>

definition create_ci :: "app \<Rightarrow> request \<Rightarrow> string \<Rightarrow> val \<Rightarrow> response act" where
  "create_ci A q type_name payload =
     guarded A q ''ci:write'' (\<lambda>p.
     seq (body_dict payload) (\<lambda>body.
     seq (create (ap_repo A) type_name body (p_name p) (rq_rid q) (rq_idem_key q)) (\<lambda>doc.
     reply_doc (ap_ext A) 201 doc)))"

definition list_ci ::
  "app \<Rightarrow> request \<Rightarrow> string \<Rightarrow> list_args \<Rightarrow> (string \<times> string) list \<Rightarrow> response act" where
  "list_ci A q type_name g params =
     guarded A q ''ci:read'' (\<lambda>p.
     seq (expect ((case la_limit g of None \<Rightarrow> True | Some n \<Rightarrow> 1 \<le> n) \<and> 0 \<le> la_offset g)
            (VDict [(''limit'', opt_int (la_limit g)), (''offset'', VInt (la_offset g))])) (\<lambda>_.
     seq (list_items (ap_repo A) type_name
            (g\<lparr>la_filters := filter (\<lambda>kv. fst kv \<notin> set reserved_query) params\<rparr>)) (\<lambda>page.
     reply 200 (page_dict page))))"

definition get_ci :: "app \<Rightarrow> request \<Rightarrow> string \<Rightarrow> string \<Rightarrow> response act" where
  "get_ci A q type_name item_id =
     guarded A q ''ci:read'' (\<lambda>p.
     seq (get (ap_repo A) type_name item_id) (\<lambda>doc. reply_doc (ap_ext A) 200 doc))"

text \<open>\<open>replace_ci\<close> and \<open>patch_ci\<close> differ in one argument.\<close>

definition write_ci :: "app \<Rightarrow> request \<Rightarrow> string \<Rightarrow> string \<Rightarrow> val \<Rightarrow> bool \<Rightarrow> response act" where
  "write_ci A q type_name item_id payload partial =
     guarded A q ''ci:write'' (\<lambda>p.
     seq (body_dict payload) (\<lambda>body.
     seq (parse_if_match (rq_if_match q) True) (\<lambda>expected.
     seq (update (ap_repo A) type_name item_id body expected partial (p_name p) (rq_rid q)) (\<lambda>doc.
     reply_doc (ap_ext A) 200 doc))))"

definition replace_ci :: "app \<Rightarrow> request \<Rightarrow> string \<Rightarrow> string \<Rightarrow> val \<Rightarrow> response act" where
  "replace_ci A q type_name item_id payload = write_ci A q type_name item_id payload False"

definition patch_ci :: "app \<Rightarrow> request \<Rightarrow> string \<Rightarrow> string \<Rightarrow> val \<Rightarrow> response act" where
  "patch_ci A q type_name item_id payload = write_ci A q type_name item_id payload True"

definition delete_ci :: "app \<Rightarrow> request \<Rightarrow> string \<Rightarrow> string \<Rightarrow> bool \<Rightarrow> response act" where
  "delete_ci A q type_name item_id detach =
     guarded A q ''ci:write'' (\<lambda>p.
     seq (parse_if_match (rq_if_match q) False) (\<lambda>expected.
     seq (delete (ap_repo A) type_name item_id expected (p_name p) (rq_rid q) detach) (\<lambda>_.
     no_content)))"

definition ci_history :: "app \<Rightarrow> request \<Rightarrow> string \<Rightarrow> string \<Rightarrow> int \<Rightarrow> response act" where
  "ci_history A q type_name item_id limit =
     guarded A q ''ci:read'' (\<lambda>p.
     seq (expect (1 \<le> limit \<and> limit \<le> 500) (VInt limit)) (\<lambda>_.
     seq (history_of (ap_repo A) type_name item_id (nat limit)) (\<lambda>entries.
     reply 200 [(''history'', VList (List.map (\<lambda>e. VDict (audit_dict e)) entries))])))"

section \<open>Types\<close>

definition create_type_route :: "app \<Rightarrow> request \<Rightarrow> type_def \<Rightarrow> response act" where
  "create_type_route A q raw =
     (let x = ap_ext A in
      guarded A q ''types:write'' (\<lambda>p.
      seq (body_type_def x raw) (\<lambda>d.
      seq (create_type x d (p_name p)) (\<lambda>t.
      seq (with_schema x d (serialize_type x t)) (\<lambda>body.
      reply 201 body)))))"

definition list_types_route :: "app \<Rightarrow> request \<Rightarrow> bool \<Rightarrow> response act" where
  "list_types_route A q include_inactive =
     guarded A q ''types:read'' (\<lambda>p.
     seq (list_types (ap_ext A) include_inactive) (\<lambda>ts.
     reply 200 [(''types'', VList (List.map (\<lambda>t. VDict (serialize_type (ap_ext A) t)) ts))]))"

definition get_type_route :: "app \<Rightarrow> request \<Rightarrow> string \<Rightarrow> response act" where
  "get_type_route A q name =
     (let x = ap_ext A in
      guarded A q ''types:read'' (\<lambda>p.
      seq (get_type_strict x name) (\<lambda>t.
      seq (definition_from_doc x t) (\<lambda>d.
      seq (with_schema x d (serialize_type x t)) (\<lambda>body.
      reply 200 body)))))"

definition update_type_route :: "app \<Rightarrow> request \<Rightarrow> string \<Rightarrow> type_def \<Rightarrow> response act" where
  "update_type_route A q name raw =
     (let x = ap_ext A in
      guarded A q ''types:write'' (\<lambda>p.
      seq (body_type_def x raw) (\<lambda>d.
      seq (update_type x name d (p_name p)) (\<lambda>t.
      seq (with_schema x d (serialize_type x t)) (\<lambda>body.
      reply 200 body)))))"

definition delete_type_route :: "app \<Rightarrow> request \<Rightarrow> string \<Rightarrow> response act" where
  "delete_type_route A q name =
     guarded A q ''types:write'' (\<lambda>p.
     seq (deactivate_type (ap_ext A) name (p_name p)) (\<lambda>_. no_content))"

section \<open>Relationships\<close>

definition create_rel_type_route :: "app \<Rightarrow> request \<Rightarrow> rel_def \<Rightarrow> response act" where
  "create_rel_type_route A q raw =
     guarded A q ''types:write'' (\<lambda>p.
     seq (body_rel_def raw) (\<lambda>d.
     seq (rel_create_type (ap_ext A) d (p_name p)) (\<lambda>t.
     reply 201 (serialize_rel_type (ap_ext A) t))))"

definition list_rel_types_route :: "app \<Rightarrow> request \<Rightarrow> bool \<Rightarrow> response act" where
  "list_rel_types_route A q include_inactive =
     guarded A q ''types:read'' (\<lambda>p.
     seq (rel_list_types (ap_ext A) include_inactive) (\<lambda>ts.
     reply 200 [(''relationship_types'',
       VList (List.map (\<lambda>t. VDict (serialize_rel_type (ap_ext A) t)) ts))]))"

definition get_rel_type_route :: "app \<Rightarrow> request \<Rightarrow> string \<Rightarrow> response act" where
  "get_rel_type_route A q name =
     guarded A q ''types:read'' (\<lambda>p.
     seq (rel_get_type_strict (ap_ext A) name) (\<lambda>t.
     reply 200 (serialize_rel_type (ap_ext A) t)))"

definition delete_rel_type_route :: "app \<Rightarrow> request \<Rightarrow> string \<Rightarrow> response act" where
  "delete_rel_type_route A q name =
     guarded A q ''types:write'' (\<lambda>p.
     seq (rel_deactivate_type (ap_ext A) name (p_name p)) (\<lambda>_. no_content))"

definition create_edge_route :: "app \<Rightarrow> request \<Rightarrow> val \<Rightarrow> response act" where
  "create_edge_route A q payload =
     guarded A q ''ci:write'' (\<lambda>p.
     seq (body_relationship payload) (\<lambda>b.
     seq (create_edge (ap_graph A) \<lparr>ea_rel_type = rc_rel_type b, ea_from_type = fst (rc_from b),
            ea_from_id = snd (rc_from b), ea_to_type = fst (rc_to b), ea_to_id = snd (rc_to b),
            ea_attributes = rc_attributes b, ea_actor = p_name p, ea_request_id = rq_rid q,
            ea_provenance = None\<rparr>) (\<lambda>ser.
     reply 201 ser)))"

definition list_edges_route :: "app \<Rightarrow> request \<Rightarrow> edge_filter \<Rightarrow> int \<Rightarrow> int \<Rightarrow> response act" where
  "list_edges_route A q flt limit offset =
     guarded A q ''ci:read'' (\<lambda>p.
     seq (expect (1 \<le> limit \<and> 0 \<le> offset)
            (VDict [(''limit'', VInt limit), (''offset'', VInt offset)])) (\<lambda>_.
     seq (list_edges (ap_graph A) flt limit offset) (\<lambda>page.
     reply 200 (edge_page_dict page))))"

definition get_edge_route :: "app \<Rightarrow> request \<Rightarrow> string \<Rightarrow> response act" where
  "get_edge_route A q edge_id =
     guarded A q ''ci:read'' (\<lambda>p.
     seq (get_edge (ap_graph A) edge_id) (\<lambda>ser. reply 200 ser))"

definition delete_edge_route :: "app \<Rightarrow> request \<Rightarrow> string \<Rightarrow> response act" where
  "delete_edge_route A q edge_id =
     guarded A q ''ci:write'' (\<lambda>p.
     seq (parse_edge_match (rq_if_match q)) (\<lambda>expected.
     seq (delete_edge (ap_graph A) edge_id expected (p_name p) (rq_rid q)) (\<lambda>_.
     no_content)))"

definition ci_neighbors ::
  "app \<Rightarrow> request \<Rightarrow> string \<Rightarrow> string \<Rightarrow> string \<Rightarrow> string option \<Rightarrow> response act" where
  "ci_neighbors A q type_name item_id dir rel_type =
     guarded A q ''ci:read'' (\<lambda>p.
     seq (expect (dir \<in> set [''in'', ''out'', ''both'']) (VStr dir)) (\<lambda>_.
     seq (neighbors (ap_graph A) type_name item_id dir rel_type) (\<lambda>body. reply 200 body)))"

definition ci_dependencies :: "app \<Rightarrow> request \<Rightarrow> string \<Rightarrow> string \<Rightarrow> response act" where
  "ci_dependencies A q type_name item_id =
     guarded A q ''ci:read'' (\<lambda>p.
     seq (dependencies (ap_graph A) type_name item_id) (\<lambda>body. reply 200 body))"

definition ci_impact :: "app \<Rightarrow> request \<Rightarrow> string \<Rightarrow> string \<Rightarrow> response act" where
  "ci_impact A q type_name item_id =
     guarded A q ''ci:read'' (\<lambda>p.
     seq (impact (ap_graph A) type_name item_id) (\<lambda>body. reply 200 body))"

section \<open>Discovery and webhooks\<close>

record run_request =
  dq_provider :: string
  dq_config :: "dict option"
  dq_source :: "string option"
  dq_on_missing :: "string option"

definition run_discovery :: "app \<Rightarrow> request \<Rightarrow> run_request \<Rightarrow> response act" where
  "run_discovery A q b =
     guarded A q ''ci:write'' (\<lambda>p.
     seq (expect (case dq_on_missing b of None \<Rightarrow> True | Some m \<Rightarrow> m \<in> set [''mark'', ''delete''])
            (opt_str (dq_on_missing b))) (\<lambda>_.
     seq (discovery_run (ap_discovery A) (dq_provider b) (dq_config b) (dq_source b)
            (dq_on_missing b) (p_name p)) (\<lambda>body.
     reply 200 body)))"

definition list_providers :: "app \<Rightarrow> request \<Rightarrow> response act" where
  "list_providers A q =
     guarded A q ''ci:read'' (\<lambda>p.
     reply 200 [(''providers'', VList (List.map VStr (provider_names (dv_providers (ap_discovery A)))))])"

definition list_runs_route :: "app \<Rightarrow> request \<Rightarrow> string option \<Rightarrow> int \<Rightarrow> response act" where
  "list_runs_route A q source limit =
     guarded A q ''ci:read'' (\<lambda>p.
     seq (expect (1 \<le> limit \<and> limit \<le> 200) (VInt limit)) (\<lambda>_.
     seq (list_runs (ap_ext A) source limit) (\<lambda>runs.
     reply 200 [(''runs'', VList (List.map VDict runs))])))"

definition get_run_route :: "app \<Rightarrow> request \<Rightarrow> string \<Rightarrow> response act" where
  "get_run_route A q run_id =
     guarded A q ''ci:read'' (\<lambda>p.
     seq (get_run (ap_ext A) run_id) (\<lambda>body. reply 200 body))"

definition create_webhook ::
  "app \<Rightarrow> request \<Rightarrow> string \<Rightarrow> string list option \<Rightarrow> string option \<Rightarrow> response act" where
  "create_webhook A q url event_types secret =
     guarded A q ''admin'' (\<lambda>p.
     seq (register_webhook (ap_ext A) url event_types secret) (\<lambda>body. reply 201 body))"

definition list_webhooks_route :: "app \<Rightarrow> request \<Rightarrow> response act" where
  "list_webhooks_route A q =
     guarded A q ''admin'' (\<lambda>p.
     seq (list_webhooks (ap_ext A)) (\<lambda>hs. reply 200 [(''webhooks'', VList (List.map VDict hs))]))"

section \<open>System\<close>

definition version :: string where
  "version = ''2.0.0''"

definition healthz :: "response act" where
  "healthz = reply 200 [(''status'', VStr ''ok''), (''version'', VStr version)]"

text \<open>\<open>ping\<close> of cmdboss/db.py: one round trip to the database.\<close>

definition ping :: "ext \<Rightarrow> bool act" where
  "ping x = catch_exn (seq (db_call x (\<lambda>d. (Inr (), d))) (\<lambda>_. ret True)) (\<lambda>_. ret False)"

definition readyz :: "app \<Rightarrow> response act" where
  "readyz A =
     seq (ping (ap_ext A)) (\<lambda>up.
     if \<not> up then reply 503 [(''status'', VStr ''unavailable''), (''mongo'', VBool False)]
     else reply 200 [(''status'', VStr ''ready''), (''mongo'', VBool True)])"

definition prometheus_metrics :: "app \<Rightarrow> response act" where
  "prometheus_metrics A =
     seq (asks w_worker) (\<lambda>k.
     if \<not> wk_metrics_on k then raise_exn (err NotFoundError ''Metrics are not enabled.'' [])
     else ret \<lparr>rs_status = 200, rs_body = VStr (x_render (ap_ext A) (wk_metrics k)), rs_headers = []\<rparr>)"

record key_request =
  kq_name :: string
  kq_role :: "string option"
  kq_scopes :: "string list option"
  kq_ttl :: "int option"

definition requested_scopes :: "key_request \<Rightarrow> string list act" where
  "requested_scopes b =
     (case given (kq_role b) of
        Some role \<Rightarrow>
          (case role_presets role of
             None \<Rightarrow> raise_exn (err BadRequestError (''Unknown role '' @ quoted role @ ''.'')
                       [(''allowed_roles'', VList [VStr ''admin'', VStr ''reader'', VStr ''writer''])])
           | Some scopes \<Rightarrow> ret scopes)
      | None \<Rightarrow>
          (case kq_scopes b of
             Some (s # ss) \<Rightarrow> ret (s # ss)
           | _ \<Rightarrow> raise_exn (err BadRequestError ''Provide either 'role' or 'scopes'.'' [])))"

text \<open>\<open>datetime.max\<close>, in seconds since the epoch; going beyond it is an OverflowError.\<close>

definition datetime_max :: time where
  "datetime_max = 253402300800"

definition key_expiry :: "ext \<Rightarrow> int option \<Rightarrow> time option act" where
  "key_expiry x ttl =
     (case ttl of
        None \<Rightarrow> ret None
      | Some s \<Rightarrow>
          seq (utcnow x) (\<lambda>now.
          if now + of_int s \<ge> datetime_max then raise_exn (PyError ''OverflowError'')
          else ret (Some (now + of_int s))))"

definition shown_once :: string where
  "shown_once = ''This is the only time the key is shown. Store it now.''"

definition create_key :: "app \<Rightarrow> request \<Rightarrow> key_request \<Rightarrow> response act" where
  "create_key A q b =
     (let x = ap_ext A in
      guarded A q ''admin'' (\<lambda>p.
      seq (expect (kq_name b \<noteq> [] \<and> length (kq_name b) \<le> 128 \<and>
                   (case kq_ttl b of None \<Rightarrow> True | Some s \<Rightarrow> 1 \<le> s))
             (VDict [(''name'', VStr (kq_name b)), (''ttl_seconds'', opt_int (kq_ttl b))])) (\<lambda>_.
      seq (requested_scopes b) (\<lambda>scopes.
      seq (key_expiry x (kq_ttl b)) (\<lambda>expires_at.
      seq (catch_exn (create_api_key x (kq_name b) scopes expires_at)
             (\<lambda>ex. case ex of BadValue m \<Rightarrow> raise_exn (err BadRequestError m []) | _ \<Rightarrow> raise_exn ex)) (\<lambda>rk.
      let k = snd rk in
      reply 201 [(''api_key'', VStr (fst rk)), (''id'', VStr (x_oid_str x (k_id k))),
        (''name'', VStr (k_name k)), (''prefix'', VStr (k_prefix k)),
        (''scopes'', VList (List.map VStr (k_scopes k))),
        (''expires_at'', opt_val (\<lambda>t. VStr (x_iso x t)) expires_at),
        (''warning'', VStr shown_once)]))))))"

definition list_keys :: "app \<Rightarrow> request \<Rightarrow> response act" where
  "list_keys A q =
     guarded A q ''admin'' (\<lambda>p.
     seq (find_many (ap_ext A) keys_coll (\<lambda>_. True)) (\<lambda>ks.
     reply 200 [(''api_keys'', VList (List.map (\<lambda>k. VDict (key_dict (ap_ext A) k)) ks))]))"

definition rotate_key :: "app \<Rightarrow> request \<Rightarrow> string \<Rightarrow> response act" where
  "rotate_key A q key_id =
     guarded A q ''admin'' (\<lambda>p.
     seq (rotate_api_key (ap_ext A) key_id) (\<lambda>r.
     reply 200 ((''api_key'', VStr (fst r)) # snd r @
       [(''warning'', VStr ''The previous secret is now invalid. Store this one.'')])))"

definition revoke_key :: "app \<Rightarrow> request \<Rightarrow> string \<Rightarrow> response act" where
  "revoke_key A q key_id =
     guarded A q ''admin'' (\<lambda>p.
     seq (revoke_api_key (ap_ext A) key_id) (\<lambda>_. no_content))"

text \<open>A negative limit is read as its absolute value by the driver.\<close>

definition list_dead_events :: "app \<Rightarrow> request \<Rightarrow> int \<Rightarrow> response act" where
  "list_dead_events A q limit =
     guarded A q ''admin'' (\<lambda>p.
     seq (fetch_dead (ap_ext A) (nat \<bar>limit\<bar>)) (\<lambda>ds.
     reply 200 [(''dead'', VList (List.map (\<lambda>d. VDict (dead_dict (ap_ext A) d)) ds))]))"

definition replay_dead_event :: "app \<Rightarrow> request \<Rightarrow> string \<Rightarrow> response act" where
  "replay_dead_event A q event_id =
     guarded A q ''admin'' (\<lambda>p.
     seq (replay (ap_ext A) event_id) (\<lambda>replayed.
     if \<not> replayed
     then raise_exn (err NotFoundError (''Dead event '' @ quoted event_id @ '' not found.'')
            [(''id'', VStr event_id)])
     else reply 200 [(''replayed'', VStr event_id)]))"

end
