(* ===== verification/Invalidator.thy ===== *)
theory Invalidator
  imports Registry Sample_World
begin

text \<open>
  cmdboss/invalidator.py: the poll that tells one worker of schema changes made by the others. A
  document always has a name and a timestamp, so the code's tests for their absence do not show.
\<close>

definition stale_types :: "time \<Rightarrow> type_doc \<Rightarrow> bool" where
  "stale_types mark t = (t_updated_at t > mark)"

definition newer :: "time \<Rightarrow> type_doc \<Rightarrow> time" where
  "newer newest t = (if t_updated_at t > newest then t_updated_at t else newest)"

definition invalidate_named :: "type_doc \<Rightarrow> unit act" where
  "invalidate_named t = (if t_name t = [] then ret () else invalidate (t_name t))"

definition poll_once :: "ext \<Rightarrow> nat act" where
  "poll_once x =
     seq (asks (\<lambda>w. wk_watermark (w_worker w))) (\<lambda>mark.
     seq (find_many x types_coll (stale_types mark)) (\<lambda>docs.
     seq (each invalidate_named docs) (\<lambda>_.
     let newest = foldl newer mark docs in
     seq (if newest > mark then on_worker (\<lambda>k. k\<lparr>wk_watermark := newest\<rparr>) else ret ()) (\<lambda>_.
     ret (length (filter (\<lambda>t. t_name t \<noteq> []) docs))))))"

text \<open>The watermark of a worker that starts now.\<close>

definition init_watermark :: "ext \<Rightarrow> unit act" where
  "init_watermark x = seq (utcnow x) (\<lambda>now. on_worker (\<lambda>k. k\<lparr>wk_watermark := now\<rparr>))"

section \<open>What a poll achieves\<close>

lemma each_invalidate:
  "wp (each invalidate_named ts)
     (\<lambda>_ w'. w_db w' = w_db w \<and> w_n w' = w_n w \<and> wk_watermark (w_worker w') = wk_watermark (w_worker w) \<and>
        (\<forall>n. wk_type_cache (w_worker w') n =
           (if n \<noteq> [] \<and> n \<in> t_name ` set ts then None else wk_type_cache (w_worker w) n) \<and>
           wk_model_cache (w_worker w') n =
           (if n \<noteq> [] \<and> n \<in> t_name ` set ts then None else wk_model_cache (w_worker w) n)))
     (\<lambda>_ _. False) w"
proof (induction ts arbitrary: w)
  case (Cons t ts)
  have "wp (invalidate_named t)
     (\<lambda>_ w'. w_db w' = w_db w \<and> w_n w' = w_n w \<and>
        w_worker w' = (if t_name t = [] then w_worker w else drop_type (t_name t) (w_worker w)))
     (\<lambda>_ _. False) w"
    by (simp add: invalidate_named_def invalidate_def run_simps)
  then show ?case
    unfolding each.simps wp_seq
    by (rule wp_mono) (auto simp: drop_type_def intro!: wp_mono [OF Cons.IH])
qed (simp add: run_simps)

lemma foldl_newer: "foldl newer m ts = Max (insert m (t_updated_at ` set ts))"
proof (induction ts arbitrary: m)
  case (Cons t ts)
  then show ?case by (cases "ts = []") (auto simp: newer_def Max_insert2 max_def)
qed simp

text \<open>The worker's new watermark, and which types it has forgotten.\<close>

definition polled :: "world \<Rightarrow> nat \<Rightarrow> world \<Rightarrow> bool" where
  "polled w n w' = (let mark = wk_watermark (w_worker w);
        changed = filter (stale_types mark) (d_types (w_db w)) in
     w_db w' = w_db w \<and> n = length (filter (\<lambda>t. t_name t \<noteq> []) changed) \<and>
     wk_watermark (w_worker w') = Max (insert mark (t_updated_at ` set changed)) \<and>
     (\<forall>m. wk_type_cache (w_worker w') m =
        (if m \<noteq> [] \<and> m \<in> t_name ` set changed then None else wk_type_cache (w_worker w) m) \<and>
        wk_model_cache (w_worker w') m =
        (if m \<noteq> [] \<and> m \<in> t_name ` set changed then None else wk_model_cache (w_worker w) m)))"

lemma poll_effect:
  "wp (poll_once x) (\<lambda>n w'. polled w n w') (\<lambda>e w'. e = MongoError \<and> w' = bump w \<and> x_fault x (w_n w)) w"
proof -
  have high: "m \<le> foldl newer m ts" for m ts by (simp add: foldl_newer)
  have "wk_watermark (w_worker w) = foldl newer (wk_watermark (w_worker w)) ts"
    if "\<not> wk_watermark (w_worker w) < foldl newer (wk_watermark (w_worker w)) ts" for ts
    using that high [of "wk_watermark (w_worker w)" ts] by simp
  then show ?thesis
    unfolding poll_once_def polled_def Let_def foldl_newer [symmetric]
    by (auto simp: run_simps types_put intro!: wp_mono [OF each_invalidate])
qed

section \<open>Properties\<close>

text \<open>
  C23. Workers agree after a poll: when a type was changed by any worker at a time beyond this
  worker's watermark and a poll has returned, this worker's next lookup of the type reads the
  database, and the new watermark covers the change.
\<close>

theorem poll_refreshes:
  assumes "poll_once x w = (Inr n, w')" "t \<in> set (d_types (w_db w))" "t_name t \<noteq> []"
    and "wk_watermark (w_worker w) < t_updated_at t" "lower (t_name t) = t_name t"
    and "w_worker w'' = w_worker w'" "get_type y cfg (t_name t) w'' = (Inr doc, w3)"
  shows "doc = stored_type (t_name t) (w_db w'') \<and> t_updated_at t \<le> wk_watermark (w_worker w')"
proof -
  have changed: "t \<in> set (filter (stale_types (wk_watermark (w_worker w))) (d_types (w_db w)))"
    using assms(2,4) by (simp add: stale_types_def)
  from wp_returns [OF poll_effect assms(1)] have p: "polled w n w'" .
  then have "wk_type_cache (w_worker w') (t_name t) = None"
    using changed assms(3) by (auto simp: polled_def Let_def)
  then have "doc = stored_type (t_name t) (w_db w'')"
    using assms(6) by (intro type_cache.fetch_fresh [OF assms(7,5)]) simp
  moreover have "t_updated_at t \<le> wk_watermark (w_worker w')"
    using p changed by (auto simp: polled_def Let_def)
  ultimately show ?thesis ..
qed

text \<open>A worker whose caches are empty polls a database with one type changed after its start.\<close>

definition polled_type :: type_doc where
  "polled_type = \<lparr>t_id = 1, t_name = ''srv'', t_description = None, t_fields = [], t_indexes = [],
     t_version = 2, t_active = True, t_created_at = 1, t_updated_at = 5, t_created_by = ''a'',
     t_updated_by = ''a''\<rparr>"

theorem poll_refreshes_witness:
  "\<exists>n w'. poll_once ext0 (world_at (bare_db\<lparr>d_types := [polled_type]\<rparr>) 0) = (Inr n, w') \<and>
     (\<exists>w3. get_type ext0 default_settings ''srv'' w' = (Inr (Some polled_type), w3)) \<and>
     5 \<le> wk_watermark (w_worker w')"
proof -
  let ?w = "world_at (bare_db\<lparr>d_types := [polled_type]\<rparr>) 0"
  have type: "t_name polled_type = ''srv''" "t_updated_at polled_type = 5" "t_active polled_type"
    by (simp_all add: polled_type_def)
  have low: "lower ''srv'' = ''srv''" by code_simp
  have "wp (poll_once ext0) (\<lambda>n w'. polled ?w n w') (\<lambda>_ _. False) ?w"
    by (rule wp_mono [OF poll_effect]) simp_all
  then obtain n w' where run: "poll_once ext0 ?w = (Inr n, w')" and p: "polled ?w n w'"
    by (auto simp: wp_def split: prod.splits sum.splits)
  obtain r w3 where get: "get_type ext0 default_settings ''srv'' w' = (r, w3)" by fastforce
  have "wp (get_type ext0 default_settings ''srv'') (\<lambda>_ _. True) (\<lambda>_ _. False) w'"
    by (auto simp: wp_get_type Let_def split: option.splits)
  with get have "\<exists>doc. r = Inr doc" by (auto simp: wp_def split: sum.splits)
  then obtain doc where doc: "r = Inr doc" ..
  have "doc = stored_type ''srv'' (w_db w') \<and> 5 \<le> wk_watermark (w_worker w')"
    using poll_refreshes [OF run, of polled_type w' ext0 default_settings doc w3] get doc low
    by (simp add: type worker0_def)
  moreover have "w_db w' = bare_db\<lparr>d_types := [polled_type]\<rparr>" using p by (simp add: polled_def Let_def)
  ultimately show ?thesis
    using run get doc by (auto simp: stored_type_def active_named_def type)
qed

end
