(* ===== verification/Repository_Facts.thy ===== *)
theory Repository_Facts
  imports Repository
begin

text \<open>
  What the operations of the CI repository do to the database. A write adds one audit record
  and one pending outbox document next to the change itself (\<open>logged\<close>); with transactions a
  write that raises leaves the database as it was.
\<close>

section \<open>The change log\<close>

definition with_log :: "audit_entry \<Rightarrow> outbox_doc \<Rightarrow> db \<Rightarrow> db" where
  "with_log a ob d = d\<lparr>d_audit := d_audit d @ [a], d_outbox := d_outbox d @ [ob]\<rparr>"

text \<open>What the event of a change carries: the state after it, or the last one before a delete.\<close>

definition snapshot_of :: "audit_args \<Rightarrow> dict option" where
  "snapshot_of g = (case aa_after g of None \<Rightarrow> aa_before g | Some v \<Rightarrow> Some v)"

lemma snapshot_of_change [simp]:
  "snapshot_of (change_args a t i c b (Some v) s r q) = Some v"
  "snapshot_of (change_args a t i c b None s r q) = b"
  by (simp_all add: snapshot_of_def change_args_def)

definition logged :: "ext \<Rightarrow> audit_args \<Rightarrow> string \<Rightarrow> dict \<Rightarrow> db \<Rightarrow> db \<Rightarrow> bool" where
  "logged x g kind payload d d' = (snapshot_of g = Some payload \<and> (\<exists>n m t.
     x_uuid x n \<notin> a_id ` set (d_audit d) \<and> x_uuid x m \<notin> o_id ` set (d_outbox d) \<and>
     d' = with_log (made_entry x n g)
       (fresh_outbox t (made_event x m kind (aa_entity_type g) (aa_entity_id g) (aa_actor g) payload)) d))"

lemma with_log_simps [simp]:
  "d_audit (with_log a ob d) = d_audit d @ [a]" "d_outbox (with_log a ob d) = d_outbox d @ [ob]"
  "d_cis (with_log a ob d) = d_cis d" "d_edges (with_log a ob d) = d_edges d"
  "d_ci_indexes (with_log a ob d) = d_ci_indexes d" "d_idem (with_log a ob d) = d_idem d"
  "d_types (with_log a ob d) = d_types d" "d_rel_types (with_log a ob d) = d_rel_types d"
  "d_keys (with_log a ob d) = d_keys d" "d_runs (with_log a ob d) = d_runs d"
  "d_webhooks (with_log a ob d) = d_webhooks d"
  "with_log a ob (d\<lparr>d_idem := ids\<rparr>) = (with_log a ob d)\<lparr>d_idem := ids\<rparr>"
  by (simp_all add: with_log_def)

lemma log_change_logged:
  "snapshot_of g = Some p \<Longrightarrow>
   wp (log_change x g kind p) (\<lambda>_ w'. logged x g kind p (w_db w) (w_db w')) (\<lambda>_ _. True) w"
  by (auto simp: log_change_def run_simps logged_def with_log_def made_event_def)

text \<open>A record and the event that goes with it.\<close>

definition matching :: "ext \<Rightarrow> audit_entry \<Rightarrow> outbox_doc \<Rightarrow> bool" where
  "matching x a ob = (
     (case a_after a of None \<Rightarrow> a_before a | Some v \<Rightarrow> Some v)
       = Some (jsonable_dict x (ev_payload (o_event ob))) \<and>
     ev_entity_type (o_event ob) = a_entity_type a \<and>
     ev_entity_id (o_event ob) = a_entity_id a \<and> ev_actor (o_event ob) = a_actor a)"

lemma logged_elim:
  assumes "logged x g kind p d d'"
  obtains a ob where "d' = with_log a ob d" "matching x a ob"
    "a_id a \<notin> a_id ` set (d_audit d)" "o_id ob \<notin> o_id ` set (d_outbox d)"
    "a_action a = aa_action g" "a_entity_type a = aa_entity_type g"
    "a_entity_id a = aa_entity_id g" "a_actor a = aa_actor g" "a_revision a = aa_revision g"
    "o_status ob = Pending" "o_attempts ob = 0" "ev_type (o_event ob) = kind"
    "ev_payload (o_event ob) = p" "a_after a = map_option (jsonable_dict x) (aa_after g)"
  using assms
  by (auto simp: logged_def made_entry_def fresh_outbox_def made_event_def matching_def snapshot_of_def
      split: option.splits)

lemma ci_put: "co_docs (ci_coll t) d = d_cis d (ci_collection_name t)"
  "co_put (ci_coll t) f d = d\<lparr>d_cis := (d_cis d)
     (ci_collection_name t := f (d_cis d (ci_collection_name t)))\<rparr>"
  by (simp_all add: ci_coll_def Let_def)

abbreviation cis_of :: "db \<Rightarrow> string \<Rightarrow> ci_doc list" where
  "cis_of d t \<equiv> d_cis d (ci_collection_name t)"

lemma type_doc_for_reads [reads_intros]: "reads (type_doc_for R n)"
  by (simp add: type_doc_for_def reads_intros)

lemma validate_reads [reads_intros]: "reads (validate x m p)"
  by (simp add: validate_def reads_intros)

lemma wp_validate [run_simps]:
  "wp (validate x m p) Q E w =
     (case x_validate x m p of
        Inl errors \<Rightarrow> E (err ValidationFailedError ''Payload failed schema validation.''
                        [(''errors'', VList (List.map error_summary errors))]) w
      | Inr data \<Rightarrow> Q data w)"
  by (simp add: validate_def run_simps split: sum.splits)

lemma count_op_reads [reads_intros]: "reads (count_op a b)"
  by (simp add: count_op_def reads_intros)

lemma wp_count_op [run_simps]:
  "wp (count_op a b) Q E w = Q () (snd (count_op a b w))" "w_db (snd (count_op a b w)) = w_db w"
  by (simp_all add: count_op_def wp_metrics_incr)

section \<open>The four changes a document can undergo\<close>

definition put_cis :: "string \<Rightarrow> ci_doc list \<Rightarrow> db \<Rightarrow> db" where
  "put_cis ty es d = d\<lparr>d_cis := (d_cis d)(ci_collection_name ty := es)\<rparr>"

definition ci_inserted :: "ext \<Rightarrow> string \<Rightarrow> ci_doc \<Rightarrow> string \<Rightarrow> string option \<Rightarrow> db \<Rightarrow> db \<Rightarrow> bool" where
  "ci_inserted x ty e actor rid d d' =
     (c_id e \<notin> c_id ` set (cis_of d ty) \<and> m_revision (c_meta e) = 1 \<and>
      logged x (change_args ''create'' ty (x_oid_str x (c_id e)) actor None (Some (serialize x e))
          (Some (m_schema_version (c_meta e))) (Some 1) rid) ''ci.created'' (serialize x e)
        (put_cis ty (cis_of d ty @ [e]) d) d')"

definition ci_revised ::
  "ext \<Rightarrow> string \<Rightarrow> string \<Rightarrow> ci_doc \<Rightarrow> ci_doc \<Rightarrow> string \<Rightarrow> int option \<Rightarrow> string \<Rightarrow> string option
   \<Rightarrow> db \<Rightarrow> db \<Rightarrow> bool" where
  "ci_revised x ty i e e' kind version actor rid d d' =
     (x_oid_parse x i = Some (c_id e) \<and> List.find (by_id (c_id e)) (cis_of d ty) = Some e \<and>
      c_id e' = c_id e \<and> m_revision (c_meta e') = m_revision (c_meta e) + 1 \<and>
      logged x (change_args ''update'' ty i actor (Some (serialize x e)) (Some (serialize x e'))
          version (Some (m_revision (c_meta e'))) rid) kind (serialize x e')
        (put_cis ty (upd_first (by_id (c_id e)) (\<lambda>_. e') (cis_of d ty)) d) d')"

definition ci_refreshed :: "string \<Rightarrow> ci_doc \<Rightarrow> (ci_meta \<Rightarrow> ci_meta) \<Rightarrow> db \<Rightarrow> db \<Rightarrow> bool" where
  "ci_refreshed ty e prov d d' =
     (List.find (by_id (c_id e)) (cis_of d ty) = Some e \<and>
      d' = put_cis ty (upd_first (by_id (c_id e)) (on_meta prov) (cis_of d ty)) d)"

definition ci_removed ::
  "ext \<Rightarrow> string \<Rightarrow> string \<Rightarrow> ci_doc \<Rightarrow> string \<Rightarrow> string option \<Rightarrow> db \<Rightarrow> db \<Rightarrow> bool" where
  "ci_removed x ty i e actor rid d d' =
     (x_oid_parse x i = Some (c_id e) \<and> List.find (by_id (c_id e)) (cis_of d ty) = Some e \<and>
      logged x (change_args ''delete'' ty i actor (Some (serialize x e)) None
          (Some (m_schema_version (c_meta e))) (Some (m_revision (c_meta e))) rid)
        ''ci.deleted'' (serialize x e)
        (put_cis ty (del_first (by_id (c_id e)) (cis_of d ty)) d) d')"

lemma put_cis_simps [simp]:
  "cis_of (put_cis ty es d) ty' = (if ty' = ty then es else cis_of d ty')"
  "d_audit (put_cis ty es d) = d_audit d" "d_outbox (put_cis ty es d) = d_outbox d"
  "d_edges (put_cis ty es d) = d_edges d" "d_idem (put_cis ty es d) = d_idem d"
  "d_ci_indexes (put_cis ty es d) = d_ci_indexes d" "d_types (put_cis ty es d) = d_types d"
  by (simp_all add: put_cis_def ci_collection_name_def)

lemma ci_coll_put: "co_put (ci_coll ty) f d = put_cis ty (f (cis_of d ty)) d"
  by (simp add: ci_put put_cis_def)

section \<open>Update\<close>

text \<open>
  A successful update: the stored document had the revision the caller expected, and became
  what validation returned merged into its fields, one revision on.
\<close>

definition updated_by ::
  "ext \<Rightarrow> (model \<Rightarrow> bool) \<Rightarrow> string \<Rightarrow> string \<Rightarrow> dict \<Rightarrow> int option \<Rightarrow> bool \<Rightarrow> string \<Rightarrow> string option \<Rightarrow> dict
   \<Rightarrow> db \<Rightarrow> db \<Rightarrow> bool" where
  "updated_by x M ty i payload expected partial actor rid after d d' =
     (\<exists>e e' m data now version.
        expected = Some (m_revision (c_meta e)) \<and>
        M m \<and> x_validate x m (body_to_validate partial e payload) = Inr data \<and>
        e' = set_fields data now actor version (m_revision (c_meta e) + 1) e \<and>
        after = serialize x e' \<and>
        ci_revised x ty i e e' ''ci.updated'' (Some version) actor rid d d')"

lemma upd_first_cong:
  "List.find p xs = Some e \<Longrightarrow> List.find q xs = Some e \<Longrightarrow> f e = g e \<Longrightarrow>
   (\<And>z. z \<in> set xs \<Longrightarrow> p z = q z) \<Longrightarrow> upd_first p f xs = upd_first q g xs"
  by (induction xs) (auto split: if_splits)

definition ids_unique :: "string \<Rightarrow> db \<Rightarrow> bool" where
  "ids_unique ty d = distinct (List.map c_id (cis_of d ty))"

lemma separated_ids_unique: "separated (ci_coll ty) d \<Longrightarrow> ids_unique ty d"
  unfolding separated_def ids_unique_def distinct_sorted_wrt ci_put
  by (erule sorted_wrt_mono_rel [rotated]) (auto intro: cis.clash_ident)

lemma ids_unique_eq:
  "ids_unique ty d \<Longrightarrow> a \<in> set (cis_of d ty) \<Longrightarrow> b \<in> set (cis_of d ty) \<Longrightarrow> c_id a = c_id b \<Longrightarrow> a = b"
  by (auto simp: ids_unique_def distinct_map dest: inj_onD)

lemma find_by_id:
  assumes "ids_unique ty d" "e \<in> set (cis_of d ty)"
  shows "List.find (by_id (c_id e)) (cis_of d ty) = Some e"
proof (cases "List.find (by_id (c_id e)) (cis_of d ty)")
  case None
  with assms(2) show ?thesis by (auto simp: find_None_all by_id_def)
next
  case (Some b)
  with assms ids_unique_eq [OF assms(1), of b e] show ?thesis
    by (auto dest!: find_Some_in simp: by_id_def)
qed

lemma find_at_revision:
  assumes "ids_unique ty d" "List.find (at_revision oid expected) (cis_of d ty) = Some e"
  shows "List.find (by_id oid) (cis_of d ty) = Some e \<and> expected = Some (m_revision (c_meta e))"
proof -
  from find_Some_in [OF assms(2)] have "e \<in> set (cis_of d ty)" "c_id e = oid"
    "expected = Some (m_revision (c_meta e))" by (auto simp: at_revision_def)
  with find_by_id [OF assms(1)] show ?thesis by blast
qed

lemma upd_at_revision:
  assumes "ids_unique ty d" "List.find (at_revision oid expected) (cis_of d ty) = Some e"
  shows "upd_first (at_revision oid expected) f (cis_of d ty)
       = upd_first (by_id oid) (\<lambda>_. f e) (cis_of d ty)"
proof (rule upd_first_cong [OF assms(2)])
  show "List.find (by_id oid) (cis_of d ty) = Some e"
    using find_at_revision [OF assms] by simp
  fix z assume "z \<in> set (cis_of d ty)"
  moreover have "e \<in> set (cis_of d ty) \<and> c_id e = oid \<and> expected = Some (m_revision (c_meta e))"
    using find_Some_in [OF assms(2)] by (auto simp: at_revision_def)
  ultimately show "at_revision oid expected z = by_id oid z"
    using ids_unique_eq [OF assms(1), of z e] by (auto simp: at_revision_def by_id_def)
qed simp

lemma wp_logged:
  assumes "snapshot_of g = Some p" "\<And>w'. logged x g k p (w_db w) (w_db w') \<Longrightarrow> Q () w'" "\<And>e w'. E e w'"
  shows "wp (log_change x g k p) Q E w"
  by (rule wp_mono [OF log_change_logged [OF assms(1)]]) (use assms(2,3) in auto)

lemma set_fields_simps [simp]:
  "c_id (set_fields data now actor v r e) = c_id e"
  "m_revision (c_meta (set_fields data now actor v r e)) = r"
  by (simp_all add: set_fields_def)

lemma find_by_id_ident: "List.find (by_id oid) xs = Some e \<Longrightarrow> c_id e = oid"
  by (auto dest: find_Some_in simp: by_id_def)

lemma update_txn_effect:
  assumes "ids_unique ty d" "M m" "x_oid_parse x i = Some oid" "w_db w = d"
  shows "wp (update_txn x ty i payload expected partial actor rid t m oid)
     (\<lambda>after w'. updated_by x M ty i payload expected partial actor rid after d (w_db w'))
     (\<lambda>_ _. True) w"
proof -
  have step: "updated_by x M ty i payload expected partial actor rid
      (serialize x (set_fields data now actor v (m_revision (c_meta e) + 1) u)) d d'"
    if "List.find (by_id oid) (cis_of d ty) = Some e"
      "List.find (at_revision oid expected) (cis_of d ty) = Some u"
      "x_validate x m (body_to_validate partial e payload) = Inr data"
      "logged x (change_args ''update'' ty i actor (Some (serialize x e))
          (Some (serialize x (set_fields data now actor v (m_revision (c_meta e) + 1) u)))
          (Some v) (Some (m_revision (c_meta e) + 1)) rid)
          ''ci.updated'' (serialize x (set_fields data now actor v (m_revision (c_meta e) + 1) u))
        (put_cis ty (upd_first (at_revision oid expected)
           (set_fields data now actor v (m_revision (c_meta e) + 1)) (cis_of d ty)) d) d'"
    for e u data now v d'
  proof -
    have "u = e" "c_id e = oid" "expected = Some (m_revision (c_meta e))"
      using find_at_revision [OF assms(1) that(2)] that(1) find_by_id_ident by auto
    with that upd_at_revision [OF assms(1) that(2)] assms(2,3) show ?thesis
      unfolding updated_by_def ci_revised_def
      by (intro exI [of _ e] exI [of _ "set_fields data now actor v (m_revision (c_meta e) + 1) e"] exI [of _ m] exI [of _ data] exI [of _ now] exI [of _ v])
        auto
  qed
  show ?thesis
    unfolding update_txn_def Let_def
    by (auto simp: run_simps ci_put(1) ci_coll_put assms(4) split: option.splits sum.splits
        intro!: wp_logged step)
qed

text \<open>
  Every write looks its type up and compiles it first; the model it validates with is one that
  serves the type in the world the request found.
\<close>

lemma type_doc_known:
  "wp (type_doc_for R ty) (\<lambda>t w'. learns_nothing (lower ty) w w' \<and> known_type (lower ty) w (Some t))
     (\<lambda>e w'. w_db w' = w_db w \<and> no_model (rp_ext R) (lower ty) w e) w"
  unfolding type_doc_for_def wp_seq
  by (rule wp_mono [OF get_type_known])
    (auto simp: run_simps no_model_def learns_nothing_def split: option.splits)

lemma wp_model_seq:
  assumes "\<And>t m w'. serves (rp_ext R) (lower ty) w m \<Longrightarrow> w_db w' = w_db w \<Longrightarrow> wp (f t m) Q E w'"
    "\<And>e w'. no_model (rp_ext R) (lower ty) w e \<Longrightarrow> w_db w' = w_db w \<Longrightarrow> E e w'"
  shows "wp (seq (type_doc_for R ty) (\<lambda>t. seq (compile (rp_ext R) (rp_cfg R) ty) (f t))) Q E w"
  unfolding wp_seq
proof (rule wp_mono [OF type_doc_known], goal_cases)
  case (1 t w')
  then have same: "w_db w' = w_db w" by (simp add: learns_nothing_def)
  show ?case
    by (rule wp_mono [OF compile_serves])
      (use 1 same in \<open>auto intro: assms serves_earlier no_model_earlier\<close>)
qed (use assms(2) in auto)

lemma update_effect:
  assumes "ids_unique ty (w_db w)"
  shows "wp (update R ty i payload expected partial actor rid)
     (\<lambda>after w'. updated_by (rp_ext R) (serves (rp_ext R) (lower ty) w) ty i payload expected partial actor rid after (w_db w) (w_db w'))
     (\<lambda>_ w'. rp_txn R \<longrightarrow> w_db w' = w_db w) w"
  unfolding update_def Let_def
  by (intro wp_model_seq wp_parse_seq wp_txn_seq [OF update_txn_effect [OF assms]])
    (auto simp: run_simps)

section \<open>Delete\<close>

text \<open>
  What the repository needs of the relationship guard: counting changes nothing and tells
  whether an edge is attached to the item; detaching leaves none attached and touches no CI.
\<close>

definition same_cis :: "db \<Rightarrow> db \<Rightarrow> bool" where
  "same_cis d d' = (d_cis d' = d_cis d \<and> d_ci_indexes d' = d_ci_indexes d)"

definition deleted_by ::
  "ext \<Rightarrow> (string \<times> oid \<Rightarrow> db \<Rightarrow> bool) \<Rightarrow> (string \<times> oid \<Rightarrow> db \<Rightarrow> db \<Rightarrow> bool) \<Rightarrow> string \<Rightarrow> string
   \<Rightarrow> int option \<Rightarrow> string \<Rightarrow> string option \<Rightarrow> bool \<Rightarrow> db \<Rightarrow> db \<Rightarrow> bool" where
  "deleted_by x attached released ty i expected actor rid detach d d' =
     (\<exists>e d1. (expected = None \<or> expected = Some (m_revision (c_meta e))) \<and>
        ci_removed x ty i e actor rid d1 d' \<and> \<not> attached (ty, c_id e) d' \<and>
        (\<not> attached (ty, c_id e) d \<and> d1 = d \<or>
         attached (ty, c_id e) d \<and> detach \<and> released (ty, c_id e) d d1))"

locale delete_guard =
  fixes x :: ext
    and g :: rel_guard
    and attached :: "string \<times> oid \<Rightarrow> db \<Rightarrow> bool"
    and released :: "string \<times> oid \<Rightarrow> db \<Rightarrow> db \<Rightarrow> bool"
  assumes count_law:
      "wp (g_count_edges g ty i)
         (\<lambda>n w'. w_db w' = w_db w \<and>
            (\<exists>oid. x_oid_parse x i = Some oid \<and> (n = 0 \<longleftrightarrow> \<not> attached (ty, oid) (w_db w))))
         (\<lambda>_ w'. w_db w' = w_db w) w"
    and detach_law:
      "wp (g_detach_ci g ty i actor rid)
         (\<lambda>_ w'. \<exists>oid. x_oid_parse x i = Some oid \<and> released (ty, oid) (w_db w) (w_db w'))
         (\<lambda>_ _. True) w"
    and released_law: "released n d d' \<Longrightarrow> same_cis d d' \<and> \<not> attached n d'"
    and attached_edges: "d_edges d = d_edges d' \<Longrightarrow> attached n d = attached n d'"
begin

definition guard_done :: "string \<times> oid \<Rightarrow> bool \<Rightarrow> db \<Rightarrow> db \<Rightarrow> bool" where
  "guard_done n detach d d1 =
     (\<not> attached n d \<and> d1 = d \<or> attached n d \<and> detach \<and> released n d d1)"

lemma guard_check_effect:
  assumes "rp_guard R = Some g" "w_db w = d" "x_oid_parse x i = Some oid"
  shows "wp (guard_check R ty i actor rid detach)
     (\<lambda>_ w'. guard_done (ty, oid) detach d (w_db w')) (\<lambda>_ _. True) w"
proof -
  have "wp (g_detach_ci g ty i actor rid) (\<lambda>_ w'. released (ty, oid) d (w_db w')) (\<lambda>_ _. True) w'"
    if "w_db w' = d" for w'
    by (rule wp_mono [OF detach_law]) (use that assms(3) in auto)
  then show ?thesis
    unfolding guard_check_def assms(1) option.case wp_seq
    by (intro wp_mono [OF count_law])
      (auto simp: run_simps assms(2,3) guard_done_def elim!: wp_mono)
qed

text \<open>
  An attached edge blocks the delete unless the caller asks to detach, and after a delete
  nothing is attached to what was removed.
\<close>

lemma delete_txn_guarded:
  assumes "rp_guard R = Some g" "rp_ext R = x" "x_oid_parse x i = Some oid" "w_db w = d"
  shows "wp (delete_txn R ty i expected actor rid detach oid)
     (\<lambda>_ w'. deleted_by x attached released ty i expected actor rid detach d (w_db w')) (\<lambda>_ _. True) w"
proof -
  have after: "deleted_by x attached released ty i expected actor rid detach d d'"
    if "List.find (by_id oid) (cis_of d ty) = Some e" "guard_done (ty, oid) detach d d1"
      "logged x (change_args ''delete'' ty i actor (Some (serialize x e)) None
          (Some (m_schema_version (c_meta e))) (Some (m_revision (c_meta e))) rid)
        ''ci.deleted'' (serialize x e) (put_cis ty (del_first (by_id oid) (cis_of d1 ty)) d1) d'"
      "expected = None \<or> expected = Some (m_revision (c_meta e))"
    for e d d1 d' expected detach
  proof -
    have d1: "same_cis d d1" "\<not> attached (ty, oid) d1"
      using that(2) released_law by (auto simp: guard_done_def same_cis_def)
    have "d_edges d' = d_edges d1" using that(3) by (auto elim: logged_elim)
    with d1(2) attached_edges have "\<not> attached (ty, oid) d'" by blast
    moreover have "ci_removed x ty i e actor rid d1 d'"
      using that d1(1) find_by_id_ident [OF that(1)] assms(3) by (auto simp: ci_removed_def same_cis_def)
    ultimately show ?thesis
      using that(2,4) find_by_id_ident [OF that(1)] unfolding deleted_by_def guard_done_def by blast
  qed
  show ?thesis
    unfolding delete_txn_def Let_def assms(2)
    by (auto simp: run_simps ci_put(1) ci_coll_put assms(2-4) split: option.splits if_splits
        intro!: wp_mono [OF guard_check_effect [OF assms(1) _ assms(3)]] wp_logged)
      (blast intro: after)+
qed

lemma delete_guarded:
  assumes "rp_guard R = Some g" "rp_ext R = x"
  shows "wp (delete R ty i expected actor rid detach)
     (\<lambda>_ w'. deleted_by x attached released ty i expected actor rid detach (w_db w) (w_db w'))
     (\<lambda>_ w'. rp_txn R \<longrightarrow> w_db w' = w_db w) w"
  unfolding delete_def Let_def
  by (intro wp_read_seq [OF type_doc_for_reads] wp_parse_seq wp_txn_seq [OF delete_txn_guarded [OF assms]])
    (auto simp: run_simps assms(2))

end

section \<open>Discovery writes\<close>

lemma on_meta_simps [simp]:
  "c_id (on_meta f e) = c_id e" "c_fields (on_meta f e) = c_fields e" "c_meta (on_meta f e) = f (c_meta e)"
  by (simp_all add: on_meta_def)

lemma set_prov_revision [simp]: "m_revision (set_prov s e r t m) = m_revision m"
  "m_schema_version (set_prov s e r t m) = m_schema_version m"
  by (simp_all add: set_prov_def)

lemma upd_by_id:
  "List.find (by_id oid) xs = Some e \<Longrightarrow> upd_first (by_id oid) f xs = upd_first (by_id oid) (\<lambda>_. f e) xs"
  by (rule upd_first_cong) auto

definition marked_by :: "ext \<Rightarrow> string \<Rightarrow> string \<Rightarrow> string \<Rightarrow> string \<Rightarrow> db \<Rightarrow> db \<Rightarrow> bool" where
  "marked_by x ty i run_id actor d d' =
     (d' = d \<or> (\<exists>e now. ci_revised x ty i e
        (on_meta (flagged run_id now actor (m_revision (c_meta e) + 1)) e)
        ''ci.missing'' None actor (Some run_id) d d'))"

lemma mark_missing_txn_effect:
  assumes "x_oid_parse x i = Some oid" "w_db w = d"
  shows "wp (mark_missing_txn x ty i run_id actor oid)
     (\<lambda>_ w'. marked_by x ty i run_id actor d (w_db w')) (\<lambda>_ _. True) w"
proof -
  have after: "marked_by x ty i run_id actor d d'"
    if "List.find (by_id oid) (cis_of d ty) = Some e"
      "logged x (change_args ''update'' ty i actor (Some (serialize x e))
          (Some (serialize x (on_meta (flagged run_id now actor (m_revision (c_meta e) + 1)) e)))
          None (Some (m_revision (c_meta e) + 1)) (Some run_id)) ''ci.missing''
          (serialize x (on_meta (flagged run_id now actor (m_revision (c_meta e) + 1)) e))
        (put_cis ty (upd_first (by_id oid)
           (on_meta (flagged run_id now actor (m_revision (c_meta e) + 1))) (cis_of d ty)) d) d'"
    for e now d'
    using that find_by_id_ident [OF that(1)] assms(1)
      upd_by_id [OF that(1), of "on_meta (flagged run_id now actor (m_revision (c_meta e) + 1))"]
    unfolding ci_revised_def marked_by_def
    by (intro disjI2 exI [of _ e] exI [of _ now]) (auto simp: flagged_def)
  have same: "marked_by x ty i run_id actor d d" by (simp add: marked_by_def)
  show ?thesis
    unfolding mark_missing_txn_def Let_def
    by (auto simp: run_simps ci_put(1) ci_coll_put assms(2) same split: option.splits
        intro!: wp_logged after)
qed

lemma mark_missing_effect:
  "wp (mark_missing R ty i run_id actor)
     (\<lambda>_ w'. marked_by (rp_ext R) ty i run_id actor (w_db w) (w_db w'))
     (\<lambda>_ w'. rp_txn R \<longrightarrow> w_db w' = w_db w) w"
proof -
  have "wp (transaction (rp_ext R) (rp_txn R) (mark_missing_txn (rp_ext R) ty i run_id actor oid))
     (\<lambda>_ w'. marked_by (rp_ext R) ty i run_id actor (w_db w) (w_db w'))
     (\<lambda>_ w'. rp_txn R \<longrightarrow> w_db w' = w_db w) w"
    if "x_oid_parse (rp_ext R) i = Some oid" for oid
    by (rule wp_txn) (auto intro!: wp_mono [OF mark_missing_txn_effect [OF that]])
  then show ?thesis
    unfolding mark_missing_def Let_def by (intro wp_parse_seq) auto
qed

text \<open>
  Reconciling one discovered item: it is inserted, or revised, or nothing but its provenance
  changes - the last exactly when validation gives the same fields as before.
\<close>

definition discovered_by ::
  "ext \<Rightarrow> (model \<Rightarrow> bool) \<Rightarrow> string \<Rightarrow> dict \<Rightarrow> string \<Rightarrow> string \<Rightarrow> string \<Rightarrow> string \<Rightarrow> string \<times> disc_action \<Rightarrow> db \<Rightarrow> db \<Rightarrow> bool" where
  "discovered_by x M ty data source ext_id run_id actor r d d' =
     (\<exists>e m seen. M m \<and> fst r = x_oid_str x (c_id e) \<and>
       (case snd r of
          Created \<Rightarrow> List.find (owned_as source ext_id) (cis_of d ty) = None \<and>
            owned_as source ext_id e \<and> x_validate x m data = Inr (c_fields e) \<and>
            ci_inserted x ty e actor (Some run_id) d d'
        | Unchanged \<Rightarrow> List.find (owned_as source ext_id) (cis_of d ty) = Some e \<and>
            (\<exists>v u. x_validate x m (dmerge (c_fields e) data) = Inr v \<and>
                   x_validate x m (c_fields e) = Inr u \<and> py_eq (VDict v) (VDict u)) \<and>
            ci_refreshed ty e (set_prov source ext_id run_id seen) d d'
        | Updated \<Rightarrow> List.find (owned_as source ext_id) (cis_of d ty) = Some e \<and>
            (\<exists>v u now version.
               x_validate x m (dmerge (c_fields e) data) = Inr v \<and>
               x_validate x m (c_fields e) = Inr u \<and> \<not> py_eq (VDict v) (VDict u) \<and>
               ci_revised x ty (x_oid_str x (c_id e)) e
                 (on_meta (set_prov source ext_id run_id seen)
                    (set_fields v now actor version (m_revision (c_meta e) + 1) e))
                 ''ci.updated'' (Some version) actor (Some run_id) d d')))"

lemma created_id: "new_meta ty v now actor = m \<Longrightarrow> m_revision m = 1 \<and> m_schema_version m = v"
  by (auto simp: new_meta_def)

lemma clash_id: "\<not> list_ex (co_clash (ci_coll ty) d e) (cis_of d ty) \<Longrightarrow> c_id e \<notin> c_id ` set (cis_of d ty)"
  by (auto simp: list_ex_iff ci_coll_def Let_def ci_clash_def)

lemma discover_new_effect:
  assumes "List.find (owned_as source ext_id) (cis_of d ty) = None" "w_db w = d" and M: "M m"
  shows "wp (discover_new x ty t m data (set_prov source ext_id run_id seen) run_id actor)
     (\<lambda>r w'. discovered_by x M ty data source ext_id run_id actor r d (w_db w')) (\<lambda>_ _. True) w"
proof -
  have after: "discovered_by x M ty data source ext_id run_id actor (x_oid_str x oid, Created) d d'"
    if "x_validate x m data = Inr v" "e = \<lparr>c_id = oid, c_fields = v,
          c_meta = set_prov source ext_id run_id seen (new_meta ty (t_version t) now actor)\<rparr>"
      "\<not> list_ex (co_clash (ci_coll ty) d e) (cis_of d ty)"
      "logged x (change_args ''create'' ty (x_oid_str x oid) actor None (Some (serialize x e))
          (Some (t_version t)) (Some 1) (Some run_id)) ''ci.created'' (serialize x e)
        (put_cis ty (cis_of d ty @ [e]) d) d'"
    for v e oid now d'
    using that assms(1) M clash_id [OF that(3)]
    unfolding discovered_by_def ci_inserted_def
    by (intro exI [of _ e] exI [of _ m]) (auto simp: owned_as_def set_prov_def new_meta_def)
  show ?thesis
    unfolding discover_new_def Let_def
    by (auto simp: run_simps ci_put(1) ci_coll_put assms(2) split: sum.splits
        intro!: wp_logged after)
qed

lemma discover_known_effect:
  assumes "List.find (owned_as source ext_id) (cis_of d ty) = Some e" "w_db w = d"
    and sep: "ids_unique ty d" and "oid_codec x" and M: "M m"
  shows "wp (discover_known x ty t m data (set_prov source ext_id run_id seen) run_id actor e)
     (\<lambda>r w'. discovered_by x M ty data source ext_id run_id actor r d (w_db w')) (\<lambda>_ _. True) w"
proof -
  have found: "List.find (by_id (c_id e)) (cis_of d ty) = Some e"
    using find_by_id [OF sep] find_Some_in [OF assms(1)] by blast
  have parse: "x_oid_parse x (x_oid_str x (c_id e)) = Some (c_id e)"
    using assms(4) by (simp add: oid_codec_def)
  let ?prov = "set_prov source ext_id run_id seen"
  have unchanged: "discovered_by x M ty data source ext_id run_id actor (x_oid_str x (c_id e), Unchanged) d
       (put_cis ty (upd_first (by_id (c_id e)) (on_meta ?prov) (cis_of d ty)) d)"
    if "x_validate x m (dmerge (c_fields e) data) = Inr v" "x_validate x m (c_fields e) = Inr u"
      "py_eq (VDict v) (VDict u)" for v u
    using that assms(1) found M unfolding discovered_by_def ci_refreshed_def
    by (intro exI [of _ e] exI [of _ m] exI [of _ seen]) auto
  have updated: "discovered_by x M ty data source ext_id run_id actor (x_oid_str x (c_id e), Updated) d d'"
    if "x_validate x m (dmerge (c_fields e) data) = Inr v" "x_validate x m (c_fields e) = Inr u"
      "\<not> py_eq (VDict v) (VDict u)"
      "f = (\<lambda>e. on_meta ?prov (set_fields v now actor (t_version t) (r + 1) e))"
      "r = m_revision (c_meta e)"
      "logged x (change_args ''update'' ty (x_oid_str x (c_id e)) actor (Some (serialize x e))
          (Some (serialize x (f e))) (Some (t_version t)) (Some (r + 1)) (Some run_id))
          ''ci.updated'' (serialize x (f e))
        (put_cis ty (upd_first (by_id (c_id e)) f (cis_of d ty)) d) d'"
    for v u f now d' r
    using that assms(1) found parse M upd_by_id [OF found, of f]
    unfolding discovered_by_def ci_revised_def snd_conv disc_action.case fst_conv
    by (intro exI [of _ e] exI [of _ m] exI [of _ seen] conjI exI [of _ v] exI [of _ u]
        exI [of _ now] exI [of _ "t_version t"]) simp_all
  show ?thesis
    unfolding discover_known_def Let_def
    by (auto simp: run_simps ci_put(1) ci_coll_put assms(2) found unchanged
        simp del: py_eq.simps split: sum.splits option.splits
        intro!: wp_logged updated [OF _ _ _ refl refl])
qed

lemma apply_discovery_effect:
  assumes "ids_unique ty (w_db w)" "oid_codec (rp_ext R)"
  shows "wp (apply_discovery R ty data source ext_id run_id actor)
     (\<lambda>r w'. discovered_by (rp_ext R) (serves (rp_ext R) (lower ty) w) ty data source ext_id run_id actor r (w_db w) (w_db w'))
     (\<lambda>_ w'. rp_txn R \<longrightarrow> w_db w' = w_db w) w"
proof -
  have body: "wp (apply_discovery_txn (rp_ext R) ty data source ext_id run_id actor t m seen)
     (\<lambda>r w'. discovered_by (rp_ext R) (serves (rp_ext R) (lower ty) w) ty data source ext_id run_id actor r (w_db w) (w_db w'))
     (\<lambda>_ _. True) w0" if "w_db w0 = w_db w" "serves (rp_ext R) (lower ty) w m" for t m seen w0
    unfolding apply_discovery_txn_def Let_def
    using that assms
    by (auto simp: run_simps ci_put(1) split: option.splits
        intro!: discover_new_effect discover_known_effect)
  have "wp (transaction (rp_ext R) (rp_txn R)
        (apply_discovery_txn (rp_ext R) ty data source ext_id run_id actor t m seen))
     (\<lambda>r w'. discovered_by (rp_ext R) (serves (rp_ext R) (lower ty) w) ty data source ext_id run_id actor r (w_db w) (w_db w'))
     (\<lambda>_ w'. rp_txn R \<longrightarrow> w_db w' = w_db w) w0" if "w_db w0 = w_db w" "serves (rp_ext R) (lower ty) w m"
    for t m seen w0
    by (rule wp_txn) (use that in \<open>auto intro!: wp_mono [OF body]\<close>)
  then show ?thesis
    unfolding apply_discovery_def Let_def
    by (intro wp_model_seq wp_read_seq [OF reads_prim(6)]) auto
qed

section \<open>Create\<close>

definition idem_ok :: "db \<Rightarrow> bool" where
  "idem_ok d = (\<forall>r\<in>set (d_idem d). i_status r = IDone \<longrightarrow> i_response r \<noteq> None)"

definition claimed :: "ext \<Rightarrow> string \<Rightarrow> string option \<Rightarrow> db \<Rightarrow> db \<Rightarrow> bool" where
  "claimed x ty use_key d d1 =
     (case use_key of
        None \<Rightarrow> d1 = d
      | Some k \<Rightarrow> idem_key ty k \<notin> i_id ` set (d_idem d) \<and>
          (\<exists>n. d1 = d\<lparr>d_idem := d_idem d @ [pending_rec x n ty k]\<rparr>))"

text \<open>The response kept under a key.\<close>

definition kept_response :: "string \<Rightarrow> string \<Rightarrow> db \<Rightarrow> dict option" where
  "kept_response ty k d =
     (case List.find (\<lambda>r. i_id r = idem_key ty k) (d_idem d) of
        None \<Rightarrow> None | Some r \<Rightarrow> if i_status r = IDone then i_response r else None)"

lemma pending_id [simp]: "i_id (pending_rec x n s k) = idem_key s k"
  by (simp add: pending_rec_def)

lemma claimed_found:
  assumes "claimed x ty (Some k) d d1"
  shows "\<exists>r. List.find (\<lambda>r. i_id r = idem_key ty k) (d_idem d1) = Some r"
proof -
  from assms obtain n where d1: "d1 = d\<lparr>d_idem := d_idem d @ [pending_rec x n ty k]\<rparr>"
    and "\<forall>r\<in>set (d_idem d). i_id r \<noteq> idem_key ty k"
    unfolding claimed_def option.case by (metis imageI)
  from find_append_last [OF this(2), of "pending_rec x n ty k"] show ?thesis
    by (simp add: d1)
qed

lemma precheck_effect:
  assumes "idem_ok (w_db w)"
  shows "wp (idempotency_precheck x ty k)
     (\<lambda>r w'. case r of Some ser \<Rightarrow> w_db w' = w_db w \<and> kept_response ty k (w_db w) = Some ser
             | None \<Rightarrow> claimed x ty (Some k) (w_db w) (w_db w'))
     (\<lambda>_ w'. w_db w' = w_db w) w"
  using assms
  by (fastforce simp: idempotency_precheck_def run_simps kept_response_def claimed_def idem_ok_def
      dest: find_Some_in split: option.splits)

definition created_by ::
  "ext \<Rightarrow> (model \<Rightarrow> bool) \<Rightarrow> string \<Rightarrow> dict \<Rightarrow> string \<Rightarrow> string option \<Rightarrow> string option \<Rightarrow> dict \<Rightarrow> db \<Rightarrow> db \<Rightarrow> bool" where
  "created_by x M ty payload actor rid use_key ser d d' =
     (\<exists>e m d1 ids. M m \<and> x_validate x m payload = Inr (c_fields e) \<and> ser = serialize x e \<and>
        (\<exists>version now. c_meta e = new_meta ty version now actor) \<and>
        ci_inserted x ty e actor rid d d1 \<and> d' = d1\<lparr>d_idem := ids\<rparr> \<and>
        (case use_key of None \<Rightarrow> ids = d_idem d | Some k \<Rightarrow> kept_response ty k d' = Some ser) \<and>
        idem_ok d')"

text \<open>What a failed create may leave behind: its claim on the key.\<close>

definition only_claimed :: "ext \<Rightarrow> string \<Rightarrow> string option \<Rightarrow> db \<Rightarrow> db \<Rightarrow> bool" where
  "only_claimed x ty use_key d d' =
     (d' = d \<or> (use_key \<noteq> None \<and> claimed x ty use_key d d'))"

lemma insert_logged_effect:
  assumes "w_db w = d"
  shows "wp (insert_logged x ty data meta actor rid)
     (\<lambda>ser w'. \<exists>oid. ser = serialize x \<lparr>c_id = oid, c_fields = data, c_meta = meta\<rparr> \<and>
        oid \<notin> c_id ` set (cis_of d ty) \<and>
        logged x (change_args ''create'' ty (x_oid_str x oid) actor None (Some ser)
            (Some (m_schema_version meta)) (Some 1) rid) ''ci.created'' ser
          (put_cis ty (cis_of d ty @ [\<lparr>c_id = oid, c_fields = data, c_meta = meta\<rparr>]) d) (w_db w'))
     (\<lambda>_ _. True) w"
  unfolding insert_logged_def Let_def
  by (auto simp: run_simps ci_put(1) ci_coll_put assms dest!: clash_id
      intro!: wp_logged exI [of _ "x_oid x (w_n w)"])

lemma find_upd_first:
  "List.find p xs = Some e \<Longrightarrow> p (f e) \<Longrightarrow> List.find p (upd_first p f xs) = Some (f e)"
  by (induction xs) (auto split: if_splits)

lemma store_result_effect:
  assumes "List.find (\<lambda>r. i_id r = idem_key ty k) (d_idem (w_db w)) = Some r"
  shows "wp (idem_store_result x ty k ser)
     (\<lambda>_ w'. (\<exists>ids. w_db w' = (w_db w)\<lparr>d_idem := ids\<rparr>) \<and> kept_response ty k (w_db w') = Some ser \<and>
        (idem_ok (w_db w) \<longrightarrow> idem_ok (w_db w')))
     (\<lambda>_ _. True) w"
proof -
  have "List.find (\<lambda>r. i_id r = idem_key ty k) (upd_first (\<lambda>r. i_id r = idem_key ty k) f (d_idem (w_db w)))
      = Some (f r)" if "i_id (f r) = idem_key ty k" for f
    by (rule find_upd_first [OF assms]) (rule that)
  moreover have "i_id r = idem_key ty k" using find_Some_in [OF assms] by simp
  moreover have "idem_ok ((w_db w)\<lparr>d_idem := upd_first (\<lambda>r. i_id r = idem_key ty k)
      (\<lambda>r. r\<lparr>i_status := IDone, i_response := Some ser, i_completed_at := Some t\<rparr>) (d_idem (w_db w))\<rparr>)"
    if "idem_ok (w_db w)" for t
    using that subsetD [OF set_upd_first] by (fastforce simp: idem_ok_def)
  ultimately show ?thesis
    by (auto simp: idem_store_result_def run_simps idem_put assms kept_response_def)
qed

lemma logged_idem: "logged x g kind p d d' \<Longrightarrow> d_idem d' = d_idem d"
  by (auto simp: logged_def)

lemma put_cis_idem [simp]: "put_cis ty es (d\<lparr>d_idem := ids\<rparr>) = (put_cis ty es d)\<lparr>d_idem := ids\<rparr>"
  by (simp add: put_cis_def)

lemma idem_self [simp]: "d_idem d = i \<Longrightarrow> d\<lparr>d_idem := i\<rparr> = d"
  by auto

lemma logged_commute:
  assumes "logged x g kind p (put_cis ty es (d\<lparr>d_idem := ids\<rparr>)) d'"
  shows "\<exists>d1. logged x g kind p (put_cis ty es d) d1 \<and> d' = d1\<lparr>d_idem := ids\<rparr>"
  using assms unfolding logged_def put_cis_idem with_log_simps by simp blast

lemma create_txn_effect:
  assumes "claimed x ty use_key d d1" "x_validate x m payload = Inr data" "w_db w = d1"
    and meta: "meta = new_meta ty v now actor" and M: "M m" and ok: "idem_ok d"
  shows "wp (create_txn x ty data meta actor rid use_key)
     (\<lambda>ser w'. created_by x M ty payload actor rid use_key ser d (w_db w')) (\<lambda>_ _. True) w"
proof -
  obtain ids where ids: "d1 = d\<lparr>d_idem := ids\<rparr>" "use_key = None \<longrightarrow> ids = d_idem d"
    using assms(1) by (cases use_key) (auto simp: claimed_def intro: that [of "d_idem d"])
  have ok1: "idem_ok d1"
    using assms(1) ok by (auto simp: claimed_def idem_ok_def pending_rec_def split: option.splits)
  have keep: "idem_ok d3" if "d_idem d3 = d_idem d1" for d3 :: db
    using ok1 that by (simp add: idem_ok_def)
  have after: "created_by x M ty payload actor rid use_key (serialize x e) d d3"
    if "c_id e \<notin> c_id ` set (cis_of d1 ty)" "c_fields e = data" "c_meta e = meta"
      "logged x (change_args ''create'' ty (x_oid_str x (c_id e)) actor None (Some (serialize x e))
            (Some (m_schema_version meta)) (Some 1) rid) ''ci.created'' (serialize x e)
          (put_cis ty (cis_of d1 ty @ [e]) d1) d2" "d3 = d2\<lparr>d_idem := ids'\<rparr>"
      "case use_key of None \<Rightarrow> ids' = d_idem d2 | Some k \<Rightarrow> kept_response ty k d3 = Some (serialize x e)"
      "idem_ok d3"
    for e d2 d3 ids'
  proof -
    from that(4) logged_commute [of x _ _ _ ty _ ids d d2] obtain d0 where
      d0: "logged x (change_args ''create'' ty (x_oid_str x (c_id e))
          actor None (Some (serialize x e)) (Some (m_schema_version meta)) (Some 1) rid)
          ''ci.created'' (serialize x e) (put_cis ty (cis_of d ty @ [e]) d) d0"
        "d2 = d0\<lparr>d_idem := ids\<rparr>"
      unfolding ids(1) by fastforce
    have "d_idem d2 = ids" using d0(2) by simp
    moreover have "m_revision meta = 1" "\<exists>version now. meta = new_meta ty version now actor"
      using meta created_id by auto
    ultimately show ?thesis
      using d0 that ids assms(2) M
      unfolding created_by_def ci_inserted_def
      by (intro exI [of _ e] exI [of _ m] exI [of _ d0] exI [of _ ids'])
        (auto split: option.splits)
  qed
  show ?thesis
  proof (cases use_key)
    case None
    show ?thesis
      unfolding create_txn_def wp_seq
    proof (rule wp_mono [OF insert_logged_effect [OF assms(3)]], goal_cases)
      case (1 ser w')
      then obtain oid where "ser = serialize x \<lparr>c_id = oid, c_fields = data, c_meta = meta\<rparr>"
        "oid \<notin> c_id ` set (cis_of d1 ty)"
        "logged x (change_args ''create'' ty (x_oid_str x oid) actor None (Some ser)
            (Some (m_schema_version meta)) (Some 1) rid) ''ci.created'' ser
          (put_cis ty (cis_of d1 ty @ [\<lparr>c_id = oid, c_fields = data, c_meta = meta\<rparr>]) d1) (w_db w')"
        by blast
      with after [of "\<lparr>c_id = oid, c_fields = data, c_meta = meta\<rparr>" "w_db w'" "w_db w'"
          "d_idem (w_db w')"] None keep [of "w_db w'"]
      show ?case by (auto simp: run_simps dest!: logged_idem)
    qed simp
  next
    case (Some k)
    with assms(1) obtain r where r: "List.find (\<lambda>r. i_id r = idem_key ty k) (d_idem d1) = Some r"
      using claimed_found by blast
    show ?thesis
      unfolding create_txn_def wp_seq Some option.case
    proof (rule wp_mono [OF insert_logged_effect [OF assms(3)]], goal_cases)
      case (1 ser w')
      then obtain oid where new: "ser = serialize x \<lparr>c_id = oid, c_fields = data, c_meta = meta\<rparr>"
        "oid \<notin> c_id ` set (cis_of d1 ty)"
        "logged x (change_args ''create'' ty (x_oid_str x oid) actor None (Some ser)
            (Some (m_schema_version meta)) (Some 1) rid) ''ci.created'' ser
          (put_cis ty (cis_of d1 ty @ [\<lparr>c_id = oid, c_fields = data, c_meta = meta\<rparr>]) d1) (w_db w')"
        by blast
      then have same: "d_idem (w_db w') = d_idem d1" by (auto dest!: logged_idem)
      with r have found: "List.find (\<lambda>r. i_id r = idem_key ty k) (d_idem (w_db w')) = Some r" by simp
      show ?case
        unfolding wp_ret
      proof (rule wp_mono [OF store_result_effect [OF found]], goal_cases)
        case (1 _ w'')
        then obtain ids' where "w_db w'' = (w_db w')\<lparr>d_idem := ids'\<rparr>" by blast
        with after [of "\<lparr>c_id = oid, c_fields = data, c_meta = meta\<rparr>" "w_db w'" "w_db w''" ids'] 1 new Some keep [of "w_db w'"]
          same
        show ?case by simp
      qed simp
    qed simp
  qed
qed

lemma release_effect:
  assumes "claimed x ty (Some k) d (w_db w)"
    "\<And>w'. only_claimed x ty (Some k) d (w_db w') \<Longrightarrow> Q () w'"
  shows "wp (idem_release x ty k) Q E w"
proof -
  from assms(1) obtain n where d1: "w_db w = d\<lparr>d_idem := d_idem d @ [pending_rec x n ty k]\<rparr>"
    and new: "\<forall>r\<in>set (d_idem d). i_id r \<noteq> idem_key ty k"
    unfolding claimed_def option.case by (metis imageI)
  have "del_first (\<lambda>r. i_id r = idem_key ty k \<and> i_status r = IPending) (l @ [pending_rec x n ty k]) = l"
    if "\<forall>r\<in>set l. i_id r \<noteq> idem_key ty k" for l
    using that by (induction l) (auto simp: pending_rec_def)
  with new have gone: "del_first (\<lambda>r. i_id r = idem_key ty k \<and> i_status r = IPending) (d_idem (w_db w))
      = d_idem d" by (simp add: d1)
  have "(w_db w)\<lparr>d_idem := d_idem d\<rparr> = d" by (simp add: d1)
  with gone assms show ?thesis
    by (auto simp: idem_release_def run_simps idem_put only_claimed_def)
qed

lemma create_tail:
  assumes "claimed x ty use_key d (w_db w)" "x_validate x m payload = Inr data"
    "meta = new_meta ty v now actor" "M m"
    "idem_ok d"
  shows "wp (catch_exn (transaction x en (create_txn x ty data meta actor rid use_key))
       (\<lambda>ex. seq (case use_key of None \<Rightarrow> ret () | Some key \<Rightarrow> idem_release x ty key) (\<lambda>_. raise_exn ex)))
     (\<lambda>ser w'. created_by x M ty payload actor rid use_key ser d (w_db w'))
     (\<lambda>_ w'. en \<longrightarrow> only_claimed x ty use_key d (w_db w')) w"
proof -
  have txn: "wp (transaction x en (create_txn x ty data meta actor rid use_key))
     (\<lambda>ser w'. created_by x M ty payload actor rid use_key ser d (w_db w'))
     (\<lambda>_ w'. en \<longrightarrow> claimed x ty use_key d (w_db w')) w"
    by (rule wp_txn) (use assms in \<open>auto intro!: wp_mono [OF create_txn_effect [of x ty use_key d "w_db w", where M = M]]\<close>)
  show ?thesis
    unfolding wp_catch
  proof (rule wp_mono [OF txn], goal_cases)
    case (2 e w')
    show ?case
    proof (cases use_key)
      case None
      with 2 show ?thesis by (simp add: run_simps claimed_def only_claimed_def)
    next
      case (Some k)
      with 2 show ?thesis
        by (cases en) (auto simp: run_simps intro: release_effect)
    qed
  qed
qed

text \<open>
  A create that returns has either replayed the response kept under its key and written
  nothing, or inserted exactly one document; one that raises leaves no trace but, if releasing
  fails too, its claim on the key.
\<close>

lemma create_effect:
  assumes "use_key = active_key R idempotency_key" "idem_ok (w_db w)"
  shows "wp (create R ty payload actor rid idempotency_key)
     (\<lambda>ser w'. created_by (rp_ext R) (serves (rp_ext R) (lower ty) w) ty payload actor rid use_key ser (w_db w) (w_db w') \<or>
        (\<exists>k. use_key = Some k \<and> kept_response ty k (w_db w) = Some ser \<and> w_db w' = w_db w))
     (\<lambda>_ w'. rp_txn R \<longrightarrow> only_claimed (rp_ext R) ty use_key (w_db w) (w_db w')) w"
proof -
  let ?x = "rp_ext R" and ?d = "w_db w"
  let ?M = "serves (rp_ext R) (lower ty) w"
  have none: "only_claimed ?x ty use_key ?d ?d" by (simp add: only_claimed_def)
  have tail: "wp (seq (utcnow ?x) (\<lambda>now. seq (catch_exn
          (transaction ?x (rp_txn R) (create_txn ?x ty data (new_meta ty v now actor) actor rid use_key))
          (\<lambda>ex. seq (case use_key of None \<Rightarrow> ret () | Some key \<Rightarrow> idem_release ?x ty key)
             (\<lambda>_. raise_exn ex)))
        (\<lambda>ser. seq (count_op ty ''create'') (\<lambda>_. ret ser))))
     (\<lambda>ser w'. created_by ?x ?M ty payload actor rid use_key ser ?d (w_db w') \<or>
        (\<exists>k. use_key = Some k \<and> kept_response ty k ?d = Some ser \<and> w_db w' = ?d))
     (\<lambda>_ w'. rp_txn R \<longrightarrow> only_claimed ?x ty use_key ?d (w_db w')) w1"
    if "claimed ?x ty use_key ?d (w_db w1)" "x_validate ?x m payload = Inr data" "?M m" for m data v w1
    unfolding wp_seq wp_utcnow
    by (rule wp_mono [OF create_tail [OF _ that(2), where M = ?M]])
      (use that(1,3) assms(2) in \<open>auto simp: run_simps new_meta_def\<close>)
  show ?thesis
  proof (cases use_key)
    case None
    with tail none show ?thesis
      unfolding create_def Let_def assms(1) [symmetric]
      by (intro wp_model_seq)
        (auto simp: claimed_def wp_seq [of "validate _ _ _"] wp_validate wp_seq [of "ret _"] wp_ret
           split: sum.splits)
  next
    case (Some k)
    have pre: "wp (idempotency_precheck ?x ty k)
       (\<lambda>r w'. case r of Some ser \<Rightarrow> w_db w' = ?d \<and> kept_response ty k ?d = Some ser
             | None \<Rightarrow> claimed ?x ty (Some k) ?d (w_db w'))
       (\<lambda>_ w'. w_db w' = ?d) w1" if "w_db w1 = ?d" for w1
      using precheck_effect [of w1 ?x ty k] assms(2) unfolding that by blast
    show ?thesis
      unfolding create_def Let_def assms(1) [symmetric]
      using tail none
      by (intro wp_model_seq)
        (auto simp: Some wp_seq [of "validate _ _ _"] wp_validate
            wp_seq [of "idempotency_precheck _ _ _"] wp_ret intro!: wp_mono [OF pre]
           split: sum.splits option.splits)
  qed
qed

end
