(* ===== verification/Graph_Facts.thy ===== *)
theory Graph_Facts
  imports Graph Repository_Facts
begin

text \<open>
  What the relationship graph guarantees: the registry cache, the guard contract of the CI
  repository, exactness of the breadth-first search within its depth, and the edge integrity
  rules.
\<close>

section \<open>The cached registry\<close>

definition stored_rel :: "string \<Rightarrow> db \<Rightarrow> rel_type_doc option" where
  "stored_rel n d = List.find (rel_active_named n) (d_rel_types d)"

lemma rel_put: "co_docs rel_types_coll d = d_rel_types d" by (simp add: rel_types_coll_def)

lemma wp_rel_get_type [run_simps]:
  "wp (rel_get_type x cfg n) Q E w =
     (let query = (\<lambda>w. if x_fault x (w_n w) then E MongoError (bump w)
            else Q (stored_rel (lower n) (w_db w))
              ((bump (bump w))\<lparr>w_worker := (w_worker w)\<lparr>wk_rel_cache := (wk_rel_cache (w_worker w))
                (lower n \<mapsto> (x_mono x (Suc (w_n w)) + schema_cache_ttl_seconds cfg,
                            stored_rel (lower n) (w_db w)))\<rparr>\<rparr>)) in
      case wk_rel_cache (w_worker w) (lower n) of
        None \<Rightarrow> query w
      | Some (t, doc) \<Rightarrow> (if t \<le> x_mono x (w_n w) then query (bump w) else Q doc (bump w)))"
  by (auto simp: rel_get_type_def Let_def run_simps rel_put stored_rel_def split: option.splits)

lemma rel_get_type_reads [reads_intros]: "reads (rel_get_type x cfg n)"
  by (auto simp: rel_get_type_def Let_def intro!: reads_intros)

interpretation rel_cache: ttl_cache wk_rel_cache drop_rel "\<lambda>x. rel_get_type x cfg" stored_rel
  "schema_cache_ttl_seconds cfg"
proof unfold_locales
  fix n k m
  show "wk_rel_cache (drop_rel n k) m = (if m = n then None else wk_rel_cache k m)"
    by (simp add: drop_rel_def)
next
  fix w :: world and n t doc and x :: ext
  assume "wk_rel_cache (w_worker w) n = Some (t, doc)" "lower n = n" "x_mono x (w_n w) < t"
  then show "rel_get_type x cfg n w = (Inr doc, bump w)"
    by (simp add: run_wp [of "rel_get_type x cfg n" w] wp_rel_get_type)
next
  fix w :: world and n doc' w' and x :: ext
  assume "wk_rel_cache (w_worker w) n = None \<or>
      (\<exists>t doc. wk_rel_cache (w_worker w) n = Some (t, doc) \<and> t \<le> x_mono x (w_n w))"
    "lower n = n" "rel_get_type x cfg n w = (Inr doc', w')"
  then show "doc' = stored_rel n (w_db w) \<and> w_db w' = w_db w \<and>
      (\<exists>i. w_n w \<le> i \<and> i < w_n w' \<and>
        wk_rel_cache (w_worker w') n = Some (x_mono x i + schema_cache_ttl_seconds cfg, doc'))"
    by (auto simp: run_wp [of "rel_get_type x cfg n" w] wp_rel_get_type Let_def split: if_splits)
      (force intro: exI [of _ "Suc (w_n w)"] exI [of _ "Suc (Suc (w_n w))"])+
qed

section \<open>The guard\<close>

definition attached :: "node \<Rightarrow> db \<Rightarrow> bool" where
  "attached n d = (\<exists>e\<in>set (d_edges d). touches n e)"

lemma edges_put: "co_docs edges_coll d = d_edges d"
  "co_put edges_coll f d = d\<lparr>d_edges := f (d_edges d)\<rparr>"
  "co_clash edges_coll d a b = (e_id a = e_id b \<or> edge_key a = edge_key b)"
  by (simp_all add: edges_coll_def)

lemma snapshot_of_edge [simp]:
  "snapshot_of (edge_audit a r i c b (Some v) q) = Some v" "snapshot_of (edge_audit a r i c b None q) = b"
  by (simp_all add: edge_audit_def)

text \<open>
  Nothing but log entries: records and matching events, in pairs, each under a new identifier.
\<close>

inductive log_only :: "ext \<Rightarrow> db \<Rightarrow> db \<Rightarrow> bool" for x where
  log_none [simp]: "log_only x d d"
| log_more: "log_only x d d1 \<Longrightarrow> logged x g kind p d1 d2 \<Longrightarrow> log_only x d d2"

lemma logged_log_only: "logged x g k p d d' \<Longrightarrow> log_only x d d'"
  by (rule log_more [OF log_none])

lemma log_only_trans: "log_only x d1 d2 \<Longrightarrow> log_only x d d1 \<Longrightarrow> log_only x d d2"
  by (induction rule: log_only.induct) (auto intro: log_more)

lemma logged_same:
  "logged x g k p d d' \<Longrightarrow> d_edges d' = d_edges d \<and> d_cis d' = d_cis d \<and>
     d_ci_indexes d' = d_ci_indexes d \<and> d_idem d' = d_idem d \<and> d_types d' = d_types d"
  by (auto elim: logged_elim)

lemma log_only_same:
  "log_only x d d' \<Longrightarrow> d_edges d' = d_edges d \<and> d_cis d' = d_cis d \<and>
     d_ci_indexes d' = d_ci_indexes d \<and> d_idem d' = d_idem d \<and> d_types d' = d_types d"
  by (induction rule: log_only.induct) (auto dest: logged_same)

lemma edge_deleted_logs:
  "wp (edge_deleted x actor rid e) (\<lambda>_ w'. log_only x (w_db w) (w_db w')) (\<lambda>_ _. True) w"
  unfolding edge_deleted_def Let_def by (intro wp_logged logged_log_only) auto

lemma each_logs:
  "log_only x d (w_db w) \<Longrightarrow>
   wp (each (edge_deleted x actor rid) es) (\<lambda>_ w'. log_only x d (w_db w')) (\<lambda>_ _. True) w"
proof (induction es arbitrary: w)
  case (Cons e es)
  then show ?case
    unfolding each.simps wp_seq
    by (intro wp_mono [OF edge_deleted_logs]) (auto dest: log_only_trans)
qed (simp add: run_simps)

lemma count_edges_law:
  "wp (count_edges G ty i)
     (\<lambda>n w'. w_db w' = w_db w \<and> (\<exists>oid. x_oid_parse (rr_ext G) i = Some oid \<and>
        (n = 0 \<longleftrightarrow> \<not> attached (ty, oid) (w_db w)))) (\<lambda>_ w'. w_db w' = w_db w) w"
  by (auto simp: count_edges_def run_simps edges_put attached_def filter_empty_conv split: option.splits)

definition detached :: "ext \<Rightarrow> node \<Rightarrow> db \<Rightarrow> db \<Rightarrow> bool" where
  "detached x n d d' = log_only x (d\<lparr>d_edges := filter (\<lambda>e. \<not> touches n e) (d_edges d)\<rparr>) d'"

lemma detached_none: "filter (touches n) (d_edges d) = [] \<Longrightarrow> detached x n d d"
  by (simp add: detached_def filter_empty_conv filter_id_conv [THEN iffD2])

lemma detached_facts:
  assumes "detached x n d d'"
  shows "same_cis d d'" "\<not> attached n d'"
  using log_only_same [OF assms [unfolded detached_def]] by (auto simp: same_cis_def attached_def)

lemma detach_ci_effect:
  "wp (detach_ci G ty i actor rid)
     (\<lambda>_ w'. \<exists>oid. x_oid_parse (rr_ext G) i = Some oid \<and> detached (rr_ext G) (ty, oid) (w_db w) (w_db w'))
     (\<lambda>_ _. True) w"
proof -
  have logs: "wp (each (edge_deleted (rr_ext G) actor rid) es)
      (\<lambda>_ w'. detached (rr_ext G) n d (w_db w')) (\<lambda>_ _. True) w'"
    if "w_db w' = d\<lparr>d_edges := filter (\<lambda>e. \<not> touches n e) (d_edges d)\<rparr>" for es n d w'
    unfolding detached_def by (rule each_logs) (simp add: that)
  show ?thesis
    unfolding detach_ci_def Let_def
    by (auto simp: run_simps edges_put split: option.splits
        intro!: detached_none wp_mono [OF logs])
qed

interpretation graph_delete_guard: delete_guard "rr_ext G" "graph_guard G" attached "detached (rr_ext G)"
proof unfold_locales
  fix ty i w
  show "wp (g_count_edges (graph_guard G) ty i)
     (\<lambda>n w'. w_db w' = w_db w \<and> (\<exists>oid. x_oid_parse (rr_ext G) i = Some oid \<and>
        (n = 0 \<longleftrightarrow> \<not> attached (ty, oid) (w_db w)))) (\<lambda>_ w'. w_db w' = w_db w) w"
    using count_edges_law by (simp add: graph_guard_def)
next
  fix ty i actor rid w
  show "wp (g_detach_ci (graph_guard G) ty i actor rid)
     (\<lambda>_ w'. \<exists>oid. x_oid_parse (rr_ext G) i = Some oid \<and> detached (rr_ext G) (ty, oid) (w_db w) (w_db w'))
     (\<lambda>_ _. True) w"
    unfolding graph_guard_def rel_guard.simps by (rule detach_ci_effect)
next
  fix n d d' assume "detached (rr_ext G) n d d'"
  then show "same_cis d d' \<and> \<not> attached n d'" using detached_facts by blast
qed (simp add: attached_def)

section \<open>Breadth-first search\<close>

text \<open>The pure form of the loop, over the edges of the collection.\<close>

fun levels ::
  "ext \<Rightarrow> direction \<Rightarrow> bool \<Rightarrow> edge list \<Rightarrow> nat \<Rightarrow> node list \<Rightarrow> bfs_state \<Rightarrow> bfs_state" where
  "levels x dir dep es 0 frontier s = s\<lparr>bs_next := frontier\<rparr>"
| "levels x dir dep es (Suc n) frontier s =
     (if frontier = [] then s\<lparr>bs_next := []\<rparr>
      else let s' = fold (visit x dir) (filter (level_query dir dep frontier) es) (s\<lparr>bs_next := []\<rparr>)
           in levels x dir dep es n (bs_next s') s')"

lemma wp_bfs_levels:
  "wp (bfs_levels x dir dep n frontier s)
     (\<lambda>s' w'. w_db w' = w_db w \<and> s' = levels x dir dep (d_edges (w_db w)) n frontier s)
     (\<lambda>e w'. w_db w' = w_db w \<and> e = MongoError) w"
proof (induction n arbitrary: frontier s w)
  case (Suc n)
  show ?case
    using Suc [of _ _ "bump w"] by (simp add: run_simps edges_put Let_def)
qed (simp add: run_simps)

definition arc :: "direction \<Rightarrow> bool \<Rightarrow> edge list \<Rightarrow> (node \<times> node) set" where
  "arc dir dep es = {(near dir e, far dir e) |e. e \<in> set es \<and> (dep \<longrightarrow> e_dependency e)}"

text \<open>What lies within \<open>n\<close> arcs.\<close>

fun grow :: "(node \<times> node) set \<Rightarrow> nat \<Rightarrow> node set \<Rightarrow> node set" where
  "grow R 0 V = V"
| "grow R (Suc n) V = grow R n (V \<union> R `` V)"

definition keys_injective :: "ext \<Rightarrow> bool" where
  "keys_injective x = (\<forall>a b. x_oid_str x a = x_oid_str x b \<longrightarrow> a = b)"

lemma oid_codec_injective: "oid_codec x \<Longrightarrow> keys_injective x"
  by (metis keys_injective_def oid_codec_def option.inject)

lemma node_key_eq: "keys_injective x \<Longrightarrow> node_key x a = node_key x b \<longleftrightarrow> a = b"
  by (cases a; cases b) (auto simp: node_key_def keys_injective_def)

lemma fold_visit:
  assumes "keys_injective x" "set (bs_visited s) = node_key x ` V" "set (bs_next s) \<subseteq> V"
  shows "let s' = fold (visit x dir) es s; F = far dir ` set es in
     set (bs_visited s') = node_key x ` (V \<union> F) \<and>
     set (bs_next s') = set (bs_next s) \<union> (F - V) \<and>
     set (bs_nodes s') = set (bs_nodes s) \<union> node_key x ` (F - V) \<and>
     (distinct (bs_nodes s) \<and> set (bs_nodes s) \<subseteq> node_key x ` V \<longrightarrow>
        distinct (bs_nodes s') \<and> set (bs_nodes s') \<subseteq> node_key x ` (V \<union> F)) \<and>
     bs_edges s' = bs_edges s @ List.map (serialize_edge x) es"
  using assms(2,3)
proof (induction es arbitrary: s V)
  case (Cons e es)
  let ?n = "far dir e"
  have new: "node_key x ?n \<in> set (bs_visited s) \<longleftrightarrow> ?n \<in> V"
    unfolding Cons.prems(1) using node_key_eq [OF assms(1)] by (metis imageE imageI)
  have "set (bs_visited (visit x dir e s)) = node_key x ` (insert ?n V)"
    "set (bs_next (visit x dir e s)) \<subseteq> insert ?n V"
    using new Cons.prems by (auto simp: visit_def Let_def)
  note IH = Cons.IH [OF this]
  show ?case
    using IH new Cons.prems node_key_eq [OF assms(1)]
    by (auto simp: Let_def visit_def split: if_splits)
qed simp

definition bfs_inv ::
  "ext \<Rightarrow> (node \<times> node) set \<Rightarrow> node \<Rightarrow> node set \<Rightarrow> node list \<Rightarrow> bfs_state \<Rightarrow> bool" where
  "bfs_inv x R start V F s =
     (set (bs_visited s) = node_key x ` V \<and> start \<in> V \<and> set F \<subseteq> V \<and> R `` (V - set F) \<subseteq> V \<and>
      set (bs_nodes s) = node_key x ` (V - {start}) \<and> distinct (bs_nodes s))"

lemma far_level:
  "far dir ` set (filter (level_query dir dep F) es) = arc dir dep es `` set F"
  by (auto simp: level_query_def arc_def)

lemma bfs_inv_step:
  assumes "keys_injective x" "bfs_inv x R start V F s"
    and R: "R = arc dir dep es" and s': "s' = fold (visit x dir) (filter (level_query dir dep F) es)
       (s\<lparr>bs_next := []\<rparr>)"
  shows "bfs_inv x R start (V \<union> R `` V) (bs_next s') s'"
proof -
  have inv: "set (bs_visited s) = node_key x ` V" "start \<in> V" "set F \<subseteq> V" "R `` (V - set F) \<subseteq> V"
    "set (bs_nodes s) = node_key x ` (V - {start})" "distinct (bs_nodes s)"
    using assms(2) by (auto simp: bfs_inv_def)
  have "R `` V = R `` set F \<union> R `` (V - set F)" using inv(3) by blast
  with inv(4) have V': "V \<union> R `` V = V \<union> R `` set F" by blast
  have new: "set (bs_visited s') = node_key x ` (V \<union> R `` set F)"
    "set (bs_next s') = R `` set F - V"
    "set (bs_nodes s') = set (bs_nodes s) \<union> node_key x ` (R `` set F - V)" "distinct (bs_nodes s')"
    using fold_visit [OF assms(1), of "s\<lparr>bs_next := []\<rparr>" V dir "filter (level_query dir dep F) es"] inv
    unfolding far_level s' R [symmetric] Let_def by auto
  have "(V \<union> R `` set F) - (R `` set F - V) = V" "R `` V \<subseteq> V \<union> R `` set F" using V' by blast+
  with new inv V' show ?thesis unfolding bfs_inv_def V' by auto
qed

lemma grow_fix: "R `` V \<subseteq> V \<Longrightarrow> grow R n V = V"
  by (induction n) (auto simp: Un_absorb2)

lemma levels_inv:
  assumes "keys_injective x" "bfs_inv x R start V F s" "R = arc dir dep es"
  shows "bfs_inv x R start (grow R n V) (bs_next (levels x dir dep es n F s)) (levels x dir dep es n F s)"
  using assms(2)
proof (induction n arbitrary: V F s)
  case 0
  then show ?case by (simp add: bfs_inv_def)
next
  case (Suc n)
  show ?case
  proof (cases "F = []")
    case True
    with Suc.prems have "R `` V \<subseteq> V" by (simp add: bfs_inv_def)
    then have "grow R (Suc n) V = V" by (rule grow_fix)
    with True Suc.prems show ?thesis by (simp add: bfs_inv_def)
  next
    case False
    with Suc.IH [OF bfs_inv_step [OF assms(1) Suc.prems assms(3) refl]] show ?thesis
      by (simp add: Let_def)
  qed
qed

lemma grow_subset: "V \<subseteq> grow R n V"
  by (induction n arbitrary: V) (auto, blast)

lemma grow_reach: "grow R n V \<subseteq> R\<^sup>* `` V"
proof (induction n arbitrary: V)
  case (Suc n)
  have "R\<^sup>* `` (V \<union> R `` V) \<subseteq> R\<^sup>* `` V"
    by (auto intro: converse_rtrancl_into_rtrancl)
  with Suc [of "V \<union> R `` V"] show ?case by auto
qed auto

lemma closed_reach: "R `` V \<subseteq> V \<Longrightarrow> R\<^sup>* `` V = V"
  by (auto simp: Image_closed_trancl)

lemma grow_power: "grow R n {a} = {b. \<exists>k\<le>n. (a, b) \<in> R ^^ k}"
proof -
  have "grow R n V = {b. \<exists>a\<in>V. \<exists>k\<le>n. (a, b) \<in> R ^^ k}" for V
  proof (induction n arbitrary: V)
    case (Suc n)
    have "(\<exists>a\<in>V \<union> R `` V. \<exists>k\<le>n. (a, b) \<in> R ^^ k) \<longleftrightarrow> (\<exists>a\<in>V. \<exists>k\<le>Suc n. (a, b) \<in> R ^^ k)" (is "?l \<longleftrightarrow> ?r") for b
    proof
      assume ?l
      then consider a k where "a \<in> V" "k \<le> n" "(a, b) \<in> R ^^ k"
        | a c k where "a \<in> V" "(a, c) \<in> R" "k \<le> n" "(c, b) \<in> R ^^ k" by blast
      then show ?r
      proof cases
        case 1
        then show ?thesis by (meson le_SucI)
      next
        case 2
        then have "(a, b) \<in> R ^^ Suc k" by (metis relpow_Suc_I2)
        with 2 show ?thesis by (meson Suc_le_mono)
      qed
    next
      assume ?r
      then obtain a k where "a \<in> V" "k \<le> Suc n" "(a, b) \<in> R ^^ k" by blast
      show ?l
      proof (cases k)
        case 0
        with \<open>a \<in> V\<close> \<open>(a, b) \<in> R ^^ k\<close> show ?thesis
          by (intro bexI [of _ a] exI [of _ 0]) auto
      next
        case (Suc j)
        with \<open>(a, b) \<in> R ^^ k\<close> obtain c where "(a, c) \<in> R" "(c, b) \<in> R ^^ j"
          by (metis relpow_Suc_D2)
        with Suc \<open>a \<in> V\<close> \<open>k \<le> Suc n\<close> show ?thesis by blast
      qed
    qed
    with Suc show ?case by simp
  qed simp
  from this [of "{a}"] show ?thesis by simp
qed

text \<open>
  What a search reports: exactly the nodes within the depth bound, each once, without the start;
  when it does not report truncation, exactly the reachable ones.
\<close>

definition bfs_exact ::
  "ext \<Rightarrow> (node \<times> node) set \<Rightarrow> node \<Rightarrow> nat \<Rightarrow> (string \<times> string) list \<Rightarrow> bool \<Rightarrow> bool" where
  "bfs_exact x R start depth nodes truncated =
     (distinct nodes \<and>
      set nodes = node_key x ` ({n. \<exists>k\<le>depth. (start, n) \<in> R ^^ k} - {start}) \<and>
      (\<not> truncated \<longrightarrow> set nodes = node_key x ` (R\<^sup>* `` {start} - {start})))"

lemma bfs_effect:
  assumes "keys_injective (rr_ext G)"
  shows "wp (bfs G start dir dep)
     (\<lambda>r w'. w_db w' = w_db w \<and> bfs_exact (rr_ext G) (arc dir dep (d_edges (w_db w))) start
        (graph_max_depth (rr_cfg G)) (fst r) (snd (snd r)))
     (\<lambda>_ w'. w_db w' = w_db w) w"
proof -
  let ?x = "rr_ext G" and ?R = "arc dir dep (d_edges (w_db w))" and ?N = "graph_max_depth (rr_cfg G)"
  let ?init = "\<lparr>bs_visited = [node_key ?x start], bs_nodes = [], bs_edges = [], bs_next = []\<rparr>"
  let ?s = "levels ?x dir dep (d_edges (w_db w)) ?N [start] ?init"
  have "bfs_inv ?x ?R start {start} [start] ?init" by (simp add: bfs_inv_def)
  from levels_inv [OF assms this refl]
  have inv: "bfs_inv ?x ?R start (grow ?R ?N {start}) (bs_next ?s) ?s" .
  have "grow ?R ?N {start} = ?R\<^sup>* `` {start}" if "bs_next ?s = []"
  proof -
    have "?R `` grow ?R ?N {start} \<subseteq> grow ?R ?N {start}"
      using inv that by (simp add: bfs_inv_def)
    from closed_reach [OF this] grow_subset [of "{start}" ?R ?N] grow_reach [of ?R ?N "{start}"]
    show ?thesis by blast
  qed
  with inv have "bfs_exact ?x ?R start ?N (bs_nodes ?s) (bs_next ?s \<noteq> [])"
    unfolding bfs_exact_def grow_power bfs_inv_def by auto
  then show ?thesis
    unfolding bfs_def Let_def wp_seq wp_ret by (intro wp_mono [OF wp_bfs_levels]) auto
qed

section \<open>Creating an edge\<close>

definition present :: "node \<Rightarrow> db \<Rightarrow> bool" where
  "present n d = (\<exists>e\<in>set (cis_of d (fst n)). c_id e = snd n)"

definition cardinality_free :: "rel_def \<Rightarrow> node \<Rightarrow> node \<Rightarrow> edge list \<Rightarrow> bool" where
  "cardinality_free rd f t es =
     ((rd_cardinality rd \<in> {OneToOne, ManyToOne} \<longrightarrow>
         (\<forall>e\<in>set es. \<not> (e_rel_type e = rd_name rd \<and> e_from e = f))) \<and>
      (rd_cardinality rd \<in> {OneToOne, OneToMany} \<longrightarrow>
         (\<forall>e\<in>set es. \<not> (e_rel_type e = rd_name rd \<and> e_to e = t))))"

definition admissible ::
  "ext \<Rightarrow> nat \<Rightarrow> edge_args \<Rightarrow> rel_def \<Rightarrow> node \<Rightarrow> node \<Rightarrow> db \<Rightarrow> bool" where
  "admissible x depth g rd f t d =
     (fst f = lower (ea_from_type g) \<and> x_oid_parse x (ea_from_id g) = Some (snd f) \<and>
      fst t = lower (ea_to_type g) \<and> x_oid_parse x (ea_to_id g) = Some (snd t) \<and>
      allows_from rd (fst f) \<and> allows_to rd (fst t) \<and> (f = t \<longrightarrow> rd_allow_self rd) \<and>
      present f d \<and> present t d \<and> cardinality_free rd f t (d_edges d) \<and>
      (rd_dependency rd \<longrightarrow>
         f = t \<or> (\<forall>k\<le>depth. (t, f) \<notin> arc Out True (d_edges d) ^^ k)))"

lemma wp_ci_exists [run_simps]:
  "wp (ci_exists x n) Q E w =
     (if x_fault x (w_n w) then E MongoError (bump w) else Q (present n (w_db w)) (bump w))"
proof -
  have "(List.find (by_id (snd n)) (cis_of (w_db w) (fst n)) \<noteq> None) = present n (w_db w)"
    by (auto simp: present_def find_None_all by_id_def)
  then show ?thesis by (simp add: ci_exists_def run_simps ci_put(1))
qed

lemma check_cardinality_effect:
  "wp (check_cardinality x rd f t)
     (\<lambda>_ w'. w_db w' = w_db w \<and> cardinality_free rd f t (d_edges (w_db w)))
     (\<lambda>_ w'. w_db w' = w_db w) w"
  by (auto simp: check_cardinality_def cardinality_free_def run_simps edges_put filter_empty_conv)

lemma check_no_cycle_effect:
  assumes "keys_injective (rr_ext G)"
  shows "wp (check_no_cycle G f t)
     (\<lambda>_ w'. w_db w' = w_db w \<and> (f = t \<or>
        (\<forall>k\<le>graph_max_depth (rr_cfg G). (t, f) \<notin> arc Out True (d_edges (w_db w)) ^^ k)))
     (\<lambda>_ w'. w_db w' = w_db w) w"
  unfolding check_no_cycle_def wp_seq
  by (rule wp_mono [OF bfs_effect [OF assms]])
    (auto simp: run_simps bfs_exact_def image_iff node_key_eq [OF assms])

lemma check_dependency_effect:
  assumes "keys_injective (rr_ext G)"
  shows "wp (check_dependency G rd f t)
     (\<lambda>_ w'. w_db w' = w_db w \<and> (rd_dependency rd \<longrightarrow> f = t \<or>
        (\<forall>k\<le>graph_max_depth (rr_cfg G). (t, f) \<notin> arc Out True (d_edges (w_db w)) ^^ k)))
     (\<lambda>_ w'. w_db w' = w_db w) w"
  using check_no_cycle_effect [OF assms, of f t w]
  by (auto simp: check_dependency_def run_simps elim: wp_mono)

lemma edge_checks_effect:
  assumes "keys_injective (rr_ext G)"
  shows "wp (edge_checks G g rd)
     (\<lambda>ft w'. w_db w' = w_db w \<and>
        admissible (rr_ext G) (graph_max_depth (rr_cfg G)) g rd (fst ft) (snd ft) (w_db w))
     (\<lambda>_ w'. w_db w' = w_db w) w"
proof -
  let ?x = "rr_ext G" and ?d = "w_db w" and ?N = "graph_max_depth (rr_cfg G)"
  have card: "wp (seq (check_cardinality ?x rd f t) (\<lambda>_. seq (check_dependency G rd f t) (\<lambda>_. ret (f, t))))
     (\<lambda>ft w'. w_db w' = ?d \<and> admissible ?x ?N g rd (fst ft) (snd ft) ?d)
     (\<lambda>_ w'. w_db w' = ?d) w0"
    if "w_db w0 = ?d" "present f ?d" "present t ?d" "f = t \<longrightarrow> rd_allow_self rd"
      "allows_from rd (fst f)" "allows_to rd (fst t)"
      "f = (lower (ea_from_type g), fo)" "t = (lower (ea_to_type g), ti)"
      "x_oid_parse ?x (ea_from_id g) = Some fo" "x_oid_parse ?x (ea_to_id g) = Some ti"
    for f t fo ti w0
    unfolding wp_seq
  proof (rule wp_mono [OF check_cardinality_effect], goal_cases)
    case (1 _ w1)
    show ?case
      by (rule wp_mono [OF check_dependency_effect [OF assms]])
        (use 1 that in \<open>auto simp: run_simps admissible_def\<close>)
  qed (use that in auto)
  show ?thesis
    unfolding edge_checks_def Let_def
    by (auto simp: wp_if wp_raise wp_seq [of "ci_exists _ _"] wp_ci_exists intro!: wp_parse_seq card)
qed

definition put_edges :: "edge list \<Rightarrow> db \<Rightarrow> db" where
  "put_edges es d = d\<lparr>d_edges := es\<rparr>"

lemma put_edges_simps [simp]:
  "d_edges (put_edges es d) = es" "d_cis (put_edges es d) = d_cis d"
  "d_audit (put_edges es d) = d_audit d" "d_outbox (put_edges es d) = d_outbox d"
  by (simp_all add: put_edges_def)

lemma edges_coll_put: "co_put edges_coll f d = put_edges (f (d_edges d)) d"
  by (simp add: edges_put put_edges_def)

text \<open>A successful creation: the checks held, the edge is new, and it was logged.\<close>

definition edge_created :: "ext \<Rightarrow> nat \<Rightarrow> edge_args \<Rightarrow> rel_def \<Rightarrow> edge \<Rightarrow> db \<Rightarrow> db \<Rightarrow> bool" where
  "edge_created x depth g rd e d d' =
     (e_rel_type e = rd_name rd \<and> e_dependency e = rd_dependency rd \<and>
      admissible x depth g rd (e_from e) (e_to e) d \<and>
      (\<forall>e'\<in>set (d_edges d). e_id e' \<noteq> e_id e \<and> edge_key e' \<noteq> edge_key e) \<and>
      logged x (edge_audit ''create'' (rd_name rd) (x_oid_str x (e_id e)) (ea_actor g) None
          (Some (serialize_edge x e)) (ea_request_id g)) ''relationship.created'' (serialize_edge x e)
        (put_edges (d_edges d @ [e]) d) d')"

lemma new_edge_simps [simp]:
  "e_rel_type (new_edge rd f t g i n) = rd_name rd" "e_dependency (new_edge rd f t g i n) = rd_dependency rd"
  "(e_from_type (new_edge rd f t g i n), e_from_id (new_edge rd f t g i n)) = f"
  "(e_to_type (new_edge rd f t g i n), e_to_id (new_edge rd f t g i n)) = t"
  "e_id (new_edge rd f t g i n) = i"
  by (simp_all add: new_edge_def)

lemma create_edge_txn_effect:
  assumes "admissible x depth g rd f t d" "w_db w = d"
  shows "wp (create_edge_txn x g rd f t now)
     (\<lambda>ser w'. \<exists>e. ser = serialize_edge x e \<and> edge_created x depth g rd e d (w_db w')) (\<lambda>_ _. True) w"
proof -
  have after: "\<exists>e'. serialize_edge x e = serialize_edge x e' \<and> edge_created x depth g rd e' d d'"
    if "e = new_edge rd f t g oid now"
      "\<not> list_ex (co_clash edges_coll d e) (d_edges d)"
      "logged x (edge_audit ''create'' (rd_name rd) (x_oid_str x oid) (ea_actor g) None
          (Some (serialize_edge x e)) (ea_request_id g)) ''relationship.created'' (serialize_edge x e)
        (put_edges (d_edges d @ [e]) d) d'"
    for e oid d'
    using that assms(1)
    by (intro exI [of _ e]) (auto simp: edge_created_def list_ex_iff edges_put(3))
  show ?thesis
    unfolding create_edge_txn_def Let_def
    by (auto simp: run_simps edges_put(1) edges_coll_put assms(2) intro!: wp_logged after)
qed

text \<open>
  A create that returns made exactly one admissible, new edge; with transactions one that
  raises made none.
\<close>

lemma create_edge_effect:
  assumes "keys_injective (rr_ext G)"
  shows "wp (create_edge G g)
     (\<lambda>ser w'. \<exists>rd e w1. rel_def_of (rr_ext G) (rr_cfg G) (ea_rel_type g) w = (Inr rd, w1) \<and>
        ser = serialize_edge (rr_ext G) e \<and>
        edge_created (rr_ext G) (graph_max_depth (rr_cfg G)) g rd e (w_db w) (w_db w'))
     (\<lambda>_ w'. rr_txn G \<longrightarrow> w_db w' = w_db w) w"
proof -
  let ?x = "rr_ext G" and ?N = "graph_max_depth (rr_cfg G)"
  have reads: "reads (rel_def_of ?x (rr_cfg G) n)" for n
    by (auto simp: rel_def_of_def intro!: reads_intros split: sum.splits)
  have txn: "wp (transaction ?x (rr_txn G) (create_edge_txn ?x g rd f t now))
     (\<lambda>ser w'. \<exists>e. ser = serialize_edge ?x e \<and> edge_created ?x ?N g rd e d (w_db w'))
     (\<lambda>_ w'. rr_txn G \<longrightarrow> w_db w' = d) w0"
    if "admissible ?x ?N g rd f t d" "w_db w0 = d" for rd f t now d w0
    by (rule wp_txn) (use that in \<open>auto intro!: wp_mono [OF create_edge_txn_effect [OF that(1)]]\<close>)
  have rest: "wp (seq (edge_checks G g rd) (\<lambda>ft. seq (utcnow ?x) (\<lambda>now.
      seq (catch_exn (transaction ?x (rr_txn G) (create_edge_txn ?x g rd (fst ft) (snd ft) now))
             (\<lambda>ex. if ex = DuplicateKey then raise_exn duplicate_edge else raise_exn ex)) (\<lambda>ser.
      seq (count_op (rel_entity (rd_name rd)) ''create'') (\<lambda>_. ret ser)))))
     (\<lambda>ser w'. \<exists>e. ser = serialize_edge ?x e \<and> edge_created ?x ?N g rd e d (w_db w'))
     (\<lambda>_ w'. rr_txn G \<longrightarrow> w_db w' = d) w0"
    if "w_db w0 = d" for rd d w0
    unfolding wp_seq wp_utcnow wp_catch
    by (rule wp_mono [OF edge_checks_effect [OF assms]])
      (use that in \<open>auto simp: wp_count_op wp_ret wp_if wp_raise intro!: wp_mono [OF txn]\<close>)
  show ?thesis
  proof (cases "rel_def_of ?x (rr_cfg G) (ea_rel_type g) w")
    case (Pair r w1)
    with readsD [OF reads] have db: "w_db w1 = w_db w" by blast
    show ?thesis
      using Pair rest [OF db]
      unfolding create_edge_def Let_def
      by (cases r) (auto simp: wp_seq [of "rel_def_of _ _ _"] wp_def [of "rel_def_of _ _ _"] db elim!: wp_mono)
  qed
qed

section \<open>Deleting an edge\<close>

definition edge_removed :: "ext \<Rightarrow> string \<Rightarrow> int option \<Rightarrow> string \<Rightarrow> string option \<Rightarrow> db \<Rightarrow> db \<Rightarrow> bool" where
  "edge_removed x i expected actor rid d d' =
     (\<exists>e. x_oid_parse x i = Some (e_id e) \<and> List.find (edge_by_id (e_id e)) (d_edges d) = Some e \<and>
        (expected = None \<or> expected = Some (e_revision e)) \<and>
        logged x (edge_audit ''delete'' (e_rel_type e) (x_oid_str x (e_id e)) actor
            (Some (serialize_edge x e)) None rid) ''relationship.deleted'' (serialize_edge x e)
          (put_edges (del_first (edge_by_id (e_id e)) (d_edges d)) d) d')"

lemma delete_edge_effect:
  "wp (delete_edge G i expected actor rid)
     (\<lambda>_ w'. edge_removed (rr_ext G) i expected actor rid (w_db w) (w_db w'))
     (\<lambda>_ w'. rr_txn G \<longrightarrow> w_db w' = w_db w) w"
proof -
  let ?x = "rr_ext G"
  define body where "body oid = seq (find_one ?x edges_coll (edge_by_id oid)) (\<lambda>found.
         case found of
           None \<Rightarrow> raise_exn (edge_not_found i)
         | Some e \<Rightarrow>
             if expected \<noteq> None \<and> Some (e_revision e) \<noteq> expected
             then raise_exn (edge_mismatch expected (e_revision e))
             else
               seq (delete_one ?x edges_coll (edge_by_id oid)) (\<lambda>_.
               edge_deleted ?x actor rid e))" for oid
  have after: "edge_removed ?x i expected actor rid d d'"
    if "x_oid_parse ?x i = Some oid" "List.find (edge_by_id oid) (d_edges d) = Some e"
      "logged ?x (edge_audit ''delete'' (e_rel_type e) (x_oid_str ?x (e_id e)) actor
            (Some (serialize_edge ?x e)) None rid) ''relationship.deleted'' (serialize_edge ?x e)
          (put_edges (del_first (edge_by_id oid) (d_edges d)) d) d'"
      "expected = None \<or> expected = Some (e_revision e)"
    for oid e d d' expected
  proof -
    have "e_id e = oid" using find_Some_in [OF that(2)] by (simp add: edge_by_id_def)
    with that show ?thesis unfolding edge_removed_def by blast
  qed
  have body: "wp (body oid) (\<lambda>_ w'. edge_removed ?x i expected actor rid d (w_db w')) (\<lambda>_ _. True) w0"
    if "x_oid_parse ?x i = Some oid" "w_db w0 = d" for oid d w0
    unfolding body_def edge_deleted_def Let_def
    by (auto simp: run_simps edges_put(1) edges_coll_put that(2) split: option.splits
        intro!: wp_logged after [OF that(1)])
  have "wp (transaction ?x (rr_txn G) (body oid))
     (\<lambda>_ w'. edge_removed ?x i expected actor rid (w_db w) (w_db w'))
     (\<lambda>_ w'. rr_txn G \<longrightarrow> w_db w' = w_db w) w" if "x_oid_parse ?x i = Some oid" for oid
    by (rule wp_txn) (auto intro!: wp_mono [OF body [OF that]])
  then show ?thesis
    unfolding delete_edge_def Let_def body_def by (intro wp_parse_seq) auto
qed

section \<open>Integrity of the edge set\<close>

definition dep_graph :: "db \<Rightarrow> (node \<times> node) set" where
  "dep_graph d = arc Out True (d_edges d)"

lemma dep_graph_created:
  assumes "edge_created x depth g rd e d d'"
  shows "dep_graph d' = (if rd_dependency rd then insert (e_from e, e_to e) (dep_graph d) else dep_graph d)"
proof -
  have "d_edges d' = d_edges d @ [e]" "e_dependency e = rd_dependency rd"
    using assms by (auto simp: edge_created_def dest: logged_same)
  then show ?thesis by (auto simp: dep_graph_def arc_def near_def far_def)
qed

text \<open>Every dependency path is as long as the depth bound, at most.\<close>

definition shallow :: "nat \<Rightarrow> db \<Rightarrow> bool" where
  "shallow depth d = (\<forall>a b. (a, b) \<in> (dep_graph d)\<^sup>* \<longrightarrow> (\<exists>k\<le>depth. (a, b) \<in> dep_graph d ^^ k))"

lemma edge_created_acyclic:
  assumes "edge_created x depth g rd e d d'" "acyclic (dep_graph d)" "shallow depth d"
    and "rd_dependency rd \<longrightarrow> \<not> rd_allow_self rd"
  shows "acyclic (dep_graph d')"
proof (cases "rd_dependency rd")
  case True
  have adm: "admissible x depth g rd (e_from e) (e_to e) d"
    using assms(1) by (simp add: edge_created_def)
  then have "e_from e \<noteq> e_to e" using assms(4) True by (auto simp: admissible_def)
  with adm True have "\<forall>k\<le>depth. (e_to e, e_from e) \<notin> dep_graph d ^^ k"
    unfolding admissible_def dep_graph_def by blast
  with assms(3) have "(e_to e, e_from e) \<notin> (dep_graph d)\<^sup>*"
    unfolding shallow_def by blast
  with assms(2) True show ?thesis
    by (simp add: dep_graph_created [OF assms(1)])
next
  case False
  with assms(2) show ?thesis by (simp add: dep_graph_created [OF assms(1)])
qed

text \<open>At most one edge of a type leaves, or enters, a node.\<close>

definition one_source :: "string \<Rightarrow> db \<Rightarrow> bool" where
  "one_source n d = (\<forall>a\<in>set (d_edges d). \<forall>b\<in>set (d_edges d).
     e_rel_type a = n \<and> e_rel_type b = n \<and> e_from a = e_from b \<longrightarrow> a = b)"

definition one_target :: "string \<Rightarrow> db \<Rightarrow> bool" where
  "one_target n d = (\<forall>a\<in>set (d_edges d). \<forall>b\<in>set (d_edges d).
     e_rel_type a = n \<and> e_rel_type b = n \<and> e_to a = e_to b \<longrightarrow> a = b)"

definition cardinality_ok :: "(string \<Rightarrow> cardinality) \<Rightarrow> db \<Rightarrow> bool" where
  "cardinality_ok kind d = (\<forall>n. (single_source (kind n) \<longrightarrow> one_source n d) \<and>
     (single_target (kind n) \<longrightarrow> one_target n d))"

lemma cardinality_ok_mono: "cardinality_ok kind d \<Longrightarrow> kind \<le> kind' \<Longrightarrow> cardinality_ok kind' d"
  by (simp add: cardinality_ok_def le_fun_def less_eq_cardinality_def)

lemma edge_created_cardinality:
  assumes "edge_created x depth g rd e d d'" "cardinality_ok kind d" "rd_cardinality rd \<le> kind (rd_name rd)"
  shows "cardinality_ok kind d'"
proof -
  have d': "d_edges d' = d_edges d @ [e]" and e: "e_rel_type e = rd_name rd"
    and free: "cardinality_free rd (e_from e) (e_to e) (d_edges d)"
    using assms(1) by (auto simp: edge_created_def admissible_def dest: logged_same)
  have "one_source n d'" if "single_source (kind n)" for n
  proof -
    have "one_source n d" using that assms(2) by (auto simp: cardinality_ok_def)
    moreover have "\<forall>a\<in>set (d_edges d). \<not> (e_rel_type a = n \<and> e_from a = e_from e)" if "n = rd_name rd"
      using free that \<open>single_source (kind n)\<close> assms(3)
      by (auto simp: cardinality_free_def less_eq_cardinality_def single_source_def)
    ultimately show ?thesis using e unfolding one_source_def d' by fastforce
  qed
  moreover have "one_target n d'" if "single_target (kind n)" for n
  proof -
    have "one_target n d" using that assms(2) by (auto simp: cardinality_ok_def)
    moreover have "\<forall>a\<in>set (d_edges d). \<not> (e_rel_type a = n \<and> e_to a = e_to e)" if "n = rd_name rd"
      using free that \<open>single_target (kind n)\<close> assms(3)
      by (auto simp: cardinality_free_def less_eq_cardinality_def single_target_def)
    ultimately show ?thesis using e unfolding one_target_def d' by fastforce
  qed
  ultimately show ?thesis by (simp add: cardinality_ok_def)
qed

text \<open>The cycle test says no exactly when a path within the depth bound leads back.\<close>

lemma check_no_cycle_exact:
  assumes "keys_injective (rr_ext G)"
  shows "wp (check_no_cycle G f t)
     (\<lambda>_ w'. f = t \<or> (\<forall>k\<le>graph_max_depth (rr_cfg G). (t, f) \<notin> dep_graph (w_db w) ^^ k))
     (\<lambda>ex w'. ex = MongoError \<or> (ex = dependency_cycle \<and> f \<noteq> t \<and>
        (\<exists>k\<le>graph_max_depth (rr_cfg G). (t, f) \<in> dep_graph (w_db w) ^^ k))) w"
proof -
  have "wp (bfs G t Out True)
     (\<lambda>r w'. bfs_exact (rr_ext G) (dep_graph (w_db w)) t (graph_max_depth (rr_cfg G)) (fst r) (snd (snd r)))
     (\<lambda>ex _. ex = MongoError) w"
  proof (rule wp_mono [OF wp_conj [OF bfs_effect [OF assms]]])
    show "wp (bfs G t Out True) (\<lambda>_ _. True) (\<lambda>ex _. ex = MongoError) w"
      unfolding bfs_def Let_def wp_seq by (rule wp_mono [OF wp_bfs_levels]) (auto simp: run_simps)
  qed (auto simp: dep_graph_def)
  then show ?thesis
    unfolding check_no_cycle_def wp_seq
    by (rule wp_mono) (auto simp: run_simps bfs_exact_def image_iff node_key_eq [OF assms])
qed

end
