(* ===== verification/System.thy ===== *)
theory System
  imports Graph_Facts
begin

text \<open>
  The service as a transition system: one step is one request (with its clocks, faults and
  caches) or one pass of the outbox dispatcher, run to its end against the database. The theory
  shows what stays true in every reachable state.
\<close>

section \<open>Steps\<close>

record service =
  sv_repo :: repo
  sv_graph :: rel_repo

text \<open>
  How \<open>create_app\<close> wires the two repositories: one context, transactions on, the graph as
  the delete guard.
\<close>

definition wired :: "service \<Rightarrow> bool" where
  "wired S = (rr_ext (sv_graph S) = rp_ext (sv_repo S) \<and> rp_txn (sv_repo S) \<and> rr_txn (sv_graph S) \<and>
     rp_guard (sv_repo S) = Some (graph_guard (sv_graph S)) \<and> oid_codec (rp_ext (sv_repo S)))"

inductive service_step :: "service \<Rightarrow> db \<Rightarrow> db \<Rightarrow> bool" for S where
  step_create: "create (sv_repo S) ty payload actor rid key w = (r, w') \<Longrightarrow>
     service_step S (w_db w) (w_db w')"
| step_update: "update (sv_repo S) ty i payload expected partial actor rid w = (r, w') \<Longrightarrow>
     service_step S (w_db w) (w_db w')"
| step_delete: "delete (sv_repo S) ty i expected actor rid detach w = (u, w') \<Longrightarrow>
     service_step S (w_db w) (w_db w')"
| step_discovery: "apply_discovery (sv_repo S) ty data source ext_id run actor w = (p, w') \<Longrightarrow>
     service_step S (w_db w) (w_db w')"
| step_missing: "mark_missing (sv_repo S) ty i run actor w = (u, w') \<Longrightarrow>
     service_step S (w_db w) (w_db w')"
| step_link: "create_edge (sv_graph S) g w = (r, w') \<Longrightarrow> service_step S (w_db w) (w_db w')"
| step_unlink: "delete_edge (sv_graph S) i expected actor rid w = (u, w') \<Longrightarrow>
     service_step S (w_db w) (w_db w')"
| step_dispatch: "dispatch_once (rp_ext (sv_repo S)) (rp_cfg (sv_repo S))
       (bus_publish (rp_cfg (sv_repo S))) w = (n, w') \<Longrightarrow> service_step S (w_db w) (w_db w')"
| step_replay: "replay (rp_ext (sv_repo S)) i w = (b, w') \<Longrightarrow> service_step S (w_db w) (w_db w')"

text \<open>An action whose changes to the database are a sequence of steps.\<close>

definition via :: "(db \<Rightarrow> db \<Rightarrow> bool) \<Rightarrow> 'a act \<Rightarrow> bool" where
  "via R m = (\<forall>w. R\<^sup>*\<^sup>* (w_db w) (w_db (snd (m w))))"

named_theorems via_intros "actions made of steps"

lemma via_reads: "reads m \<Longrightarrow> via R m"
  by (simp add: via_def reads_def)

lemma via_step: "(\<And>w. R (w_db w) (w_db (snd (m w)))) \<Longrightarrow> via R m"
  by (simp add: via_def r_into_rtranclp)

lemma via_mono: "via R m \<Longrightarrow> (\<And>d d'. R d d' \<Longrightarrow> R' d d') \<Longrightarrow> via R' m"
  unfolding via_def by (blast intro: rtranclp_mono [THEN predicate2D])

lemma via_keeps: "via R m \<Longrightarrow> (\<And>d d'. R d d' \<Longrightarrow> I d \<Longrightarrow> I d') \<Longrightarrow> keeps I m"
proof (rule keepsI)
  fix w :: world
  assume "via R m" and step: "\<And>d d'. R d d' \<Longrightarrow> I d \<Longrightarrow> I d'" and "I (w_db w)"
  moreover have "I d" if "R\<^sup>*\<^sup>* (w_db w) d" for d
    using that by induction (use calculation in auto)
  ultimately show "I (w_db (snd (m w)))" by (simp add: via_def)
qed

lemma via_ret [via_intros]: "via R (ret a)" and via_raise [via_intros]: "via R (raise_exn e)"
  by (simp_all add: via_reads reads_prim)

lemma via_seq [via_intros]: "via R m \<Longrightarrow> (\<And>a. via R (f a)) \<Longrightarrow> via R (seq m f)"
  by (auto simp: via_def seq_def split: prod.splits sum.splits) (metis rtranclp_trans snd_conv)+

lemma via_catch [via_intros]: "via R m \<Longrightarrow> (\<And>e. via R (h e)) \<Longrightarrow> via R (catch_exn m h)"
  by (auto simp: via_def catch_exn_def split: prod.splits sum.splits) (metis rtranclp_trans snd_conv)+

lemma via_if [via_intros]: "via R m \<Longrightarrow> via R m' \<Longrightarrow> via R (if b then m else m')"
  by simp

lemma via_option [via_intros]:
  "via R m \<Longrightarrow> (\<And>a. via R (f a)) \<Longrightarrow> via R (case v of None \<Rightarrow> m | Some a \<Rightarrow> f a)"
  by (cases v) auto

lemma via_sum [via_intros]:
  "(\<And>a. via R (f a)) \<Longrightarrow> (\<And>b. via R (g b)) \<Longrightarrow> via R (case v of Inl a \<Rightarrow> f a | Inr b \<Rightarrow> g b)"
  by (cases v) auto

lemma via_fold_act [via_intros]: "(\<And>b y. via R (f b y)) \<Longrightarrow> via R (fold_act f b ys)"
  by (induction ys arbitrary: b) (auto intro: via_intros)

lemma via_each [via_intros]: "(\<And>y. via R (f y)) \<Longrightarrow> via R (each f ys)"
  by (induction ys) (auto intro: via_intros)

lemma via_operations [via_intros]:
  "via (service_step S) (create (sv_repo S) ty payload actor rid key)"
  "via (service_step S) (update (sv_repo S) ty i payload expected partial actor rid)"
  "via (service_step S) (delete (sv_repo S) ty i expected actor rid detach)"
  "via (service_step S) (apply_discovery (sv_repo S) ty data source ext_id run actor)"
  "via (service_step S) (mark_missing (sv_repo S) ty i run actor)"
  "via (service_step S) (create_edge (sv_graph S) g)"
  "via (service_step S) (delete_edge (sv_graph S) i expected actor rid)"
  "via (service_step S) (replay (rp_ext (sv_repo S)) i)"
  by (rule via_step, rule service_step.intros, rule surjective_pairing)+

interpretation mem_bus: event_bus "bus_publish cfg"
  by unfold_locales (rule bus_publish_reads)

section \<open>The invariant\<close>

text \<open>A record that shows an item as it is, but for provenance that discovery refreshes unlogged.\<close>

definition shows_item :: "ext \<Rightarrow> dict option \<Rightarrow> ci_doc \<Rightarrow> bool" where
  "shows_item x after e = (\<exists>e'. after = Some (jsonable_dict x (serialize x e')) \<and>
     c_id e' = c_id e \<and> c_fields e' = c_fields e \<and> m_revision (c_meta e') = m_revision (c_meta e))"

text \<open>
  Every revision a document has had is in the audit log, and a record of the current one shows
  the item as it is.
\<close>

definition trail :: "ext \<Rightarrow> db \<Rightarrow> bool" where
  "trail x d = (\<forall>ty. \<forall>e\<in>set (cis_of d ty). \<forall>r. 1 \<le> r \<and> r \<le> m_revision (c_meta e) \<longrightarrow>
     (\<exists>a\<in>set (d_audit d). a_entity_type a = ty \<and> a_revision a = Some r \<and>
        (\<exists>i. a_entity_id a = Some i \<and> x_oid_parse x i = Some (c_id e)) \<and>
        (r = m_revision (c_meta e) \<longrightarrow> shows_item x (a_after a) e)))"

text \<open>The log and the outbox are in step: the n-th event announces the n-th record.\<close>

definition paired :: "ext \<Rightarrow> db \<Rightarrow> bool" where
  "paired x d = list_all2 (matching x) (d_audit d) (d_outbox d)"

definition no_dangling :: "db \<Rightarrow> bool" where
  "no_dangling d = (\<forall>e\<in>set (d_edges d). present (e_from e) d \<and> present (e_to e) d)"

definition edges_distinct :: "db \<Rightarrow> bool" where
  "edges_distinct d = (distinct (List.map e_id (d_edges d)) \<and> distinct (List.map edge_key (d_edges d)))"

definition logs_distinct :: "db \<Rightarrow> bool" where
  "logs_distinct d = (distinct (List.map a_id (d_audit d)) \<and> distinct (List.map o_id (d_outbox d)))"

definition sound :: "ext \<Rightarrow> settings \<Rightarrow> db \<Rightarrow> bool" where
  "sound x cfg d = ((\<forall>ty. ids_unique ty d) \<and> idem_ok d \<and> trail x d \<and> paired x d \<and> no_dangling d \<and>
     edges_distinct d \<and> logs_distinct d \<and> outbox_inv cfg d)"

section \<open>Each kind of change keeps it\<close>

lemma logged_logs:
  assumes "logged x g k p d d'" "paired x d" "logs_distinct d" "outbox_inv cfg d"
  shows "paired x d' \<and> logs_distinct d' \<and> outbox_inv cfg d'"
  using assms(1)
proof (rule logged_elim)
  fix a ob
  assume "d' = with_log a ob d" "matching x a ob" "a_id a \<notin> a_id ` set (d_audit d)"
    "o_id ob \<notin> o_id ` set (d_outbox d)" "o_status ob = Pending" "o_attempts ob = 0"
  with assms(2-4) show ?thesis
    by (auto simp: paired_def logs_distinct_def outbox_inv_def outbox_ok_def
        intro: list_all2_appendI)
qed

lemma log_only_logs:
  "log_only x d d' \<Longrightarrow> paired x d \<Longrightarrow> logs_distinct d \<Longrightarrow> outbox_inv cfg d \<Longrightarrow>
   paired x d' \<and> logs_distinct d' \<and> outbox_inv cfg d'"
  by (induction rule: log_only.induct) (auto dest: logged_logs)

lemma logged_trail:
  "logged y g k p d d' \<Longrightarrow> trail x d \<Longrightarrow> trail x d'"
  by (rule logged_elim, assumption) (fastforce simp: trail_def)

lemma log_only_trail: "log_only x d d' \<Longrightarrow> trail x d \<Longrightarrow> trail x d'"
  by (induction rule: log_only.induct) (auto dest: logged_trail)

lemma present_ids: "present n d \<longleftrightarrow> snd n \<in> set (List.map c_id (cis_of d (fst n)))"
  by (simp add: present_def image_iff) metis

lemma log_only_sound:
  assumes "log_only x d d'" "sound x cfg d"
  shows "sound x cfg d'"
  using assms log_only_same [OF assms(1)] log_only_logs [OF assms(1), of cfg] log_only_trail [OF assms(1)]
  by (simp add: sound_def ids_unique_def idem_ok_def no_dangling_def present_def edges_distinct_def)

text \<open>
  Replacing the documents of one collection: what has to be checked of the new ones.
\<close>

definition vouched :: "ci_doc list \<Rightarrow> ci_doc \<Rightarrow> int \<Rightarrow> bool" where
  "vouched es e r = (\<exists>b\<in>set es. c_id b = c_id e \<and> r \<le> m_revision (c_meta b) \<and>
     (r = m_revision (c_meta e) \<longrightarrow> m_revision (c_meta b) = r \<and> c_fields b = c_fields e))"

definition records :: "ext \<Rightarrow> audit_args \<Rightarrow> string \<Rightarrow> ci_doc \<Rightarrow> int \<Rightarrow> bool" where
  "records x g ty e r = (aa_entity_type g = ty \<and> aa_revision g = Some r \<and>
     (\<exists>i. aa_entity_id g = Some i \<and> x_oid_parse x i = Some (c_id e)) \<and>
     (r = m_revision (c_meta e) \<longrightarrow> aa_after g = Some (serialize x e)))"

lemma vouched_trail:
  assumes "trail x d" "vouched (cis_of d ty) e r" "1 \<le> r"
  shows "\<exists>a\<in>set (d_audit d). a_entity_type a = ty \<and> a_revision a = Some r \<and>
     (\<exists>i. a_entity_id a = Some i \<and> x_oid_parse x i = Some (c_id e)) \<and>
     (r = m_revision (c_meta e) \<longrightarrow> shows_item x (a_after a) e)"
proof -
  from assms(2) obtain b where b: "b \<in> set (cis_of d ty)" "c_id b = c_id e" "r \<le> m_revision (c_meta b)"
    "r = m_revision (c_meta e) \<longrightarrow> m_revision (c_meta b) = r \<and> c_fields b = c_fields e"
    unfolding vouched_def by blast
  with assms(1,3) obtain a where "a \<in> set (d_audit d)" "a_entity_type a = ty" "a_revision a = Some r"
    "\<exists>i. a_entity_id a = Some i \<and> x_oid_parse x i = Some (c_id e)"
    "r = m_revision (c_meta b) \<longrightarrow> shows_item x (a_after a) b"
    unfolding trail_def by (metis (no_types, lifting))
  with b show ?thesis by (intro bexI [of _ a]) (auto simp: shows_item_def)
qed

lemma put_cis_sound:
  assumes "sound x cfg d" "logged x g k p (put_cis ty es d) d'" "distinct (List.map c_id es)"
    and trail: "\<And>e r. e \<in> set es \<Longrightarrow> 1 \<le> r \<Longrightarrow> r \<le> m_revision (c_meta e) \<Longrightarrow>
      vouched (cis_of d ty) e r \<or> records x g ty e r"
    and ends: "\<And>e. e \<in> set (d_edges d) \<Longrightarrow> \<forall>n\<in>{e_from e, e_to e}. fst n = ty \<longrightarrow> snd n \<in> c_id ` set es"
  shows "sound x cfg d'"
  using assms(2)
proof (rule logged_elim)
  fix a ob
  assume d': "d' = with_log a ob (put_cis ty es d)" and a: "a_entity_type a = aa_entity_type g"
    "a_entity_id a = aa_entity_id g" "a_revision a = aa_revision g"
    "a_after a = map_option (jsonable_dict x) (aa_after g)"
  have old: "trail x d" using assms(1) by (simp add: sound_def)
  have self: "vouched (cis_of d t) e r" if "e \<in> set (cis_of d t)" "r \<le> m_revision (c_meta e)" for t e r
    using that by (auto simp: vouched_def)
  have "trail x d'"
    unfolding trail_def
  proof (intro allI ballI impI)
    fix ty' e r
    assume e: "e \<in> set (cis_of d' ty')" and r: "1 \<le> r \<and> r \<le> m_revision (c_meta e)"
    have "vouched (cis_of d ty') e r \<or> records x g ty' e r"
      using e r trail [of e r] self by (auto simp: d' split: if_splits)
    then show "\<exists>a\<in>set (d_audit d'). a_entity_type a = ty' \<and> a_revision a = Some r \<and>
        (\<exists>i. a_entity_id a = Some i \<and> x_oid_parse x i = Some (c_id e)) \<and>
        (r = m_revision (c_meta e) \<longrightarrow> shows_item x (a_after a) e)"
    proof
      assume "vouched (cis_of d ty') e r"
      from vouched_trail [OF old this] r show ?thesis by (auto simp: d')
    qed (auto simp: d' a records_def shows_item_def intro!: bexI [of _ a])
  qed
  moreover have "paired x d' \<and> logs_distinct d' \<and> outbox_inv cfg d'"
    using assms(1) by (intro logged_logs [OF assms(2)])
      (simp_all add: sound_def paired_def logs_distinct_def outbox_inv_def)
  moreover have "no_dangling d'"
    using assms(1) ends by (fastforce simp: sound_def no_dangling_def present_ids d')
  ultimately show ?thesis
    using assms(1,3) by (auto simp: sound_def ids_unique_def idem_ok_def edges_distinct_def d')
qed

lemma ids_upd_first:
  "c_id e' = k \<Longrightarrow> List.map c_id (upd_first (by_id k) (\<lambda>_. e') xs) = List.map c_id xs"
  by (induction xs) (auto simp: by_id_def)

lemma inserted_sound:
  assumes "sound x cfg d" "ci_inserted x ty e actor rid d d'" "oid_codec x"
  shows "sound x cfg d'"
proof (rule put_cis_sound [OF assms(1)])
  show "logged x (change_args ''create'' ty (x_oid_str x (c_id e)) actor None (Some (serialize x e))
          (Some (m_schema_version (c_meta e))) (Some 1) rid) ''ci.created'' (serialize x e)
        (put_cis ty (cis_of d ty @ [e]) d) d'"
    using assms(2) by (simp add: ci_inserted_def)
qed (use assms in \<open>force simp: sound_def ids_unique_def ci_inserted_def change_args_def oid_codec_def
       no_dangling_def present_ids vouched_def records_def\<close>)+

lemma revised_sound:
  assumes "sound x cfg d" "ci_revised x ty i e e' kind version actor rid d d'"
  shows "sound x cfg d'"
proof (rule put_cis_sound [OF assms(1)])
  show "logged x (change_args ''update'' ty i actor (Some (serialize x e)) (Some (serialize x e'))
          version (Some (m_revision (c_meta e'))) rid) kind (serialize x e')
        (put_cis ty (upd_first (by_id (c_id e)) (\<lambda>_. e') (cis_of d ty)) d) d'"
    using assms(2) unfolding ci_revised_def by blast
  have ids: "List.map c_id (upd_first (by_id (c_id e)) (\<lambda>_. e') (cis_of d ty)) = List.map c_id (cis_of d ty)"
    using assms(2) by (simp add: ids_upd_first ci_revised_def)
  then show "distinct (List.map c_id (upd_first (by_id (c_id e)) (\<lambda>_. e') (cis_of d ty)))"
    using assms(1) by (simp add: sound_def ids_unique_def)
  fix b r
  assume "b \<in> set (upd_first (by_id (c_id e)) (\<lambda>_. e') (cis_of d ty))" "1 \<le> r"
    "r \<le> m_revision (c_meta b)"
  then show "vouched (cis_of d ty) b r \<or> records x (change_args ''update'' ty i actor
      (Some (serialize x e)) (Some (serialize x e')) version (Some (m_revision (c_meta e'))) rid) ty b r"
    using subsetD [OF set_upd_first, of b] assms(2)
    by (auto simp: ci_revised_def change_args_def vouched_def records_def dest!: find_Some_in) force+
next
  fix e1 assume "e1 \<in> set (d_edges d)"
  with assms show "\<forall>n\<in>{e_from e1, e_to e1}. fst n = ty \<longrightarrow>
      snd n \<in> c_id ` set (upd_first (by_id (c_id e)) (\<lambda>_. e') (cis_of d ty))"
    unfolding set_map [symmetric]
    by (auto simp: ids_upd_first ci_revised_def sound_def no_dangling_def present_ids)
qed

lemma refreshed_sound:
  assumes "sound x cfg d" "ci_refreshed ty e f d d'"
    and f: "\<And>m. m_revision (f m) = m_revision m"
  shows "sound x cfg d'"
proof -
  let ?es = "upd_first (by_id (c_id e)) (on_meta f) (cis_of d ty)"
  have ids: "List.map c_id ?es = List.map c_id (cis_of d ty)"
    and d': "d' = put_cis ty ?es d"
    using assms(2) upd_by_id [of "c_id e" "cis_of d ty" e "on_meta f"]
    by (simp_all add: ci_refreshed_def ids_upd_first)
  have id_set: "c_id ` set ?es = c_id ` set (cis_of d ty)"
    using arg_cong [OF ids, of set] by simp
  have "vouched (cis_of d ty) b r" if "b \<in> set ?es" "r \<le> m_revision (c_meta b)" for b r
    using subsetD [OF set_upd_first that(1)] that(2) f by (auto simp: vouched_def)
  then have "vouched (cis_of d ty') b r" if "b \<in> set (cis_of d' ty')" "r \<le> m_revision (c_meta b)" for b r ty'
    using that by (auto simp: d' vouched_def split: if_splits)
  with assms(1) have "trail x d'"
    unfolding trail_def [of x d'] by (auto simp: sound_def d' dest!: vouched_trail)
  moreover have "no_dangling d'" "\<forall>ty. ids_unique ty d'"
    using assms(1) ids id_set by (auto simp: sound_def no_dangling_def present_ids ids_unique_def d')
  ultimately show ?thesis
    using assms(1) by (simp add: sound_def idem_ok_def edges_distinct_def d' paired_def
        logs_distinct_def outbox_inv_def)
qed

lemma in_del_first: "\<not> p b \<Longrightarrow> b \<in> set xs \<Longrightarrow> b \<in> set (del_first p xs)"
  by (induction xs) auto

lemma detached_sound:
  assumes "sound x cfg d" "detached x n d d'"
  shows "sound x cfg d'"
proof (rule log_only_sound)
  show "log_only x (d\<lparr>d_edges := filter (\<lambda>e. \<not> touches n e) (d_edges d)\<rparr>) d'"
    using assms(2) by (simp add: detached_def)
  show "sound x cfg (d\<lparr>d_edges := filter (\<lambda>e. \<not> touches n e) (d_edges d)\<rparr>)"
    using assms(1)
    by (auto simp: sound_def ids_unique_def idem_ok_def trail_def paired_def no_dangling_def
        present_def edges_distinct_def logs_distinct_def outbox_inv_def intro: distinct_map_filter)
qed

lemma removed_sound:
  assumes "sound x cfg d" "ci_removed x ty i e actor rid d d'" "\<not> attached (ty, c_id e) d'"
  shows "sound x cfg d'"
proof (rule put_cis_sound [OF assms(1)])
  show log: "logged x (change_args ''delete'' ty i actor (Some (serialize x e)) None
          (Some (m_schema_version (c_meta e))) (Some (m_revision (c_meta e))) rid)
        ''ci.deleted'' (serialize x e)
        (put_cis ty (del_first (by_id (c_id e)) (cis_of d ty)) d) d'"
    using assms(2) unfolding ci_removed_def by blast
  show "distinct (List.map c_id (del_first (by_id (c_id e)) (cis_of d ty)))"
    using assms(1) by (simp add: sound_def ids_unique_def distinct_map_del_first)
  have "d_edges d' = d_edges d" using log by (auto elim: logged_elim)
  with assms(3) have free: "\<forall>e'\<in>set (d_edges d). \<not> touches (ty, c_id e) e'"
    by (simp add: attached_def)
  fix e1 assume e1: "e1 \<in> set (d_edges d)"
  show "\<forall>n\<in>{e_from e1, e_to e1}. fst n = ty \<longrightarrow>
      snd n \<in> c_id ` set (del_first (by_id (c_id e)) (cis_of d ty))"
  proof (intro ballI impI)
    fix n assume n: "n \<in> {e_from e1, e_to e1}" "fst n = ty"
    with e1 assms(1) obtain b where b: "b \<in> set (cis_of d ty)" "c_id b = snd n"
      unfolding sound_def no_dangling_def present_def by blast
    have "snd n \<noteq> c_id e" using free e1 n by (auto simp: touches_def)
    with b in_del_first [of "by_id (c_id e)" b] show "snd n \<in> c_id ` set (del_first (by_id (c_id e)) (cis_of d ty))"
      by (force simp: by_id_def)
  qed
qed (rule disjI1, auto simp: vouched_def dest: subsetD [OF set_del_first])

lemma edge_created_sound:
  assumes "sound x cfg d" "edge_created x depth g rd e d d'"
  shows "sound x cfg d'"
proof (rule log_only_sound)
  show "log_only x (put_edges (d_edges d @ [e]) d) d'"
    using assms(2) unfolding edge_created_def by (blast intro: logged_log_only)
  show "sound x cfg (put_edges (d_edges d @ [e]) d)"
    using assms
    by (auto simp: sound_def edge_created_def admissible_def ids_unique_def idem_ok_def trail_def
        paired_def no_dangling_def present_def edges_distinct_def logs_distinct_def outbox_inv_def
        put_edges_def)
qed

lemma edge_removed_sound:
  assumes "sound x cfg d" "edge_removed x i expected actor rid d d'"
  shows "sound x cfg d'"
proof -
  from assms(2) obtain e :: edge where
    log: "log_only x (put_edges (del_first (edge_by_id (e_id e)) (d_edges d)) d) d'"
    unfolding edge_removed_def by (blast intro: logged_log_only)
  have "sound x cfg (put_edges (del_first (edge_by_id (e_id e)) (d_edges d)) d)"
    using assms(1) set_del_first [of "edge_by_id (e_id e)" "d_edges d"]
    by (auto simp: sound_def ids_unique_def idem_ok_def trail_def paired_def no_dangling_def
        present_def edges_distinct_def logs_distinct_def outbox_inv_def put_edges_def
        distinct_map_del_first)
  with log show ?thesis by (rule log_only_sound)
qed

section \<open>Every reachable state\<close>

lemma put_idem_sound:
  assumes "sound x cfg d" "\<And>r. r \<in> set ids \<Longrightarrow> i_status r = IDone \<longrightarrow> i_response r \<noteq> None"
  shows "sound x cfg (d\<lparr>d_idem := ids\<rparr>)"
  using assms
  by (simp add: sound_def ids_unique_def idem_ok_def trail_def paired_def no_dangling_def
      present_def edges_distinct_def logs_distinct_def outbox_inv_def)

lemma only_claimed_sound:
  assumes "sound x cfg d" "only_claimed y ty use_key d d'"
  shows "sound x cfg d'"
proof (cases "d' = d")
  case False
  with assms(2) obtain k n where d': "d' = d\<lparr>d_idem := d_idem d @ [pending_rec y n ty k]\<rparr>"
    by (auto simp: only_claimed_def claimed_def)
  have "idem_ok d" using assms(1) by (simp add: sound_def)
  then show ?thesis
    unfolding d' by (intro put_idem_sound [OF assms(1)]) (auto simp: idem_ok_def pending_rec_def)
qed (use assms(1) in simp)

lemma created_sound:
  assumes "sound x cfg d" "created_by x M ty payload actor rid use_key ser d d'" "oid_codec x"
  shows "sound x cfg d'"
proof -
  from assms(2) obtain e d1 ids where new: "ci_inserted x ty e actor rid d d1"
    "d' = d1\<lparr>d_idem := ids\<rparr>" "idem_ok d'"
    unfolding created_by_def by blast
  from inserted_sound [OF assms(1) new(1) assms(3)] show ?thesis
    using new(2,3) by (auto simp: idem_ok_def intro!: put_idem_sound)
qed

lemma deleted_sound:
  assumes "sound x cfg d" "deleted_by x attached (detached x) ty i expected actor rid detach d d'"
  shows "sound x cfg d'"
proof -
  from assms(2) obtain e d1 where *: "ci_removed x ty i e actor rid d1 d'"
    "\<not> attached (ty, c_id e) d'" "d1 = d \<or> detached x (ty, c_id e) d d1"
    unfolding deleted_by_def by blast
  from *(3) assms(1) detached_sound have "sound x cfg d1" by blast
  from removed_sound [OF this *(1,2)] show ?thesis .
qed

lemma discovered_sound:
  assumes "sound x cfg d" "discovered_by x M ty data source ext_id run actor r d d'" "oid_codec x"
  shows "sound x cfg d'"
  using assms(2) unfolding discovered_by_def
  by (cases "snd r")
    (auto intro: inserted_sound [OF assms(1) _ assms(3)] revised_sound [OF assms(1)]
       refreshed_sound [OF assms(1)])

definition only_outbox :: "db \<Rightarrow> db \<Rightarrow> bool" where
  "only_outbox d0 d = (d\<lparr>d_outbox := []\<rparr> = d0\<lparr>d_outbox := []\<rparr>)"

lemma only_outbox_update [keeps_intros]: "keeps (only_outbox d0) (update_one x outbox_coll p f)"
  by (rule keeps_update_one) (simp add: only_outbox_def outbox_put)

lemma keeps_publish [keeps_intros]: "keeps I (bus_publish cfg ev)"
  by (rule keeps_reads) (rule bus_publish_reads)

lemma only_outbox_dispatch: "keeps (only_outbox d0) (dispatch_once x cfg (bus_publish cfg))"
  unfolding dispatch_once_def fetch_pending_def dispatch_doc_def on_failure_def mark_sent_def
    mark_dead_def reschedule_def
  by (intro keeps_intros)

lemma only_outbox_eq: "only_outbox d0 d \<Longrightarrow> d = d0\<lparr>d_outbox := d_outbox d\<rparr>"
  unfolding only_outbox_def by (cases d; cases d0) simp

text \<open>Another status of the same event.\<close>

definition restated :: "settings \<Rightarrow> outbox_doc \<Rightarrow> outbox_doc \<Rightarrow> bool" where
  "restated cfg a b = (o_id b = o_id a \<and> o_event b = o_event a \<and> (outbox_ok cfg a \<longrightarrow> outbox_ok cfg b))"

lemma one_step_kept: "at_most_one_step cfg a b \<Longrightarrow> restated cfg a b"
  by (auto simp: at_most_one_step_def restated_def dest: dispatch_step_id dispatch_step_ok)

lemma restated_sound:
  assumes "sound x cfg d" "list_all2 (restated cfg) (d_outbox d) obs"
  shows "sound x cfg (d\<lparr>d_outbox := obs\<rparr>)"
proof -
  have ids: "List.map o_id obs = List.map o_id (d_outbox d)"
    using assms(2) by (induction rule: list_all2_induct) (auto simp: restated_def)
  have "list_all2 (matching x) as (d_outbox d) \<Longrightarrow> list_all2 (matching x) as obs" for as
    by (rule list_all2_trans [OF _ _ assms(2)]) (auto simp: matching_def restated_def)
  moreover have "\<forall>ob\<in>set (d_outbox d). outbox_ok cfg ob \<Longrightarrow> \<forall>ob\<in>set obs. outbox_ok cfg ob"
    using assms(2) by (induction rule: list_all2_induct) (auto simp: restated_def)
  ultimately show ?thesis
    using assms(1) ids
    by (simp add: sound_def ids_unique_def idem_ok_def trail_def paired_def no_dangling_def
        present_def edges_distinct_def logs_distinct_def outbox_inv_def)
qed

lemma replay_sound:
  assumes "sound x cfg (w_db w)" "replay y i w = (b, w')"
  shows "sound x cfg (w_db w')"
proof -
  have same: "sound x cfg (d\<lparr>d_outbox := upd_first p f (d_outbox d)\<rparr>)"
    if "sound x cfg d" "\<And>ob. p ob \<Longrightarrow> restated cfg ob (f ob)" for d p f
  proof (rule restated_sound [OF that(1)])
    have "list_all2 (restated cfg) obs (upd_first p f obs)" for obs
      using that(2) by (induction obs) (auto simp: list_all2_same restated_def)
    then show "list_all2 (restated cfg) (d_outbox d) (upd_first p f (d_outbox d))" .
  qed
  have "keeps (sound x cfg) (replay y i)"
    unfolding replay_def
    by (intro keeps_intros keeps_update_one) (auto simp: outbox_put restated_def outbox_ok_def intro!: same)
  from keepsD [OF this assms] show ?thesis .
qed

lemma dispatch_sound:
  assumes "sound x cfg (w_db w)" "dispatch_once y cfg (bus_publish cfg) w = (r, w')"
  shows "sound x cfg (w_db w')"
proof -
  have "separated outbox_coll (w_db w)"
    using assms(1) by (simp add: sound_def logs_distinct_def separated_def outbox_coll_def distinct_sorted_wrt)
  from mem_bus.dispatch_pass [OF this, of y cfg cfg]
  have "list_all2 (at_most_one_step cfg) (d_outbox (w_db w)) (d_outbox (w_db w'))"
    using assms(2) by (auto simp: wp_def split: sum.splits)
  from restated_sound [OF assms(1) list.rel_mono_strong [OF this one_step_kept]]
    only_outbox_eq [OF keepsD [OF only_outbox_dispatch _ assms(2)], of "w_db w"]
  show ?thesis by (simp add: only_outbox_def)
qed

section \<open>Every reachable state\<close>

lemma sound_outcome:
  assumes "wp m (\<lambda>_ w'. sound x cfg (w_db w')) (\<lambda>_ w'. sound x cfg (w_db w')) w" "m w = (r, w')"
  shows "sound x cfg (w_db w')"
  using assms by (auto simp: wp_def split: sum.splits)

lemma service_step_sound:
  assumes "service_step S d d'" "wired S" "sound (rp_ext (sv_repo S)) (rp_cfg (sv_repo S)) d"
  shows "sound (rp_ext (sv_repo S)) (rp_cfg (sv_repo S)) d'"
proof -
  let ?R = "sv_repo S" and ?G = "sv_graph S" and ?x = "rp_ext (sv_repo S)"
  have wired: "rr_ext ?G = ?x" "rp_txn ?R" "rr_txn ?G" "rp_guard ?R = Some (graph_guard ?G)" "oid_codec ?x"
    using assms(2) by (auto simp: wired_def)
  have ids: "ids_unique ty d" "idem_ok d" for ty using assms(3) by (auto simp: sound_def)
  note sound = assms(3)
  show ?thesis
    using assms(1)
  proof cases
    case (step_create ty payload actor rid key w r w')
    show ?thesis
      unfolding step_create(2)
      by (rule sound_outcome [OF wp_mono [OF create_effect [OF refl]] step_create(3)])
        (use sound ids wired step_create(1) in \<open>auto intro: created_sound only_claimed_sound\<close>)
  next
    case (step_update ty i payload expected partial actor rid w r w')
    show ?thesis
      unfolding step_update(2)
      by (rule sound_outcome [OF wp_mono [OF update_effect] step_update(3)])
        (use sound ids wired step_update(1) in \<open>auto simp: updated_by_def intro: revised_sound\<close>)
  next
    case (step_delete ty i expected actor rid detach w u w')
    show ?thesis
      unfolding step_delete(2)
      by (rule sound_outcome [OF wp_mono [OF graph_delete_guard.delete_guarded] step_delete(3)])
        (use sound wired step_delete(1) in \<open>auto intro: deleted_sound\<close>)
  next
    case (step_discovery ty data source ext_id run actor w p w')
    show ?thesis
      unfolding step_discovery(2)
      by (rule sound_outcome [OF wp_mono [OF apply_discovery_effect] step_discovery(3)])
        (use sound ids wired step_discovery(1) in \<open>auto intro: discovered_sound\<close>)
  next
    case (step_missing ty i run actor w u w')
    show ?thesis
      unfolding step_missing(2)
      by (rule sound_outcome [OF wp_mono [OF mark_missing_effect] step_missing(3)])
        (use sound wired step_missing(1) in \<open>auto simp: marked_by_def intro: revised_sound\<close>)
  next
    case (step_link g w r w')
    show ?thesis
      unfolding step_link(2)
      by (rule sound_outcome [OF wp_mono [OF create_edge_effect] step_link(3)])
        (use sound wired step_link(1) in \<open>auto intro: edge_created_sound oid_codec_injective\<close>)
  next
    case (step_unlink i expected actor rid w u w')
    show ?thesis
      unfolding step_unlink(2)
      by (rule sound_outcome [OF wp_mono [OF delete_edge_effect] step_unlink(3)])
        (use sound wired step_unlink(1) in \<open>auto intro: edge_removed_sound\<close>)
  next
    case (step_dispatch w n w')
    with dispatch_sound sound show ?thesis by blast
  next
    case (step_replay i w b w')
    with replay_sound sound show ?thesis by blast
  qed
qed

end
