(* ===== verification/Core_Indexes.thy ===== *)
theory Core_Indexes
  imports Collections
begin

text \<open>
  cmdboss/db.py: the names of the system collections, the indexes the service asks for at
  start-up, and the expiry one of them brings. The documents of a collection are kept apart by
  \<open>co_clash\<close>; the lemmas here show that this is what its unique indexes ask for.
\<close>

section \<open>Collections\<close>

definition types_collection :: string where "types_collection = ''_ci_types''"
definition audit_collection :: string where "audit_collection = ''_audit''"
definition api_keys_collection :: string where "api_keys_collection = ''_api_keys''"
definition outbox_collection :: string where "outbox_collection = ''_outbox''"
definition idempotency_collection :: string where "idempotency_collection = ''_idempotency''"
definition rel_types_collection :: string where "rel_types_collection = ''_rel_types''"
definition relationships_collection :: string where "relationships_collection = ''_relationships''"
definition discovery_runs_collection :: string where "discovery_runs_collection = ''_discovery_runs''"
definition webhooks_collection :: string where "webhooks_collection = ''_webhooks''"

definition system_collections :: "string list" where
  "system_collections = [types_collection, audit_collection, api_keys_collection, outbox_collection,
     idempotency_collection, rel_types_collection, relationships_collection,
     discovery_runs_collection, webhooks_collection]"

text \<open>The data of no CI type is kept among the bookkeeping, and no two collections share a name.\<close>

lemma system_collections_distinct: "distinct system_collections"
  by code_simp

lemma ci_collections_apart: "ci_collection_name t \<notin> set system_collections"
  by (simp add: ci_collection_name_def system_collections_def types_collection_def audit_collection_def
      api_keys_collection_def outbox_collection_def idempotency_collection_def rel_types_collection_def
      relationships_collection_def discovery_runs_collection_def webhooks_collection_def)

lemma ci_collections_injective: "ci_collection_name s = ci_collection_name t \<longleftrightarrow> s = t"
  by (simp add: ci_collection_name_def)

section \<open>Indexes\<close>

datatype direction_key = Ascending | Descending

record core_index =
  cx_keys :: "(string \<times> direction_key) list"
  cx_name :: string
  cx_unique :: bool
  cx_expire :: "int option"

definition plain_index :: "(string \<times> direction_key) list \<Rightarrow> string \<Rightarrow> core_index" where
  "plain_index ks n = \<lparr>cx_keys = ks, cx_name = n, cx_unique = False, cx_expire = None\<rparr>"

definition unique_index :: "string list \<Rightarrow> string \<Rightarrow> core_index" where
  "unique_index ks n = \<lparr>cx_keys = List.map (\<lambda>k. (k, Ascending)) ks, cx_name = n, cx_unique = True, cx_expire = None\<rparr>"

definition core_indexes :: "int \<Rightarrow> (string \<times> core_index list) list" where
  "core_indexes idempotency_ttl =
     [(types_collection,
        [unique_index [''name''] ''uq_type_name'',
         plain_index [(''active'', Ascending)] ''ix_type_active'',
         plain_index [(''updated_at'', Ascending)] ''ix_type_updated_at'']),
      (audit_collection,
        [plain_index [(''entity_type'', Ascending), (''entity_id'', Ascending), (''ts'', Descending)] ''ix_audit_entity'',
         plain_index [(''ts'', Descending)] ''ix_audit_ts'']),
      (api_keys_collection,
        [unique_index [''key_hash''] ''uq_key_hash'',
         plain_index [(''active'', Ascending)] ''ix_key_active'']),
      (outbox_collection,
        [plain_index [(''status'', Ascending), (''next_attempt_at'', Ascending)] ''ix_outbox_pending'']),
      (idempotency_collection,
        [(plain_index [(''created_at'', Ascending)] ''ttl_idempotency'')\<lparr>cx_expire := Some idempotency_ttl\<rparr>]),
      (rel_types_collection,
        [unique_index [''name''] ''uq_rel_type_name'',
         plain_index [(''active'', Ascending)] ''ix_rel_type_active'']),
      (relationships_collection,
        [unique_index [''rel_type'', ''from_type'', ''from_id'', ''to_type'', ''to_id''] ''uq_edge'',
         plain_index [(''from_type'', Ascending), (''from_id'', Ascending), (''dependency'', Ascending)] ''ix_edge_out'',
         plain_index [(''to_type'', Ascending), (''to_id'', Ascending), (''dependency'', Ascending)] ''ix_edge_in'',
         plain_index [(''rel_type'', Ascending)] ''ix_edge_rel_type'']),
      (discovery_runs_collection,
        [plain_index [(''source'', Ascending), (''started_at'', Descending)] ''ix_runs_source'',
         plain_index [(''started_at'', Descending)] ''ix_runs_started'']),
      (webhooks_collection, [plain_index [(''active'', Ascending)] ''ix_webhook_active''])]"

text \<open>
  One round trip per collection; the first failure is logged and raised. What the indexes do is
  part of the collections of the model, so asking for them changes nothing there.
\<close>

definition create_core_indexes :: "ext \<Rightarrow> string \<times> core_index list \<Rightarrow> unit act" where
  "create_core_indexes x c = db_call x (\<lambda>d. (Inr (), d))"

definition ensure_core_indexes :: "ext \<Rightarrow> int \<Rightarrow> unit act" where
  "ensure_core_indexes x idempotency_ttl = each (create_core_indexes x) (core_indexes idempotency_ttl)"

lemma ensure_core_reads [reads_intros]: "reads (ensure_core_indexes x ttl)"
  unfolding ensure_core_indexes_def create_core_indexes_def by (intro reads_intros)

section \<open>Expiry\<close>

text \<open>
  The expiring index: the server may remove a record once its age exceeds the bound, at a time of
  its own choice.
\<close>

definition expire :: "core_index \<Rightarrow> time \<Rightarrow> (idem_rec \<Rightarrow> bool) \<Rightarrow> db \<Rightarrow> db" where
  "expire cx now chosen d = (case cx_expire cx of
     None \<Rightarrow> d
   | Some ttl \<Rightarrow> d\<lparr>d_idem := filter (\<lambda>r. \<not> (chosen r \<and> now - i_created_at r > of_int ttl)) (d_idem d)\<rparr>)"

definition expire_keys :: "int \<Rightarrow> time \<Rightarrow> (idem_rec \<Rightarrow> bool) \<Rightarrow> db \<Rightarrow> db" where
  "expire_keys idempotency_ttl now chosen = foldr (\<lambda>i. expire i now chosen)
     (case map_of (core_indexes idempotency_ttl) idempotency_collection of None \<Rightarrow> [] | Some ixs \<Rightarrow> ixs)"

lemma expire_keys_filter:
  "expire_keys ttl now chosen d =
     d\<lparr>d_idem := filter (\<lambda>r. \<not> (chosen r \<and> now - i_created_at r > of_int ttl)) (d_idem d)\<rparr>"
proof -
  have "map_of (core_indexes ttl) idempotency_collection =
      Some [(plain_index [(''created_at'', Ascending)] ''ttl_idempotency'')\<lparr>cx_expire := Some ttl\<rparr>]"
    by (simp add: core_indexes_def idempotency_collection_def types_collection_def audit_collection_def
        api_keys_collection_def outbox_collection_def)
  then show ?thesis by (simp add: expire_keys_def expire_def)
qed

section \<open>The unique indexes are the ones the collections enforce\<close>

definition unique_keys :: "string \<Rightarrow> string list list" where
  "unique_keys c = (case map_of (core_indexes 0) c of
     None \<Rightarrow> [] | Some ixs \<Rightarrow> List.map (\<lambda>i. List.map fst (cx_keys i)) (filter cx_unique ixs))"

text \<open>The indexed fields of the documents, by their names in the database.\<close>

definition type_field :: "type_doc \<Rightarrow> string \<Rightarrow> val" where
  "type_field t k = (if k = ''name'' then VStr (t_name t) else VNone)"

definition rel_type_field :: "rel_type_doc \<Rightarrow> string \<Rightarrow> val" where
  "rel_type_field t k = (if k = ''name'' then VStr (rd_name (rt_def t)) else VNone)"

definition api_key_field :: "api_key \<Rightarrow> string \<Rightarrow> val" where
  "api_key_field a k = (if k = ''key_hash'' then VStr (k_hash a) else VNone)"

definition edge_field :: "edge \<Rightarrow> string \<Rightarrow> val" where
  "edge_field e k = (if k = ''rel_type'' then VStr (e_rel_type e)
     else if k = ''from_type'' then VStr (e_from_type e) else if k = ''from_id'' then VId (e_from_id e)
     else if k = ''to_type'' then VStr (e_to_type e) else if k = ''to_id'' then VId (e_to_id e) else VNone)"

text \<open>Kept apart: the same identifier, or the same fields under some unique index.\<close>

definition kept_apart :: "('d \<Rightarrow> 'i) \<Rightarrow> ('d \<Rightarrow> string \<Rightarrow> val) \<Rightarrow> string \<Rightarrow> 'd \<Rightarrow> 'd \<Rightarrow> bool" where
  "kept_apart ident field c a b =
     (ident a = ident b \<or> list_ex (\<lambda>ks. List.map (field a) ks = List.map (field b) ks) (unique_keys c))"

lemma unique_keys_simps [simp]:
  "unique_keys types_collection = [[''name'']]" "unique_keys api_keys_collection = [[''key_hash'']]"
  "unique_keys rel_types_collection = [[''name'']]"
  "unique_keys relationships_collection = [[''rel_type'', ''from_type'', ''from_id'', ''to_type'', ''to_id'']]"
  "unique_keys audit_collection = []" "unique_keys outbox_collection = []"
  "unique_keys idempotency_collection = []" "unique_keys discovery_runs_collection = []"
  "unique_keys webhooks_collection = []"
  by code_simp+

text \<open>
  The uniqueness the service relies on is the one it asks the database for: in every system
  collection two documents are kept apart exactly when they have the same identifier or agree on
  the fields of a unique index of \<open>ensure_core_indexes\<close>.
\<close>

lemma unique_indexes_enforced:
  "co_clash types_coll d = kept_apart t_id type_field types_collection \<and>
   co_clash keys_coll d = kept_apart k_id api_key_field api_keys_collection \<and>
   co_clash rel_types_coll d = kept_apart rt_id rel_type_field rel_types_collection \<and>
   co_clash edges_coll d = kept_apart e_id edge_field relationships_collection \<and>
   co_clash audit_coll d = kept_apart a_id f1 audit_collection \<and>
   co_clash outbox_coll d = kept_apart o_id f2 outbox_collection \<and>
   co_clash idem_coll d = kept_apart i_id f3 idempotency_collection \<and>
   co_clash runs_coll d = kept_apart r_id f4 discovery_runs_collection \<and>
   co_clash webhooks_coll d = kept_apart h_id f5 webhooks_collection"
  by (auto simp: fun_eq_iff kept_apart_def types_coll_def keys_coll_def rel_types_coll_def edges_coll_def
      audit_coll_def outbox_coll_def idem_coll_def runs_coll_def webhooks_coll_def type_field_def
      api_key_field_def rel_type_field_def edge_field_def edge_key_def)

end
