(* ===== verification/App.thy ===== *)
theory App
  imports Routers Invalidator System Core_Indexes
begin

text \<open>
  cmdboss/app.py: the lifespan that wires the components of one worker, and the HTTP middleware
  around every route with the exception handlers of cmdboss/errors.py. Starlette runs the handlers
  of known exceptions inside the middleware and the one for \<open>Exception\<close> outside of it. CORS,
  logging and the duration histogram are left out.
\<close>

section \<open>Headers\<close>

text \<open>Header names compare without regard to case; assignment replaces, \<open>setdefault\<close> adds.\<close>

definition has_header :: "string \<Rightarrow> (string \<times> string) list \<Rightarrow> bool" where
  "has_header k hs = list_ex (\<lambda>h. lower (fst h) = lower k) hs"

fun set_header :: "string \<Rightarrow> string \<Rightarrow> (string \<times> string) list \<Rightarrow> (string \<times> string) list" where
  "set_header k v [] = [(k, v)]"
| "set_header k v (h # hs) =
     (if lower (fst h) = lower k then (k, v) # filter (\<lambda>h. lower (fst h) \<noteq> lower k) hs
      else h # set_header k v hs)"

definition default_header :: "string \<Rightarrow> string \<Rightarrow> (string \<times> string) list \<Rightarrow> (string \<times> string) list" where
  "default_header k v hs = (if has_header k hs then hs else hs @ [(k, v)])"

definition on_headers ::
  "((string \<times> string) list \<Rightarrow> (string \<times> string) list) \<Rightarrow> response \<Rightarrow> response" where
  "on_headers f r = r\<lparr>rs_headers := f (rs_headers r)\<rparr>"

definition security_headers :: "settings \<Rightarrow> (string \<times> string) list \<Rightarrow> (string \<times> string) list" where
  "security_headers cfg hs =
     (if \<not> security_headers_enabled cfg then hs
      else
        let hs = default_header ''X-Content-Type-Options'' ''nosniff'' hs;
            hs = default_header ''X-Frame-Options'' ''DENY'' hs;
            hs = default_header ''Referrer-Policy'' ''no-referrer'' hs in
        if hsts_enabled cfg
        then default_header ''Strict-Transport-Security'' ''max-age=31536000; includeSubDomains'' hs
        else hs)"

section \<open>The middleware\<close>

record incoming =
  in_method :: string
  in_path :: string
  in_request_id :: "string option"
  in_content_length :: "string option"

definition set_request_id :: "ext \<Rightarrow> string option \<Rightarrow> string act" where
  "set_request_id x request_id =
     (case given request_id of None \<Rightarrow> draw (x_uuid x) | Some r \<Rightarrow> ret r)"

definition oversized :: "settings \<Rightarrow> string option \<Rightarrow> bool" where
  "oversized cfg content_length =
     (case content_length of
        None \<Rightarrow> False
      | Some s \<Rightarrow> (case py_int s of None \<Rightarrow> False | Some n \<Rightarrow> n > max_body_bytes cfg))"

definition too_large :: "settings \<Rightarrow> string \<Rightarrow> response" where
  "too_large cfg rid = \<lparr>rs_status = 413, rs_body = VDict [(''error'', VDict
       [(''code'', VStr ''payload_too_large''),
        (''message'', VStr (''Request body exceeds '' @ int_str (max_body_bytes cfg) @ '' bytes.'')),
        (''details'', VDict [(''max_body_bytes'', VInt (max_body_bytes cfg))]),
        (''request_id'', VStr rid)])],
     rs_headers = [(''X-Request-ID'', rid)]\<rparr>"

text \<open>The exceptions that have a handler of their own.\<close>

definition handled :: "exn \<Rightarrow> bool" where
  "handled ex = (case ex of App _ \<Rightarrow> True | Invalid _ \<Rightarrow> True | InvalidRequest _ \<Rightarrow> True | _ \<Rightarrow> False)"

definition call_next :: "ext \<Rightarrow> string \<Rightarrow> response act \<Rightarrow> response act" where
  "call_next x rid route =
     catch_exn route (\<lambda>ex. if handled ex then ret (handle_exn (x_errors x) ex (Some rid)) else raise_exn ex)"

definition count_request :: "incoming \<Rightarrow> int \<Rightarrow> unit act" where
  "count_request r st = metrics_incr ''http_requests_total''
     [(''method'', in_method r), (''path'', in_path r), (''status'', int_str st)]"

text \<open>\<open>_request_context\<close>, given the request id it set.\<close>

definition request_context ::
  "ext \<Rightarrow> settings \<Rightarrow> incoming \<Rightarrow> string \<Rightarrow> response act \<Rightarrow> response act" where
  "request_context x cfg r rid route =
     (if oversized cfg (in_content_length r)
      then ret (on_headers (security_headers cfg) (too_large cfg rid))
      else
      seq (catch_exn (call_next x rid route)
             (\<lambda>ex. seq (count_request r 500) (\<lambda>_. raise_exn ex))) (\<lambda>resp.
      seq (count_request r (rs_status resp)) (\<lambda>_.
      ret (on_headers (\<lambda>hs. security_headers cfg (set_header ''X-Request-ID'' rid hs)) resp))))"

text \<open>A request from end to end; the route is given the request id of its context.\<close>

definition serve_request ::
  "ext \<Rightarrow> settings \<Rightarrow> incoming \<Rightarrow> (string \<Rightarrow> response act) \<Rightarrow> response act" where
  "serve_request x cfg r route =
     seq (set_request_id x (in_request_id r)) (\<lambda>rid.
     catch_exn (request_context x cfg r rid (route rid))
       (\<lambda>ex. ret (handle_exn (x_errors x) ex (Some rid))))"

definition api_prefix :: string where
  "api_prefix = ''/api/v1''"

definition banner :: "response act" where
  "banner = reply 200 [(''service'', VStr ''CMDBoss''), (''version'', VStr version),
     (''docs'', VStr ''/docs''), (''api'', VStr api_prefix)]"

section \<open>The lifespan\<close>

text \<open>
  The probe opens a session, commits an insert into a scratch collection that is not modelled and
  empties it; any failure means no.
\<close>

definition supports_transactions :: "ext \<Rightarrow> bool act" where
  "supports_transactions x =
     catch_exn
       (seq (transaction x True (db_call x (\<lambda>d. (Inr (), d)))) (\<lambda>_.
        seq (db_call x (\<lambda>d. (Inr (), d))) (\<lambda>_. ret True)))
       (\<lambda>_. ret False)"

definition make_app :: "ext \<Rightarrow> settings \<Rightarrow> bool \<Rightarrow> app" where
  "make_app x cfg txn_enabled =
     (let graph = \<lparr>rr_ext = x, rr_cfg = cfg, rr_txn = txn_enabled\<rparr>;
          repo = \<lparr>rp_ext = x, rp_cfg = cfg, rp_idem = idempotency_enabled cfg,
                  rp_txn = txn_enabled, rp_guard = Some (graph_guard graph)\<rparr> in
      \<lparr>ap_ext = x, ap_cfg = cfg, ap_gate = make_gate x cfg, ap_repo = repo, ap_graph = graph,
       ap_discovery = \<lparr>dv_cfg = cfg, dv_repo = repo, dv_graph = graph,
                       dv_providers = default_registry\<rparr>\<rparr>)"

definition startup :: "ext \<Rightarrow> settings \<Rightarrow> app act" where
  "startup x cfg =
     seq (catch_exn (ensure_core_indexes x (idempotency_ttl_seconds cfg)) (\<lambda>_. ret ())) (\<lambda>_.
     seq (ensure_bootstrap_admin x cfg) (\<lambda>_.
     seq (if use_transactions cfg then supports_transactions x else ret False) (\<lambda>txn.
     seq (if cache_invalidation_enabled cfg then init_watermark x else ret ()) (\<lambda>_.
     ret (make_app x cfg txn)))))"

end
