(* ===== verification/Discovery_Facts.thy ===== *)
theory Discovery_Facts
  imports Discovery System
begin

text \<open>
  What the reconciler promises: one bad item does not stop a run and the report accounts for
  every element of the snapshot; everything it writes goes through the operations of the two
  repositories; and configuration items of other sources are left as they are.
\<close>

section \<open>Errors of one element\<close>

definition not_app :: "exn \<Rightarrow> bool" where
  "not_app ex = (case ex of App _ \<Rightarrow> False | _ \<Rightarrow> True)"

lemma not_app_simps [simp]:
  "\<not> not_app (App e)" "not_app DuplicateKey" "not_app MongoError" "not_app (Invalid v)" "not_app (BadValue k)" "not_app (InvalidRequest v)" "not_app (PyError k)"
  by (simp_all add: not_app_def)

lemma wp_on_app_error:
  assumes "wp m Q (\<lambda>e w'. not_app e \<longrightarrow> E e w') w" "\<And>e w'. wp (h e) Q E w'"
  shows "wp (on_app_error m h) Q E w"
  using assms unfolding on_app_error_def wp_catch
  by (elim wp_mono) (auto simp: run_simps not_app_def split: exn.splits)

lemma wp_counted:
  assumes "\<And>w'. Q b w'" "\<And>e w'. Q (h e) w'"
  shows "wp (on_app_error (seq m (\<lambda>_. ret b)) (\<lambda>e. ret (h e))) Q (\<lambda>ex _. not_app ex) w"
  by (rule wp_on_app_error) (auto simp: run_simps assms intro!: wp_mono [OF wp_True])

lemma keeps_on_app_error [keeps_intros]:
  "keeps I m \<Longrightarrow> (\<And>e. keeps I (h e)) \<Longrightarrow> keeps I (on_app_error m h)"
  unfolding on_app_error_def
  by (intro keeps_catch) (auto intro: keeps_intros split: exn.splits)

section \<open>The report accounts for the snapshot\<close>

definition tagged :: "string \<Rightarrow> dict list \<Rightarrow> nat" where
  "tagged k es = length (filter (\<lambda>e. map_of e k \<noteq> None) es)"

definition applied :: "ci_report \<Rightarrow> nat" where
  "applied r = cr_created r + cr_updated r + cr_unchanged r"

definition item_keys :: "discovery_result \<Rightarrow> (string \<times> string) set" where
  "item_keys res = (\<lambda>i. (dc_type i, dc_external_id i)) ` set (dr_items res)"

text \<open>
  Every desired item is applied or reported as an error, once; exactly the applied ones have a
  CMDB id; every relationship is created, found unchanged or reported, once.
\<close>

definition accounts :: "discovery_result \<Rightarrow> recon \<Rightarrow> bool" where
  "accounts res s =
     (applied (rn_ci s) + tagged ''external_id'' (cr_errors (rn_ci s)) = card (item_keys res) \<and>
      length (rn_ids s) = applied (rn_ci s) \<and> set (dkeys (rn_ids s)) \<subseteq> item_keys res \<and>
      re_created (rn_rel s) + re_unchanged (rn_rel s) + tagged ''rel_type'' (re_errors (rn_rel s))
        = length (dr_relationships res))"

definition progress :: "(string \<times> string) list \<Rightarrow> recon \<Rightarrow> bool" where
  "progress ks s =
     (applied (rn_ci s) + tagged ''external_id'' (cr_errors (rn_ci s)) = length ks \<and>
      length (rn_ids s) = applied (rn_ci s) \<and> set (dkeys (rn_ids s)) \<subseteq> set ks \<and>
      rn_rel s = rn_rel empty_recon)"

definition rel_progress :: "recon \<Rightarrow> nat \<Rightarrow> recon \<Rightarrow> bool" where
  "rel_progress s0 n s =
     (rn_ids s = rn_ids s0 \<and> rn_ci s = rn_ci s0 \<and>
      re_created (rn_rel s) + re_unchanged (rn_rel s) + tagged ''rel_type'' (re_errors (rn_rel s)) = n)"

lemma tagged_simps [simp]:
  "tagged k [] = 0" "tagged k (es @ [e]) = tagged k es + (if map_of e k = None then 0 else 1)"
  by (simp_all add: tagged_def)

lemma length_dset_new: "k \<notin> set (dkeys d) \<Longrightarrow> length (dset k v d) = Suc (length d)"
  by (induction d) (auto simp: dset_def)

lemma applied_count_action [simp]:
  "applied (count_action a r) = Suc (applied r)" "cr_errors (count_action a r) = cr_errors r"
  by (cases a; simp add: applied_def)+

lemma apply_item_progress:
  assumes "progress ks s" "(ty, fst p) \<notin> set ks"
  shows "wp (apply_item R a ty s p) (\<lambda>s' _. progress (ks @ [(ty, fst p)]) s') (\<lambda>ex _. not_app ex) w"
  unfolding apply_item_def
proof (rule wp_on_app_error)
  have new: "(ty, fst p) \<notin> set (dkeys (rn_ids s))" using assms by (auto simp: progress_def)
  show "wp (seq (apply_discovery R ty (dc_data (snd p)) (ra_source a) (fst p) (ra_run_id a) (ra_actor a))
      (\<lambda>r. ret (s\<lparr>rn_ids := dset (ty, fst p) (fst r) (rn_ids s), rn_ci := count_action (snd r) (rn_ci s)\<rparr>)))
     (\<lambda>s' _. progress (ks @ [(ty, fst p)]) s') (\<lambda>ex _. not_app ex \<longrightarrow> not_app ex) w"
    unfolding wp_seq wp_ret
    by (rule wp_mono [OF wp_True]) (use assms length_dset_new [OF new] in \<open>auto simp: progress_def\<close>)
qed (use assms(1) in \<open>auto simp: wp_ret progress_def add_ci_error_def error_entry_def applied_def\<close>)

lemma retire_item_progress:
  assumes "progress ks s"
  shows "wp (retire_item R a ty s p) (\<lambda>s' _. progress ks s') (\<lambda>ex _. not_app ex) w"
  unfolding retire_item_def
  by (rule wp_on_app_error)
    (use assms in \<open>auto simp: run_simps progress_def add_ci_error_def error_entry_def applied_def
       intro!: wp_mono [OF wp_True]\<close>)

definition pairs :: "(string \<times> (string \<times> discovered_ci) list) list \<Rightarrow> (string \<times> string) list" where
  "pairs gs = concat (List.map (\<lambda>g. List.map (Pair (fst g)) (dkeys (snd g))) gs)"

lemma pairs_simps [simp]:
  "pairs [] = []" "pairs (g # gs) = List.map (Pair (fst g)) (dkeys (snd g)) @ pairs gs"
  "pairs (gs @ hs) = pairs gs @ pairs hs"
  by (simp_all add: pairs_def)

lemma iter_source_progress:
  "wp (iter_source R ty src) (\<lambda>_ _. True) (\<lambda>ex _. not_app ex) w"
  by (simp add: iter_source_def run_simps)

lemma reconcile_type_progress:
  assumes "progress ks s" "distinct (ks @ pairs [g])"
  shows "wp (reconcile_type R a s g) (\<lambda>s' _. progress (ks @ pairs [g]) s') (\<lambda>ex _. not_app ex) w"
proof -
  have items: "wp (fold_act (apply_item R a (fst g)) s (snd g))
     (\<lambda>s' _. progress (ks @ pairs [g]) s') (\<lambda>ex _. not_app ex) w" for w
  proof (rule wp_mono [OF wp_loop [where I = "\<lambda>pre s' _. progress (ks @ pairs [(fst g, pre)]) s'"]])
    fix pre p s' w
    assume "snd g = pre @ p # drop (Suc (length pre)) (snd g)"
      "progress (ks @ pairs [(fst g, pre)]) s'"
    moreover from this(1) obtain post where "snd g = pre @ p # post" by blast
    with assms(2) have "(fst g, fst p) \<notin> set (ks @ pairs [(fst g, pre)])"
      by (auto simp: dkeys_def)
    ultimately show "wp (apply_item R a (fst g) s' p)
        (\<lambda>s' _. progress (ks @ pairs [(fst g, pre @ [p])]) s') (\<lambda>ex _. not_app ex) w"
      using apply_item_progress [of "ks @ pairs [(fst g, pre)]"] by (simp add: dkeys_def)
  qed (use assms(1) in \<open>simp_all add: dkeys_def\<close>)
  have stale: "wp (fold_act (retire_item R a (fst g)) s' ps) (\<lambda>s' _. progress ks' s') (\<lambda>ex _. not_app ex) w"
    if "progress ks' s'" for ks' s' ps w
    by (rule wp_loop [where I = "\<lambda>_ s' _. progress ks' s'"]) (use that retire_item_progress in auto)
  show ?thesis
    unfolding reconcile_type_def wp_seq
    by (rule wp_mono [OF iter_source_progress] wp_mono [OF items] stale | assumption)+
qed

text \<open>Grouping by type keeps one entry per type and external id.\<close>

lemma in_pairs:
  "distinct (dkeys gs) \<Longrightarrow>
   k \<in> set (pairs gs) \<longleftrightarrow> (\<exists>ds. map_of gs (fst k) = Some ds \<and> snd k \<in> set (dkeys ds))"
  by (cases k) (force simp: pairs_def dkeys_def dest: map_of_SomeD)

lemma distinct_pairs:
  assumes "distinct (dkeys gs)" "\<And>t ds. map_of gs t = Some ds \<Longrightarrow> distinct (dkeys ds)"
  shows "distinct (pairs gs)"
  using assms
proof (induction gs)
  case (Cons g gs)
  have gs: "distinct (dkeys gs)" "fst g \<notin> fst ` set gs" using Cons.prems(1) by (auto simp: dkeys_def)
  have "map_of (g # gs) t = Some ds" if "map_of gs t = Some ds" for t ds
  proof -
    have "t \<in> fst ` set gs" using that by (metis map_of_eq_None_iff option.distinct(1))
    with that gs(2) show ?thesis by (cases g) auto
  qed
  then have "distinct (pairs gs)"
    using gs(1) Cons.prems(2) by (intro Cons.IH) blast+
  moreover have "distinct (dkeys (snd g))" using Cons.prems(2) [of "fst g" "snd g"] by (cases g) simp
  moreover have "(fst g, k) \<notin> set (pairs gs)" for k
    using gs(2) by (simp add: in_pairs [OF gs(1)]) (metis map_of_eq_None_iff option.distinct(1))
  ultimately show ?case by (auto simp: distinct_map inj_on_def)
qed simp

definition add_desired ::
  "discovered_ci \<Rightarrow> (string \<times> (string \<times> discovered_ci) list) list \<Rightarrow> (string \<times> (string \<times> discovered_ci) list) list" where
  "add_desired i out = dset (dc_type i)
     (dset (dc_external_id i) i (case map_of out (dc_type i) of None \<Rightarrow> [] | Some d \<Rightarrow> d)) out"

definition grouped :: "(string \<times> (string \<times> discovered_ci) list) list \<Rightarrow> bool" where
  "grouped gs = (distinct (dkeys gs) \<and> (\<forall>t ds. map_of gs t = Some ds \<longrightarrow> distinct (dkeys ds)))"

lemma add_desired_pairs:
  assumes "grouped gs"
  shows "grouped (add_desired i gs)"
    "set (pairs (add_desired i gs)) = insert (dc_type i, dc_external_id i) (set (pairs gs))"
proof -
  let ?old = "case map_of gs (dc_type i) of None \<Rightarrow> [] | Some d \<Rightarrow> d"
  have "distinct (dkeys ?old)" using assms by (auto simp: grouped_def dkeys_def split: option.splits)
  then show "grouped (add_desired i gs)"
    using assms by (auto simp: grouped_def add_desired_def distinct_dset split: if_splits)
  then show "set (pairs (add_desired i gs)) = insert (dc_type i, dc_external_id i) (set (pairs gs))"
    using assms unfolding set_eq_iff
    by (auto simp: grouped_def in_pairs add_desired_def split: option.splits if_splits)
qed

lemma desired_pairs:
  "distinct (pairs (desired_by_type items)) \<and>
   set (pairs (desired_by_type items)) = (\<lambda>i. (dc_type i, dc_external_id i)) ` set items"
proof -
  have "grouped (fold add_desired items gs) \<and>
      set (pairs (fold add_desired items gs)) = set (pairs gs) \<union> (\<lambda>i. (dc_type i, dc_external_id i)) ` set items"
    if "grouped gs" for gs
    using that by (induction items arbitrary: gs) (auto simp: add_desired_pairs)
  from this [of "[]"] show ?thesis
    by (auto simp: desired_by_type_def add_desired_def [abs_def] grouped_def dkeys_def intro!: distinct_pairs)
qed

lemma apply_edge_progress:
  assumes "rel_progress s0 n (snd ks)"
  shows "wp (apply_edge G a ks e) (\<lambda>ks' _. rel_progress s0 (Suc n) (snd ks')) (\<lambda>ex _. not_app ex) w"
  unfolding apply_edge_def Let_def
  by (auto simp: run_simps split: option.splits intro!: wp_counted)
    (use assms in \<open>auto simp: rel_progress_def add_rel_error_def error_entry_def unresolved_endpoint_def\<close>)

lemma retire_edge_progress:
  assumes "rel_progress s0 n s"
  shows "wp (retire_edge G a s p) (\<lambda>s' _. rel_progress s0 n s') (\<lambda>ex _. not_app ex) w"
  unfolding retire_edge_def
  by (rule wp_on_app_error)
    (use assms in \<open>auto simp: run_simps rel_progress_def add_rel_error_def error_entry_def
       intro!: wp_mono [OF wp_True]\<close>)

lemma reconcile_edges_progress:
  assumes "rel_progress s0 0 s"
  shows "wp (reconcile_edges G a es s) (\<lambda>s' _. rel_progress s0 (length es) s') (\<lambda>ex _. not_app ex) w"
proof -
  have made: "wp (fold_act (apply_edge G a) ([], s) es)
     (\<lambda>ks _. rel_progress s0 (length es) (snd ks)) (\<lambda>ex _. not_app ex) w"
    by (rule wp_loop [where I = "\<lambda>pre ks _. rel_progress s0 (length pre) (snd ks)"])
      (use assms apply_edge_progress in auto)
  have stale: "wp (fold_act (retire_edge G a) s' ps) (\<lambda>s' _. rel_progress s0 n s') (\<lambda>ex _. not_app ex) w"
    if "rel_progress s0 n s'" for s' ps w n
    by (rule wp_loop [where I = "\<lambda>_ s' _. rel_progress s0 n s'"]) (use that retire_edge_progress in auto)
  have found: "wp (iter_source_edges G src) (\<lambda>_ _. True) (\<lambda>ex _. not_app ex) w" for src w
    by (simp add: iter_source_edges_def Let_def run_simps)
  show ?thesis
    unfolding reconcile_edges_def wp_seq
    by (rule wp_mono [OF made] wp_mono [OF found] stale | assumption)+
qed

lemma reconcile_accounts:
  "wp (reconcile R G res a) (\<lambda>s _. accounts res s) (\<lambda>ex _. not_app ex) w"
proof -
  let ?gs = "desired_by_type (dr_items res)"
  have items: "wp (fold_act (reconcile_type R a) empty_recon ?gs)
     (\<lambda>s _. progress (pairs ?gs) s) (\<lambda>ex _. not_app ex) w"
  proof (rule wp_loop [where I = "\<lambda>pre s _. progress (pairs pre) s"])
    fix pre g s w
    assume split: "?gs = pre @ g # drop (Suc (length pre)) ?gs" and "progress (pairs pre) s"
    moreover have "distinct (pairs pre @ pairs [g])"
      using desired_pairs [of "dr_items res"] by (subst (asm) (1) split) auto
    ultimately show "wp (reconcile_type R a s g) (\<lambda>s' _. progress (pairs (pre @ [g])) s')
        (\<lambda>ex _. not_app ex) w"
      using reconcile_type_progress [of "pairs pre"] by simp
  qed (simp add: progress_def empty_recon_def applied_def dkeys_def)
  have "accounts res s'" if "progress (pairs ?gs) s" "rel_progress s (length (dr_relationships res)) s'" for s s'
    using that desired_pairs [of "dr_items res"] distinct_card [of "pairs ?gs"]
    by (auto simp: accounts_def progress_def rel_progress_def item_keys_def)
  moreover have "rel_progress s 0 s" if "progress (pairs ?gs) s" for s
    using that by (simp add: progress_def rel_progress_def empty_recon_def)
  ultimately show ?thesis
    unfolding reconcile_def wp_seq
    by (intro wp_mono [OF items]) (auto intro!: wp_mono [OF reconcile_edges_progress])
qed

section \<open>Every write goes through the repositories\<close>

lemma via_on_app_error [via_intros]: "via R m \<Longrightarrow> (\<And>e. via R (h e)) \<Longrightarrow> via R (on_app_error m h)"
  unfolding on_app_error_def by (intro via_catch) (auto intro: via_intros split: exn.splits)

lemma iter_source_reads [reads_intros]: "reads (iter_source R ty src)"
  by (auto simp: iter_source_def intro!: reads_intros)

lemma iter_source_edges_reads [reads_intros]: "reads (iter_source_edges G src)"
  by (auto simp: iter_source_edges_def Let_def intro!: reads_intros)

lemma reconcile_edges_via [via_intros]: "via (service_step S) (reconcile_edges (sv_graph S) a es s)"
  unfolding reconcile_edges_def apply_edge_def retire_edge_def Let_def
  by (auto intro!: via_intros via_reads [OF iter_source_edges_reads] split: option.splits prod.splits)

lemma reconcile_via [via_intros]: "via (service_step S) (reconcile (sv_repo S) (sv_graph S) res a)"
  unfolding reconcile_def reconcile_type_def apply_item_def retire_item_def
  by (auto intro!: via_intros via_reads [OF iter_source_reads])

section \<open>Items of other sources are left alone\<close>

definition others :: "string \<Rightarrow> db \<Rightarrow> string \<Rightarrow> ci_doc list" where
  "others src d ty = filter (\<lambda>e. m_source (c_meta e) \<noteq> Some src) (cis_of d ty)"

lemma filter_upd_first:
  "List.find p xs = Some e \<Longrightarrow> \<not> q e \<Longrightarrow> \<not> q (f e) \<Longrightarrow> filter q (upd_first p f xs) = filter q xs"
  by (induction xs) (auto split: if_splits)

lemma filter_del_first:
  "List.find p xs = Some e \<Longrightarrow> \<not> q e \<Longrightarrow> filter q (del_first p xs) = filter q xs"
  by (induction xs) (auto split: if_splits)

lemma logged_others: "logged x g k p d d' \<Longrightarrow> others src d' ty = others src d ty"
  using logged_same by (simp add: others_def)

lemma put_others:
  "filter (\<lambda>e. m_source (c_meta e) \<noteq> Some src) es = others src d ty \<Longrightarrow>
   others src (put_cis ty es d) ty' = others src d ty'"
  by (simp add: others_def)

lemma put_upd_others:
  "List.find p (cis_of d ty) = Some e \<Longrightarrow> m_source (c_meta e) = Some src \<Longrightarrow>
   m_source (c_meta (f e)) = Some src \<Longrightarrow>
   others src (put_cis ty (upd_first p f (cis_of d ty)) d) ty' = others src d ty'"
  by (rule put_others) (simp add: others_def filter_upd_first)

text \<open>An identifier that belongs to no item of another source.\<close>

definition foreign_to :: "ext \<Rightarrow> (string \<Rightarrow> ci_doc list) \<Rightarrow> string \<Rightarrow> string \<Rightarrow> bool" where
  "foreign_to x O' ty i = (case x_oid_parse x i of None \<Rightarrow> True | Some oid \<Rightarrow> oid \<notin> c_id ` set (O' ty))"

lemma foreign_source:
  "foreign_to x (others src d) ty i \<Longrightarrow> x_oid_parse x i = Some (c_id e) \<Longrightarrow>
   List.find (by_id (c_id e)) (cis_of d ty) = Some e \<Longrightarrow> m_source (c_meta e) = Some src"
  using find_Some_in [of "by_id (c_id e)" "cis_of d ty" e] by (auto simp: foreign_to_def others_def)

lemma discovered_others:
  assumes "discovered_by x M ty data src ext_id run actor r d d'"
  shows "others src d' ty' = others src d ty'"
proof -
  have *: "m_source (c_meta e) = Some src" if "List.find (owned_as src ext_id) xs = Some e" for e xs
    using find_Some_in [OF that] by (simp add: owned_as_def)
  from assms show ?thesis
    unfolding discovered_by_def
    by (cases "snd r")
      (auto simp: ci_inserted_def ci_revised_def ci_refreshed_def owned_as_def [of _ _ "_ :: ci_doc"]
         set_prov_def put_upd_others * others_def [of src "put_cis _ (_ @ _) _"] others_def [of src d]
         dest!: logged_others [where src = src and ty = ty'])
qed

lemma marked_others:
  assumes "marked_by x ty i run actor d d'" "foreign_to x (others src d) ty i"
  shows "others src d' ty' = others src d ty'"
  using assms foreign_source [OF assms(2)] unfolding marked_by_def ci_revised_def
  by (auto simp: flagged_def put_upd_others dest!: logged_others [where src = src and ty = ty'])

lemma deleted_others:
  assumes "deleted_by x attached (detached x) ty i expected actor rid detach d d'"
    "foreign_to x (others src d) ty i"
  shows "others src d' ty' = others src d ty'"
proof -
  from assms(1) obtain e d1 where rm: "ci_removed x ty i e actor rid d1 d'"
    and d1: "d1 = d \<or> detached x (ty, c_id e) d d1"
    unfolding deleted_by_def by blast
  have same: "others src d1 = others src d"
    using d1 detached_facts(1) by (fastforce simp: others_def same_cis_def)
  have e: "List.find (by_id (c_id e)) (cis_of d1 ty) = Some e" "m_source (c_meta e) = Some src"
    using rm foreign_source [of x src d1] assms(2) by (auto simp: same ci_removed_def)
  then have "others src (put_cis ty (del_first (by_id (c_id e)) (cis_of d1 ty)) d1) ty' = others src d1 ty'"
    by (intro put_others) (simp add: others_def filter_del_first [OF e(1)])
  with rm same show ?thesis
    by (auto simp: ci_removed_def dest!: logged_others [where src = src and ty = ty'])
qed

lemma edges_others:
  "edge_created x n g rd e d d' \<Longrightarrow> others src d' ty = others src d ty"
  "edge_removed x i expected actor rid d d' \<Longrightarrow> others src d' ty = others src d ty"
  by (auto simp: edge_created_def edge_removed_def others_def dest!: logged_same)

definition leaves :: "service \<Rightarrow> string \<Rightarrow> (string \<Rightarrow> ci_doc list) \<Rightarrow> db \<Rightarrow> bool" where
  "leaves S src O' d = (sound (rp_ext (sv_repo S)) (rp_cfg (sv_repo S)) d \<and> others src d = O')"

lemma keeps_leaves:
  assumes "wired S" "via (service_step S) m"
    and "\<And>w :: world. leaves S src O' (w_db w) \<Longrightarrow>
      wp m (\<lambda>_ w'. others src (w_db w') = O') (\<lambda>_ w'. others src (w_db w') = O') w"
  shows "keeps (leaves S src O') m"
proof (rule keepsI)
  fix w :: world assume w: "leaves S src O' (w_db w)"
  have "sound (rp_ext (sv_repo S)) (rp_cfg (sv_repo S)) d"
    if "(service_step S)\<^sup>*\<^sup>* (w_db w) d" for d
    using that by induction (use w service_step_sound assms(1) in \<open>auto simp: leaves_def\<close>)
  moreover have "(service_step S)\<^sup>*\<^sup>* (w_db w) (w_db (snd (m w)))" using assms(2) by (simp add: via_def)
  moreover have "others src (w_db (snd (m w))) = O'"
    using assms(3) [OF w] by (cases "fst (m w)") (auto simp: wp_def split: prod.splits)
  ultimately show "leaves S src O' (w_db (snd (m w)))" by (simp add: leaves_def)
qed

lemma keeps_fold_act_in:
  "(\<And>b y. y \<in> set ys \<Longrightarrow> keeps I (f b y)) \<Longrightarrow> keeps I (fold_act f b ys)"
  by (induction ys arbitrary: b) (simp_all add: keeps_prim keeps_seq)

lemma operations_leave:
  assumes "wired S"
  shows "keeps (leaves S src O') (apply_discovery (sv_repo S) ty data src ext_id run actor)"
    "foreign_to (rp_ext (sv_repo S)) O' ty i \<Longrightarrow>
       keeps (leaves S src O') (mark_missing (sv_repo S) ty i run actor)"
    "foreign_to (rp_ext (sv_repo S)) O' ty i \<Longrightarrow>
       keeps (leaves S src O') (delete (sv_repo S) ty i expected actor rid detach)"
    "keeps (leaves S src O') (create_edge (sv_graph S) g)"
    "keeps (leaves S src O') (delete_edge (sv_graph S) i expected actor rid)"
proof -
  have wired: "rr_ext (sv_graph S) = rp_ext (sv_repo S)" "rp_txn (sv_repo S)" "rr_txn (sv_graph S)"
    "rp_guard (sv_repo S) = Some (graph_guard (sv_graph S))" "oid_codec (rp_ext (sv_repo S))"
    using assms by (auto simp: wired_def)
  show "keeps (leaves S src O') (apply_discovery (sv_repo S) ty data src ext_id run actor)"
    by (rule keeps_leaves [OF assms], rule via_intros, rule wp_mono [OF apply_discovery_effect])
      (use wired in \<open>auto simp: leaves_def sound_def intro!: ext elim: discovered_others\<close>)
  show "keeps (leaves S src O') (mark_missing (sv_repo S) ty i run actor)"
    if "foreign_to (rp_ext (sv_repo S)) O' ty i"
    by (rule keeps_leaves [OF assms], rule via_intros, rule wp_mono [OF mark_missing_effect])
      (use wired that in \<open>auto simp: leaves_def intro!: ext elim: marked_others\<close>)
  show "keeps (leaves S src O') (delete (sv_repo S) ty i expected actor rid detach)"
    if "foreign_to (rp_ext (sv_repo S)) O' ty i"
    by (rule keeps_leaves [OF assms], rule via_intros, rule wp_mono [OF graph_delete_guard.delete_guarded])
      (use wired that in \<open>auto simp: leaves_def intro!: ext elim: deleted_others\<close>)
  show "keeps (leaves S src O') (create_edge (sv_graph S) g)"
    by (rule keeps_leaves [OF assms], rule via_intros, rule wp_mono [OF create_edge_effect])
      (use wired in \<open>auto simp: leaves_def intro!: ext intro: oid_codec_injective elim: edges_others\<close>)
  show "keeps (leaves S src O') (delete_edge (sv_graph S) i expected actor rid)"
    by (rule keeps_leaves [OF assms], rule via_intros, rule wp_mono [OF delete_edge_effect])
      (use wired in \<open>auto simp: leaves_def intro!: ext elim: edges_others\<close>)
qed

lemma listed_owned:
  assumes "p \<in> set (fold (\<lambda>e out. case m_external_id (c_meta e) of None \<Rightarrow> out
      | Some k \<Rightarrow> dset k (f e) out) docs out)" "\<And>e. e \<in> set docs \<Longrightarrow> P (f e)" "\<And>q. q \<in> set out \<Longrightarrow> P (snd q)"
  shows "P (snd p)"
  using assms
proof (induction docs arbitrary: out)
  case (Cons e docs)
  have "P (snd q)" if "q \<in> set (case m_external_id (c_meta e) of None \<Rightarrow> out | Some k \<Rightarrow> dset k (f e) out)" for q
  proof (cases "q \<in> set out")
    case False
    with that obtain k where "q = (k, f e)"
      by (cases "m_external_id (c_meta e)") (auto dest!: subsetD [OF set_dset])
    then show ?thesis using Cons.prems(2) by simp
  qed (rule Cons.prems(3))
  with Cons show ?case by simp
qed simp

lemma iter_source_foreign:
  assumes "leaves S src O' (w_db w)" "oid_codec (rp_ext (sv_repo S))"
  shows "wp (iter_source (sv_repo S) ty src)
     (\<lambda>ex w'. w_db w' = w_db w \<and> (\<forall>p\<in>set ex. foreign_to (rp_ext (sv_repo S)) O' ty (snd p)))
     (\<lambda>_ w'. w_db w' = w_db w) w"
proof -
  let ?x = "rp_ext (sv_repo S)"
  have "foreign_to ?x O' ty (x_oid_str ?x (c_id e))"
    if e: "e \<in> set (cis_of (w_db w) ty)" "m_source (c_meta e) = Some src" for e
  proof -
    have "ids_unique ty (w_db w)" "O' = others src (w_db w)" using assms(1) by (auto simp: leaves_def sound_def)
    with ids_unique_eq [of ty "w_db w" e] e have "c_id e \<notin> c_id ` set (O' ty)" by (auto simp: others_def)
    then show ?thesis using assms(2) by (simp add: foreign_to_def oid_codec_def)
  qed
  then show ?thesis
    by (auto simp: iter_source_def run_simps ci_put(1) elim!: listed_owned)
qed

lemma reconcile_keeps_leaves:
  assumes "wired S" "ra_source a = src"
  shows "keeps (leaves S src O') (reconcile (sv_repo S) (sv_graph S) res a)"
proof -
  note ops = operations_leave [OF assms(1), where src = src and O' = O']
  have "keeps (leaves S src O') (apply_item (sv_repo S) a ty s p)" for ty s p
    unfolding apply_item_def assms(2) by (intro keeps_intros ops)
  moreover have retire: "keeps (leaves S src O') (retire_item (sv_repo S) a ty s p)"
    if "foreign_to (rp_ext (sv_repo S)) O' ty (snd p)" for ty s p
    unfolding retire_item_def by (intro keeps_intros ops that)
  ultimately have rest: "keeps (leaves S src O')
       (seq (fold_act (apply_item (sv_repo S) a ty) s ds) (\<lambda>s.
        fold_act (retire_item (sv_repo S) a ty) s (filter q ex)))"
    if "\<forall>p\<in>set ex. foreign_to (rp_ext (sv_repo S)) O' ty (snd p)" for ty s ds q ex
    using that by (intro keeps_intros keeps_fold_act_in retire) auto
  have "keeps (leaves S src O') (reconcile_type (sv_repo S) a s g)" for s g
    unfolding keeps_wp reconcile_type_def assms(2)
  proof (intro allI impI)
    fix w :: world assume w: "leaves S src O' (w_db w)"
    have "oid_codec (rp_ext (sv_repo S))" using assms(1) by (simp add: wired_def)
    from wp_mono [OF iter_source_foreign [OF w this]] rest w
    show "wp (seq (iter_source (sv_repo S) (fst g) src) (\<lambda>existing.
        seq (fold_act (apply_item (sv_repo S) a (fst g)) s (snd g)) (\<lambda>s.
        fold_act (retire_item (sv_repo S) a (fst g)) s
          (filter (\<lambda>p. fst p \<notin> set (dkeys (snd g))) existing))))
       (\<lambda>_ w'. leaves S src O' (w_db w')) (\<lambda>_ w'. leaves S src O' (w_db w')) w"
      unfolding wp_seq [of "iter_source _ _ _"] keeps_wp by simp
  qed
  moreover have "keeps (leaves S src O') (apply_edge (sv_graph S) a ks e)" for ks e
    unfolding apply_edge_def Let_def
    by (auto intro!: keeps_intros ops split: option.splits)
  moreover have "keeps (leaves S src O') (retire_edge (sv_graph S) a s p)" for s p
    unfolding retire_edge_def by (intro keeps_intros ops)
  ultimately show ?thesis
    unfolding reconcile_def reconcile_edges_def
    by (intro keeps_intros) (auto intro: keeps_reads iter_source_edges_reads)
qed

section \<open>A run\<close>

text \<open>
  What base.py asks of a provider: it only reads. Then a run changes, besides its own record in
  the run collection, only what the reconciler does through the repositories.
\<close>

definition run_step :: "service \<Rightarrow> db \<Rightarrow> db \<Rightarrow> bool" where
  "run_step S d d' = (service_step S d d' \<or> d' = d\<lparr>d_runs := d_runs d'\<rparr>)"

lemma runs_put: "co_docs runs_coll d = d_runs d" "co_put runs_coll f d = d\<lparr>d_runs := f (d_runs d)\<rparr>"
  by (simp_all add: runs_coll_def)

lemma via_runs [via_intros]:
  "via (run_step S) (insert_one x runs_coll r)" "via (run_step S) (update_one x runs_coll p f)"
  by (rule via_step, simp add: run_step_def insert_one_def update_one_def db_call_def runs_put
      split: option.splits)+

locale reading_provider =
  fixes p :: provider
  assumes discover_reads: "reads (pv_discover p config)"
begin

lemma run_via:
  assumes "map_of (dv_providers D) name = Some p" "dv_repo D = sv_repo S" "dv_graph D = sv_graph S"
  shows "via (run_step S) (discovery_run D name config source on_missing actor)"
proof -
  have "via (run_step S) (reconcile (sv_repo S) (sv_graph S) res a)" for res a
    by (rule via_mono [OF reconcile_via]) (simp add: run_step_def)
  then show ?thesis
    unfolding discovery_run_def fail_run_def run_metric_def Let_def
    by (auto simp: assms intro!: via_intros reads_intros intro: via_reads discover_reads)
qed

end

lemma static_discover_reads: "reads (static_discover config)"
  by (auto simp: static_discover_def intro!: reads_intros split: option.splits)

interpretation static: reading_provider static_provider
  by unfold_locales (simp add: static_provider_def static_discover_reads)

lemma default_registry_static: "map_of default_registry name = Some p \<Longrightarrow> p = static_provider"
  by (auto simp: default_registry_def register_def split: if_splits)

lemma discovery_run_via:
  assumes "dv_providers D = default_registry" "dv_repo D = sv_repo S" "dv_graph D = sv_graph S"
  shows "via (run_step S) (discovery_run D name config source on_missing actor)"
proof (cases "map_of (dv_providers D) name")
  case None
  then show ?thesis by (simp add: discovery_run_def via_intros)
next
  case (Some p)
  with assms(1) default_registry_static have "p = static_provider" by simp
  with Some static.run_via assms(2,3) show ?thesis by blast
qed

end
