(* ===== verification/Api.thy ===== *)
theory Api
  imports App Discovery_Facts
begin

text \<open>
  The service as its clients see it: one call per route, served by the middleware and the
  handlers. The theory shows which calls need which scope, that a refused call changes nothing,
  that whatever a call writes to the items, the relationships, their log and their outbox goes
  through the repositories, and it gives the transition system of the whole service.
\<close>

section \<open>Calls\<close>

datatype call =
    Banner
  | Health
  | Ready
  | Metrics
  | CreateType type_def
  | ListTypes bool
  | GetType string
  | UpdateType string type_def
  | DeleteType string
  | CreateCi string val
  | ListCi string list_args "(string \<times> string) list"
  | GetCi string string
  | ReplaceCi string string val
  | PatchCi string string val
  | DeleteCi string string bool
  | CiHistory string string int
  | CreateRelType rel_def
  | ListRelTypes bool
  | GetRelType string
  | DeleteRelType string
  | CreateEdge val
  | ListEdges edge_filter int int
  | GetEdge string
  | DeleteEdge string
  | Neighbors string string string "string option"
  | Dependencies string string
  | Impact string string
  | RunDiscovery run_request
  | Providers
  | ListRuns "string option" int
  | GetRun string
  | CreateWebhook string "string list option" "string option"
  | ListWebhooks
  | CreateKey key_request
  | ListKeys
  | RotateKey string
  | RevokeKey string
  | ListDead int
  | ReplayDead string

fun run_call :: "app \<Rightarrow> request \<Rightarrow> call \<Rightarrow> response act" where
  "run_call A q Banner = banner"
| "run_call A q Health = healthz"
| "run_call A q Ready = readyz A"
| "run_call A q Metrics = prometheus_metrics A"
| "run_call A q (CreateType d) = create_type_route A q d"
| "run_call A q (ListTypes b) = list_types_route A q b"
| "run_call A q (GetType n) = get_type_route A q n"
| "run_call A q (UpdateType n d) = update_type_route A q n d"
| "run_call A q (DeleteType n) = delete_type_route A q n"
| "run_call A q (CreateCi t v) = create_ci A q t v"
| "run_call A q (ListCi t g ps) = list_ci A q t g ps"
| "run_call A q (GetCi t i) = get_ci A q t i"
| "run_call A q (ReplaceCi t i v) = replace_ci A q t i v"
| "run_call A q (PatchCi t i v) = patch_ci A q t i v"
| "run_call A q (DeleteCi t i b) = delete_ci A q t i b"
| "run_call A q (CiHistory t i n) = ci_history A q t i n"
| "run_call A q (CreateRelType d) = create_rel_type_route A q d"
| "run_call A q (ListRelTypes b) = list_rel_types_route A q b"
| "run_call A q (GetRelType n) = get_rel_type_route A q n"
| "run_call A q (DeleteRelType n) = delete_rel_type_route A q n"
| "run_call A q (CreateEdge v) = create_edge_route A q v"
| "run_call A q (ListEdges f n k) = list_edges_route A q f n k"
| "run_call A q (GetEdge i) = get_edge_route A q i"
| "run_call A q (DeleteEdge i) = delete_edge_route A q i"
| "run_call A q (Neighbors t i d r) = ci_neighbors A q t i d r"
| "run_call A q (Dependencies t i) = ci_dependencies A q t i"
| "run_call A q (Impact t i) = ci_impact A q t i"
| "run_call A q (RunDiscovery b) = run_discovery A q b"
| "run_call A q Providers = list_providers A q"
| "run_call A q (ListRuns s n) = list_runs_route A q s n"
| "run_call A q (GetRun i) = get_run_route A q i"
| "run_call A q (CreateWebhook u ts s) = create_webhook A q u ts s"
| "run_call A q ListWebhooks = list_webhooks_route A q"
| "run_call A q (CreateKey b) = create_key A q b"
| "run_call A q ListKeys = list_keys A q"
| "run_call A q (RotateKey i) = rotate_key A q i"
| "run_call A q (RevokeKey i) = revoke_key A q i"
| "run_call A q (ListDead n) = list_dead_events A q n"
| "run_call A q (ReplayDead i) = replay_dead_event A q i"

text \<open>A request: its line and headers, and the call it is routed to.\<close>

definition serve :: "app \<Rightarrow> incoming \<Rightarrow> request \<Rightarrow> call \<Rightarrow> response act" where
  "serve A r q c =
     serve_request (ap_ext A) (ap_cfg A) r (\<lambda>rid. run_call A (q\<lparr>rq_rid := Some rid\<rparr>) c)"

text \<open>The scope of each route, as \<open>require\<close> names it.\<close>

fun call_scope :: "call \<Rightarrow> string option" where
  "call_scope Banner = None"
| "call_scope Health = None"
| "call_scope Ready = None"
| "call_scope Metrics = None"
| "call_scope (CreateType _) = Some ''types:write''"
| "call_scope (UpdateType _ _) = Some ''types:write''"
| "call_scope (DeleteType _) = Some ''types:write''"
| "call_scope (CreateRelType _) = Some ''types:write''"
| "call_scope (DeleteRelType _) = Some ''types:write''"
| "call_scope (ListTypes _) = Some ''types:read''"
| "call_scope (GetType _) = Some ''types:read''"
| "call_scope (ListRelTypes _) = Some ''types:read''"
| "call_scope (GetRelType _) = Some ''types:read''"
| "call_scope (CreateCi _ _) = Some ''ci:write''"
| "call_scope (ReplaceCi _ _ _) = Some ''ci:write''"
| "call_scope (PatchCi _ _ _) = Some ''ci:write''"
| "call_scope (DeleteCi _ _ _) = Some ''ci:write''"
| "call_scope (CreateEdge _) = Some ''ci:write''"
| "call_scope (DeleteEdge _) = Some ''ci:write''"
| "call_scope (RunDiscovery _) = Some ''ci:write''"
| "call_scope (ListCi _ _ _) = Some ''ci:read''"
| "call_scope (GetCi _ _) = Some ''ci:read''"
| "call_scope (CiHistory _ _ _) = Some ''ci:read''"
| "call_scope (ListEdges _ _ _) = Some ''ci:read''"
| "call_scope (GetEdge _) = Some ''ci:read''"
| "call_scope (Neighbors _ _ _ _) = Some ''ci:read''"
| "call_scope (Dependencies _ _) = Some ''ci:read''"
| "call_scope (Impact _ _) = Some ''ci:read''"
| "call_scope Providers = Some ''ci:read''"
| "call_scope (ListRuns _ _) = Some ''ci:read''"
| "call_scope (GetRun _) = Some ''ci:read''"
| "call_scope (CreateWebhook _ _ _) = Some ''admin''"
| "call_scope ListWebhooks = Some ''admin''"
| "call_scope (CreateKey _) = Some ''admin''"
| "call_scope ListKeys = Some ''admin''"
| "call_scope (RotateKey _) = Some ''admin''"
| "call_scope (RevokeKey _) = Some ''admin''"
| "call_scope (ListDead _) = Some ''admin''"
| "call_scope (ReplayDead _) = Some ''admin''"

lemmas route_defs = create_type_route_def list_types_route_def get_type_route_def
  update_type_route_def delete_type_route_def create_ci_def list_ci_def get_ci_def replace_ci_def
  patch_ci_def write_ci_def delete_ci_def ci_history_def create_rel_type_route_def
  list_rel_types_route_def get_rel_type_route_def delete_rel_type_route_def create_edge_route_def
  list_edges_route_def get_edge_route_def delete_edge_route_def ci_neighbors_def ci_dependencies_def
  ci_impact_def run_discovery_def list_providers_def list_runs_route_def get_run_route_def
  create_webhook_def list_webhooks_route_def create_key_def list_keys_def rotate_key_def
  revoke_key_def list_dead_events_def replay_dead_event_def

lemma run_call_guarded:
  "call_scope c = Some s \<Longrightarrow> \<exists>f. run_call A q c = guarded A q s f"
  by (cases c; simp add: route_defs Let_def; blast)

section \<open>Who may call\<close>

text \<open>A principal these credentials can stand for, before the call.\<close>

definition may_act :: "ext \<Rightarrow> settings \<Rightarrow> credentials \<Rightarrow> world \<Rightarrow> principal \<Rightarrow> bool" where
  "may_act x cfg rq w p =
     (if auth_enabled cfg then entitled (make_gate x cfg) rq p w else p = anonymous)"

lemma entitled_later: "later w w' \<Longrightarrow> entitled A rq p w' \<Longrightarrow> entitled A rq p w"
  unfolding entitled_def Let_def by (blast intro: key_vouches_later jwt_vouches_later)

lemma may_act_later: "later w w' \<Longrightarrow> may_act x cfg rq w' p \<Longrightarrow> may_act x cfg rq w p"
  by (auto simp: may_act_def intro: entitled_later split: if_splits)

lemma require_law:
  "wp (require (make_gate x cfg) scopes rq)
     (\<lambda>p w'. list_all (has_scope p) scopes \<and> may_act x cfg rq w p \<and> later w w') (\<lambda>_ w'. later w w') w"
  unfolding require_def wp_seq
  by (rule wp_mono [OF get_principal_effect [OF refl, of x cfg rq w]])
    (auto simp: run_simps Let_def list_all_iff filter_empty_conv may_act_def)

definition access_error :: "exn \<Rightarrow> bool" where
  "access_error ex = (case ex of App e \<Rightarrow> ae_status e \<in> {401, 403, 429} | MongoError \<Rightarrow> True | DuplicateKey \<Rightarrow> True | _ \<Rightarrow> False)"

lemma require_errors:
  "wp (require (make_gate x cfg) scopes rq) (\<lambda>_ _. True) (\<lambda>ex _. access_error ex) w"
proof -
  have "wp (get_principal (make_gate x cfg) rq) (\<lambda>_ _. True) (\<lambda>ex _. access_error ex) w"
    unfolding get_principal_def make_gate_fields wp_seq [of "authenticate _ _"] wp_if
    by (auto intro!: wp_mono [OF authenticate_db_error] split: option.splits
        simp: run_simps check_def access_error_def unauthorized_def rate_limited_def err_def mk_error_def)
  then show ?thesis
    unfolding require_def wp_seq Let_def
    by (rule wp_mono) (auto simp: run_simps access_error_def forbidden_def err_def mk_error_def)
qed

lemma guarded_denied:
  assumes "ap_gate A = make_gate x cfg"
    and "\<not> (\<exists>p. may_act x cfg (rq_creds q) w p \<and> has_scope p s)"
  shows "wp (guarded A q s f) (\<lambda>_ _. False) (\<lambda>ex w'. access_error ex \<and> only_used (w_db w) (w_db w')) w"
  unfolding guarded_def wp_seq assms(1)
  by (rule wp_mono [OF wp_conj [OF require_law require_errors]]) (use assms(2) in \<open>auto simp: later_def\<close>)


section \<open>The frame around a route\<close>

text \<open>
  What the middleware and the handlers make of a route, as far as status and database go: every
  request gets a response.
\<close>

lemma handled_status:
  "\<not> handled ex \<Longrightarrow> rs_status (handle_exn errors ex rid) = 500"
  by (auto simp: handled_def handle_exn_def Let_def json_response_def mk_error_def split: exn.splits)

lemma wp_serve:
  assumes "\<And>rid w1. later w w1 \<Longrightarrow> wp (route rid) (\<lambda>resp w'. P (rs_status resp) (w_db w'))
      (\<lambda>ex w'. P (rs_status (handle_exn (x_errors x) ex (Some rid))) (w_db w')) w1"
    and "P 413 (w_db w)"
  shows "wp (serve_request x cfg r route) (\<lambda>resp w'. P (rs_status resp) (w_db w')) (\<lambda>_ _. False) w"
proof -
  have "wp (seq (catch_exn (call_next x rid (route rid)) (\<lambda>ex. seq (count_request r 500) (\<lambda>_. raise_exn ex)))
      (\<lambda>resp. seq (count_request r (rs_status resp)) (\<lambda>_.
       ret (on_headers (\<lambda>hs. security_headers cfg (set_header ''X-Request-ID'' rid hs)) resp))))
     (\<lambda>resp w'. P (rs_status resp) (w_db w'))
     (\<lambda>ex w'. P (rs_status (handle_exn (x_errors x) ex (Some rid))) (w_db w')) w1"
    if "later w w1" for rid w1
    using assms(1) [OF that, of rid]
    by (auto simp: call_next_def count_request_def run_simps on_headers_def elim!: wp_mono)
  then have "wp (request_context x cfg r rid (route rid))
     (\<lambda>resp w'. P (rs_status resp) (w_db w'))
     (\<lambda>ex w'. P (rs_status (handle_exn (x_errors x) ex (Some rid))) (w_db w')) w1"
    if "later w w1" "w_db w1 = w_db w" for rid w1
    using that assms(2) by (simp add: request_context_def run_simps on_headers_def too_large_def)
  then show ?thesis
    unfolding serve_request_def set_request_id_def
    by (auto simp: run_simps split: option.splits intro!: wp_mono)
qed

lemma access_status:
  "access_error ex \<Longrightarrow> rs_status (handle_exn errors ex rid) \<in> {401, 403, 429, 500}"
  by (auto simp: access_error_def handle_exn_def handle_app_error_def json_response_def Let_def
      mk_error_def split: exn.splits option.splits)

lemma make_app_fields [simp]:
  "ap_ext (make_app x cfg t) = x" "ap_cfg (make_app x cfg t) = cfg" "ap_gate (make_app x cfg t) = make_gate x cfg"
  "rp_ext (ap_repo (make_app x cfg t)) = x" "rp_cfg (ap_repo (make_app x cfg t)) = cfg"
  "rp_idem (ap_repo (make_app x cfg t)) = idempotency_enabled cfg"
  "rp_txn (ap_repo (make_app x cfg t)) = t"
  "rp_guard (ap_repo (make_app x cfg t)) = Some (graph_guard (ap_graph (make_app x cfg t)))"
  "rr_ext (ap_graph (make_app x cfg t)) = x" "rr_cfg (ap_graph (make_app x cfg t)) = cfg"
  "rr_txn (ap_graph (make_app x cfg t)) = t"
  "dv_repo (ap_discovery (make_app x cfg t)) = ap_repo (make_app x cfg t)"
  "dv_graph (ap_discovery (make_app x cfg t)) = ap_graph (make_app x cfg t)"
  "dv_cfg (ap_discovery (make_app x cfg t)) = cfg"
  "dv_providers (ap_discovery (make_app x cfg t)) = default_registry"
  by (simp_all add: make_app_def Let_def)

lemma returns_response:
  "wp m Q (\<lambda>_ _. False) w \<Longrightarrow> \<exists>resp w'. m w = (Inr resp, w') \<and> Q resp w'"
  by (auto simp: wp_def split: prod.splits sum.splits)

section \<open>What a call does to the data\<close>

text \<open>Databases with the same items, relationships, records, events and idempotency keys.\<close>

definition same_data :: "db \<Rightarrow> db \<Rightarrow> bool" where
  "same_data d d' = (d_cis d' = d_cis d \<and> d_edges d' = d_edges d \<and> d_audit d' = d_audit d \<and>
     d_outbox d' = d_outbox d \<and> d_idem d' = d_idem d)"

definition expired :: "db \<Rightarrow> db \<Rightarrow> bool" where
  "expired d d' = (\<exists>keep. d' = d\<lparr>d_idem := filter keep (d_idem d)\<rparr>)"

definition data_step :: "service \<Rightarrow> db \<Rightarrow> db \<Rightarrow> bool" where
  "data_step S d d' = (service_step S d d' \<or> same_data d d' \<or> expired d d')"

lemma same_data_refl [simp]: "same_data d d"
  by (simp add: same_data_def)

lemma via_data:
  "via (service_step S) m \<Longrightarrow> via (data_step S) m" "via (run_step S) m \<Longrightarrow> via (data_step S) m"
proof -
  have "same_data d d'" if "d' = d\<lparr>d_runs := d_runs d'\<rparr>" for d d'
    by (subst that) (simp add: same_data_def)
  then show "via (run_step S) m \<Longrightarrow> via (data_step S) m"
    by (elim via_mono) (auto simp: data_step_def run_step_def)
qed (elim via_mono, simp add: data_step_def)

lemma via_same_data: "(\<And>w. same_data (w_db w) (w_db (snd (m w)))) \<Longrightarrow> via (data_step S) m"
  by (rule via_step) (simp add: data_step_def)

lemmas via_data_ops [via_intros] = via_operations [THEN via_data(1)]

lemma via_registries [via_intros]:
  "via (data_step S) (insert_one x types_coll t)" "via (data_step S) (update_one x types_coll p f)"
  "via (data_step S) (insert_one x rel_types_coll rt)" "via (data_step S) (update_one x rel_types_coll p' f')"
  "via (data_step S) (insert_one x keys_coll k)" "via (data_step S) (update_one x keys_coll p1 f1)"
  "via (data_step S) (insert_one x webhooks_coll h)"
  by (rule via_same_data,
      simp add: insert_one_def update_one_def db_call_def types_coll_def rel_types_coll_def keys_coll_def
        webhooks_coll_def same_data_def split: option.splits)+


section \<open>Queries only read\<close>

lemma reads_reply [reads_intros]: "reads (reply st b)" "reads (reply_doc x st d)" "reads no_content"
  by (simp_all add: reply_def reply_doc_def no_content_def reads_prim)

lemma reads_bodies [reads_intros]:
  "reads (body_dict v)" "reads (expect b v)" "reads (body_type_def x d)" "reads (body_rel_def rd)"
  "reads (body_relationship v)" "reads (parse_if_match i r)" "reads (parse_edge_match i)"
  "reads (definition_from_doc x t)" "reads (with_schema x d j)" "reads (requested_scopes b')"
  "reads (key_expiry x ttl)"
  by (auto simp: body_dict_def expect_def body_type_def_def body_rel_def_def body_relationship_def
      parse_if_match_def parse_edge_match_def definition_from_doc_def with_schema_def
      json_schema_for_def requested_scopes_def key_expiry_def
      intro!: reads_intros split: val.splits option.splits sum.splits list.splits)

lemma reads_registry_queries [reads_intros]:
  "reads (list_types x b)" "reads (rel_list_types x b)" "reads (rel_get_type_strict x n)"
  by (auto simp: list_types_def rel_list_types_def rel_get_type_strict_def Let_def intro!: reads_intros)

lemma reads_item_queries [reads_intros]:
  "reads (get R t i)" "reads (list_items R t g)" "reads (history_of R t i n)"
  by (auto simp: get_def list_items_def history_of_def Let_def intro!: reads_intros)

lemma reads_bfs [reads_intros]: "reads (bfs_levels x dir dep n F s)"
  by (induction x dir dep n F s rule: bfs_levels.induct) (auto simp: Let_def intro!: reads_intros)

lemma reads_edge_queries [reads_intros]:
  "reads (get_edge G i)" "reads (list_edges G q n k)" "reads (neighbors G t i d r)"
  "reads (dependencies G t i)" "reads (impact G t i)"
  by (auto simp: get_edge_def list_edges_def parse_given_def neighbors_def dependencies_def
      impact_def bfs_def Let_def intro!: reads_intros)

lemma reads_ping [reads_intros]: "reads (ping x)"
  unfolding ping_def by (intro reads_intros)

lemma reads_admin_queries [reads_intros]:
  "reads (fetch_dead x n)" "reads (get_run x i)" "reads (list_runs x src k)" "reads (list_webhooks x)"
  by (auto simp: fetch_dead_def get_run_def list_runs_def list_webhooks_def intro!: reads_intros)

section \<open>Every write goes through the repositories\<close>

lemma via_let [via_intros]: "(\<And>a. via R (f a)) \<Longrightarrow> via R (let a = v in f a)"
  by simp

lemma via_wp:
  assumes "\<And>w. wp m (\<lambda>_ w'. R\<^sup>*\<^sup>* (w_db w) (w_db w')) (\<lambda>_ w'. R\<^sup>*\<^sup>* (w_db w) (w_db w')) w"
  shows "via R m"
  unfolding via_def
proof
  fix w from assms [of w] show "R\<^sup>*\<^sup>* (w_db w) (w_db (snd (m w)))"
    by (cases "m w"; cases "fst (m w)") (auto simp: wp_def)
qed

lemma via_require [via_intros]: "via (data_step S) (require (make_gate x cfg) scopes rq)"
proof (rule via_wp)
  have used: "(data_step S)\<^sup>*\<^sup>* d d'" if "only_used d d'" for d d'
  proof -
    from that obtain ks where "d' = d\<lparr>d_keys := ks\<rparr>" unfolding only_used_def by blast
    then have "same_data d d'" by (simp add: same_data_def)
    then show ?thesis by (simp add: data_step_def r_into_rtranclp)
  qed
  show "wp (require (make_gate x cfg) scopes rq)
     (\<lambda>_ w'. (data_step S)\<^sup>*\<^sup>* (w_db w) (w_db w')) (\<lambda>_ w'. (data_step S)\<^sup>*\<^sup>* (w_db w) (w_db w')) w" for w
    by (rule wp_mono [OF require_law]) (auto simp: later_def intro: used)
qed

lemma via_guarded [via_intros]:
  "ap_gate A = make_gate x cfg \<Longrightarrow> (\<And>p. via (data_step S) (f p)) \<Longrightarrow> via (data_step S) (guarded A q s f)"
  by (simp add: guarded_def via_intros)

lemma via_indexes [via_intros]: "via (data_step S) (ensure_ci_indexes x t ixs)"
  by (rule via_same_data) (simp add: ensure_ci_indexes_def create_indexes_def db_call_def Let_def same_data_def)

lemma via_type_writes [via_intros]:
  "via (data_step S) (create_type x d actor)" "via (data_step S) (update_type x n d actor)"
  "via (data_step S) (deactivate_type x n actor)"
  "via (data_step S) (rel_create_type x rd actor)" "via (data_step S) (rel_deactivate_type x n actor)"
  by (auto simp: create_type_def update_type_def deactivate_type_def rel_create_type_def
      rel_deactivate_type_def rel_invalidate_def Let_def intro!: via_intros via_reads [OF reads_prim(4)]
      intro: via_reads reads_intros)

lemma via_key_writes [via_intros]:
  "via (data_step S) (create_api_key x n ss e)" "via (data_step S) (rotate_api_key x i)"
  "via (data_step S) (revoke_api_key x i)" "via (data_step S) (register_webhook x u ts sec)"
  "via (data_step S) (ensure_bootstrap_admin x cfg)"
  by (auto simp: create_api_key_def rotate_api_key_def revoke_api_key_def register_webhook_def
      ensure_bootstrap_admin_def Let_def intro!: via_intros intro: via_reads reads_intros)


definition service_of :: "app \<Rightarrow> service" where
  "service_of A = \<lparr>sv_repo = ap_repo A, sv_graph = ap_graph A\<rparr>"

lemma service_of_fields [simp]: "sv_repo (service_of A) = ap_repo A" "sv_graph (service_of A) = ap_graph A"
  by (simp_all add: service_of_def)

lemma via_app_ops [via_intros]:
  "via (data_step (service_of A)) (create (ap_repo A) ty payload actor rid key)"
  "via (data_step (service_of A)) (update (ap_repo A) ty i payload expected partial actor rid)"
  "via (data_step (service_of A)) (delete (ap_repo A) ty i expected actor rid detach)"
  "via (data_step (service_of A)) (create_edge (ap_graph A) g)"
  "via (data_step (service_of A)) (delete_edge (ap_graph A) i expected actor rid)"
  using via_data_ops [of "service_of A"] by simp_all

lemma via_discovery [via_intros]:
  "via (data_step (service_of (make_app x cfg t)))
     (discovery_run (ap_discovery (make_app x cfg t)) n c src m actor)"
  by (rule via_data(2), rule discovery_run_via) simp_all

lemma via_replay [via_intros]: "via (data_step (service_of (make_app x cfg t))) (replay x i)"
  using via_data_ops(8) [of "service_of (make_app x cfg t)"] by simp

lemma reads_open_routes: "reads banner" "reads healthz" "reads (readyz A)" "reads (prometheus_metrics A)"
  by (auto simp: banner_def healthz_def readyz_def prometheus_metrics_def intro!: reads_intros)

lemma via_body [via_intros]:
  "via R (reply st b)" "via R (reply_doc x st d)" "via R no_content"
  "via R (body_dict v)" "via R (expect b' v)" "via R (body_type_def x td)" "via R (body_rel_def rd)"
  "via R (body_relationship v)" "via R (parse_if_match i r)" "via R (parse_edge_match i)"
  "via R (with_schema x td j)" "via R (requested_scopes kb)" "via R (key_expiry x ttl)"
  by (rule via_reads, rule reads_intros)+

lemma via_query_route:
  "ap_gate A = make_gate x cfg \<Longrightarrow> (\<And>p. reads (f p)) \<Longrightarrow> via (data_step S) (guarded A q s f)"
  by (intro via_guarded via_reads)

lemma via_exn: "(\<And>m. via R (g m)) \<Longrightarrow> via R (h e) \<Longrightarrow> via R (case e of BadValue m \<Rightarrow> g m | _ \<Rightarrow> h e)"
  by (cases e) auto

lemma run_call_via:
  assumes "A = make_app x cfg t"
  shows "via (data_step (service_of A)) (run_call A q c)"
proof -
  have gate: "ap_gate A = make_gate x cfg" by (simp add: assms)
  note via_discovery' = via_discovery [of x cfg t, folded assms]
  note via_replay' = via_replay [of x cfg t, folded assms]
  have x: "ap_ext A = x" by (simp add: assms)
  show ?thesis
  proof (cases c)
    case (CreateKey b)
    show ?thesis
      unfolding CreateKey run_call.simps create_key_def Let_def x
      by (intro via_guarded [OF gate] via_intros via_exn)
  qed (simp_all only: run_call.simps,
    (rule via_reads, rule reads_open_routes)+,
    (simp only: route_defs Let_def x, intro via_guarded [OF gate] via_intros via_discovery' via_replay' via_reads; fail
     | simp only: route_defs Let_def x, rule via_query_route [OF gate], intro reads_intros; fail)+)
qed


section \<open>The whole service\<close>

lemma via_serve:
  assumes "A = make_app x cfg t"
  shows "via (data_step (service_of A)) (serve A r q c)"
  unfolding serve_def serve_request_def request_context_def call_next_def set_request_id_def
    count_request_def
  by (intro via_intros run_call_via [OF assms] via_reads reads_intros)

lemma reads_send [reads_intros]: "reads (http_send x u hs b)" "reads (sleep tm)"
  by (auto simp: http_send_def sleep_def intro: reads_intros)

lemma reads_attempts [reads_intros]: "reads (attempts x m u hs b i n)"
  by (induction n arbitrary: i) (auto intro!: reads_intros)

lemma reads_list [reads_intros]:
  "reads m \<Longrightarrow> (\<And>y ys. reads (g y ys)) \<Longrightarrow> reads (case q of [] \<Rightarrow> m | y # ys \<Rightarrow> g y ys)"
  by (cases q) auto

lemma reads_handle_event [reads_intros]: "reads (handle_event x cfg ev)"
  unfolding handle_event_def active_for_def deliver_def by (intro reads_intros)

lemma reads_consumer [reads_intros]: "reads (consume_one (subscribers x cfg))"
  unfolding consume_one_def subscribers_def log_event_def
  by (intro reads_intros) (auto intro: reads_intros split: if_splits)

lemma reads_poll [reads_intros]: "reads (poll_once x)"
  by (auto simp: poll_once_def invalidate_named_def Let_def intro!: reads_intros)

text \<open>
  One step: a request served by any worker, a pass of a dispatcher, a turn of a bus consumer, a
  poll of an invalidator, or the start of a worker; each with its own clocks, faults and caches,
  run to its end; or the server's expiry of some idempotency records past their age.
\<close>

inductive system_step :: "ext \<Rightarrow> settings \<Rightarrow> db \<Rightarrow> db \<Rightarrow> bool" for x cfg where
  step_request: "serve (make_app x cfg True) r q c w = (res, w') \<Longrightarrow> system_step x cfg (w_db w) (w_db w')"
| step_dispatcher: "dispatch_once x cfg (bus_publish cfg) w = (n, w') \<Longrightarrow> system_step x cfg (w_db w) (w_db w')"
| step_consumer: "consume_one (subscribers x cfg) w = (b, w') \<Longrightarrow> system_step x cfg (w_db w) (w_db w')"
| step_poll: "poll_once x w = (n, w') \<Longrightarrow> system_step x cfg (w_db w) (w_db w')"
| step_start: "startup x cfg w = (A, w') \<Longrightarrow> system_step x cfg (w_db w) (w_db w')"
| step_expiry: "system_step x cfg d (expire_keys (idempotency_ttl_seconds cfg) now chosen d)"

lemma via_startup: "via (data_step S) (startup x cfg)"
proof -
  have "reads (transaction x True (db_call x (\<lambda>d. (Inr (), d))))"
    by (auto simp: reads_def transaction_def db_call_def split: prod.splits sum.splits if_splits)
  then show ?thesis
    unfolding startup_def supports_transactions_def init_watermark_def
    by (intro via_intros) (auto intro!: via_intros intro: via_reads reads_intros)
qed

lemma wired_app: "oid_codec x \<Longrightarrow> wired (service_of (make_app x cfg True))"
  by (simp add: wired_def)

lemma system_step_data:
  assumes "system_step x cfg d d'"
  shows "(data_step (service_of (make_app x cfg True)))\<^sup>*\<^sup>* d d'"
  using assms
proof cases
  case (step_request r q c w res w')
  then show ?thesis using via_serve [OF refl, of x cfg True r q c] by (metis snd_conv via_def)
next
  case (step_dispatcher w n w')
  then have "service_step (service_of (make_app x cfg True)) d d'"
    using step_dispatch [of "service_of (make_app x cfg True)"] by simp
  then show ?thesis by (simp add: data_step_def r_into_rtranclp)
next
  case (step_start w A w')
  then show ?thesis using via_startup by (metis snd_conv via_def)
next
  case (step_expiry now chosen)
  then have "expired d d'" by (auto simp only: expire_keys_filter expired_def)
  then show ?thesis by (simp add: data_step_def r_into_rtranclp)
qed (use readsD [OF reads_consumer] readsD [OF reads_poll] in auto)

lemma same_data_sound:
  "same_data d d' \<Longrightarrow> sound x cfg d \<Longrightarrow> sound x cfg d'"
  by (simp add: same_data_def sound_def ids_unique_def idem_ok_def trail_def paired_def no_dangling_def
      present_def edges_distinct_def logs_distinct_def outbox_inv_def)

lemma expired_sound: "expired d d' \<Longrightarrow> sound x cfg d \<Longrightarrow> sound x cfg d'"
  by (auto simp: expired_def sound_def ids_unique_def idem_ok_def trail_def paired_def no_dangling_def
      present_def edges_distinct_def logs_distinct_def outbox_inv_def)

lemma data_step_sound:
  assumes "data_step (service_of (make_app x cfg True)) d d'" "oid_codec x" "sound x cfg d"
  shows "sound x cfg d'"
  using assms(1) service_step_sound [OF _ wired_app [OF assms(2)], of cfg d d'] assms(3)
  by (auto simp: data_step_def intro: same_data_sound expired_sound)

lemma system_step_sound:
  assumes "system_step x cfg d d'" "oid_codec x" "sound x cfg d"
  shows "sound x cfg d'"
  using system_step_data [OF assms(1)] assms(3)
  by (induction rule: rtranclp_induct) (auto intro: data_step_sound assms(2))

text \<open>A database in which no item, edge, record, event or key was written yet.\<close>

definition fresh_db :: "db \<Rightarrow> bool" where
  "fresh_db d = ((\<forall>n. d_cis d n = []) \<and> d_edges d = [] \<and> d_audit d = [] \<and> d_outbox d = [] \<and>
     d_idem d = [])"

definition reachable :: "ext \<Rightarrow> settings \<Rightarrow> db \<Rightarrow> bool" where
  "reachable x cfg d = (\<exists>d0. fresh_db d0 \<and> (system_step x cfg)\<^sup>*\<^sup>* d0 d)"

lemma reachable_sound:
  assumes "oid_codec x" "reachable x cfg d"
  shows "sound x cfg d"
proof -
  obtain d0 where fresh: "fresh_db d0" and steps: "(system_step x cfg)\<^sup>*\<^sup>* d0 d"
    using assms(2) by (auto simp: reachable_def)
  from steps show ?thesis
  proof (induction rule: rtranclp_induct)
    case base
    from fresh show ?case
      by (simp add: fresh_db_def sound_def ids_unique_def idem_ok_def trail_def paired_def
          no_dangling_def edges_distinct_def logs_distinct_def outbox_inv_def)
  qed (auto intro: system_step_sound assms(1))
qed


section \<open>Properties\<close>

text \<open>
  C20. A call that needs a scope, made with credentials that stand for no principal holding it,
  is answered 401, 403, 413, 429 or, on a database fault, 500, and changes nothing in the
  database but when keys were last used.
\<close>

theorem call_denied:
  assumes "call_scope c = Some s" "\<not> (\<exists>p. may_act x cfg (rq_creds q) w p \<and> has_scope p s)"
  shows "\<exists>resp w'. serve (make_app x cfg t) r q c w = (Inr resp, w') \<and>
     rs_status resp \<in> {401, 403, 413, 429, 500} \<and> only_used (w_db w) (w_db w')"
proof -
  let ?A = "make_app x cfg t"
  have "wp (run_call ?A (q\<lparr>rq_rid := Some rid\<rparr>) c) (\<lambda>_ _. False)
      (\<lambda>ex w'. access_error ex \<and> only_used (w_db w1) (w_db w')) w1" if "later w w1" for rid w1
  proof -
    obtain f where "run_call ?A (q\<lparr>rq_rid := Some rid\<rparr>) c = guarded ?A (q\<lparr>rq_rid := Some rid\<rparr>) s f"
      using run_call_guarded [OF assms(1)] by blast
    moreover have "\<not> (\<exists>p. may_act x cfg (rq_creds (q\<lparr>rq_rid := Some rid\<rparr>)) w1 p \<and> has_scope p s)"
      using assms(2) may_act_later [OF that] by auto
    ultimately show ?thesis by (simp only: guarded_denied [OF make_app_fields(3)] not_False_eq_True)
  qed
  note route = this
  have "wp (serve ?A r q c) (\<lambda>resp w'. rs_status resp \<in> {401, 403, 413, 429, 500} \<and>
      only_used (w_db w) (w_db w')) (\<lambda>_ _. False) w"
    unfolding serve_def
  proof (rule wp_serve [where P = "\<lambda>st d. st \<in> {401, 403, 413, 429, 500} \<and> only_used (w_db w) d"],
      rule wp_mono [OF route], assumption)
    fix w1 rid ex w'
    assume "later w w1" "access_error ex \<and> only_used (w_db w1) (w_db w')"
    then show "rs_status (handle_exn (x_errors (ap_ext ?A)) ex (Some rid)) \<in> {401, 403, 413, 429, 500} \<and>
        only_used (w_db w) (w_db w')"
      using access_status [of ex "x_errors (ap_ext ?A)" "Some rid"]
      by (auto simp: later_def intro: only_used_trans)
  qed simp_all
  from returns_response [OF this] show ?thesis .
qed

text \<open>A service with default settings and a database without keys refuses a write.\<close>

theorem call_denied_witness:
  "\<exists>resp w'. serve (make_app ext0 default_settings True)
       \<lparr>in_method = ''DELETE'', in_path = ''/'', in_request_id = None, in_content_length = None\<rparr>
       \<lparr>rq_creds = \<lparr>cr_api_key = Some ''secret'', cr_authorization = []\<rparr>, rq_rid = None,
        rq_if_match = None, rq_idem_key = None\<rparr> (DeleteType ''server'') (world_at bare_db 0) = (Inr resp, w') \<and>
     rs_status resp \<in> {401, 403, 413, 429, 500} \<and> only_used bare_db (w_db w')"
  using call_denied [of "DeleteType ''server''" "''types:write''" ext0 default_settings
      "\<lparr>rq_creds = \<lparr>cr_api_key = Some ''secret'', cr_authorization = []\<rparr>, rq_rid = None,
        rq_if_match = None, rq_idem_key = None\<rparr>" "world_at bare_db 0"]
  by (simp add: may_act_def entitled_def make_gate_fields key_vouches_def default_settings_def bare_db_def)

end
