(* ===== verification/Sample.thy ===== *)
theory Sample
  imports Api
begin

text \<open>
  A small concrete service that the witnesses of the properties run: one CI type
  \<open>server\<close>, two servers, a dependency relationship type \<open>runs_on\<close>, clocks that count
  interactions, identifiers written in unary, no faults, and a validator that accepts every
  payload.
\<close>

definition server_type :: type_doc where
  "server_type = \<lparr>t_id = 1, t_name = ''server'', t_description = None,
     t_fields = [(''hostname'', (plain_spec FString)\<lparr>fs_required := True\<rparr>)], t_indexes = [],
     t_version = 1, t_active = True, t_created_at = 0, t_updated_at = 0, t_created_by = ''admin'',
     t_updated_by = ''admin''\<rparr>"

definition server0 :: "oid \<Rightarrow> ci_doc" where
  "server0 i = \<lparr>c_id = i, c_fields = [(''hostname'', VStr ''h'')],
     c_meta = new_meta ''server'' 1 0 ''admin''\<rparr>"

definition runs_on :: rel_type_doc where
  "runs_on = \<lparr>rt_id = 1, rt_def = (plain_rel ''runs_on'')\<lparr>rd_dependency := True\<rparr>, rt_active = True,
     rt_created_at = 0, rt_updated_at = 0, rt_created_by = ''admin'', rt_updated_by = ''admin''\<rparr>"

definition db0 :: db where
  "db0 = \<lparr>d_cis = (\<lambda>n. if n = ''ci_server'' then [server0 1, server0 2] else []),
     d_ci_indexes = (\<lambda>_. []), d_types = [server_type], d_rel_types = [runs_on], d_edges = [],
     d_audit = [], d_outbox = [], d_keys = [], d_idem = [], d_runs = [], d_webhooks = []\<rparr>"

definition world0 :: world where
  "world0 = \<lparr>w_db = db0, w_worker = worker0, w_n = 0\<rparr>"

text \<open>The default settings with authentication off.\<close>

definition open_settings :: settings where
  "open_settings = default_settings\<lparr>auth_enabled := False\<rparr>"

definition graph0 :: rel_repo where
  "graph0 = \<lparr>rr_ext = ext0, rr_cfg = open_settings, rr_txn = True\<rparr>"

definition repo0 :: repo where
  "repo0 = \<lparr>rp_ext = ext0, rp_cfg = open_settings, rp_idem = True, rp_txn = True,
     rp_guard = Some (graph_guard graph0)\<rparr>"

definition service0 :: service where
  "service0 = \<lparr>sv_repo = repo0, sv_graph = graph0\<rparr>"

definition empty_db :: db where
  "empty_db = db0\<lparr>d_cis := (\<lambda>_. [])\<rparr>"

named_theorems sample_simps "the concrete service, unfolded"

lemmas [sample_simps] = server_type_def server0_def runs_on_def db0_def worker0_def
  world0_def graph0_def repo0_def service0_def empty_db_def

lemma default_ttl [simp]: "schema_cache_ttl_seconds open_settings = 30"
  by (simp add: open_settings_def default_settings_def)

lemma wired0: "wired service0"
  by (simp add: wired_def sample_simps oid_codec_def)

lemma lower_server [simp]: "lower ''server'' = ''server''"
  by (simp add: lower_def lower_char_def Let_def)

lemma cis0: "cis_of db0 ''server'' = [server0 1, server0 2]"
  by (simp add: db0_def ci_collection_name_def)

lemma ids_unique0: "ids_unique ty db0"
  by (auto simp: ids_unique_def sample_simps)

lemma fresh_outbox_id: "o_id (fresh_outbox n ev) = ev_id ev"
  by (simp add: fresh_outbox_def)

lemma made_entry_id: "a_id (made_entry x n g) = x_uuid x n"
  by (simp add: made_entry_def)

lemmas exec_simps = run_simps log_change_def sample_simps Let_def type_doc_for_def compile_def
  stored_type_def active_named_def model_of_def check_field_spec_def valid_regex_def coherent_def compile_model_def compile_field_def annotate_def plain_spec_def
  by_id_def at_revision_def ci_put ci_collection_name_def body_to_validate_def new_meta_def
  ci_clash_def ci_coll_def active_key_def made_event_def change_args_def
  fresh_outbox_id made_entry_id

text \<open>An update with the right revision runs to its end.\<close>

lemma update_runs:
  "wp (update repo0 ''server'' ''a'' [(''hostname'', VStr ''g'')] (Some 1) True ''anonymous'' (Some ''r''))
     (\<lambda>_ _. True) (\<lambda>_ _. False) world0"
  by (simp add: update_def update_txn_def exec_simps)

text \<open>A history: one item created, then updated.\<close>

definition host :: "string \<Rightarrow> dict" where
  "host h = [(''hostname'', VStr h)]"

definition item1 :: ci_doc where
  "item1 = \<lparr>c_id = 105, c_fields = host ''h'', c_meta = new_meta ''server'' 1 3 ''anonymous''\<rparr>"

definition db1 :: db where
  "db1 = empty_db\<lparr>d_cis := (\<lambda>_. [])(''ci_server'' := [item1]),
     d_audit := [made_entry ext0 7 (change_args ''create'' ''server'' (replicate 105 (CHR ''a''))
       ''anonymous'' None (Some (serialize ext0 item1)) (Some 1) (Some 1) (Some ''r''))],
     d_outbox := [fresh_outbox 12 (made_event ext0 10 ''ci.created'' ''server''
       (Some (replicate 105 (CHR ''a''))) ''anonymous'' (serialize ext0 item1))]\<rparr>"

definition item2 :: ci_doc where
  "item2 = \<lparr>c_id = 105, c_fields = host ''g'', c_meta = (new_meta ''server'' 1 3 ''anonymous'')
     \<lparr>m_revision := 2, m_updated_at := 105, m_updated_by := ''anonymous''\<rparr>\<rparr>"

lemma create_run:
  "wp (create repo0 ''server'' (host ''h'') ''anonymous'' (Some ''r'') None)
     (\<lambda>r w'. r = serialize ext0 item1 \<and> w_db w' = db1) (\<lambda>_ _. False) (world_at empty_db 0)"
  by (simp add: create_def create_txn_def insert_logged_def exec_simps world_at_def db1_def item1_def
      host_def numeral_2_eq_2 [symmetric])

definition db2 :: db where
  "db2 = with_log
     (made_entry ext0 107 (change_args ''update'' ''server'' (replicate 105 (CHR ''a'')) ''anonymous''
       (Some (serialize ext0 item1)) (Some (serialize ext0 item2)) (Some 1) (Some 2) (Some ''r'')))
     (fresh_outbox 112 (made_event ext0 110 ''ci.updated'' ''server''
       (Some (replicate 105 (CHR ''a''))) ''anonymous'' (serialize ext0 item2)))
     (put_cis ''server'' [item2] db1)"

lemma update_run:
  "wp (update repo0 ''server'' (replicate 105 (CHR ''a'')) (host ''g'') (Some 1) True ''anonymous'' (Some ''r''))
     (\<lambda>r w'. r = serialize ext0 item2 \<and> w_db w' = db2) (\<lambda>_ _. False) (world_at db1 100)"
  by (simp add: update_def update_txn_def exec_simps world_at_def db1_def item1_def item2_def
      host_def set_fields_def dset_def db2_def with_log_def put_cis_def numeral_2_eq_2 [symmetric])

text \<open>The service as the lifespan wires it, and the requests that lead from state to state.\<close>

definition app0 :: app where
  "app0 = make_app ext0 open_settings True"

lemma idem_on: "idempotency_enabled open_settings"
  by (simp add: open_settings_def default_settings_def)

lemma app0_fields [simp]: "ap_repo app0 = repo0" "ap_graph app0 = graph0" "ap_ext app0 = ext0"
  "ap_gate app0 = make_gate ext0 open_settings" "ap_cfg app0 = open_settings"
  by (simp_all add: app0_def make_app_def Let_def repo0_def graph0_def idem_on)

lemma open_auth [simp]: "\<not> auth_enabled open_settings"
  by (simp add: open_settings_def)

lemma wp_open [simp]: "wp (guarded app0 q s f) Q E w = wp (f anonymous) Q E w"
  by (simp add: guarded_def require_def get_principal_def make_gate_fields run_simps anonymous_def
      has_scope_def is_admin_def)

lemma anonymous_name [simp]: "p_name anonymous = ''anonymous''"
  by (simp add: anonymous_def)

definition incoming0 :: incoming where
  "incoming0 = \<lparr>in_method = ''POST'', in_path = ''/'', in_request_id = Some ''r'', in_content_length = None\<rparr>"

definition request0 :: "string option \<Rightarrow> request" where
  "request0 m = \<lparr>rq_creds = \<lparr>cr_api_key = None, cr_authorization = []\<rparr>, rq_rid = None,
     rq_if_match = m, rq_idem_key = None\<rparr>"

definition sample_steps :: "db \<Rightarrow> db \<Rightarrow> bool" where
  "sample_steps = (system_step ext0 open_settings)\<^sup>*\<^sup>*"

lemma step_of_call:
  assumes "wp (run_call app0 ((request0 m)\<lparr>rq_rid := Some ''r''\<rparr>) c) (\<lambda>_ w'. w_db w' = d') (\<lambda>_ _. False) w"
  shows "sample_steps (w_db w) d'"
proof -
  have "wp (serve app0 incoming0 (request0 m) c) (\<lambda>_ w'. w_db w' = d') (\<lambda>_ _. False) w"
    using assms by (auto simp: serve_def serve_request_def set_request_id_def incoming0_def request_context_def
        oversized_def call_next_def count_request_def run_simps elim!: wp_mono)
  then obtain res w' where "serve app0 incoming0 (request0 m) c w = (res, w')" "w_db w' = d'"
    by (auto simp: wp_def split: prod.splits sum.splits)
  then show ?thesis
    using step_request [of ext0 open_settings incoming0 "request0 m" c w res w']
    by (auto simp: app0_def sample_steps_def)
qed

lemma one_tag: "py_int (cleaned_tag ''1'') = Some 1" "cleaned_tag ''1'' \<noteq> ''*''"
  by code_simp+

lemma request0_fields [simp]:
  "rq_if_match (request0 m) = m" "rq_idem_key (request0 m) = None"
  by (simp_all add: request0_def)

lemma step_to_db1: "sample_steps empty_db db1"
  using step_of_call [where m = None and c = "CreateCi ''server'' (VDict (host ''h''))" and w = "world_at empty_db 0" and d' = db1]
    wp_mono [OF create_run, where Q' = "\<lambda>_ w'. w_db w' = db1" and E' = "\<lambda>_ _. False"]
  by (simp add: create_ci_def body_dict_def reply_doc_def run_simps)

lemma step_to_db2: "sample_steps db1 db2"
  using step_of_call [where m = "Some ''1''" and w = "world_at db1 100" and d' = db2
      and c = "PatchCi ''server'' (replicate 105 (CHR ''a'')) (VDict (host ''g''))"]
    wp_mono [OF update_run, where Q' = "\<lambda>_ w'. w_db w' = db2" and E' = "\<lambda>_ _. False"]
  by (simp add: patch_ci_def write_ci_def body_dict_def parse_if_match_def one_tag reply_doc_def run_simps)

text \<open>A second item, and an edge between the two.\<close>

definition item3 :: ci_doc where
  "item3 = \<lparr>c_id = 305, c_fields = host ''k'', c_meta = new_meta ''server'' 1 203 ''anonymous''\<rparr>"

definition db3 :: db where
  "db3 = with_log
     (made_entry ext0 207 (change_args ''create'' ''server'' (replicate 305 (CHR ''a'')) ''anonymous''
       None (Some (serialize ext0 item3)) (Some 1) (Some 1) (Some ''r'')))
     (fresh_outbox 212 (made_event ext0 210 ''ci.created'' ''server''
       (Some (replicate 305 (CHR ''a''))) ''anonymous'' (serialize ext0 item3)))
     (put_cis ''server'' [item2, item3] db2)"

lemma create_again_run:
  "wp (create repo0 ''server'' (host ''k'') ''anonymous'' (Some ''r'') None)
     (\<lambda>r w'. r = serialize ext0 item3 \<and> w_db w' = db3) (\<lambda>_ _. False) (world_at db2 200)"
  by (simp add: create_def create_txn_def insert_logged_def exec_simps world_at_def db1_def item1_def
      item2_def item3_def db2_def db3_def with_log_def put_cis_def host_def numeral_2_eq_2 [symmetric])

definition link_args :: edge_args where
  "link_args = \<lparr>ea_rel_type = ''runs_on'', ea_from_type = ''server'',
     ea_from_id = replicate 105 (CHR ''a''), ea_to_type = ''server'',
     ea_to_id = replicate 305 (CHR ''a''), ea_attributes = None, ea_actor = ''anonymous'',
     ea_request_id = Some ''r'', ea_provenance = None\<rparr>"

lemma link_args_simps [simp]:
  "ea_rel_type link_args = ''runs_on''" "ea_from_type link_args = ''server''"
  "ea_from_id link_args = replicate 105 (CHR ''a'')" "ea_to_type link_args = ''server''"
  "ea_to_id link_args = replicate 305 (CHR ''a'')" "ea_attributes link_args = None"
  "ea_actor link_args = ''anonymous''" "ea_request_id link_args = Some ''r''" "ea_provenance link_args = None"
  by (simp_all add: link_args_def)

definition runs_on_def0 :: rel_def where
  "runs_on_def0 = (plain_rel ''runs_on'')\<lparr>rd_dependency := True\<rparr>"

lemma lower_runs_on [simp]: "lower ''runs_on'' = ''runs_on''"
  by (simp add: lower_def lower_char_def Let_def)

lemma runs_on_valid: "make_rel_def runs_on_def0 = Inr runs_on_def0"
  by code_simp

lemma runs_on_fields [simp]:
  "rd_name runs_on_def0 = ''runs_on''" "rd_dependency runs_on_def0 = True"
  "rd_cardinality runs_on_def0 = ManyToMany" "allows_from runs_on_def0 t" "allows_to runs_on_def0 t"
  by (simp_all add: runs_on_def0_def plain_rel_def allows_from_def allows_to_def any_type_def)

lemma depth0 [simp]: "graph_max_depth open_settings = 10"
  by (simp add: open_settings_def default_settings_def)

lemma bfs_levels_pos:
  "bfs_levels x dir dep n [] s = ret (s\<lparr>bs_next := []\<rparr>)"
  "0 < n \<Longrightarrow> F \<noteq> [] \<Longrightarrow> bfs_levels x dir dep n F s =
     seq (find_many x edges_coll (level_query dir dep F)) (\<lambda>es.
       let s' = fold (visit x dir) es (s\<lparr>bs_next := []\<rparr>) in
       bfs_levels x dir dep (n - 1) (bs_next s') s')"
  by (cases n; simp)+

definition link0 :: edge where
  "link0 = new_edge runs_on_def0 (''server'', 105) (''server'', 305) link_args 507 405"

definition db4 :: db where
  "db4 = with_log
     (made_entry ext0 409 (edge_audit ''create'' ''runs_on'' (replicate 507 (CHR ''a'')) ''anonymous''
       None (Some (serialize_edge ext0 link0)) (Some ''r'')))
     (fresh_outbox 414 (made_event ext0 412 ''relationship.created'' (rel_entity ''runs_on'')
       (Some (replicate 507 (CHR ''a''))) ''anonymous'' (serialize_edge ext0 link0)))
     (put_edges [link0] db3)"

lemma link_run:
  "wp (create_edge graph0 link_args)
     (\<lambda>r w'. w_db w' = db4) (\<lambda>_ _. False) (world_at db3 400)"
  by (simp add: create_edge_def bfs_levels_pos put_edges_def db4_def link0_def create_edge_txn_def edge_checks_def rel_def_of_def rel_active_named_def
      stored_rel_def runs_on_def0_def [symmetric] runs_on_valid ci_exists_def check_cardinality_def
      check_dependency_def check_no_cycle_def bfs_def edges_put node_key_def edge_audit_def
      exec_simps world_at_def db1_def item1_def
      item2_def item3_def db2_def db3_def with_log_def put_cis_def host_def numeral_2_eq_2 [symmetric])

lemma step_to_db3: "sample_steps db2 db3"
  using step_of_call [where m = None and c = "CreateCi ''server'' (VDict (host ''k''))" and w = "world_at db2 200" and d' = db3]
    wp_mono [OF create_again_run, where Q' = "\<lambda>_ w'. w_db w' = db3" and E' = "\<lambda>_ _. False"]
  by (simp add: create_ci_def body_dict_def reply_doc_def run_simps)

definition link_body :: dict where
  "link_body = [(''rel_type'', VStr ''runs_on''),
     (''from'', VDict [(''type'', VStr ''server''), (''id'', VStr (replicate 105 (CHR ''a'')))]),
     (''to'', VDict [(''type'', VStr ''server''), (''id'', VStr (replicate 305 (CHR ''a'')))])]"

lemma link_parsed: "parse_relationship (VDict link_body) = Some
   \<lparr>rc_rel_type = ''runs_on'', rc_from = (''server'', replicate 105 (CHR ''a'')),
    rc_to = (''server'', replicate 305 (CHR ''a'')), rc_attributes = None\<rparr>"
  by (simp add: link_body_def parse_relationship_def only_keys_def aliased_def two_strings_def parse_attributes_def)

lemma step_to_db4: "sample_steps db3 db4"
  using step_of_call [where m = None and c = "CreateEdge (VDict link_body)" and w = "world_at db3 400" and d' = db4]
    link_run
  by (simp add: create_edge_route_def body_relationship_def link_parsed link_args_def [symmetric] reply_def run_simps)

lemma steps_to_db4: "(system_step ext0 open_settings)\<^sup>*\<^sup>* empty_db db4"
  using step_to_db1 step_to_db2 step_to_db3 step_to_db4 unfolding sample_steps_def
  by (meson rtranclp_trans)

lemma db4_reachable: "reachable ext0 open_settings db4"
  unfolding reachable_def
proof (intro exI conjI)
  show "fresh_db empty_db" by (simp add: fresh_db_def empty_db_def db0_def)
  show "(system_step ext0 open_settings)\<^sup>*\<^sup>* empty_db db4" by (rule steps_to_db4)
qed

lemma codec0: "oid_codec ext0"
  by (simp add: oid_codec_def)

end
