(* ===== verification/Item_Properties.thy ===== *)
theory Item_Properties
  imports Sample
begin

text \<open>
  Properties of the configuration items as clients see them: optimistic concurrency, creation and
  its idempotency keys, the delete guard, and the history.
\<close>

abbreviation items_of :: "ext \<Rightarrow> settings \<Rightarrow> repo" where
  "items_of x cfg \<equiv> ap_repo (make_app x cfg True)"

lemma reachable_ids:
  "oid_codec x \<Longrightarrow> reachable x cfg d \<Longrightarrow> ids_unique ty d \<and> idem_ok d"
  using reachable_sound by (auto simp: sound_def)

lemma sample_reachable:
  "reachable ext0 open_settings empty_db" "reachable ext0 open_settings db1" "reachable ext0 open_settings db2"
proof -
  have "fresh_db empty_db" by (simp add: fresh_db_def empty_db_def db0_def)
  with step_to_db1 step_to_db2 show "reachable ext0 open_settings empty_db"
    "reachable ext0 open_settings db1" "reachable ext0 open_settings db2"
    unfolding reachable_def sample_steps_def by (meson rtranclp.rtrancl_refl rtranclp_trans)+
qed

lemma items_of_sample: "items_of ext0 open_settings = repo0"
  using app0_fields(1) by (simp add: app0_def)

lemma update_ran:
  "\<exists>w'. update repo0 ''server'' (replicate 105 (CHR ''a'')) (host ''g'') (Some 1) True ''anonymous'' (Some ''r'')
      (world_at db1 100) = (Inr (serialize ext0 item2), w') \<and> w_db w' = db2"
  using update_run by (auto simp: wp_def split: prod.splits sum.splits)

section \<open>Optimistic concurrency\<close>

text \<open>
  C13. An update is a compare-and-swap: it succeeds only when the stored item has the revision
  the caller named, and then replaces it by the payload merged into its fields as a model that
  serves the type in this world validated it, one revision on, with one audit record and one event; an update that
  raises leaves the database as it was.
\<close>

theorem update_cas:
  assumes "oid_codec x" "reachable x cfg (w_db w)"
  shows "wp (update (items_of x cfg) ty i payload expected partial actor rid)
     (\<lambda>after w'. updated_by x (serves x (lower ty) w) ty i payload expected partial
        actor rid after (w_db w) (w_db w'))
     (\<lambda>_ w'. w_db w' = w_db w) w"
  by (rule wp_mono [OF update_effect])
    (use reachable_ids [OF assms, of ty] make_app_fields(4,7) [of x cfg True] in auto)

theorem update_cas_witness:
  "updated_by ext0 (serves ext0 ''server'' (world_at db1 100)) ''server'' (replicate 105 (CHR ''a'')) (host ''g'')
     (Some 1) True ''anonymous'' (Some ''r'') (serialize ext0 item2) db1 db2"
  using update_ran wp_returns [OF update_cas [OF codec0, of open_settings "world_at db1 100"]]
    sample_reachable(2) by (fastforce simp: items_of_sample)

text \<open>
  C14. No update is lost: of two writers that name the same revision of an item, possibly on
  different workers, the second fails and changes nothing.
\<close>

theorem no_lost_update:
  assumes "oid_codec x" "reachable x cfg (w_db w)"
    and first: "update (items_of x cfg) ty i p1 seen partial1 actor1 rid1 w = (Inr a, w1)"
    and "w_db w2 = w_db w1"
  shows "\<exists>ex w3. update (items_of x cfg) ty i p2 seen partial2 actor2 rid2 w2 = (Inl ex, w3) \<and> w_db w3 = w_db w1"
proof (cases "update (items_of x cfg) ty i p2 seen partial2 actor2 rid2 w2")
  case (Pair r w3)
    have ids: "ids_unique ty (w_db w)" using reachable_ids [OF assms(1,2)] by blast
  have x: "rp_ext (items_of x cfg) = x" "rp_txn (items_of x cfg)" by simp_all
  from wp_returns [OF update_effect [OF ids] first] obtain e e' where
    e: "seen = Some (m_revision (c_meta e))" "x_oid_parse x i = Some (c_id e)" and
    e': "c_id e' = c_id e" "m_revision (c_meta e') = m_revision (c_meta e) + 1"
      "List.find (by_id (c_id e)) (cis_of (w_db w) ty) = Some e" and
    log: "\<exists>g k p. logged x g k p (put_cis ty (upd_first (by_id (c_id e)) (\<lambda>_. e') (cis_of (w_db w) ty)) (w_db w)) (w_db w1)"
    unfolding updated_by_def ci_revised_def x by blast
  have now: "cis_of (w_db w1) ty = upd_first (by_id (c_id e)) (\<lambda>_. e') (cis_of (w_db w) ty)"
    using log by (auto elim!: logged_elim)
  have "List.map c_id (cis_of (w_db w1) ty) = List.map c_id (cis_of (w_db w) ty)"
    by (simp add: now ids_upd_first e'(1))
  with ids have ids': "ids_unique ty (w_db w2)" by (simp add: ids_unique_def assms(4))
  have found: "List.find (by_id (c_id e)) (cis_of (w_db w1) ty) = Some e'"
    unfolding now by (rule find_upd_first [OF e'(3)]) (simp add: by_id_def e'(1))
  show ?thesis
  proof (cases r)
    case (Inl ex)
    with Pair have run: "update (items_of x cfg) ty i p2 seen partial2 actor2 rid2 w2 = (Inl ex, w3)" by simp
    from wp_raises [OF update_effect [OF ids'] run] assms(4) x have "w_db w3 = w_db w1" by simp
    with run show ?thesis by blast
  next
    case (Inr b)
    with Pair have run: "update (items_of x cfg) ty i p2 seen partial2 actor2 rid2 w2 = (Inr b, w3)" by simp
    from wp_returns [OF update_effect [OF ids'] run] obtain u where
      u: "seen = Some (m_revision (c_meta u))" "x_oid_parse x i = Some (c_id u)"
        "List.find (by_id (c_id u)) (cis_of (w_db w1) ty) = Some u"
      unfolding updated_by_def ci_revised_def x assms(4) by blast
    with e(2) found have "u = e'" by simp
    with u(1) e(1) e'(2) show ?thesis by simp
  qed
qed

theorem no_lost_update_witness:
  "\<exists>ex w3. update repo0 ''server'' (replicate 105 (CHR ''a'')) (host ''z'') (Some 1) False ''eve'' None
      (world_at db2 200) = (Inl ex, w3) \<and> w_db w3 = db2"
proof -
  obtain w' where "update repo0 ''server'' (replicate 105 (CHR ''a'')) (host ''g'') (Some 1) True ''anonymous''
      (Some ''r'') (world_at db1 100) = (Inr (serialize ext0 item2), w')" "w_db w' = db2"
    using update_ran by blast
  then show ?thesis
    using no_lost_update [OF codec0, of open_settings "world_at db1 100" "''server''" "replicate 105 (CHR ''a'')"
        "host ''g''" "Some 1" True "''anonymous''" "Some ''r''" "serialize ext0 item2" w' "world_at db2 200"
        "host ''z''" False "''eve''" None] sample_reachable(2)
    by (simp add: items_of_sample)
qed

text \<open>
  C19. The wildcard If-Match, documented to accept any current revision, accepts none: a PUT or a
  PATCH that carries it never succeeds, whatever is stored, and changes nothing but last-used
  stamps of keys.
\<close>

theorem wildcard_never_matches:
  assumes "oid_codec x" "reachable x cfg (w_db w)" "rq_if_match q = Some tag" "cleaned_tag tag = ''*''" "tag \<noteq> []"
  shows "wp (run_call (make_app x cfg True) q (ReplaceCi ty i v)) (\<lambda>_ _. False)
       (\<lambda>_ w'. only_used (w_db w) (w_db w')) w \<and>
     wp (run_call (make_app x cfg True) q (PatchCi ty i v)) (\<lambda>_ _. False)
       (\<lambda>_ w'. only_used (w_db w) (w_db w')) w"
proof -
  have never: "wp (update (items_of x cfg) ty i p None partial actor rid) (\<lambda>_ _. False)
       (\<lambda>_ w'. only_used (w_db w) (w_db w')) w1" if "only_used (w_db w) (w_db w1)" for p partial actor rid w1
  proof -
    from that obtain ks where "w_db w1 = (w_db w)\<lparr>d_keys := ks\<rparr>" unfolding only_used_def by blast
    then have "ids_unique ty (w_db w1)" using reachable_ids [OF assms(1,2), of ty] by (simp add: ids_unique_def)
    from wp_mono [OF update_effect [OF this]] show ?thesis
      by (rule wp_mono) (use that in \<open>auto simp: updated_by_def\<close>)
  qed
  have "given (Some tag) = Some tag" using assms(5) by (cases tag) auto
  then have "wp (write_ci (make_app x cfg True) q ty i v partial) (\<lambda>_ _. False)
       (\<lambda>_ w'. only_used (w_db w) (w_db w')) w" for partial
    unfolding write_ci_def guarded_def make_app_fields(3) wp_seq
    by (intro wp_mono [OF require_law])
      (auto simp: body_dict_def parse_if_match_def assms(3,4) run_simps later_def split: val.splits
        intro!: wp_mono [OF never])
  then show ?thesis by (simp add: replace_ci_def patch_ci_def)
qed

theorem wildcard_never_matches_witness:
  "wp (run_call app0 (request0 (Some ''*'')) (PatchCi ''server'' (replicate 105 (CHR ''a'')) (VDict (host ''g''))))
     (\<lambda>_ _. False) (\<lambda>_ w'. only_used db1 (w_db w')) (world_at db1 100)"
proof -
  have "cleaned_tag ''*'' = ''*''" by code_simp
  with wildcard_never_matches [OF codec0, of open_settings "world_at db1 100" "request0 (Some ''*'')" "''*''"]
    sample_reachable(2) show ?thesis by (simp add: app0_def)
qed

section \<open>ETags\<close>

lemma map_of_jsonable: "map_of (jsonable_dict x d) k = map_option (jsonable x) (map_of d k)"
  by (induction d) auto

lemma serialized_revision:
  "\<exists>m. map_of (serialize x e) ''_meta'' = Some (VDict m) \<and> dget m ''revision'' = VInt (m_revision (c_meta e))"
  by (simp add: serialize_def map_of_jsonable meta_dict_def dget_def)

lemma strip_of_between:
  assumes "\<forall>c\<in>set s. \<not> p c" "p a"
  shows "strip_of p (a # s @ [a]) = s"
proof -
  have drop: "dropWhile p t = t" if "\<forall>c\<in>set t. \<not> p c" for t using that by (cases t) auto
  have "dropWhile p (s @ [a]) = (if s = [] then [] else s @ [a])" using assms by (cases s) auto
  then show ?thesis using assms drop [of "rev s"] by (simp add: strip_of_def)
qed

lemma etag_of_serialized:
  "etag x (serialize x e) = [(''ETag'', quote_char # int_str (m_revision (c_meta e)) @ [quote_char])]"
  using serialized_revision [of x e] by (auto simp: etag_def py_str_def)

lemma quote_not_space: "\<not> is_space quote_char" "quote_char \<noteq> CHR ''*''"
  unfolding quote_char_def by code_simp+

lemma int_str_plain: "\<forall>c\<in>set (int_str n). \<not> is_space c \<and> c \<noteq> quote_char \<and> c \<noteq> CHR ''*''"
  using int_str_clean [of n] by (simp only: quote_char_def list_all_iff)

lemma cleaned_quoted: "cleaned_tag (quote_char # int_str n @ [quote_char]) = int_str n"
proof -
  have "strip (quote_char # int_str n @ [quote_char]) = quote_char # int_str n @ [quote_char]"
    unfolding strip_def
    by (rule strip_of_none) (use int_str_plain [of n] quote_not_space in \<open>simp add: list_all_iff\<close>)
  then show ?thesis
    unfolding cleaned_tag_def using int_str_plain [of n] by (simp add: strip_of_between)
qed

lemma int_str_not_star: "int_str n \<noteq> ''*''"
  using int_str_plain [of n] by (cases "int_str n") auto

text \<open>
  C18. ETags round-trip: the ETag of a response that carries an item, sent back as If-Match,
  means that item's revision, so that a client can update what it has just read.
\<close>

theorem etag_roundtrip:
  assumes "length (nat_str (nat \<bar>m_revision (c_meta e)\<bar>)) \<le> 4300"
  shows "\<exists>t. etag x (serialize x e) = [(''ETag'', t)] \<and> parse_if_match (Some t) required = ret (Some (m_revision (c_meta e)))"
proof (intro exI conjI)
  show "etag x (serialize x e) = [(''ETag'', quote_char # int_str (m_revision (c_meta e)) @ [quote_char])]"
    by (rule etag_of_serialized)
  show "parse_if_match (Some (quote_char # int_str (m_revision (c_meta e)) @ [quote_char])) required =
      ret (Some (m_revision (c_meta e)))"
    unfolding parse_if_match_def by (simp add: cleaned_quoted int_str_not_star py_int_str [OF assms])
qed

theorem etag_roundtrip_witness:
  "\<exists>t. etag ext0 (serialize ext0 item2) = [(''ETag'', t)] \<and> parse_if_match (Some t) True = ret (Some 2)"
proof -
  have "length (nat_str 2) \<le> 4300" by code_simp
  then show ?thesis using etag_roundtrip [of item2 ext0 True] by (simp add: item2_def)
qed

section \<open>Creation\<close>

text \<open>
  C15. A create that returns has inserted exactly one item, with a fresh identifier, revision 1
  and the fields a model that serves the type made of the payload, with its audit record and its event,
  unless it answered with the response kept under its idempotency key and wrote nothing; one
  that raises has changed nothing but, at most, claimed the key.
\<close>

theorem create_exactly_once:
  assumes "oid_codec x" "reachable x cfg (w_db w)"
  shows "wp (create (items_of x cfg) ty payload actor rid key)
     (\<lambda>ser w'. created_by x (serves x (lower ty) w) ty payload actor rid
          (active_key (items_of x cfg) key) ser (w_db w) (w_db w') \<or>
        (\<exists>k. active_key (items_of x cfg) key = Some k \<and> kept_response ty k (w_db w) = Some ser \<and> w_db w' = w_db w))
     (\<lambda>_ w'. only_claimed x ty (active_key (items_of x cfg) key) (w_db w) (w_db w')) w"
  by (rule wp_mono [OF create_effect [OF refl]]) (use reachable_ids [OF assms] in auto)

theorem create_exactly_once_witness:
  "created_by ext0 (serves ext0 ''server'' (world_at empty_db 0)) ''server'' (host ''h'') ''anonymous'' (Some ''r'') None
     (serialize ext0 item1) empty_db db1"
proof -
  obtain w' where "create repo0 ''server'' (host ''h'') ''anonymous'' (Some ''r'') None (world_at empty_db 0)
      = (Inr (serialize ext0 item1), w')" "w_db w' = db1"
    using create_run by (auto simp: wp_def split: prod.splits sum.splits)
  with wp_returns [OF create_exactly_once [OF codec0, of open_settings "world_at empty_db 0"]] sample_reachable(1)
  show ?thesis by (fastforce simp: items_of_sample active_key_def)
qed

lemma precheck_replays:
  assumes "kept_response ty k (w_db w) = Some ser"
  shows "wp (idempotency_precheck x ty k) (\<lambda>r w'. r = Some ser \<and> w_db w' = w_db w)
     (\<lambda>e w'. w_db w' = w_db w \<and> e = MongoError \<and> (\<exists>i. x_fault x i)) w"
  using assms by (auto simp: idempotency_precheck_def run_simps kept_response_def split: option.splits if_splits)

text \<open>
  Why a create may be refused before its idempotency key is looked at: the type has no model, the
  payload is invalid under the one that serves the request, or the database fails.
\<close>

definition refused :: "ext \<Rightarrow> string \<Rightarrow> dict \<Rightarrow> world \<Rightarrow> exn \<Rightarrow> bool" where
  "refused x ty payload w e = (no_model x (lower ty) w e \<or>
     (\<exists>m errors. serves x (lower ty) w m \<and> x_validate x m payload = Inl errors \<and>
        e = err ValidationFailedError ''Payload failed schema validation.''
              [(''errors'', VList (List.map error_summary errors))]))"

lemma create_replays:
  assumes "active_key R key = Some k" "kept_response ty k (w_db w) = Some ser"
  shows "wp (create R ty payload actor rid key) (\<lambda>ser2 w'. ser2 = ser \<and> w_db w' = w_db w)
     (\<lambda>e w'. w_db w' = w_db w \<and> refused (rp_ext R) ty payload w e) w"
proof -
  have pre: "wp (idempotency_precheck (rp_ext R) ty k) (\<lambda>r w'. r = Some ser \<and> w_db w' = w_db w)
     (\<lambda>e w'. w_db w' = w_db w \<and> refused (rp_ext R) ty payload w e) w1"
    if "w_db w1 = w_db w" for w1 :: world
    by (rule wp_mono [OF precheck_replays [of ty k w1 ser]])
      (use assms(2) that in \<open>auto simp: refused_def no_model_def\<close>)
  show ?thesis
    unfolding create_def Let_def assms(1)
    by (intro wp_model_seq)
      (auto simp: wp_seq [of "validate _ _ _"] wp_validate wp_seq [of "idempotency_precheck _ _ _"] wp_ret
        refused_def [symmetric] split: sum.splits intro!: wp_mono [OF pre], auto simp: refused_def)
qed

text \<open>
  C16. Retrying a create is safe: after a create with an idempotency key has returned, every
  create of that type with that key, whoever sends it and on whatever worker, returns the same
  response and creates nothing, as long as the kept response is there. It can be refused only for
  what the code checks before the key - the type has no model, or its own payload is invalid under
  the model that serves it - or because the database fails; then too nothing changes.
\<close>

theorem retry_replays:
  assumes "oid_codec x" "reachable x cfg (w_db w)"
    and "create (items_of x cfg) ty payload actor rid key w = (Inr ser, w')"
    and "active_key (items_of x cfg) key = Some k"
    and "d_idem (w_db w2) = d_idem (w_db w')"
  shows "wp (create (items_of x cfg) ty payload2 actor2 rid2 key)
     (\<lambda>ser2 w3. ser2 = ser \<and> w_db w3 = w_db w2)
     (\<lambda>e w3. w_db w3 = w_db w2 \<and> refused x ty payload2 w2 e) w2"
proof -
  have "idem_ok (w_db w)" using reachable_ids [OF assms(1,2)] by simp
  from wp_returns [OF create_effect [OF assms(4) [symmetric] this] assms(3)]
  have "kept_response ty k (w_db w') = Some ser"
    by (auto simp: created_by_def)
  then have "kept_response ty k (w_db w2) = Some ser" by (simp add: kept_response_def assms(5))
  from create_replays [OF assms(4) this] show ?thesis by simp
qed

text \<open>A create with a key, and a second one on another worker with another payload, which returns.\<close>

lemma keyed_create_runs:
  "wp (create repo0 ''server'' (host ''h'') ''anonymous'' None (Some ''k''))
     (\<lambda>_ w'. d_types (w_db w') = [server_type]) (\<lambda>_ _. False) (world_at empty_db 0)"
  by (simp add: create_def create_txn_def insert_logged_def idempotency_precheck_def active_key_def
      idem_store_result_def exec_simps world_at_def host_def idem_on idem_put empty_db_def)

lemma server_model: "\<exists>m. model_of ext0 ''server'' (t_fields server_type) = Inr m"
  by (simp add: exec_simps)

lemma server_known:
  assumes "d_types d = [server_type]"
  shows "known_type ''server'' (world_at d n) r \<longleftrightarrow> r = Some server_type"
proof -
  have "active_named ''server'' server_type" by (simp add: active_named_def server_type_def)
  then have "stored_type ''server'' d = Some server_type" by (simp add: stored_type_def assms)
  then show ?thesis by (simp add: known_type_def worker0_def)
qed

lemma never_refused0:
  assumes "d_types d = [server_type]"
  shows "\<not> refused ext0 ''server'' payload (world_at d n) e"
  using server_model by (auto simp: refused_def no_model_def server_known [OF assms])

theorem retry_replays_witness:
  "\<exists>ser w' w3. create repo0 ''server'' (host ''h'') ''anonymous'' None (Some ''k'') (world_at empty_db 0) = (Inr ser, w') \<and>
     create repo0 ''server'' (host ''z'') ''eve'' None (Some ''k'') (world_at (w_db w') 300) = (Inr ser, w3) \<and>
     w_db w3 = w_db w'"
proof -
  obtain ser w' where run: "create repo0 ''server'' (host ''h'') ''anonymous'' None (Some ''k'') (world_at empty_db 0)
      = (Inr ser, w')" and types: "d_types (w_db w') = [server_type]"
    using keyed_create_runs by (auto simp: wp_def split: prod.splits sum.splits)
  moreover have "active_key repo0 (Some ''k'') = Some ''k''"
    by (simp add: active_key_def repo0_def idem_on)
  ultimately have "wp (create repo0 ''server'' (host ''z'') ''eve'' None (Some ''k''))
     (\<lambda>ser2 w3. ser2 = ser \<and> w_db w3 = w_db w')
     (\<lambda>e w3. w_db w3 = w_db w' \<and> refused ext0 ''server'' (host ''z'') (world_at (w_db w') 300) e) (world_at (w_db w') 300)"
    using retry_replays [OF codec0, of open_settings "world_at empty_db 0" "''server''" "host ''h''" "''anonymous''"
        None "Some ''k''" ser w' "''k''" "world_at (w_db w') 300" "host ''z''" "''eve''" None] sample_reachable(1)
    by (simp add: items_of_sample)
  with run never_refused0 [OF types] show ?thesis
    by (auto simp: wp_def split: prod.splits sum.splits)
qed

section \<open>Deletion\<close>

text \<open>
  C26. A delete that returns removed exactly the item it names, at the revision expected when one
  is given, and nothing is attached to it any more: either nothing was, or the caller asked to
  detach and every edge that touched it is gone with a record each. A delete that raises - because
  edges are attached, the revision is another, or anything fails on the way - leaves the database as
  it was, detached edges included.
\<close>

theorem delete_guards_edges:
  "wp (delete (items_of x cfg) ty i expected actor rid detach)
     (\<lambda>_ w'. deleted_by x attached (detached x) ty i expected actor rid detach (w_db w) (w_db w'))
     (\<lambda>_ w'. w_db w' = w_db w) w"
proof -
  have "rp_guard (items_of x cfg) = Some (graph_guard (ap_graph (make_app x cfg True)))"
    "rp_ext (items_of x cfg) = rr_ext (ap_graph (make_app x cfg True))" by simp_all
  from graph_delete_guard.delete_guarded [OF this] show ?thesis
    by (rule wp_mono) simp_all
qed

section \<open>The recorded difference\<close>

text \<open>
  The difference an audit record of an update carries is exact: a field is listed, with its
  values before and after, just when Python finds the two values different; the identifier and the
  bookkeeping never are.
\<close>

theorem audit_difference_exact:
  "map_of (diff x before after) k =
     (if k \<in> {''_meta'', ''id''} \<or> py_eq (dget (or_empty before) k) (dget (or_empty after) k) then None
      else Some (VDict [(''from'', jsonable x (dget (or_empty before) k)),
                        (''to'', jsonable x (dget (or_empty after) k))]))"
  by (simp add: diff_lookup diff_keys_iff)

end
