(* ===== verification/Graph_Properties.thy ===== *)
theory Graph_Properties
  imports Sample
begin

text \<open>
  Properties of the relationship graph as clients see it: what creating and deleting an edge
  does, the cycle and cardinality guarantees, and what the dependency and impact queries report.
\<close>

abbreviation graph_of :: "ext \<Rightarrow> settings \<Rightarrow> rel_repo" where
  "graph_of x cfg \<equiv> ap_graph (make_app x cfg True)"

lemma graph_of_sample: "graph_of ext0 open_settings = graph0"
  using app0_fields(2) by (simp add: app0_def)

lemma link_ran:
  "\<exists>ser w'. create_edge graph0 link_args (world_at db3 400) = (Inr ser, w') \<and> w_db w' = db4"
  using link_run by (auto simp: wp_def split: prod.splits sum.splits)

lemma edges_before_link: "d_edges db3 = []"
  by (simp add: db3_def db2_def db1_def put_cis_def with_log_def empty_db_def db0_def)

lemma edges_after_link: "d_edges db4 = [link0]"
  by (simp add: db4_def)

lemma runs_on_found:
  "\<exists>w'. rel_def_of ext0 open_settings ''runs_on'' (world_at db3 400) = (Inr runs_on_def0, w')"
proof -
  have "wp (rel_def_of ext0 open_settings ''runs_on'') (\<lambda>rd _. rd = runs_on_def0) (\<lambda>_ _. False) (world_at db3 400)"
    by (simp add: rel_def_of_def rel_active_named_def stored_rel_def runs_on_def0_def [symmetric] runs_on_valid
        exec_simps world_at_def db3_def db2_def db1_def with_log_def put_cis_def)
  then show ?thesis by (auto simp: wp_def split: prod.splits sum.splits)
qed

section \<open>Creating and deleting edges\<close>

text \<open>
  C27. A create that returns made exactly one edge, of the relationship type the registry gives,
  and it was admissible: its ends are of allowed types, exist and are not the same unless the type
  allows it, its cardinality is free, and for a dependency no path within the depth bound leads
  back; no edge with the same type and ends was there, and one record and one event announce it.
  A create that raises leaves the database as it was.
\<close>

theorem create_edge_exact:
  assumes "oid_codec x"
  shows "wp (create_edge (graph_of x cfg) g)
     (\<lambda>ser w'. \<exists>rd e w1. rel_def_of x cfg (ea_rel_type g) w = (Inr rd, w1) \<and> ser = serialize_edge x e \<and>
        edge_created x (graph_max_depth cfg) g rd e (w_db w) (w_db w'))
     (\<lambda>_ w'. w_db w' = w_db w) w"
  by (rule wp_mono [OF create_edge_effect])
    (simp_all add: oid_codec_injective [OF assms])

theorem create_edge_exact_witness:
  "\<exists>rd e. edge_created ext0 10 link_args rd e db3 db4"
  using link_ran wp_returns [OF create_edge_exact [OF codec0, of open_settings link_args "world_at db3 400"]]
  by (fastforce simp: graph_of_sample)

text \<open>
  C28. A delete that returns removed exactly the edge it names, at the revision expected when one is
  given, with one record and one event that carry its last state; a delete that raises leaves the
  database as it was.
\<close>

theorem delete_edge_exact:
  "wp (delete_edge (graph_of x cfg) i expected actor rid)
     (\<lambda>_ w'. edge_removed x i expected actor rid (w_db w) (w_db w'))
     (\<lambda>_ w'. w_db w' = w_db w) w"
  by (rule wp_mono [OF delete_edge_effect]) simp_all

section \<open>Guarantees over the edge set\<close>

text \<open>
  C31. Cardinality is kept: when no relationship type has more edges at a node than its cardinality
  allows, that is still so after any create, also of a type that has become stricter since its
  edges were made.
\<close>

theorem cardinality_kept:
  assumes "oid_codec x" "cardinality_ok kind (w_db w)"
    and "rel_def_of x cfg (ea_rel_type g) w = (Inr rd, w1)" "rd_cardinality rd \<le> kind (rd_name rd)"
  shows "wp (create_edge (graph_of x cfg) g) (\<lambda>_ w'. cardinality_ok kind (w_db w'))
     (\<lambda>_ w'. cardinality_ok kind (w_db w')) w"
  by (rule wp_mono [OF create_edge_effect])
    (use assms in \<open>auto simp: oid_codec_injective intro: edge_created_cardinality\<close>)

text \<open>The sample with the relationship type one-to-one.\<close>

definition strict_db :: db where
  "strict_db = db3\<lparr>d_rel_types := [runs_on\<lparr>rt_def := runs_on_def0\<lparr>rd_cardinality := OneToOne\<rparr>\<rparr>]\<rparr>"

lemma strict_valid:
  "make_rel_def (runs_on_def0\<lparr>rd_cardinality := OneToOne\<rparr>) = Inr (runs_on_def0\<lparr>rd_cardinality := OneToOne\<rparr>)"
  by code_simp

lemma strict_found:
  "\<exists>w'. rel_def_of ext0 open_settings ''runs_on'' (world_at strict_db 400) =
     (Inr (runs_on_def0\<lparr>rd_cardinality := OneToOne\<rparr>), w')"
proof -
  have "wp (rel_def_of ext0 open_settings ''runs_on'') (\<lambda>rd _. rd = runs_on_def0\<lparr>rd_cardinality := OneToOne\<rparr>)
      (\<lambda>_ _. False) (world_at strict_db 400)"
    by (simp add: rel_def_of_def rel_active_named_def stored_rel_def strict_valid strict_db_def exec_simps world_at_def)
  then show ?thesis by (auto simp: wp_def split: prod.splits sum.splits)
qed

theorem cardinality_kept_witness:
  "wp (create_edge graph0 link_args) (\<lambda>_ w'. cardinality_ok (\<lambda>_. OneToOne) (w_db w'))
     (\<lambda>_ w'. cardinality_ok (\<lambda>_. OneToOne) (w_db w')) (world_at strict_db 400)"
proof -
  have "cardinality_ok (\<lambda>_. OneToOne) strict_db"
    using edges_before_link by (simp add: cardinality_ok_def one_source_def one_target_def strict_db_def)
  moreover obtain w1 where "rel_def_of ext0 open_settings (ea_rel_type link_args) (world_at strict_db 400) =
      (Inr (runs_on_def0\<lparr>rd_cardinality := OneToOne\<rparr>), w1)"
    using strict_found by auto
  ultimately show ?thesis
    using cardinality_kept [OF codec0, of "\<lambda>_. OneToOne" "world_at strict_db 400" open_settings link_args _ w1]
    by (simp add: graph_of_sample)
qed

text \<open>
  C29. Dependencies stay acyclic: when the dependency graph has no cycle and no dependency path is
  longer than \<open>graph_max_depth\<close>, then it has no cycle after any create of a type that does not
  allow edges from an item to itself.
\<close>

theorem dependencies_stay_acyclic:
  assumes "oid_codec x" "acyclic (dep_graph (w_db w))" "shallow (graph_max_depth cfg) (w_db w)"
    and "rel_def_of x cfg (ea_rel_type g) w = (Inr rd, w1)" "\<not> (rd_dependency rd \<and> rd_allow_self rd)"
  shows "wp (create_edge (graph_of x cfg) g) (\<lambda>_ w'. acyclic (dep_graph (w_db w')))
     (\<lambda>_ w'. acyclic (dep_graph (w_db w'))) w"
  by (rule wp_mono [OF create_edge_effect])
    (use assms in \<open>auto simp: oid_codec_injective intro: edge_created_acyclic\<close>)

theorem dependencies_stay_acyclic_witness: "acyclic (dep_graph db4) \<and> dep_graph db4 \<noteq> {}"
proof -
  have "dep_graph db3 = {}" by (simp add: dep_graph_def arc_def edges_before_link)
  then have "acyclic (dep_graph db3)" "shallow 10 db3" by (auto simp: acyclic_def shallow_def intro: exI [of _ 0])
  moreover obtain w1 where "rel_def_of ext0 open_settings (ea_rel_type link_args) (world_at db3 400) = (Inr runs_on_def0, w1)"
    using runs_on_found by auto
  moreover have "\<not> rd_allow_self runs_on_def0" by (simp add: runs_on_def0_def plain_rel_def)
  ultimately have "wp (create_edge graph0 link_args) (\<lambda>_ w'. acyclic (dep_graph (w_db w')))
     (\<lambda>_ w'. acyclic (dep_graph (w_db w'))) (world_at db3 400)"
    using dependencies_stay_acyclic [OF codec0, of "world_at db3 400" open_settings link_args runs_on_def0 w1]
    by (simp add: graph_of_sample)
  with link_ran have "acyclic (dep_graph db4)" by (auto simp: wp_def)
  moreover have "(e_from link0, e_to link0) \<in> dep_graph db4"
    by (auto simp: dep_graph_def arc_def edges_after_link near_def far_def link0_def)
  ultimately show ?thesis by blast
qed

text \<open>
  C30. The cycle check sees as far as \<open>graph_max_depth\<close> and no farther: it lets a dependency
  from \<open>f\<close> to \<open>t\<close> pass exactly when \<open>t\<close> does not reach \<open>f\<close> within that many edges (or \<open>f\<close> is \<open>t\<close>),
  and refuses it as a cycle only when it would close one; its only other outcome is a fault.
\<close>

theorem cycle_check_exact:
  assumes "oid_codec x"
  shows "wp (check_no_cycle (graph_of x cfg) f t)
     (\<lambda>_ w'. f = t \<or> (\<forall>k\<le>graph_max_depth cfg. (t, f) \<notin> dep_graph (w_db w) ^^ k))
     (\<lambda>ex w'. ex = MongoError \<or> (ex = dependency_cycle \<and> f \<noteq> t \<and>
        (\<exists>k\<le>graph_max_depth cfg. (t, f) \<in> dep_graph (w_db w) ^^ k))) w"
  using check_no_cycle_exact [of "graph_of x cfg" f t w] by (simp add: oid_codec_injective [OF assms])

theorem cycle_check_exact_witness:
  "wp (check_no_cycle graph0 (e_to link0) (e_from link0)) (\<lambda>_ _. False)
     (\<lambda>ex _. ex = MongoError \<or> ex = dependency_cycle) (world_at db4 500)"
proof -
  have "(e_from link0, e_to link0) \<in> dep_graph db4 ^^ 1"
    by (auto simp: dep_graph_def arc_def edges_after_link near_def far_def link0_def)
  moreover have "e_to link0 \<noteq> e_from link0" by (simp add: link0_def)
  ultimately show ?thesis
    by (intro wp_mono [OF cycle_check_exact [OF codec0, of open_settings, unfolded graph_of_sample]])
      (auto dest!: spec [of _ 1])
qed

section \<open>Queries\<close>

lemma arc_converse: "arc In True (d_edges d) = (dep_graph d)\<inverse>"
  by (auto simp: dep_graph_def arc_def near_def far_def)

text \<open>
  A report under a key: exactly the nodes within the depth bound along a relation, each once,
  without the start, and all the reachable ones unless it says truncated.
\<close>

definition reports :: "ext \<Rightarrow> (node \<times> node) set \<Rightarrow> node \<Rightarrow> nat \<Rightarrow> string \<Rightarrow> dict \<Rightarrow> bool" where
  "reports x R start depth k body =
     (\<exists>nodes truncated. map_of body k = Some (VList (List.map node_val nodes)) \<and>
        map_of body ''truncated'' = Some (VBool truncated) \<and> bfs_exact x R start depth nodes truncated)"

text \<open>
  C32. The dependency query of an item reports exactly the other items its dependency edges lead to
  within \<open>graph_max_depth\<close> steps, the impact query exactly those whose dependency edges lead to it;
  each once, and without exception unless the report says truncated. Both change nothing.
\<close>

theorem queries_exact:
  assumes "oid_codec x"
  shows "wp (dependencies (graph_of x cfg) ty i)
     (\<lambda>body w'. w_db w' = w_db w \<and> (\<exists>oid. x_oid_parse x i = Some oid \<and>
        reports x (dep_graph (w_db w)) (ty, oid) (graph_max_depth cfg) ''depends_on'' body))
     (\<lambda>_ w'. w_db w' = w_db w) w \<and>
   wp (impact (graph_of x cfg) ty i)
     (\<lambda>body w'. w_db w' = w_db w \<and> (\<exists>oid. x_oid_parse x i = Some oid \<and>
        reports x ((dep_graph (w_db w))\<inverse>) (ty, oid) (graph_max_depth cfg) ''impacted'' body))
     (\<lambda>_ w'. w_db w' = w_db w) w"
proof -
  have inj: "keys_injective (rr_ext (graph_of x cfg))" by (simp add: oid_codec_injective [OF assms])
  show ?thesis
    unfolding dependencies_def impact_def
    by (intro conjI wp_parse_seq)
      (auto simp: wp_seq wp_ret reports_def arc_converse dep_graph_def [symmetric] intro!: wp_mono [OF bfs_effect [OF inj]])
qed

lemma reached_once:
  assumes "R = {(a, b)}" "a \<noteq> b" "0 < depth"
  shows "{n. \<exists>k\<le>depth. (a, n) \<in> R ^^ k} - {a} = {b}"
proof -
  have "(a, n) \<in> R ^^ k \<Longrightarrow> n = a \<or> n = b" for n k
    by (cases k) (auto simp: assms(1))
  moreover have "(a, b) \<in> R ^^ 1" by (simp add: assms(1))
  ultimately show ?thesis using assms(2,3) by (auto intro: exI [of _ 1])
qed

theorem queries_exact_witness:
  "wp (impact graph0 ''server'' (replicate 305 (CHR ''a'')))
     (\<lambda>body _. map_of body ''impacted'' = Some (VList [node_val (node_key ext0 (e_from link0))]))
     (\<lambda>_ _. True) (world_at db4 500)"
proof -
  have dep: "(dep_graph db4)\<inverse> = {(e_to link0, e_from link0)}"
    by (auto simp: dep_graph_def arc_def edges_after_link near_def far_def link0_def)
  have "e_to link0 = (''server'', 305)" "e_to link0 \<noteq> e_from link0" by (simp_all add: link0_def)
  with reached_once [OF dep, of 10] have nodes: "nodes = [node_key ext0 (e_from link0)]"
    if "bfs_exact ext0 ((dep_graph db4)\<inverse>) (''server'', 305) 10 nodes t" for nodes t
    using that unfolding bfs_exact_def by (cases nodes) (auto simp: subset_singleton_iff)
  show ?thesis
    using queries_exact [OF codec0, of open_settings "''server''" "replicate 305 (CHR ''a'')" "world_at db4 500"]
    unfolding graph_of_sample
    by (elim conjE wp_mono) (auto simp: reports_def dest!: nodes)
qed

end
