(* ===== verification/Frames.thy ===== *)
theory Frames
  imports Api
begin

text \<open>
  What the data operations leave alone. The locale \<open>write_frame\<close> takes a predicate that survives
  each single write the repositories, the audit log and the idempotency store make, and shows that
  it survives every operation built from them, whatever its arguments and wherever a fault
  interrupts it; \<open>data_frame\<close> adds the dispatcher and the replay. \<open>service_frame\<close> and
  \<open>system_frame\<close> carry that to the steps of the whole service. The instances are the history of the
  service, which only grows, the collections that the data operations do not write, and in
  \<open>Lifecycle\<close> the way the outbox moves.
\<close>

lemma reads_bfs_levels [reads_intros]: "reads (bfs_levels x dir dep n F s)"
  by (induction n arbitrary: F s) (auto simp: Let_def intro!: reads_intros)

lemma reads_graph_checks [reads_intros]: "reads (rel_def_of x cfg n)" "reads (bfs G f dir dep)"
  "reads (check_no_cycle G f t)" "reads (check_dependency G rd f t)" "reads (check_cardinality x rd f t)"
  "reads (ci_exists x f)"
  unfolding rel_def_of_def bfs_def check_no_cycle_def check_dependency_def check_cardinality_def ci_exists_def Let_def
  by (intro reads_intros; fail)+

lemma reads_edge_checks [reads_intros]: "reads (edge_checks G g rd)"
  unfolding edge_checks_def Let_def by (intro reads_intros)

lemma idem_put_eq: "co_put idem_coll h d = d\<lparr>d_idem := h (d_idem d)\<rparr>"
  by (simp add: idem_coll_def)

locale write_frame =
  fixes I :: "db \<Rightarrow> bool"
  assumes cis_put: "I d \<Longrightarrow> I (co_put (ci_coll t) f d)"
    and edges_put: "I d \<Longrightarrow> I (co_put edges_coll f' d)"
    and idem_put: "I d \<Longrightarrow> I (co_put idem_coll h d)"
    and record_put: "I d \<Longrightarrow> I (co_put audit_coll (\<lambda>l. l @ [a]) d)"
    and event_put: "I d \<Longrightarrow> o_id ob \<notin> o_id ` set (d_outbox d) \<Longrightarrow> I (co_put outbox_coll (\<lambda>l. l @ [ob]) d)"
begin

lemma writes [keeps_intros]:
  "keeps I (insert_one x (ci_coll t) e)" "keeps I (update_one x (ci_coll t) q u)"
  "keeps I (find_one_and_update x (ci_coll t) q u)" "keeps I (delete_one x (ci_coll t) q)"
  "keeps I (insert_one x edges_coll r)" "keeps I (delete_one x edges_coll s)"
  "keeps I (delete_many x edges_coll s)"
  "keeps I (insert_one x idem_coll k)" "keeps I (update_one x idem_coll v m)"
  "keeps I (delete_one x idem_coll v)"
  "keeps I (insert_one x audit_coll a)"
  by (blast intro: keeps_insert_one keeps_update_one keeps_find_one_and_update keeps_delete_one
      keeps_delete_many cis_put edges_put idem_put record_put)+

lemma event_writes [keeps_intros]: "keeps I (insert_one x outbox_coll ob)"
  by (rule keeps_insert_one, rule event_put) (auto simp: outbox_coll_def list_ex_iff)

lemma log_change_keeps [keeps_intros]: "keeps I (log_change x g k v)"
  unfolding log_change_def audit_record_def outbox_add_def new_event_def
  by (intro keeps_intros)

lemma reading [keeps_intros]:
  "keeps I (type_doc_for R n)" "keeps I (compile x cfg n)" "keeps I (validate x mo v)" "keeps I (count_op n n')"
  "keeps I (rel_def_of x cfg n)" "keeps I (edge_checks G ga rd)" "keeps I (idem_get x n k')"
  by (auto intro!: keeps_reads reads_intros)

lemma idempotency_keeps [keeps_intros]:
  "keeps I (idempotency_precheck x n k)" "keeps I (idem_store_result x n k v)" "keeps I (idem_release x n k)"
  unfolding idempotency_precheck_def idem_claim_def idem_store_result_def idem_release_def
  by (intro keeps_intros; fail)+

lemma discover_keeps [keeps_intros]:
  "keeps I (discover_new x ty t mo payload prov run actor)"
  "keeps I (discover_known x ty t mo payload prov run actor existing)"
  unfolding discover_new_def discover_known_def insert_logged_def Let_def by (intro keeps_intros; fail)+

lemma item_writes:
  "keeps I (create R ty payload actor rid key)"
  "keeps I (update R ty i payload expected partial actor rid)"
  "keeps I (apply_discovery R ty payload source ext_id run actor)"
  "keeps I (mark_missing R ty i run actor)"
  unfolding create_def create_txn_def insert_logged_def update_def update_txn_def apply_discovery_def
      apply_discovery_txn_def mark_missing_def mark_missing_txn_def Let_def
  by (intro keeps_intros; fail)+

lemma edge_writes [keeps_intros]:
  "keeps I (create_edge G ga)" "keeps I (delete_edge G i expected actor rid)"
  "keeps I (detach_ci G ty i actor rid)" "keeps I (count_edges G ty i)"
  unfolding create_edge_def create_edge_txn_def delete_edge_def edge_deleted_def detach_ci_def
      count_edges_def Let_def
  by (intro keeps_intros; fail)+

lemma delete_keeps:
  assumes "rp_guard R = Some (graph_guard G)"
  shows "keeps I (delete R ty i expected actor rid detach)"
  unfolding delete_def delete_txn_def guard_check_def graph_guard_def assms option.case rel_guard.simps Let_def
  by (intro keeps_intros)

lemma service_step_keeps:
  assumes "service_step S d d'" "wired S" "I d"
    "keeps I (dispatch_once (rp_ext (sv_repo S)) (rp_cfg (sv_repo S)) (bus_publish (rp_cfg (sv_repo S))))"
    "\<And>i. keeps I (replay (rp_ext (sv_repo S)) i)"
  shows "I d'"
proof -
  have "keeps I (delete (sv_repo S) ty i expected actor rid detach)" for ty i expected actor rid detach
    using assms(2) by (intro delete_keeps) (simp add: wired_def)
  note ops = item_writes edge_writes(1,2) assms(4,5) this
  from assms(1,3) show ?thesis
    by cases (simp_all only:, (erule keepsD [rotated 2], rule ops, assumption)+)
qed

end

text \<open>A predicate that also survives every change of the state of an outbox document.\<close>

locale data_frame = write_frame +
  assumes status_put: "I d \<Longrightarrow> (\<And>b. o_id (g b) = o_id b \<and> o_event (g b) = o_event b) \<Longrightarrow>
      I (co_put outbox_coll (upd_first p g) d)"
begin

lemma status_writes [keeps_intros]:
  "(\<And>b. o_id (g b) = o_id b \<and> o_event (g b) = o_event b) \<Longrightarrow> keeps I (update_one x outbox_coll p g)"
  by (blast intro: keeps_update_one status_put)

lemma outbox_writes:
  "keeps I (dispatch_once x cfg (bus_publish cfg))" "keeps I (replay x i)"
  by (auto simp: dispatch_once_def fetch_pending_def dispatch_doc_def on_failure_def mark_sent_def
      mark_dead_def reschedule_def replay_def intro!: keeps_intros)

lemmas data_step_keeps = service_step_keeps [OF _ _ _ outbox_writes(1) outbox_writes(2)]

end

text \<open>Beyond the data operations, the service writes types, keys, webhooks, runs and indexes.\<close>

locale service_frame = write_frame +
  fixes cfg :: settings
  assumes elsewhere: "same_data d d' \<Longrightarrow> I d \<Longrightarrow> I d'"
    and pass_keeps: "keeps I (dispatch_once x cfg (bus_publish cfg))"
    and replay_keeps: "keeps I (replay x i)"
begin

lemma system_step_keeps:
  assumes "system_step x cfg d d'" "oid_codec x" "I d"
  shows "I d'"
proof -
  have step: "I b" if "service_step (service_of (make_app x cfg True)) a b" "I a" for a b
    by (rule service_step_keeps [OF that(1) wired_app [OF assms(2)] that(2)]) (simp_all add: pass_keeps replay_keeps)
  show ?thesis
    using system_step_data [OF assms(1)] assms(3)
    by (induction rule: rtranclp_induct)
      (auto simp: data_step_def expired_def intro: step elsewhere idem_put [unfolded idem_put_eq])
qed

lemma system_steps_keep:
  assumes "(system_step x cfg)\<^sup>*\<^sup>* d d'" "oid_codec x" "I d"
  shows "I d'"
  using assms by (induction rule: rtranclp_induct) (auto intro: system_step_keeps)

end

locale system_frame = data_frame +
  assumes elsewhere: "same_data d d' \<Longrightarrow> I d \<Longrightarrow> I d'"

sublocale system_frame \<subseteq> service: service_frame I cfg for cfg
  by unfold_locales (fact elsewhere outbox_writes)+

section \<open>History\<close>

text \<open>What the outbox announced, whatever became of its delivery.\<close>

definition announced :: "db \<Rightarrow> (string \<times> event) list" where
  "announced d = List.map (\<lambda>b. (o_id b, o_event b)) (d_outbox d)"

definition history :: "audit_entry list \<Rightarrow> (string \<times> event) list \<Rightarrow> db \<Rightarrow> bool" where
  "history l m d = ((\<exists>new. d_audit d = l @ new) \<and> (\<exists>new. announced d = m @ new))"

lemma map_upd_first: "(\<And>b. h (g b) = h b) \<Longrightarrow> List.map h (upd_first p g xs) = List.map h xs"
  by (induction xs) auto

interpretation history: system_frame "history l m"
proof unfold_locales
  fix d p and g :: "outbox_doc \<Rightarrow> outbox_doc"
  assume "history l m d" "\<And>b. o_id (g b) = o_id b \<and> o_event (g b) = o_event b"
  then show "history l m (co_put outbox_coll (upd_first p g) d)"
    by (simp add: history_def outbox_put announced_def map_upd_first)
qed (auto simp: history_def announced_def ci_coll_def edges_coll_def idem_coll_def audit_coll_def outbox_coll_def
    same_data_def Let_def)

section \<open>Collections of other components\<close>

definition bystanders :: "db \<Rightarrow> db \<Rightarrow> bool" where
  "bystanders d0 d = (d_runs d = d_runs d0 \<and> d_keys d = d_keys d0 \<and> d_types d = d_types d0 \<and>
     d_rel_types d = d_rel_types d0 \<and> d_webhooks d = d_webhooks d0)"

interpretation bystanders: data_frame "bystanders d0"
  by unfold_locales
    (auto simp: bystanders_def ci_coll_def edges_coll_def idem_coll_def audit_coll_def outbox_coll_def Let_def)

end
