(* ===== verification/Lineage.thy ===== *)
theory Lineage
  imports Sample Frames
begin

text \<open>
  What becomes of a configuration item over its whole life in the service: an item whose removal is
  not on record is still there, with its identity, its origin and a revision that only grew; and no
  two items of a type are owned by the same source under the same external identifier.
\<close>

section \<open>The same item at two moments\<close>

definition same_item :: "ci_doc \<Rightarrow> ci_doc \<Rightarrow> bool" where
  "same_item a b = (let m = c_meta a; n = c_meta b in
     c_id b = c_id a \<and> m_type n = m_type m \<and> m_created_at n = m_created_at m \<and>
     m_created_by n = m_created_by m \<and> m_source n = m_source m \<and> m_external_id n = m_external_id m \<and>
     m_revision m \<le> m_revision n \<and> (m_revision n = m_revision m \<longrightarrow> c_fields b = c_fields a))"

lemma same_item_refl [simp]: "same_item a a"
  by (simp add: same_item_def Let_def)

lemma same_item_trans: "same_item a b \<Longrightarrow> same_item b c \<Longrightarrow> same_item a c"
  by (auto simp: same_item_def Let_def)

lemma same_item_id: "same_item a b \<Longrightarrow> c_id b = c_id a"
  by (simp add: same_item_def Let_def)

lemma same_item_owner: "same_item a b \<Longrightarrow> owned_as s k b = owned_as s k a"
  by (simp add: same_item_def Let_def owned_as_def)

lemma same_revised: "same_item e (set_fields data now actor v (m_revision (c_meta e) + 1) e)"
  by (simp add: same_item_def Let_def set_fields_def)

lemma same_flagged: "same_item e (on_meta (flagged run now actor (m_revision (c_meta e) + 1)) e)"
  by (simp add: same_item_def Let_def on_meta_def flagged_def)

lemma same_provenance: "owned_as s k e \<Longrightarrow> same_item e' e \<Longrightarrow> same_item e' (on_meta (set_prov s k run seen) e)"
  by (simp add: same_item_def Let_def on_meta_def set_prov_def owned_as_def)

section \<open>Lineage\<close>

definition deletes :: "ext \<Rightarrow> string \<Rightarrow> oid \<Rightarrow> audit_entry \<Rightarrow> bool" where
  "deletes x ty i a = (a_action a = ''delete'' \<and> a_entity_type a = ty \<and>
     (\<exists>k. a_entity_id a = Some k \<and> x_oid_parse x k = Some i))"

definition survives :: "ext \<Rightarrow> string \<Rightarrow> ci_doc list \<Rightarrow> ci_doc list \<Rightarrow> audit_entry list \<Rightarrow> bool" where
  "survives x ty l l' added = (\<forall>e\<in>set l. (\<exists>e'\<in>set l'. same_item e e') \<or> list_ex (deletes x ty (c_id e)) added)"

definition lineage :: "ext \<Rightarrow> db \<Rightarrow> db \<Rightarrow> bool" where
  "lineage x d d' = (\<exists>added. d_audit d' = d_audit d @ added \<and>
     (\<forall>ty. survives x ty (cis_of d ty) (cis_of d' ty) added))"

lemma survives_incl: "set l \<subseteq> set l' \<Longrightarrow> survives x ty l l' added"
  unfolding survives_def using same_item_refl by blast

lemma survives_trans:
  assumes "survives x ty l1 l2 r" "survives x ty l2 l3 r'"
  shows "survives x ty l1 l3 (r @ r')"
  unfolding survives_def
proof
  fix e assume "e \<in> set l1"
  with assms(1) consider e2 where "e2 \<in> set l2" "same_item e e2" | "list_ex (deletes x ty (c_id e)) r"
    unfolding survives_def by blast
  then show "(\<exists>e'\<in>set l3. same_item e e') \<or> list_ex (deletes x ty (c_id e)) (r @ r')"
  proof cases
    case 1
    with assms(2) same_item_id [OF 1(2)] show ?thesis
      unfolding survives_def list_ex_append by (metis same_item_trans)
  qed simp
qed

lemma lineage_trans: "lineage x d1 d2 \<Longrightarrow> lineage x d2 d3 \<Longrightarrow> lineage x d1 d3"
  unfolding lineage_def by (metis append_assoc survives_trans)

lemma lineage_quiet:
  assumes "d_cis d' = d_cis d" "d_audit d' = d_audit d @ added"
  shows "lineage x d d'"
  using assms unfolding lineage_def survives_def by (metis same_item_refl)

section \<open>One owner\<close>

definition one_owner :: "db \<Rightarrow> bool" where
  "one_owner d = (\<forall>ty s k. \<forall>a\<in>set (cis_of d ty). \<forall>b\<in>set (cis_of d ty).
     owned_as s k a \<longrightarrow> owned_as s k b \<longrightarrow> c_id a = c_id b)"

lemma one_owner_cis: "d_cis d' = d_cis d \<Longrightarrow> one_owner d' = one_owner d"
  by (simp add: one_owner_def)

text \<open>A change of one collection that makes no new owner.\<close>

lemma one_owner_put:
  assumes "one_owner d" "\<And>b. b \<in> set es \<Longrightarrow> \<exists>a\<in>set (cis_of d ty). same_item a b"
    "d_cis d' = d_cis (put_cis ty es d)"
  shows "one_owner d'"
proof -
  have "c_id a = c_id b" if "a \<in> set es" "b \<in> set es" "owned_as s k a" "owned_as s k b" for a b s k
  proof -
    from assms(2) [OF that(1)] assms(2) [OF that(2)] obtain a0 b0 where
      old: "a0 \<in> set (cis_of d ty)" "same_item a0 a" "b0 \<in> set (cis_of d ty)" "same_item b0 b" by blast
    then have "owned_as s k a0" "owned_as s k b0" using that(3,4) same_item_owner by simp_all
    with assms(1) old(1,3) have "c_id a0 = c_id b0" unfolding one_owner_def by blast
    then show ?thesis using same_item_id [OF old(2)] same_item_id [OF old(4)] by simp
  qed
  moreover have "cis_of d' ty' = (if ty' = ty then es else cis_of d ty')" for ty'
    using assms(3) put_cis_simps(1) [of ty es d ty'] by simp
  ultimately show ?thesis using assms(1) unfolding one_owner_def by (metis (full_types))
qed

section \<open>Each kind of change\<close>

definition kept :: "ext \<Rightarrow> db \<Rightarrow> db \<Rightarrow> bool" where
  "kept x d d' = (lineage x d d' \<and> (one_owner d \<longrightarrow> one_owner d'))"

lemma kept_trans: "kept x d1 d2 \<Longrightarrow> kept x d2 d3 \<Longrightarrow> kept x d1 d3"
  by (auto simp: kept_def intro: lineage_trans)

lemma kept_quiet: "d_cis d' = d_cis d \<Longrightarrow> d_audit d' = d_audit d @ added \<Longrightarrow> kept x d d'"
  unfolding kept_def using lineage_quiet one_owner_cis by blast

lemma put_lineage:
  assumes "d_audit d' = d_audit d @ added" "d_cis d' = d_cis (put_cis ty es d)"
    "survives x ty (cis_of d ty) es added"
  shows "lineage x d d'"
proof -
  have "cis_of d' ty' = (if ty' = ty then es else cis_of d ty')" for ty'
    using assms(2) put_cis_simps(1) [of ty es d ty'] by simp
  with assms(3) have "survives x ty' (cis_of d ty') (cis_of d' ty') added" for ty'
    by (cases "ty' = ty") (simp_all add: survives_incl)
  with assms(1) show ?thesis unfolding lineage_def by blast
qed

lemma logged_grows: "logged x g kind p d d' \<Longrightarrow> d_cis d' = d_cis d \<and> (\<exists>a. d_audit d' = d_audit d @ [a])"
  by (erule logged_elim) simp

lemma log_only_grows: "log_only x d d' \<Longrightarrow> d_cis d' = d_cis d \<and> (\<exists>added. d_audit d' = d_audit d @ added)"
  by (induction rule: log_only.induct) (auto dest: logged_grows)

lemma log_only_kept: "log_only x d1 d' \<Longrightarrow> d_cis d1 = d_cis d \<Longrightarrow> d_audit d1 = d_audit d \<Longrightarrow> kept y d d'"
  by (auto dest!: log_only_grows intro: kept_quiet)

lemma replaced_in:
  assumes "List.find p xs = Some e"
  shows "b \<in> set (upd_first p f xs) \<Longrightarrow> b = f e \<or> b \<in> set xs" "f e \<in> set (upd_first p f xs)"
    "a \<in> set xs \<Longrightarrow> a \<noteq> e \<Longrightarrow> a \<in> set (upd_first p f xs)"
  using assms by (induction xs) (auto split: if_splits)

lemma replaced_kept:
  assumes "List.find p (cis_of d ty) = Some e" "same_item e (f e)"
    "d_cis d' = d_cis (put_cis ty (upd_first p f (cis_of d ty)) d)" "d_audit d' = d_audit d @ added"
  shows "kept x d d'"
proof -
  note sets = replaced_in [OF assms(1), where f = f]
  have e: "e \<in> set (cis_of d ty)" using find_Some_in [OF assms(1)] by simp
  have "\<exists>b\<in>set (upd_first p f (cis_of d ty)). same_item a b" if "a \<in> set (cis_of d ty)" for a
    using sets(2) sets(3) [OF that] assms(2) same_item_refl by (cases "a = e") blast+
  then have "survives x ty (cis_of d ty) (upd_first p f (cis_of d ty)) added" by (simp add: survives_def)
  moreover have "\<exists>a\<in>set (cis_of d ty). same_item a b" if "b \<in> set (upd_first p f (cis_of d ty))" for b
    using sets(1) [OF that] assms(2) same_item_refl e by blast
  ultimately show ?thesis
    unfolding kept_def using put_lineage [OF assms(4,3)] one_owner_put [OF _ _ assms(3)] by blast
qed

lemma revised_kept:
  assumes "ci_revised x ty i e e' kind v actor rid d d'" "same_item e e'"
  shows "kept y d d'"
  using assms unfolding ci_revised_def
  by (auto dest!: logged_grows intro: replaced_kept [where f = "\<lambda>_. e'"])

lemma refreshed_kept:
  assumes "ci_refreshed ty e f d d'" "same_item e (on_meta f e)"
  shows "kept x d d'"
  using assms unfolding ci_refreshed_def
  by (auto intro: replaced_kept [where f = "on_meta f" and added = "[]"])

lemma inserted_kept:
  assumes "ci_inserted y ty e actor rid d d'"
    "\<And>s k a. owned_as s k e \<Longrightarrow> a \<in> set (cis_of d ty) \<Longrightarrow> \<not> owned_as s k a"
  shows "kept x d d'"
proof -
  from assms(1) obtain a where d': "d_cis d' = d_cis (put_cis ty (cis_of d ty @ [e]) d)" "d_audit d' = d_audit d @ [a]"
    unfolding ci_inserted_def by (auto dest: logged_grows)
  have "survives x ty (cis_of d ty) (cis_of d ty @ [e]) [a]"
    by (rule survives_incl) auto
  moreover have cis: "cis_of d' ty' = (if ty' = ty then cis_of d ty @ [e] else cis_of d ty')" for ty'
    using d'(1) put_cis_simps(1) [of ty "cis_of d ty @ [e]" d ty'] by simp
  moreover have "one_owner d'" if "one_owner d"
    unfolding one_owner_def
  proof (intro allI ballI impI)
    fix ty' s k b c
    assume bc: "b \<in> set (cis_of d' ty')" "c \<in> set (cis_of d' ty')" "owned_as s k b" "owned_as s k c"
    have "b = e \<and> c = e \<or> b \<in> set (cis_of d ty') \<and> c \<in> set (cis_of d ty')"
      using bc assms(2) [of s k] by (cases "ty' = ty") (auto simp: cis)
    then show "c_id b = c_id c"
      using that bc(3,4) unfolding one_owner_def by blast
  qed
  ultimately show ?thesis unfolding kept_def using put_lineage [OF d'(2,1)] by blast
qed

lemma removed_kept:
  assumes "ci_removed x ty i e actor rid d1 d'" "same_cis d d1" "d_audit d1 = d_audit d @ added"
  shows "kept x d d'"
proof -
  let ?es = "del_first (by_id (c_id e)) (cis_of d1 ty)"
  from assms(1) have log: "logged x (change_args ''delete'' ty i actor (Some (serialize x e)) None
      (Some (m_schema_version (c_meta e))) (Some (m_revision (c_meta e))) rid) ''ci.deleted'' (serialize x e)
      (put_cis ty ?es d1) d'" and i: "x_oid_parse x i = Some (c_id e)"
    unfolding ci_removed_def by blast+
  from log obtain a where d': "d_cis d' = d_cis (put_cis ty ?es d1)" "d_audit d' = d_audit d1 @ [a]"
    and a: "a_action a = ''delete''" "a_entity_type a = ty" "a_entity_id a = Some i"
    by (rule logged_elim) (simp add: change_args_def)
  from a i have "list_ex (deletes x ty (c_id e)) [a]" by (simp add: deletes_def)
  moreover have "b \<in> set ?es \<or> c_id b = c_id e" if "b \<in> set (cis_of d1 ty)" for b
    using in_del_first [of "by_id (c_id e)", OF _ that] by (auto simp: by_id_def)
  ultimately have "survives x ty (cis_of d1 ty) ?es [a]"
    unfolding survives_def using same_item_refl by metis
  moreover have "\<exists>a\<in>set (cis_of d1 ty). same_item a b" if "b \<in> set ?es" for b
    using subsetD [OF set_del_first that] same_item_refl by blast
  ultimately have "kept x d1 d'"
    unfolding kept_def using put_lineage [OF d'(2,1)] one_owner_put [OF _ _ d'(1)] by blast
  moreover have "d_cis d1 = d_cis d" using assms(2) by (simp add: same_cis_def)
  note kept_quiet [OF this assms(3)]
  ultimately show ?thesis by (rule kept_trans [rotated])
qed

section \<open>Each operation\<close>

lemma created_kept:
  assumes "created_by x M ty payload actor rid use_key ser d d'"
  shows "kept y d d'"
proof -
  from assms obtain e d1 ids version now where new: "ci_inserted x ty e actor rid d d1"
    "d' = d1\<lparr>d_idem := ids\<rparr>" "c_meta e = new_meta ty version now actor"
    unfolding created_by_def by blast
  have "kept y d d1"
    by (rule inserted_kept [OF new(1)]) (simp add: new(3) owned_as_def new_meta_def)
  moreover have "kept y d1 d'" by (rule kept_quiet [where added = "[]"]) (simp_all add: new(2))
  ultimately show ?thesis by (rule kept_trans)
qed

lemma claimed_kept: "only_claimed x ty use_key d d' \<Longrightarrow> kept y d d'"
  by (rule kept_quiet [where added = "[]"]) (auto simp: only_claimed_def claimed_def split: option.splits)

lemma updated_kept:
  assumes "updated_by x M ty i payload expected partial actor rid after d d'"
  shows "kept y d d'"
  using assms unfolding updated_by_def by (blast intro: revised_kept same_revised)

lemma deleted_kept:
  assumes "deleted_by x attached (detached x) ty i expected actor rid detach d d'"
  shows "kept x d d'"
proof -
  from assms obtain e d1 where gone: "ci_removed x ty i e actor rid d1 d'" "d1 = d \<or> detached x (ty, c_id e) d d1"
    unfolding deleted_by_def by blast
  from gone(2) have "same_cis d d1 \<and> (\<exists>added. d_audit d1 = d_audit d @ added)"
  proof
    assume "detached x (ty, c_id e) d d1"
    from detached_facts(1) [OF this] log_only_grows [OF this [unfolded detached_def]] show ?thesis by simp
  qed (simp add: same_cis_def)
  then show ?thesis using removed_kept [OF gone(1)] by blast
qed

lemma discovered_kept:
  assumes "discovered_by x M ty data source ext_id run actor r d d'"
  shows "kept y d d'"
proof -
  have own: "owned_as source ext_id e" if "List.find (owned_as source ext_id) (cis_of d ty) = Some e" for e
    using find_Some_in [OF that] by simp
  show ?thesis
  proof (cases "snd r")
    case Created
    with assms obtain e where new: "ci_inserted x ty e actor (Some run) d d'" "owned_as source ext_id e"
      "List.find (owned_as source ext_id) (cis_of d ty) = None" unfolding discovered_by_def by auto
    have "\<not> owned_as s k a" if "owned_as s k e" "a \<in> set (cis_of d ty)" for s k a
      using that new(2,3) by (auto simp: owned_as_def find_None_all)
    then show ?thesis by (rule inserted_kept [OF new(1)])
  next
    case Updated
    with assms obtain e seen v now version where
      found: "List.find (owned_as source ext_id) (cis_of d ty) = Some e" and
      rev: "ci_revised x ty (x_oid_str x (c_id e)) e
           (on_meta (set_prov source ext_id run seen) (set_fields v now actor version (m_revision (c_meta e) + 1) e))
           ''ci.updated'' (Some version) actor (Some run) d d'"
      unfolding discovered_by_def by auto
    show ?thesis
      by (intro revised_kept [OF rev] same_provenance same_revised)
        (use own [OF found] in \<open>simp add: same_item_owner [OF same_revised]\<close>)
  next
    case Unchanged
    with assms obtain e seen where
      found: "List.find (owned_as source ext_id) (cis_of d ty) = Some e" and
      fresh: "ci_refreshed ty e (set_prov source ext_id run seen) d d'"
      unfolding discovered_by_def by auto
    show ?thesis
      by (intro refreshed_kept [OF fresh] same_provenance own [OF found] same_item_refl)
  qed
qed

lemma marked_kept:
  assumes "marked_by x ty i run actor d d'"
  shows "kept y d d'"
proof (cases "d' = d")
  case True
  then show ?thesis by (auto intro: kept_quiet [where added = "[]"])
next
  case False
  with assms show ?thesis unfolding marked_by_def by (auto intro: revised_kept same_flagged)
qed

lemma edge_created_kept: "edge_created x depth g rd e d d' \<Longrightarrow> kept y d d'"
  unfolding edge_created_def by (auto dest!: logged_grows intro: kept_quiet simp: put_edges_def)

lemma edge_removed_kept: "edge_removed x i expected actor rid d d' \<Longrightarrow> kept y d d'"
  unfolding edge_removed_def by (auto dest!: logged_grows intro: kept_quiet simp: put_edges_def)

lemma outbox_kept:
  assumes "only_outbox d d'"
  shows "kept y d d'"
proof (rule kept_quiet)
  note same = only_outbox_eq [OF assms]
  show "d_cis d' = d_cis d" using arg_cong [OF same, of d_cis] by simp
  show "d_audit d' = d_audit d @ []" using arg_cong [OF same, of d_audit] by simp
qed

section \<open>The whole service\<close>

lemma kept_outcome:
  assumes "wp m (\<lambda>_ w'. kept x (w_db w) (w_db w')) (\<lambda>_ w'. kept x (w_db w) (w_db w')) w" "m w = (r, w')"
  shows "kept x (w_db w) (w_db w')"
  using assms by (auto simp: wp_def split: sum.splits)

lemma kept_refl: "kept x d d"
  by (rule kept_quiet [where added = "[]"]) simp_all

lemma service_step_kept:
  assumes "service_step S d d'" "wired S" "sound (rp_ext (sv_repo S)) (rp_cfg (sv_repo S)) d"
  shows "kept (rp_ext (sv_repo S)) d d'"
proof -
  let ?R = "sv_repo S" and ?G = "sv_graph S" and ?x = "rp_ext (sv_repo S)"
  have wired: "rr_ext ?G = ?x" "rp_txn ?R" "rr_txn ?G" "rp_guard ?R = Some (graph_guard ?G)" "oid_codec ?x"
    using assms(2) by (auto simp: wired_def)
  have ids: "ids_unique ty d" "idem_ok d" for ty using assms(3) by (auto simp: sound_def)
  show ?thesis
    using assms(1)
  proof cases
    case (step_create ty payload actor rid key w r w')
    show ?thesis
      unfolding step_create(1,2)
      by (rule kept_outcome [OF wp_mono [OF create_effect [OF refl]] step_create(3)])
        (use ids wired step_create(1) in \<open>auto intro: created_kept claimed_kept kept_refl\<close>)
  next
    case (step_update ty i payload expected partial actor rid w r w')
    show ?thesis
      unfolding step_update(1,2)
      by (rule kept_outcome [OF wp_mono [OF update_effect] step_update(3)])
        (use ids wired step_update(1) in \<open>auto intro: updated_kept kept_refl\<close>)
  next
    case (step_delete ty i expected actor rid detach w u w')
    show ?thesis
      unfolding step_delete(1,2)
      by (rule kept_outcome [OF wp_mono [OF graph_delete_guard.delete_guarded] step_delete(3)])
        (use wired step_delete(1) in \<open>auto intro: deleted_kept kept_refl\<close>)
  next
    case (step_discovery ty data source ext_id run actor w p w')
    show ?thesis
      unfolding step_discovery(1,2)
      by (rule kept_outcome [OF wp_mono [OF apply_discovery_effect] step_discovery(3)])
        (use ids wired step_discovery(1) in \<open>auto intro: discovered_kept kept_refl\<close>)
  next
    case (step_missing ty i run actor w u w')
    show ?thesis
      unfolding step_missing(1,2)
      by (rule kept_outcome [OF wp_mono [OF mark_missing_effect] step_missing(3)])
        (use wired step_missing(1) in \<open>auto intro: marked_kept kept_refl\<close>)
  next
    case (step_link g w r w')
    show ?thesis
      unfolding step_link(1,2)
      by (rule kept_outcome [OF wp_mono [OF create_edge_effect] step_link(3)])
        (use wired step_link(1) in \<open>auto intro: edge_created_kept kept_refl oid_codec_injective\<close>)
  next
    case (step_unlink i expected actor rid w u w')
    show ?thesis
      unfolding step_unlink(1,2)
      by (rule kept_outcome [OF wp_mono [OF delete_edge_effect] step_unlink(3)])
        (use wired step_unlink(1) in \<open>auto intro: edge_removed_kept kept_refl\<close>)
  next
    case (step_dispatch w n w')
    have "only_outbox (w_db w) (w_db w')"
      by (rule keepsD [OF only_outbox_dispatch _ step_dispatch(3)]) (simp add: only_outbox_def)
    then show ?thesis unfolding step_dispatch(1,2) by (rule outbox_kept)
  next
    case (step_replay i w b w')
    have "keeps (only_outbox (w_db w)) (replay ?x i)"
      unfolding replay_def by (intro keeps_intros)
    from keepsD [OF this _ step_replay(3)] have "only_outbox (w_db w) (w_db w')"
      by (simp add: only_outbox_def)
    then show ?thesis unfolding step_replay(1,2) by (rule outbox_kept)
  qed
qed

lemma data_step_kept:
  assumes "data_step (service_of (make_app x cfg True)) d d'" "oid_codec x" "sound x cfg d"
  shows "kept x d d'"
  using assms(1) service_step_kept [OF _ wired_app [OF assms(2)], of cfg d d'] assms(3)
  unfolding data_step_def
  by (auto simp: same_data_def expired_def intro: kept_quiet [where added = "[]"])

lemma system_steps_kept:
  assumes "(system_step x cfg)\<^sup>*\<^sup>* d d'" "oid_codec x" "sound x cfg d"
  shows "kept x d d' \<and> sound x cfg d'"
proof -
  have one: "kept x a b \<and> sound x cfg b" if "system_step x cfg a b" "sound x cfg a" for a b
    using system_step_data [OF that(1)]
  proof (induction rule: rtranclp_induct)
    case base
    with that(2) show ?case by (simp add: kept_refl)
  next
    case (step b c)
    then show ?case
      using data_step_kept [OF step.hyps(2) assms(2)] data_step_sound [OF step.hyps(2) assms(2)]
      by (blast intro: kept_trans)
  qed
  from assms(1,3) show ?thesis
    by (induction rule: rtranclp_induct) (use one kept_refl kept_trans in blast)+
qed

lemma fresh_one_owner: "fresh_db d \<Longrightarrow> one_owner d"
  by (simp add: fresh_db_def one_owner_def)

lemma reachable_one_owner:
  assumes "oid_codec x" "reachable x cfg d"
  shows "one_owner d"
proof -
  obtain d0 where fresh: "fresh_db d0" and steps: "(system_step x cfg)\<^sup>*\<^sup>* d0 d"
    using assms(2) by (auto simp: reachable_def)
  then have "sound x cfg d0" by (intro reachable_sound [OF assms(1)]) (auto simp: reachable_def)
  with system_steps_kept [OF steps assms(1)] fresh_one_owner [OF fresh] show ?thesis by (simp add: kept_def)
qed

section \<open>The property\<close>

text \<open>
  C5. Items do not get lost and do not change who they are: whatever the service does from a
  reachable state on, a stored item is there afterwards, with its identifier, type, creator, time of
  creation and owning source, at a revision that is not lower, and with the same fields when the
  revision is the same - unless the audit log has since got the record of its deletion. And no two
  stored items of a type are owned by one source under one external identifier.
\<close>

theorem items_persist:
  assumes "oid_codec x" "reachable x cfg d" "(system_step x cfg)\<^sup>*\<^sup>* d d'" "e \<in> set (cis_of d ty)"
  shows "\<exists>added. d_audit d' = d_audit d @ added \<and> one_owner d' \<and>
    ((\<exists>e'\<in>set (cis_of d' ty). same_item e e') \<or> list_ex (deletes x ty (c_id e)) added)"
proof -
  from system_steps_kept [OF assms(3,1) reachable_sound [OF assms(1,2)]] reachable_one_owner [OF assms(1,2)]
  have "lineage x d d'" "one_owner d'" by (simp_all add: kept_def)
  with assms(4) show ?thesis unfolding lineage_def survives_def by blast
qed

text \<open>The item of the sample, before and after it was updated.\<close>

theorem items_persist_witness:
  "\<exists>e'\<in>set (cis_of db4 ''server''). same_item item1 e'"
proof -
  have item: "item1 \<in> set (cis_of db1 ''server'')" by (simp add: db1_def ci_collection_name_def)
  have "(system_step ext0 open_settings)\<^sup>*\<^sup>* empty_db db1" "(system_step ext0 open_settings)\<^sup>*\<^sup>* db1 db4"
    using step_to_db1 step_to_db2 step_to_db3 step_to_db4 unfolding sample_steps_def by (meson rtranclp_trans)+
  moreover have "fresh_db empty_db" by (simp add: fresh_db_def empty_db_def db0_def)
  ultimately have "reachable ext0 open_settings db1" unfolding reachable_def by blast
  note lasts = items_persist [OF codec0 this \<open>(system_step ext0 open_settings)\<^sup>*\<^sup>* db1 db4\<close> item]
  moreover have "\<not> list_ex (deletes ext0 ''server'' (c_id item1)) (tl (d_audit db4))"
    by (simp add: db4_def db3_def db2_def db1_def deletes_def made_entry_def change_args_def edge_audit_def)
  moreover have "d_audit db4 = d_audit db1 @ tl (d_audit db4)"
    by (simp add: db4_def db3_def db2_def db1_def)
  ultimately show ?thesis by (metis same_append_eq)
qed

end
