(* ===== verification/Discovery_Properties.thy ===== *)
theory Discovery_Properties
  imports Sample Lineage
begin

text \<open>
  Properties of discovery: what reconciling one item does, that a second run finds the item of the
  first, that a reconciliation accounts for its whole snapshot and leaves the items of other
  sources alone, and what the record of a run says about it.
\<close>

abbreviation repo_of :: "ext \<Rightarrow> settings \<Rightarrow> repo" where
  "repo_of x cfg \<equiv> ap_repo (make_app x cfg True)"

lemma repo_of_sample: "repo_of ext0 open_settings = repo0"
  using app0_fields(1) by (simp add: app0_def)

lemma reached_ids: "oid_codec x \<Longrightarrow> reachable x cfg d \<Longrightarrow> ids_unique ty d"
  using reachable_sound by (auto simp: sound_def)

lemma reached_sample: "reachable ext0 open_settings db2"
proof -
  have "fresh_db empty_db" by (simp add: fresh_db_def empty_db_def db0_def)
  with step_to_db1 step_to_db2 show ?thesis
    unfolding reachable_def sample_steps_def by (meson rtranclp_trans)
qed

section \<open>One item\<close>

text \<open>An item of a discovery source, applied to the sample.\<close>

lemma discover_run:
  "wp (apply_discovery repo0 ''server'' (host ''d'') ''aws'' ''i'' ''run'' ''anonymous'')
     (\<lambda>r _. snd r = Created) (\<lambda>_ _. False) (world_at db2 200)"
  by (simp add: apply_discovery_def apply_discovery_txn_def discover_new_def insert_logged_def exec_simps
      world_at_def db1_def item1_def item2_def db2_def with_log_def put_cis_def host_def owned_as_def
      set_prov_def numeral_2_eq_2 [symmetric])

lemma discover_ran:
  "\<exists>i w'. apply_discovery repo0 ''server'' (host ''d'') ''aws'' ''i'' ''run'' ''anonymous'' (world_at db2 200)
     = (Inr (i, Created), w')"
  using discover_run by (auto simp: wp_def split: prod.splits sum.splits)

text \<open>
  C33. Reconciling one item inserts it, revises it, or refreshes nothing but its provenance - the
  last exactly when a model that serves its type validates the merge of its fields with the
  discovered ones to the fields it validates to already; every case names the stored item, and an attempt that raises leaves
  the database as it was.
\<close>

theorem discovery_applies:
  assumes "oid_codec x" "reachable x cfg (w_db w)"
  shows "wp (apply_discovery (repo_of x cfg) ty data source ext_id run actor)
     (\<lambda>r w'. discovered_by x (serves x (lower ty) w) ty data source ext_id run actor r
        (w_db w) (w_db w'))
     (\<lambda>_ w'. w_db w' = w_db w) w"
  by (rule wp_mono [OF apply_discovery_effect]) (use reached_ids [OF assms] assms(1) in auto)

theorem discovery_applies_witness:
  "\<exists>i d'. discovered_by ext0 (serves ext0 ''server'' (world_at db2 200)) ''server'' (host ''d'') ''aws'' ''i'' ''run''
     ''anonymous'' (i, Created) db2 d'"
proof -
  obtain i w' where "apply_discovery repo0 ''server'' (host ''d'') ''aws'' ''i'' ''run'' ''anonymous''
      (world_at db2 200) = (Inr (i, Created), w')"
    using discover_ran by blast
  with wp_returns [OF discovery_applies [OF codec0, of open_settings "world_at db2 200"]] reached_sample
  show ?thesis by (fastforce simp: repo_of_sample)
qed

lemma steps_sound:
  assumes "oid_codec x" "(service_step (service_of (make_app x cfg True)))\<^sup>*\<^sup>* d d'" "sound x cfg d"
  shows "sound x cfg d'"
  using assms(2,3)
  by (induction rule: rtranclp_induct)
    (use service_step_sound [OF _ wired_app [OF assms(1)], of cfg] in auto)

lemma find_upd_other:
  "List.find q xs = Some e \<Longrightarrow> List.find p xs = Some e \<Longrightarrow> q (f e) \<Longrightarrow>
   List.find q (upd_first p f xs) = Some (f e)"
  by (induction xs) (auto split: if_splits dest: find_Some_in)

lemma find_append: "List.find q xs = None \<Longrightarrow> q e \<Longrightarrow> List.find q (xs @ [e]) = Some e"
  by (induction xs) (auto split: if_splits)

lemma set_prov_owned [simp]: "owned_as s e (on_meta (set_prov s e r t) b)"
  by (simp add: owned_as_def set_prov_def)

lemma discovered_owned:
  assumes "discovered_by x M ty data source ext_id run actor r d d'"
  shows "\<exists>e. List.find (owned_as source ext_id) (cis_of d' ty) = Some e \<and> fst r = x_oid_str x (c_id e)"
proof (cases "snd r")
  case Created
  with assms show ?thesis
    unfolding discovered_by_def ci_inserted_def
    by (auto elim!: logged_elim simp: find_append)
next
  case Updated
  with assms show ?thesis
    unfolding discovered_by_def ci_revised_def
    by (auto elim!: logged_elim simp: find_upd_other)
next
  case Unchanged
  with assms show ?thesis
    unfolding discovered_by_def ci_refreshed_def
    by (auto simp: find_upd_other)
qed

lemma applied_once:
  assumes "oid_codec x" "reachable x cfg (w_db w)"
    and "apply_discovery (repo_of x cfg) ty data source ext_id run actor w = (Inr r, w1)"
  shows "sound x cfg (w_db w1)" "one_owner (w_db w1)"
    "\<exists>e\<in>set (cis_of (w_db w1) ty). owned_as source ext_id e \<and> fst r = x_oid_str x (c_id e)"
proof -
  note sound = reachable_sound [OF assms(1,2)]
  have step: "service_step (service_of (make_app x cfg True)) (w_db w) (w_db w1)"
    using step_discovery [of "service_of (make_app x cfg True)"] assms(3) by simp
  from service_step_kept [OF step wired_app [OF assms(1)]] sound reachable_one_owner [OF assms(1,2)]
  show "one_owner (w_db w1)" by (simp add: kept_def)
  show "sound x cfg (w_db w1)"
    by (rule steps_sound [OF assms(1) r_into_rtranclp sound]) (rule step)
  have "wp (apply_discovery (repo_of x cfg) ty data source ext_id run actor)
     (\<lambda>r w'. discovered_by x (serves x (lower ty) w) ty data source ext_id run actor r
        (w_db w) (w_db w')) (\<lambda>_ _. True) w"
    by (rule wp_mono [OF apply_discovery_effect]) (use reached_ids [OF assms(1,2)] assms(1) in auto)
  from discovered_owned [OF wp_returns [OF this assms(3)]]
  show "\<exists>e\<in>set (cis_of (w_db w1) ty). owned_as source ext_id e \<and> fst r = x_oid_str x (c_id e)"
    by (auto dest: find_Some_in)
qed

text \<open>
  C34. A source never duplicates an item: once an item with an external id was applied, applying
  that external id again, in a later run, whatever the data and whatever the service did in
  between, finds the same item and creates none, unless the audit log has got the record of its
  deletion.
\<close>

theorem discovery_never_duplicates:
  assumes "oid_codec x" "reachable x cfg (w_db w)"
    and "apply_discovery (repo_of x cfg) ty data source ext_id run actor w = (Inr r, w1)"
    and "(system_step x cfg)\<^sup>*\<^sup>* (w_db w1) (w_db w2)" "d_audit (w_db w2) = d_audit (w_db w1) @ added"
    and "x_oid_parse x (fst r) = Some oid" "\<not> list_ex (deletes x ty oid) added"
  shows "wp (apply_discovery (repo_of x cfg) ty data2 source ext_id run2 actor2)
     (\<lambda>r2 _. fst r2 = fst r \<and> snd r2 \<noteq> Created) (\<lambda>_ w3. w_db w3 = w_db w2) w2"
proof (rule wp_mono [OF apply_discovery_effect])
  note first = applied_once [OF assms(1-3)]
  from first(3) obtain e where e: "e \<in> set (cis_of (w_db w1) ty)" "owned_as source ext_id e"
    "fst r = x_oid_str x (c_id e)" by blast
  with assms(1,6) have oid: "oid = c_id e" by (simp add: oid_codec_def)
  note later = system_steps_kept [OF assms(4,1) first(1)]
  then have "lineage x (w_db w1) (w_db w2)" and owner: "one_owner (w_db w2)"
    using first(2) by (simp_all add: kept_def)
  with e(1) assms(5,7) obtain e' where e': "e' \<in> set (cis_of (w_db w2) ty)" "same_item e e'"
    unfolding lineage_def survives_def oid by auto
  then have own: "owned_as source ext_id e'" using e(2) same_item_owner by simp
  show "ids_unique ty (w_db w2)" using later by (simp add: sound_def)
  have x: "rp_ext (repo_of x cfg) = x" "rp_txn (repo_of x cfg)" by simp_all
  have found: "x_oid_str x (c_id b) = fst r" if "List.find (owned_as source ext_id) (cis_of (w_db w2) ty) = Some b" for b
    using find_Some_in [OF that] owner e' own e(3) same_item_id [OF e'(2)] unfolding one_owner_def by metis
  fix r2 w3
  assume "discovered_by (rp_ext (repo_of x cfg)) (serves (rp_ext (repo_of x cfg)) (lower ty) w2) ty data2 source
     ext_id run2 actor2 r2 (w_db w2) (w_db w3)"
  then show "fst r2 = fst r \<and> snd r2 \<noteq> Created"
    using found e'(1) own unfolding discovered_by_def x
    by (cases "snd r2") (auto simp: find_None_all)
qed (use assms(1) in simp_all)

theorem discovery_never_duplicates_witness:
  "\<exists>i w'. apply_discovery repo0 ''server'' (host ''d'') ''aws'' ''i'' ''run'' ''anonymous'' (world_at db2 200)
       = (Inr (i, Created), w') \<and>
     wp (apply_discovery repo0 ''server'' (host ''e'') ''aws'' ''i'' ''run2'' ''anonymous'')
       (\<lambda>r2 _. fst r2 = i \<and> snd r2 \<noteq> Created) (\<lambda>_ w3. w_db w3 = w_db w') w'"
proof -
  obtain i w' where "apply_discovery repo0 ''server'' (host ''d'') ''aws'' ''i'' ''run'' ''anonymous''
      (world_at db2 200) = (Inr (i, Created), w')"
    using discover_ran by blast
  then show ?thesis
    using discovery_never_duplicates [OF codec0, where cfg = open_settings and w = "world_at db2 200"
        and ty = "''server''" and data = "host ''d''" and source = "''aws''" and ext_id = "''i''"
        and run = "''run''" and actor = "''anonymous''" and r = "(i, Created)" and ?w1.0 = w' and ?w2.0 = w'
        and added = "[]" and oid = "length i" and ?data2.0 = "host ''e''" and ?run2.0 = "''run2''"
        and ?actor2.0 = "''anonymous''"]
      reached_sample by (auto simp: repo_of_sample)
qed

section \<open>A snapshot\<close>

text \<open>
  C35. A reconciliation that returns accounts for its snapshot: every distinct item of it was
  created, updated, found unchanged or reported as an error, exactly once, exactly the applied
  ones got a CMDB id, and every relationship was created, found unchanged or reported, exactly
  once; no error of a single item makes it fail.
\<close>

theorem reconciliation_accounts:
  "wp (reconcile R G res a) (\<lambda>s _. accounts res s) (\<lambda>ex _. not_app ex) w"
  by (rule reconcile_accounts)

text \<open>
  C36. A reconciliation leaves the items of every other source, and those made by hand, exactly as
  they are, whether it completes or is cut short.
\<close>

theorem other_sources_untouched:
  assumes "oid_codec x" "reachable x cfg (w_db w)"
  shows "wp (reconcile (repo_of x cfg) (ap_graph (make_app x cfg True)) res a)
     (\<lambda>_ w'. others (ra_source a) (w_db w') = others (ra_source a) (w_db w))
     (\<lambda>_ w'. others (ra_source a) (w_db w') = others (ra_source a) (w_db w)) w"
proof -
  have "leaves (service_of (make_app x cfg True)) (ra_source a) (others (ra_source a) (w_db w)) (w_db w)"
    using reachable_sound [OF assms] by (simp add: leaves_def)
  note kept = keeps_wp [THEN iffD1, OF reconcile_keeps_leaves [OF wired_app [OF assms(1)] refl], rule_format, OF this]
  show ?thesis by (intro wp_mono [OF kept [unfolded service_of_fields]]) (auto simp: leaves_def)
qed

text \<open>A run of source \<open>aws\<close> over the sample, whose items were made by hand.\<close>

theorem other_sources_untouched_witness:
  "wp (reconcile repo0 graph0 \<lparr>dr_items = [\<lparr>dc_type = ''server'', dc_external_id = ''i'', dc_data = host ''z''\<rparr>],
        dr_relationships = []\<rparr>
      \<lparr>ra_source = ''aws'', ra_run_id = ''run'', ra_on_missing = ''delete'', ra_actor = ''anonymous''\<rparr>)
     (\<lambda>_ w'. item2 \<in> set (cis_of (w_db w') ''server'')) (\<lambda>_ w'. item2 \<in> set (cis_of (w_db w') ''server''))
     (world_at db2 200)"
proof -
  have "item2 \<in> set (others ''aws'' db2 ''server'')"
    by (simp add: others_def db2_def) (simp add: item2_def new_meta_def)
  then have "item2 \<in> set (others ''aws'' d ''server'')" if "others ''aws'' d = others ''aws'' db2" for d
    using that by simp
  then have kept: "item2 \<in> set (cis_of d ''server'')" if "others ''aws'' d = others ''aws'' db2" for d
    using that unfolding others_def by fastforce
  have "ap_graph (make_app ext0 open_settings True) = graph0"
    using app0_fields(2) by (simp add: app0_def)
  note leaves = other_sources_untouched [OF codec0, of open_settings, unfolded repo_of_sample this]
  show ?thesis by (rule wp_mono [OF leaves]) (use reached_sample in \<open>auto intro: kept\<close>)
qed

section \<open>A run\<close>

text \<open>What a run leaves in the collection of runs, apart from what was there.\<close>

definition one_run :: "run_doc list \<Rightarrow> string \<Rightarrow> (run_doc \<Rightarrow> bool) \<Rightarrow> db \<Rightarrow> bool" where
  "one_run rs i P d = (i \<notin> r_id ` set rs \<and> (\<exists>r. d_runs d = rs @ [r] \<and> r_id r = i \<and> P r))"

lemma upd_last:
  "\<forall>r\<in>set rs. \<not> p r \<Longrightarrow> p r' \<Longrightarrow> upd_first p f (rs @ [r']) = rs @ [f r']"
  by (induction rs) auto

lemma find_last: "\<forall>r\<in>set rs. \<not> p r \<Longrightarrow> p r' \<Longrightarrow> List.find p (rs @ [r']) = Some r'"
  by (induction rs) auto

lemma run_update:
  assumes "one_run rs i P (w_db w)" "\<And>r. r_id (f r) = r_id r" "\<And>r. P r \<Longrightarrow> P' (f r)"
  shows "wp (update_one x runs_coll (is_run i) f) (\<lambda>_ w'. one_run rs i P' (w_db w'))
     (\<lambda>ex w'. ex = MongoError \<and> (\<exists>n. x_fault x n) \<and> one_run rs i P (w_db w')) w"
proof -
  from assms(1) obtain r where r: "i \<notin> r_id ` set rs" "d_runs (w_db w) = rs @ [r]" "r_id r = i" "P r"
    unfolding one_run_def by blast
  then have other: "\<forall>b\<in>set rs. \<not> is_run i b" "is_run i r" by (auto simp: is_run_def image_iff)
  have "\<not> list_ex (\<lambda>b. r_id (f r) = r_id b) (del_first (is_run i) (rs @ [r]))"
    using r(1,3) other by (induction rs) (auto simp: assms(2) is_run_def)
  with r other assms(2,3) show ?thesis
    by (auto simp: wp_update_one runs_coll_def one_run_def find_last upd_last split: option.splits)
qed

lemma reconcile_bystanders:
  "oid_codec x \<Longrightarrow> keeps (bystanders d0) (reconcile (repo_of x cfg) (ap_graph (make_app x cfg True)) res a)"
  using via_keeps [OF reconcile_via [of "service_of (make_app x cfg True)"],
      OF bystanders.data_step_keeps [OF _ wired_app]] by simp

lemma keeps_runs:
  assumes "\<And>d0. keeps (bystanders d0) m"
  shows "keeps (one_run rs i P) m"
proof (rule keepsI)
  fix w :: world assume w: "one_run rs i P (w_db w)"
  have "bystanders (w_db w) (w_db w)" by (simp add: bystanders_def)
  with assms have "bystanders (w_db w) (w_db (snd (m w)))" by (simp add: keeps_def)
  with w show "one_run rs i P (w_db (snd (m w)))" by (simp add: one_run_def bystanders_def)
qed

text \<open>
  How a run that raises is on record: as failed with the message of the exception, or still as
  running when a fault of the database is what it raises.
\<close>

definition ended :: "ext \<Rightarrow> exn \<Rightarrow> run_doc \<Rightarrow> bool" where
  "ended x ex r = (r_status r = ''failed'' \<and> r_error r = Some (take 500 (x_str x ex)) \<or>
     r_status r = ''running'' \<and> ex = MongoError \<and> (\<exists>n. x_fault x n))"

text \<open>Why a run leaves no record: there is no such provider, or the record was not stored.\<close>

definition not_started :: "ext \<Rightarrow> string \<Rightarrow> run_doc list \<Rightarrow> exn \<Rightarrow> bool" where
  "not_started x name rs ex =
     (map_of default_registry name = None \<and> ex = provider_missing default_registry name \<or>
      ex = MongoError \<and> (\<exists>n. x_fault x n) \<or> ex = DuplicateKey \<and> (\<exists>n. x_uuid x n \<in> r_id ` set rs))"

lemma fail_run_effect:
  assumes "one_run rs i (\<lambda>r. r_status r = ''running'') (w_db w)"
  shows "wp (fail_run x i name ex) (\<lambda>_ _. False) (\<lambda>ex' w'. one_run rs i (ended x ex') (w_db w')) w"
proof -
  have failed: "wp (update_one x runs_coll (is_run i) (run_failed x ex now))
     (\<lambda>_ w'. one_run rs i (ended x ex) (w_db w'))
     (\<lambda>ex' w'. ex' = MongoError \<and> (\<exists>n. x_fault x n) \<and> one_run rs i (\<lambda>r. r_status r = ''running'') (w_db w')) w'"
    if "w_db w' = w_db w" for now w'
    by (rule run_update) (use assms that in \<open>auto simp: run_failed_def ended_def\<close>)
  show ?thesis
    unfolding fail_run_def run_metric_def wp_seq wp_utcnow
    by (intro wp_mono [OF failed])
      (auto simp: run_simps ended_def one_run_def)
qed

text \<open>The run itself, and its run inside the \<open>try\<close> and before the record of its completion.\<close>

abbreviation run_is :: "string \<Rightarrow> run_doc \<Rightarrow> bool" where
  "run_is status r \<equiv> r_status r = status"

abbreviation run_work :: "ext \<Rightarrow> settings \<Rightarrow> provider \<Rightarrow> dict \<Rightarrow> run_args \<Rightarrow> dict act" where
  "run_work x cfg p config a \<equiv> seq (pv_discover p config) (\<lambda>res.
     seq (reconcile (repo_of x cfg) (ap_graph (make_app x cfg True)) res a) (\<lambda>s. ret (report_dict s)))"

lemma run_caught:
  assumes "oid_codec x" "p = static_provider" "one_run rs i (run_is ''running'') (w_db w)"
  shows "wp (catch_exn (run_work x cfg p config a) (fail_run x i name))
     (\<lambda>_ w'. one_run rs i (run_is ''running'') (w_db w')) (\<lambda>ex w'. one_run rs i (ended x ex) (w_db w')) w"
proof -
  have body: "keeps (one_run rs i (run_is ''running'')) (run_work x cfg p config a)"
    by (intro keeps_intros keeps_runs reconcile_bystanders assms(1) keeps_reads)
      (simp add: assms(2) static_provider_def static_discover_reads)
  show ?thesis
    unfolding wp_catch
    by (rule wp_mono [OF body [unfolded keeps_wp, rule_format, OF assms(3)]])
      (auto intro: wp_mono [OF fail_run_effect])
qed

definition recorded :: "run_doc list \<Rightarrow> dict \<Rightarrow> world \<Rightarrow> bool" where
  "recorded rs res w = (\<exists>i report. map_of res ''run_id'' = Some (VStr i) \<and>
     map_of res ''report'' = Some (VDict report) \<and>
     one_run rs i (\<lambda>r. r_status r = ''completed'' \<and> r_report r = Some report) (w_db w))"

lemma run_tail:
  assumes "oid_codec x" "p = static_provider" "one_run rs i (run_is ''running'') (w_db w)"
  shows "wp (seq (catch_exn (run_work x cfg p config a) (fail_run x i name)) (\<lambda>report.
        seq (utcnow x) (\<lambda>finish. seq (update_one x runs_coll (is_run i) (run_completed report finish)) (\<lambda>_.
        seq (run_metric name ''completed'') (\<lambda>_. ret (run_result i name src report))))))
     (\<lambda>res w'. recorded rs res w')
     (\<lambda>ex w'. \<exists>i. one_run rs i (ended x ex) (w_db w')) w"
proof -
  have completed: "wp (update_one x runs_coll (is_run i) (run_completed report now))
     (\<lambda>_ w'. one_run rs i (\<lambda>r. r_status r = ''completed'' \<and> r_report r = Some report) (w_db w'))
     (\<lambda>ex' w'. ex' = MongoError \<and> (\<exists>n. x_fault x n) \<and> one_run rs i (run_is ''running'') (w_db w')) w'"
    if "one_run rs i (run_is ''running'') (w_db w')" for i report now w'
    by (rule run_update [OF that]) (auto simp: run_completed_def)
  have stuck: "one_run rs i (ended x MongoError) d" if "one_run rs i (run_is ''running'') d" "\<exists>n. x_fault x n" for i d
    using that by (auto simp: one_run_def ended_def)
  show ?thesis
    unfolding run_metric_def wp_seq wp_utcnow
    by (rule wp_mono [OF run_caught [OF assms]])
      (auto simp: wp_metrics_incr wp_ret run_result_def recorded_def dest: stuck intro!: wp_mono [OF completed])
qed

text \<open>
  C37. Every run that starts leaves exactly one record, new and alone. A run that returns is on
  record as completed with the report returned. One that raises is on record as failed with the
  message of the exception, except that a fault of the database, when it is what the run raises, may
  leave the record at running; without faults a record never stays at running. Only a run that
  did not start - an unknown provider, or a record that could not be stored - leaves none.
\<close>

theorem run_recorded:
  assumes "oid_codec x"
  shows "wp (discovery_run (ap_discovery (make_app x cfg True)) name config source on_missing actor)
     (\<lambda>res w'. recorded (d_runs (w_db w)) res w')
     (\<lambda>ex w'. d_runs (w_db w') = d_runs (w_db w) \<and> not_started x name (d_runs (w_db w)) ex \<or>
        (\<exists>i. one_run (d_runs (w_db w)) i (ended x ex) (w_db w'))) w"
proof (cases "map_of (dv_providers (ap_discovery (make_app x cfg True))) name")
  case None
  then show ?thesis by (simp add: discovery_run_def run_simps not_started_def)
next
  case (Some p)
  let ?rs = "d_runs (w_db w)"
  have reg: "map_of default_registry name = Some p" using Some by simp
  then have p: "p = static_provider" by (rule default_registry_static)
  have clash: "co_clash runs_coll d r r' \<longleftrightarrow> r_id r = r_id r'" for d r r' by (simp add: runs_coll_def)
  have ident: "r_id (new_run i n src om now b) = i" for i n src om now b by (simp add: new_run_def)
  have new: "one_run ?rs i (run_is ''running'') (w_db w')"
    if "i \<notin> r_id ` set ?rs" "d_runs (w_db w') = ?rs @ [new_run i name src om now actor]" for i src om now w'
    using that by (simp add: one_run_def new_run_def)
  show ?thesis
    unfolding discovery_run_def Let_def make_app_fields reg option.case
    by (auto simp: wp_seq [of "draw _"] wp_seq [of "utcnow _"] wp_seq [of "insert_one _ _ _"] run_simps(1)
        wp_draw wp_utcnow wp_insert_one runs_put list_ex_iff clash ident image_iff
        intro!: wp_mono [OF run_tail [OF assms p]] new, auto simp: not_started_def)
qed

text \<open>A run of the static provider with an empty snapshot returns, so it is on record as completed.\<close>

lemma static_run:
  "wp (discovery_run (ap_discovery (make_app ext0 open_settings True)) ''static'' None None None ''anonymous'')
     (\<lambda>_ _. True) (\<lambda>_ _. False) (world_at db2 200)"
proof -
  have parsed: "parse_result (static_input []) = Some \<lparr>dr_items = [], dr_relationships = []\<rparr>"
    by (simp add: static_input_def parse_result_def parse_list_def dget_def)
  have prov: "map_of default_registry ''static'' = Some static_provider"
    by (simp add: default_registry_def register_def static_provider_def dset_def)
  have runs: "d_runs db2 = []" by (simp add: db2_def db1_def with_log_def put_cis_def empty_db_def db0_def)
  have edges: "d_edges db2 = []" by (simp add: db2_def db1_def with_log_def put_cis_def empty_db_def db0_def)
  show ?thesis
    by (simp add: discovery_run_def Let_def prov static_provider_def static_discover_def parsed reconcile_def
        desired_by_type_def reconcile_edges_def iter_source_edges_def run_metric_def run_simps runs edges runs_put
        edges_put new_run_def is_run_def)
qed

theorem run_recorded_witness:
  "\<exists>res w'. discovery_run (ap_discovery (make_app ext0 open_settings True)) ''static'' None None None ''anonymous''
       (world_at db2 200) = (Inr res, w') \<and> (\<exists>i. one_run [] i (\<lambda>r. r_status r = ''completed'') (w_db w'))"
proof -
  have runs: "d_runs db2 = []" by (simp add: db2_def db1_def with_log_def put_cis_def empty_db_def db0_def)
  obtain res w' where run: "discovery_run (ap_discovery (make_app ext0 open_settings True)) ''static'' None None None
      ''anonymous'' (world_at db2 200) = (Inr res, w')"
    using static_run by (auto simp: wp_def split: prod.splits sum.splits)
  from wp_returns [OF run_recorded [OF codec0] run] show ?thesis
    using run runs by (auto simp: one_run_def recorded_def)
qed

end
