(* ===== verification/Event_Properties.thy ===== *)
theory Event_Properties
  imports Sample
begin

text \<open>
  Properties of the outbox and its dispatcher: the state machine a document goes through, and
  what a pass delivers.
\<close>

lemma reached_outbox:
  assumes "oid_codec x" "reachable x cfg d"
  shows "distinct (List.map o_id (d_outbox d))" "outbox_inv cfg d"
  using reachable_sound [OF assms] by (simp_all add: sound_def logs_distinct_def)

section \<open>The state machine\<close>

text \<open>
  A pass of the dispatcher, whatever fails in it, moves every document of the outbox at most
  one step: a pending one is delivered, or has failed once more and is put off by the capped
  exponential delay, or has used up its attempts and is dead; a sent or a dead one stays as it is.
  Before and after, no pending document has used up its attempts and every dead one has.
\<close>

theorem dispatch_steps:
  assumes "oid_codec x" "reachable x cfg (w_db w)"
  shows "wp (dispatch_once x cfg (bus_publish cfg))
     (\<lambda>_ w'. list_all2 (at_most_one_step cfg) (d_outbox (w_db w)) (d_outbox (w_db w')) \<and> outbox_inv cfg (w_db w'))
     (\<lambda>_ w'. list_all2 (at_most_one_step cfg) (d_outbox (w_db w)) (d_outbox (w_db w')) \<and> outbox_inv cfg (w_db w')) w"
proof -
  have "separated outbox_coll (w_db w)"
    using reached_outbox(1) [OF assms] by (simp add: separated_def outbox_coll_def distinct_sorted_wrt)
  moreover have "outbox_inv cfg d'" if "list_all2 (at_most_one_step cfg) (d_outbox (w_db w)) (d_outbox d')" for d'
    using that reached_outbox(2) [OF assms] unfolding outbox_inv_def
    by (induction rule: list_all2_induct) (auto simp: at_most_one_step_def dest: dispatch_step_ok)
  ultimately show ?thesis
    by (intro wp_mono [OF mem_bus.dispatch_pass]) auto
qed

theorem dispatch_steps_witness:
  "\<exists>n w'. dispatch_once ext0 open_settings (bus_publish open_settings) (world_at db4 600) = (n, w') \<and>
     list_all2 (at_most_one_step open_settings) (d_outbox db4) (d_outbox (w_db w'))"
proof -
  obtain n w' where run: "dispatch_once ext0 open_settings (bus_publish open_settings) (world_at db4 600) = (n, w')"
    by fastforce
  then show ?thesis
    using dispatch_steps [OF codec0, of open_settings "world_at db4 600"] db4_reachable
    by (auto simp: wp_def split: sum.splits)
qed

section \<open>Delivery\<close>

text \<open>The documents a pass takes, and the bus after one more event.\<close>

definition due_batch :: "settings \<Rightarrow> time \<Rightarrow> db \<Rightarrow> outbox_doc list" where
  "due_batch cfg now d = filter (\<lambda>b. \<not> not_due now b)
     (cursor_limit (outbox_batch_size cfg) (sort_key o_next (filter (\<lambda>b. o_status b = Pending) (d_outbox d))))"

definition enqueued :: "settings \<Rightarrow> outbox_doc \<Rightarrow> event list \<Rightarrow> event list" where
  "enqueued cfg b q = (if queue_full (event_bus_max_queue cfg) q then q else q @ [o_event b])"

definition sent_among :: "string set \<Rightarrow> outbox_doc \<Rightarrow> outbox_doc \<Rightarrow> bool" where
  "sent_among ids a b = (if o_id a \<in> ids then \<exists>t. b = a\<lparr>o_status := Sent, o_sent_at := Some t\<rparr> else b = a)"

definition no_faults :: "ext \<Rightarrow> bool" where
  "no_faults x = (\<forall>n. \<not> x_fault x n)"

lemma sent_among_ids: "list_all2 (sent_among ids) l l' \<Longrightarrow> List.map o_id l' = List.map o_id l"
  by (induction rule: list_all2_induct) (auto simp: sent_among_def split: if_splits)

lemma publish_enqueues:
  "wp (bus_publish cfg (o_event b)) (\<lambda>_ w'. w_db w' = w_db w \<and>
     wk_bus (w_worker w') = enqueued cfg b (wk_bus (w_worker w))) (\<lambda>_ _. False) w"
  by (simp add: wp_def bus_publish_def seq_def asks_def on_worker_def metrics_incr_def enqueued_def)

lemma sent_more:
  assumes "distinct (List.map o_id l)" "list_all2 (sent_among ids) l obs" "b \<in> set l" "o_id b \<notin> ids"
  shows "list_all2 (sent_among (insert (o_id b) ids)) l
     (upd_first (\<lambda>c. o_id c = o_id b) (\<lambda>c. c\<lparr>o_status := Sent, o_sent_at := Some t\<rparr>) obs)"
proof -
  have "List.map o_id obs = List.map o_id l"
    using assms(2) by (rule sent_among_ids)
  then have obs: "upd_first (\<lambda>c. o_id c = o_id b) f obs = List.map (\<lambda>c. if o_id c = o_id b then f c else c) obs" for f
    using assms(1) by (simp add: upd_first_distinct)
  from assms(2) show ?thesis
    unfolding obs list_all2_map2
    by (rule list.rel_mono_strong) (use assms(4) in \<open>auto simp: sent_among_def split: if_splits\<close>)
qed

lemma found_once:
  assumes "distinct (List.map o_id obs)" "k \<in> set (List.map o_id obs)"
  shows "\<exists>c. List.find (\<lambda>c. o_id c = k) obs = Some c \<and> o_id c = k"
    "\<not> list_ex (\<lambda>c. k = o_id c) (del_first (\<lambda>c. o_id c = k) obs)"
  using assms by (induction obs) (auto simp: list_ex_iff image_iff)

lemma deliver_one:
  assumes "no_faults x" "distinct (List.map o_id l)" "b \<in> set l" "o_id b \<notin> ids" "\<not> not_due now b"
    "list_all2 (sent_among ids) l (d_outbox (w_db w))"
  shows "wp (dispatch_doc x cfg (bus_publish cfg) now n b)
     (\<lambda>m w'. m = Suc n \<and> list_all2 (sent_among (insert (o_id b) ids)) l (d_outbox (w_db w')) \<and>
        wk_bus (w_worker w') = enqueued cfg b (wk_bus (w_worker w))) (\<lambda>_ _. False) w"
proof -
  have ids: "List.map o_id (d_outbox (w_db w)) = List.map o_id l"
    using assms(6) by (rule sent_among_ids)
  have found: "\<exists>c. List.find (\<lambda>c. o_id c = o_id b) (d_outbox (w_db w)) = Some c \<and> o_id c = o_id b"
    "\<not> list_ex (\<lambda>c. o_id b = o_id c) (del_first (\<lambda>c. o_id c = o_id b) (d_outbox (w_db w)))"
    using found_once [of "d_outbox (w_db w)" "o_id b"] assms(2,3) unfolding ids by auto
  have marked: "wp (mark_sent x (o_id b)) (\<lambda>_ w''. list_all2 (sent_among (insert (o_id b) ids)) l (d_outbox (w_db w'')) \<and>
      w_worker w'' = w_worker w') (\<lambda>_ _. False) w'" if "w_db w' = w_db w" for w'
    using that found assms(1) sent_more [OF assms(2,6,3,4)]
    by (auto simp: mark_sent_def run_simps outbox_put no_faults_def outbox_coll_def split: option.splits)
  show ?thesis
    unfolding dispatch_doc_def using assms(5)
    by (simp add: wp_catch wp_seq wp_ret, intro wp_mono [OF publish_enqueues])
      (auto intro!: wp_mono [OF marked])
qed

lemma deliver_skip: "not_due now b \<Longrightarrow> wp (dispatch_doc x cfg p now n b) (\<lambda>m w'. m = n \<and> w' = w) (\<lambda>_ _. False) w"
  by (simp add: dispatch_doc_def wp_ret)

lemma pass_effect:
  assumes "distinct (List.map o_id (d_outbox (w_db w)))" "no_faults x"
  shows "wp (dispatch_once x cfg (bus_publish cfg))
     (\<lambda>n w'. let batch = due_batch cfg (x_now x (w_n w)) (w_db w) in
        n = length batch \<and>
        list_all2 (sent_among (o_id ` set batch)) (d_outbox (w_db w)) (d_outbox (w_db w')) \<and>
        wk_bus (w_worker w') = fold (enqueued cfg) batch (wk_bus (w_worker w))) (\<lambda>_ _. False) w"
proof -
  let ?l = "d_outbox (w_db w)" and ?now = "x_now x (w_n w)"
  let ?todo = "cursor_limit (outbox_batch_size cfg) (sort_key o_next (filter (\<lambda>b. o_status b = Pending) ?l))"
  let ?done = "filter (\<lambda>b. \<not> not_due ?now b)"
  note l = assms(1)
  then have todo: "distinct (List.map o_id ?todo)" "set ?todo \<subseteq> set ?l"
    using set_cursor_limit [of "outbox_batch_size cfg" "sort_key o_next (filter (\<lambda>b. o_status b = Pending) ?l)"]
    by (auto simp: cursor_limit_def take_map [symmetric] mem_bus.sort_key_distinct distinct_map_filter distinct_take)
  have "wp (fold_act (dispatch_doc x cfg (bus_publish cfg) ?now) 0 ?todo)
     (\<lambda>n w'. n = length (?done ?todo) \<and> list_all2 (sent_among (o_id ` set (?done ?todo))) ?l (d_outbox (w_db w')) \<and>
        wk_bus (w_worker w') = fold (enqueued cfg) (?done ?todo) (wk_bus (w_worker w))) (\<lambda>_ _. False) w1"
    if "w_db w1 = w_db w" "w_worker w1 = w_worker w" for w1
  proof (rule wp_loop [where I = "\<lambda>pre n w'. n = length (?done pre) \<and>
      list_all2 (sent_among (o_id ` set (?done pre))) ?l (d_outbox (w_db w')) \<and>
      wk_bus (w_worker w') = fold (enqueued cfg) (?done pre) (wk_bus (w_worker w))"])
    fix pre b n and w' :: world
    assume split: "?todo = pre @ b # drop (Suc (length pre)) ?todo" and b: "b \<in> set ?todo"
      and inv: "n = length (?done pre) \<and> list_all2 (sent_among (o_id ` set (?done pre))) ?l (d_outbox (w_db w')) \<and>
        wk_bus (w_worker w') = fold (enqueued cfg) (?done pre) (wk_bus (w_worker w))"
    have fresh: "o_id b \<notin> o_id ` set (?done pre)"
      using todo(1) by (subst (asm) split) auto
    show "wp (dispatch_doc x cfg (bus_publish cfg) ?now n b)
       (\<lambda>n' w''. n' = length (?done (pre @ [b])) \<and>
          list_all2 (sent_among (o_id ` set (?done (pre @ [b])))) ?l (d_outbox (w_db w'')) \<and>
          wk_bus (w_worker w'') = fold (enqueued cfg) (?done (pre @ [b])) (wk_bus (w_worker w))) (\<lambda>_ _. False) w'"
    proof (cases "not_due ?now b")
      case True
      show ?thesis by (rule wp_mono [OF deliver_skip [OF True]]) (use True inv in auto)
    next
      case False
      have "b \<in> set ?l" using b todo(2) by blast
      note one = deliver_one [OF assms(2) l this fresh False, of w' cfg n]
      show ?thesis by (rule wp_mono [OF one]) (use inv False in auto)
    qed
  qed (use that in \<open>simp add: sent_among_def list.rel_refl\<close>)
  then show ?thesis
    using assms(2)
    by (simp add: dispatch_once_def fetch_pending_def run_simps outbox_put due_batch_def no_faults_def Let_def)
qed

text \<open>
  C39. A pass that meets no database fault delivers: every pending document of its batch that is
  due is published, in order of due time, and marked sent, no other changes, and the number
  returned counts them. Published means put on the bus or, when the bus is full, dropped: a
  document is marked sent either way.
\<close>

theorem pass_delivers:
  assumes "oid_codec x" "reachable x cfg (w_db w)" "no_faults x"
  shows "wp (dispatch_once x cfg (bus_publish cfg))
     (\<lambda>n w'. let batch = due_batch cfg (x_now x (w_n w)) (w_db w) in
        n = length batch \<and>
        list_all2 (sent_among (o_id ` set batch)) (d_outbox (w_db w)) (d_outbox (w_db w')) \<and>
        wk_bus (w_worker w') = fold (enqueued cfg) batch (wk_bus (w_worker w))) (\<lambda>_ _. False) w"
  using reached_outbox(1) [OF assms(1,2)] assms(3) by (rule pass_effect)

text \<open>Four changes were announced and are due: a pass delivers the four.\<close>

theorem pass_delivers_witness:
  "wp (dispatch_once ext0 open_settings (bus_publish open_settings))
     (\<lambda>n w'. n = 4 \<and> list_all (\<lambda>b. o_status b = Sent) (d_outbox (w_db w'))) (\<lambda>_ _. False) (world_at db4 600)"
proof -
  have l: "length (d_outbox db4) = 4" "list_all (\<lambda>b. o_status b = Pending \<and> \<not> not_due 600 b) (d_outbox db4)"
    by (simp_all add: db4_def db3_def db2_def db1_def fresh_outbox_def not_due_def)
  have size: "outbox_batch_size open_settings = 100"
    by (simp add: open_settings_def default_settings_def)
  have batch: "length (due_batch open_settings 600 db4) = 4" "set (due_batch open_settings 600 db4) = set (d_outbox db4)"
    using l by (simp_all add: due_batch_def size cursor_limit_def list_all_iff)
  have sent: "list_all (\<lambda>b. o_status b = Sent) obs"
    if "list_all2 (sent_among (o_id ` set l')) l' obs" for l' obs
  proof -
    have "list_all2 (sent_among ids) l'' obs' \<Longrightarrow> o_id ` set l'' \<subseteq> ids \<Longrightarrow> list_all (\<lambda>b. o_status b = Sent) obs'"
      for ids l'' obs'
      by (induction rule: list_all2_induct) (auto simp: sent_among_def)
    with that show ?thesis by blast
  qed
  have "no_faults ext0" by (simp add: no_faults_def)
  note pass = pass_delivers [OF codec0 _ this, of open_settings "world_at db4 600"]
  show ?thesis
    by (rule wp_mono [OF pass]) (use db4_reachable batch sent in \<open>auto simp: Let_def\<close>)
qed

end
