(* ===== verification/Api_Properties.thy ===== *)
theory Api_Properties
  imports Sample
begin

text \<open>
  Properties of a request from end to end: that every one is answered, by what its route did,
  under its request id.
\<close>

section \<open>Headers\<close>

lemma set_header_found: "map_of (set_header k v hs) k = Some v"
  by (induction hs) auto

lemma default_header_found:
  "map_of hs k = Some v \<Longrightarrow> map_of (default_header k' v' hs) k = Some v"
  by (simp add: default_header_def map_add_def)

lemma security_headers_found: "map_of hs k = Some v \<Longrightarrow> map_of (security_headers cfg hs) k = Some v"
  by (simp add: security_headers_def Let_def default_header_found)

lemma error_rid:
  "rid \<noteq> [] \<Longrightarrow> map_of (rs_headers (handle_exn errors ex (Some rid))) ''X-Request-ID'' = Some rid"
  by (simp add: handle_exn_def handle_app_error_def handle_validation_def json_response_def Let_def dset_def
      update_conv' split: exn.splits option.splits)

section \<open>Requests\<close>

text \<open>The id a request runs under, and the world it starts its route in.\<close>

definition request_start :: "ext \<Rightarrow> incoming \<Rightarrow> world \<Rightarrow> string \<times> world" where
  "request_start x r w = (case given (in_request_id r) of
     None \<Rightarrow> (x_uuid x (w_n w), bump w) | Some s \<Rightarrow> (s, w))"

text \<open>What the client is told of the outcome of a route.\<close>

definition told :: "ext \<Rightarrow> string \<Rightarrow> exn + response \<Rightarrow> response \<Rightarrow> bool" where
  "told x rid outcome resp =
     (let expected = (case outcome of Inr r \<Rightarrow> r | Inl ex \<Rightarrow> handle_exn (x_errors x) ex (Some rid)) in
      rs_status resp = rs_status expected \<and> rs_body resp = rs_body expected)"

lemma context_answers:
  assumes "route w1 = (outcome, w2)"
  shows "\<exists>resp w'. catch_exn (request_context x cfg r rid route)
       (\<lambda>ex. ret (handle_exn (x_errors x) ex (Some rid))) w1 = (Inr resp, w') \<and>
     (if oversized cfg (in_content_length r) then rs_status resp = 413 \<and> w_db w' = w_db w1
      else told x rid outcome resp \<and> w_db w' = w_db w2) \<and>
     (rid = [] \<or> map_of (rs_headers resp) ''X-Request-ID'' = Some rid)"
proof (cases "oversized cfg (in_content_length r)")
  case True
  then show ?thesis
    by (simp add: request_context_def catch_exn_def ret_def too_large_def on_headers_def security_headers_found)
next
  case False
  then show ?thesis
    using assms error_rid
    by (cases outcome)
      (auto simp: request_context_def call_next_def count_request_def catch_exn_def seq_def ret_def raise_exn_def
        on_headers_def told_def metrics_incr_def on_worker_def Let_def security_headers_found set_header_found)
qed

text \<open>
  C40. Every request is answered, and the answer is what its route did: the status and body the
  route returned, or those of the handler of the exception it raised; the database is as the route
  left it. A request whose declared length is too large is answered 413 without its route being
  run. Every answer carries the id the request ran under.
\<close>

theorem every_request_answered:
  "\<exists>resp w'. serve A r q c w = (Inr resp, w') \<and>
     (case request_start (ap_ext A) r w of (rid, w1) \<Rightarrow>
       (if oversized (ap_cfg A) (in_content_length r) then rs_status resp = 413 \<and> w_db w' = w_db w
        else (case run_call A (q\<lparr>rq_rid := Some rid\<rparr>) c w1 of (outcome, w2) \<Rightarrow>
          told (ap_ext A) rid outcome resp \<and> w_db w' = w_db w2)) \<and>
       (rid = [] \<or> map_of (rs_headers resp) ''X-Request-ID'' = Some rid))"
proof -
  obtain rid w1 where start: "request_start (ap_ext A) r w = (rid, w1)" by fastforce
  then have id: "set_request_id (ap_ext A) (in_request_id r) w = (Inr rid, w1)" and db: "w_db w1 = w_db w"
    by (auto simp: request_start_def set_request_id_def draw_def ret_def split: option.splits)
  obtain outcome w2 where "run_call A (q\<lparr>rq_rid := Some rid\<rparr>) c w1 = (outcome, w2)" by fastforce
  note answers = context_answers [where x = "ap_ext A" and cfg = "ap_cfg A" and r = r and rid = rid
      and route = "run_call A (q\<lparr>rq_rid := Some rid\<rparr>) c", OF this] this
  have "serve A r q c w = catch_exn (request_context (ap_ext A) (ap_cfg A) r rid
      (run_call A (q\<lparr>rq_rid := Some rid\<rparr>) c)) (\<lambda>ex. ret (handle_exn (x_errors (ap_ext A)) ex (Some rid))) w1"
    by (simp add: serve_def serve_request_def seq_def id)
  with answers show ?thesis by (simp only: start prod.case db)
qed

end
