(* ===== verification/Schema_Properties.thy ===== *)
theory Schema_Properties
  imports Schema
begin

text \<open>
  What validation of a type definition guarantees its compiler: every lookup the compiler makes
  succeeds, and each attribute gets only the constraints its annotation admits. Whether pydantic builds
  a class of that description is pydantic's decision (the parameter \<open>refuses\<close>).
\<close>

section \<open>Well-typed attributes\<close>






section \<open>From the validators to the compiler\<close>

lemma opt_kw_simps [simp]:
  "opt_kw k f None = []" "opt_kw k f (Some a) = [(k, f a)]"
  by (simp_all add: opt_kw_def)


















section \<open>Property\<close>




end
