(* ===== verification/Tasks.thy ===== *)
theory Tasks
  imports Webhooks Invalidator
begin

text \<open>
  The background tasks of a worker: the loops of the dispatcher (cmdboss/outbox.py) and of the
  cache invalidator (cmdboss/invalidator.py), their start and stop, the consumer of the bus
  (cmdboss/events.py) and how it is drained, and the order in which the lifespan of cmdboss/app.py
  starts and stops them.
\<close>

section \<open>The loops\<close>

text \<open>
  \<open>while not stop.is_set()\<close>: \<open>stop k\<close> is the flag at the \<open>k\<close>-th test; an exception of a pass is
  logged; while the task waits for the flag or the interval, the other coroutines of the worker and
  the other workers run (\<open>env\<close>). \<open>None\<close> means that the loop does not end.
\<close>

partial_function (option) run_loop ::
  "(nat \<Rightarrow> bool) \<Rightarrow> (nat \<Rightarrow> world \<Rightarrow> world) \<Rightarrow> unit act \<Rightarrow> nat \<Rightarrow> world \<Rightarrow> world option" where
  "run_loop stop env pass k w =
     (if stop k then Some w
      else run_loop stop env pass (Suc k) (env k (snd (catch_exn pass (\<lambda>_. ret ()) w))))"

definition dispatcher_run ::
  "ext \<Rightarrow> settings \<Rightarrow> (nat \<Rightarrow> bool) \<Rightarrow> (nat \<Rightarrow> world \<Rightarrow> world) \<Rightarrow> world \<Rightarrow> world option" where
  "dispatcher_run x cfg stop env =
     run_loop stop env (seq (dispatch_once x cfg (bus_publish cfg)) (\<lambda>_. ret ())) 0"

definition invalidator_run ::
  "ext \<Rightarrow> (nat \<Rightarrow> bool) \<Rightarrow> (nat \<Rightarrow> world \<Rightarrow> world) \<Rightarrow> world \<Rightarrow> world option" where
  "invalidator_run x stop env = run_loop stop env (seq (poll_once x) (\<lambda>_. ret ())) 0"

text \<open>The state after so many passes, each followed by what the env did.\<close>

fun passes :: "(nat \<Rightarrow> world \<Rightarrow> world) \<Rightarrow> unit act \<Rightarrow> nat \<Rightarrow> nat \<Rightarrow> world \<Rightarrow> world" where
  "passes env pass k 0 w = w"
| "passes env pass k (Suc n) w = passes env pass (Suc k) n (env k (snd (pass w)))"

lemma snd_caught: "snd (catch_exn m (\<lambda>_. ret ()) w) = snd (m w)"
  by (simp add: catch_exn_def ret_def split: prod.splits sum.splits)

lemma run_loop_ends:
  assumes "stop (k + n)" "\<forall>j<n. \<not> stop (k + j)"
  shows "run_loop stop env pass k w = Some (passes env pass k n w)"
  using assms
proof (induction n arbitrary: k w)
  case 0
  then show ?case by (simp add: run_loop.simps)
next
  case (Suc n)
  then have "\<not> stop k" "\<forall>j<n. \<not> stop (Suc k + j)" by force+
  with Suc.IH [of "Suc k"] Suc.prems(1) show ?case
    by (subst run_loop.simps) (simp add: snd_caught)
qed

lemma run_loop_some: "run_loop stop env pass k w = Some w' \<Longrightarrow> \<exists>j\<ge>k. stop j"
proof (erule run_loop.raw_induct [rotated, where P = "\<lambda>stop env pass k w w'. \<exists>j\<ge>k. stop j"])
  fix f and stop :: "nat \<Rightarrow> bool" and env :: "nat \<Rightarrow> world \<Rightarrow> world" and pass k w w'
  assume 1: "\<And>stop env pass k w w'. f stop env pass k w = Some w' \<Longrightarrow> \<exists>j\<ge>k. stop j"
    "(if stop k then Some w
      else f stop env pass (Suc k) (env k (snd (catch_exn pass (\<lambda>_. ret ()) w)))) = Some w'"
  show "\<exists>j\<ge>k. stop j"
  proof (cases "stop k")
    case False
    with 1 obtain j where "Suc k \<le> j" "stop j" by (metis (no_types, lifting))
    then show ?thesis by (metis Suc_leD)
  qed blast
qed

section \<open>Start and stop\<close>

text \<open>
  The \<open>_task\<close> and \<open>_stop\<close> of a component, and how many of its loops are running. \<open>aclose\<close>
  waits two seconds for the loop to end and cancels it otherwise, so it is over either way.
\<close>

record task_slot =
  ts_task :: bool
  ts_stop :: bool
  ts_running :: nat

definition new_slot :: task_slot where
  "new_slot = \<lparr>ts_task = False, ts_stop = False, ts_running = 0\<rparr>"

definition start_task :: "task_slot \<Rightarrow> task_slot" where
  "start_task s = (if ts_task s then s
     else s\<lparr>ts_stop := False, ts_task := True, ts_running := ts_running s + 1\<rparr>)"

definition close_task :: "task_slot \<Rightarrow> task_slot" where
  "close_task s = (let s = s\<lparr>ts_stop := True\<rparr> in
     if ts_task s then s\<lparr>ts_task := False, ts_running := ts_running s - 1\<rparr> else s)"

inductive slot_reachable :: "task_slot \<Rightarrow> bool" where
  slot_new: "slot_reachable new_slot"
| slot_start: "slot_reachable s \<Longrightarrow> slot_reachable (start_task s)"
| slot_close: "slot_reachable s \<Longrightarrow> slot_reachable (close_task s)"

text \<open>The invalidator has the same two methods; the bus starts without a flag to clear.\<close>

definition invalidator_start :: "task_slot \<Rightarrow> task_slot" where
  "invalidator_start s = (if ts_task s then s
     else s\<lparr>ts_stop := False, ts_task := True, ts_running := ts_running s + 1\<rparr>)"

definition invalidator_close :: "task_slot \<Rightarrow> task_slot" where
  "invalidator_close s = (let s = s\<lparr>ts_stop := True\<rparr> in
     if ts_task s then s\<lparr>ts_task := False, ts_running := ts_running s - 1\<rparr> else s)"

record bus_slot =
  bl_task :: bool
  bl_closing :: bool

definition new_bus :: bus_slot where
  "new_bus = \<lparr>bl_task = False, bl_closing = False\<rparr>"

definition start_bus :: "bus_slot \<Rightarrow> bus_slot" where
  "start_bus b = (if bl_task b then b else b\<lparr>bl_task := True\<rparr>)"

definition close_bus_slot :: "bus_slot \<Rightarrow> bus_slot" where
  "close_bus_slot b = (let b = b\<lparr>bl_closing := True\<rparr> in if bl_task b then b\<lparr>bl_task := False\<rparr> else b)"

text \<open>However often they are called, in whatever order: never two loops of one component.\<close>

lemma one_loop: "slot_reachable s \<Longrightarrow> ts_running s = (if ts_task s then 1 else 0) \<and> (ts_stop s \<longrightarrow> \<not> ts_task s)"
  by (induction rule: slot_reachable.induct)
    (auto simp: new_slot_def start_task_def close_task_def Let_def)

section \<open>The consumer of the bus\<close>

text \<open>The turns of \<open>_run\<close> that fit into the two seconds of \<open>join\<close> before the task is cancelled.\<close>

fun drain :: "(event \<Rightarrow> unit act) list \<Rightarrow> nat \<Rightarrow> unit act" where
  "drain handlers 0 = ret ()"
| "drain handlers (Suc turns) = seq (consume_one handlers) (\<lambda>more.
     if more then drain handlers turns else ret ())"

text \<open>\<open>aclose\<close> gives the number of events it leaves behind, which it logs.\<close>

definition bus_close :: "(event \<Rightarrow> unit act) list \<Rightarrow> nat \<Rightarrow> nat act" where
  "bus_close handlers turns = seq (drain handlers turns) (\<lambda>_. asks (\<lambda>w. length (wk_bus (w_worker w))))"

text \<open>What holds between the worlds before and after every action that is put together of env.\<close>

definition moves :: "(world \<Rightarrow> world \<Rightarrow> bool) \<Rightarrow> 'a act \<Rightarrow> bool" where
  "moves R m = (\<forall>w. R w (snd (m w)))"

lemma movesD: "moves R m \<Longrightarrow> m w = (r, w') \<Longrightarrow> R w w'"
  by (metis moves_def snd_conv)

locale progress =
  fixes R :: "world \<Rightarrow> world \<Rightarrow> bool"
  assumes progress_refl: "R w w"
    and progress_trans: "R w w' \<Longrightarrow> R w' w'' \<Longrightarrow> R w w''"
begin

lemma moves_pure: "moves R (ret a)" "moves R (raise_exn e)" "moves R (asks f)"
  by (simp_all add: moves_def ret_def raise_exn_def asks_def progress_refl)

lemma moves_seq: "moves R m \<Longrightarrow> (\<And>a. moves R (f a)) \<Longrightarrow> moves R (seq m f)"
  by (auto simp: moves_def seq_def split: prod.splits sum.splits) (metis snd_conv progress_trans)+

lemma moves_catch: "moves R m \<Longrightarrow> (\<And>e. moves R (h e)) \<Longrightarrow> moves R (catch_exn m h)"
  by (auto simp: moves_def catch_exn_def split: prod.splits sum.splits) (metis snd_conv progress_trans)+

lemma moves_each: "(\<And>a. moves R (f a)) \<Longrightarrow> moves R (each f l)"
  by (induction l) (simp_all add: moves_pure moves_seq)

lemma moves_fold: "(\<And>b a. moves R (f b a)) \<Longrightarrow> moves R (fold_act f b l)"
  by (induction l arbitrary: b) (simp_all add: moves_pure moves_seq)

lemmas moves_intros = moves_pure moves_seq moves_catch moves_each moves_fold

end

definition bus_kept :: "world \<Rightarrow> world \<Rightarrow> bool" where
  "bus_kept w w' = (wk_bus (w_worker w') = wk_bus (w_worker w))"

definition later :: "world \<Rightarrow> world \<Rightarrow> bool" where
  "later w w' = (w_n w \<le> w_n w')"

interpretation queue: progress bus_kept
  by unfold_locales (simp_all add: bus_kept_def)

interpretation time: progress later
  by unfold_locales (simp_all add: later_def)

lemma moves_prim:
  "moves bus_kept (metrics_incr n l)" "moves bus_kept (http_send x u h b)" "moves bus_kept (sleep t)"
  "moves bus_kept (find_many x c p)" "moves later (metrics_incr n l)" "moves later (on_worker g)"
  "moves later (draw q)" "moves later (find_many x c p)" "moves later (update_one x c p f)"
  by (auto simp: moves_def bus_kept_def later_def ret_def metrics_incr_def on_worker_def http_send_def
      sleep_def find_many_def update_one_def db_call_def draw_def bump_def seq_def
      split: prod.splits option.splits)

lemma moves_attempts: "moves bus_kept (attempts x m u h b i n)"
  by (induction n arbitrary: i) (auto intro!: moves_prim queue.moves_intros)

lemma moves_subscribers: "h \<in> set (subscribers x cfg) \<Longrightarrow> moves bus_kept (h ev)"
  by (auto simp: subscribers_def log_event_def handle_event_def active_for_def deliver_def
      intro!: moves_attempts moves_prim queue.moves_intros split: if_splits option.splits)

lemma dispatch_later: "moves later (dispatch_once x cfg (bus_publish cfg))"
  by (auto simp: dispatch_once_def fetch_pending_def dispatch_doc_def mark_sent_def on_failure_def
      mark_dead_def reschedule_def bus_publish_def utcnow_def Let_def
      intro!: moves_prim time.moves_intros)

lemma consume_effect:
  "wp (consume_one (subscribers x cfg))
     (\<lambda>b w'. b = (wk_bus (w_worker w) \<noteq> []) \<and> wk_bus (w_worker w') = tl (wk_bus (w_worker w)))
     (\<lambda>_ _. False) w"
proof -
  have handlers: "wp (each (\<lambda>h. catch_exn (h ev) (\<lambda>_. ret ())) hs)
      (\<lambda>_ w'. wk_bus (w_worker w') = wk_bus (w_worker v)) (\<lambda>_ _. False) v"
    if "set hs \<subseteq> set (subscribers x cfg)" for ev hs v
    using that
  proof (induction hs arbitrary: v)
    case (Cons h hs)
    from Cons.prems have "moves bus_kept (h ev)" by (intro moves_subscribers [of h x cfg]) simp
    then have "wk_bus (w_worker v') = wk_bus (w_worker v)" if "h ev v = (r, v')" for r v'
      using movesD that unfolding bus_kept_def by fast
    then have "wp (catch_exn (h ev) (\<lambda>_. ret ()))
        (\<lambda>_ v'. wk_bus (w_worker v') = wk_bus (w_worker v)) (\<lambda>_ _. False) v"
      by (auto simp: wp_def catch_exn_def ret_def split: prod.splits sum.splits)
    then show ?case
      unfolding each.simps wp_seq by (rule wp_mono) (use Cons in \<open>auto intro!: wp_mono [OF Cons.IH]\<close>)
  qed (simp add: run_simps)
  show ?thesis
    by (cases "wk_bus (w_worker w)")
      (auto simp: consume_one_def run_simps intro!: wp_mono [OF handlers])
qed

lemma drain_effect:
  "wp (drain (subscribers x cfg) n)
     (\<lambda>_ w'. wk_bus (w_worker w') = drop n (wk_bus (w_worker w))) (\<lambda>_ _. False) w"
proof (induction n arbitrary: w)
  case (Suc n)
  show ?case
    unfolding drain.simps wp_seq
    by (rule wp_mono [OF consume_effect])
      (auto simp: run_simps drop_Suc intro!: wp_mono [OF Suc.IH])
qed (simp add: run_simps)

text \<open>Closing the bus handles the oldest events, as many as time allows; the rest is lost.\<close>

lemma close_drains:
  "wp (bus_close (subscribers x cfg) n)
     (\<lambda>lost w'. wk_bus (w_worker w') = drop n (wk_bus (w_worker w)) \<and>
        lost = length (wk_bus (w_worker w)) - n) (\<lambda>_ _. False) w"
  unfolding bus_close_def wp_seq by (rule wp_mono [OF drain_effect]) (simp_all add: run_simps)

section \<open>The order of the lifespan\<close>

datatype service_part = EventBus | Dispatcher | CacheInvalidator | Client

definition started :: "settings \<Rightarrow> service_part list" where
  "started cfg = EventBus #
     (if outbox_enabled cfg then [Dispatcher] else []) @
     (if cache_invalidation_enabled cfg then [CacheInvalidator] else [])"

definition stopped :: "settings \<Rightarrow> bool \<Rightarrow> service_part list" where
  "stopped cfg owns_db =
     (if cache_invalidation_enabled cfg then [CacheInvalidator] else []) @
     (if outbox_enabled cfg then [Dispatcher] else []) @ [EventBus] @
     (if owns_db then [Client] else [])"

text \<open>The tasks of one worker, as the lifespan starts and stops them.\<close>

record background =
  bg_bus :: bus_slot
  bg_dispatcher :: "task_slot option"
  bg_invalidator :: "task_slot option"

definition lifespan_start :: "settings \<Rightarrow> background" where
  "lifespan_start cfg = \<lparr>
     bg_bus = start_bus new_bus,
     bg_dispatcher = (if outbox_enabled cfg then Some (start_task new_slot) else None),
     bg_invalidator = (if cache_invalidation_enabled cfg then Some (invalidator_start new_slot) else None)\<rparr>"

definition lifespan_stop :: "background \<Rightarrow> background" where
  "lifespan_stop bg = \<lparr>
     bg_bus = close_bus_slot (bg_bus bg),
     bg_dispatcher = map_option close_task (bg_dispatcher bg),
     bg_invalidator = map_option invalidator_close (bg_invalidator bg)\<rparr>"

definition running :: "background \<Rightarrow> service_part set" where
  "running bg = (if bl_task (bg_bus bg) then {EventBus} else {}) \<union>
     (case bg_dispatcher bg of Some s \<Rightarrow> if ts_running s > 0 then {Dispatcher} else {} | None \<Rightarrow> {}) \<union>
     (case bg_invalidator bg of Some s \<Rightarrow> if ts_running s > 0 then {CacheInvalidator} else {} | None \<Rightarrow> {})"

lemma lifespan_runs: "running (lifespan_start cfg) = set (started cfg)"
  by (auto simp: running_def lifespan_start_def started_def start_bus_def new_bus_def start_task_def
      invalidator_start_def new_slot_def)

lemma lifespan_stops: "running (lifespan_stop (lifespan_start cfg)) = {}"
  by (auto simp: running_def lifespan_stop_def lifespan_start_def start_bus_def close_bus_slot_def new_bus_def
      start_task_def close_task_def invalidator_start_def invalidator_close_def new_slot_def Let_def)

text \<open>What was started last is stopped first, and the database is closed after all its users.\<close>

lemma stopped_in_reverse: "stopped cfg owns_db = rev (started cfg) @ (if owns_db then [Client] else [])"
  by (simp add: stopped_def started_def)

end
