(* ===== verification/Task_Properties.thy ===== *)
theory Task_Properties
  imports Event_Properties Tasks
begin

text \<open>
  What the background loop of the dispatcher achieves over its passes, and that it ends.
\<close>

section \<open>One pass makes progress\<close>

definition pending :: "db \<Rightarrow> outbox_doc list" where
  "pending d = filter (\<lambda>b. o_status b = Pending) (d_outbox d)"

text \<open>Every pending document is due whenever the clock is read from now on.\<close>

definition overdue :: "ext \<Rightarrow> world \<Rightarrow> bool" where
  "overdue x w = (\<forall>b\<in>set (pending (w_db w)). \<forall>m\<ge>w_n w. \<not> not_due (x_now x m) b)"

lemma still_pending:
  "list_all2 (sent_among ids) l l' \<Longrightarrow>
     filter (\<lambda>b. o_status b = Pending) l' = filter (\<lambda>b. o_id b \<notin> ids) (filter (\<lambda>b. o_status b = Pending) l)"
  by (induction rule: list_all2_induct) (auto simp: sent_among_def split: if_splits)

lemma same_ids: "list_all2 (sent_among ids) l l' \<Longrightarrow> List.map o_id l' = List.map o_id l"
  by (induction rule: list_all2_induct) (auto simp: sent_among_def split: if_splits)

lemma due_batch_overdue:
  assumes "overdue x w" "0 < outbox_batch_size cfg"
  shows "due_batch cfg (x_now x (w_n w)) (w_db w) =
    take (outbox_batch_size cfg) (sort_key o_next (pending (w_db w)))"
proof -
  have "set (take n (sort_key o_next (pending (w_db w)))) \<subseteq> set (pending (w_db w))" for n
    using set_take_subset by fastforce
  then show ?thesis
    using assms unfolding due_batch_def pending_def [symmetric] overdue_def cursor_limit_def
    by (auto intro!: filter_True)
qed

lemma filter_out_count:
  assumes "distinct B" "set B \<subseteq> set P"
  shows "length (filter (\<lambda>b. f b \<notin> f ` set B) P) \<le> length P - length B"
proof -
  have "length B = card (set B)" using assms(1) by (simp add: distinct_card)
  also have "\<dots> \<le> card (set (filter (\<lambda>b. f b \<in> f ` set B) P))"
    by (rule card_mono) (use assms(2) in auto)
  also have "\<dots> \<le> length (filter (\<lambda>b. f b \<in> f ` set B) P)" by (rule card_length)
  finally show ?thesis
    using sum_length_filter_compl [of "\<lambda>b. f b \<in> f ` set B" P] by linarith
qed

lemma pass_progress:
  assumes "distinct (List.map o_id (d_outbox (w_db w)))" "no_faults x" "overdue x w"
    "0 < outbox_batch_size cfg" "dispatch_once x cfg (bus_publish cfg) w = (r, w')"
  shows "length (pending (w_db w')) \<le> length (pending (w_db w)) - outbox_batch_size cfg"
    "overdue x w'" "distinct (List.map o_id (d_outbox (w_db w')))"
proof -
  let ?P = "pending (w_db w)" and ?n = "outbox_batch_size cfg"
  let ?B = "take ?n (sort_key o_next ?P)"
  have sent: "list_all2 (sent_among (o_id ` set ?B)) (d_outbox (w_db w)) (d_outbox (w_db w'))"
    using pass_effect [OF assms(1,2), of cfg] assms(5) due_batch_overdue [OF assms(3,4)]
    by (auto simp: wp_def Let_def split: sum.splits)
  then show "distinct (List.map o_id (d_outbox (w_db w')))" using assms(1) by (simp add: same_ids)
  have left: "pending (w_db w') = filter (\<lambda>b. o_id b \<notin> o_id ` set ?B) ?P"
    using still_pending [OF sent] by (simp add: pending_def)
  moreover have "w_n w \<le> w_n w'" using movesD [OF dispatch_later assms(5)] by (simp add: later_def)
  ultimately show "overdue x w'" using assms(3) by (simp add: overdue_def)
  have "distinct ?P" using assms(1) by (simp add: pending_def distinct_map)
  then have "distinct ?B" by (simp add: distinct_take)
  moreover have "set ?B \<subseteq> set ?P" using set_take_subset by fastforce
  ultimately have "length (pending (w_db w')) \<le> length ?P - length ?B"
    unfolding left by (rule filter_out_count)
  then show "length (pending (w_db w')) \<le> length ?P - ?n" by (simp add: min_def split: if_splits)
qed

text \<open>Nobody else touches the database between the passes, and time goes on.\<close>

definition idle :: "(nat \<Rightarrow> world \<Rightarrow> world) \<Rightarrow> bool" where
  "idle env = (\<forall>k w. w_db (env k w) = w_db w \<and> later w (env k w))"

lemma passes_drain:
  assumes "no_faults x" "0 < outbox_batch_size cfg" "idle env"
    "distinct (List.map o_id (d_outbox (w_db w)))" "overdue x w"
    "length (pending (w_db w)) \<le> n * outbox_batch_size cfg"
  shows "pending (w_db (passes env (seq (dispatch_once x cfg (bus_publish cfg)) (\<lambda>_. ret ())) k n w)) = []"
  using assms(4-6)
proof (induction n arbitrary: k w)
  case (Suc n)
  obtain r w1 where run: "dispatch_once x cfg (bus_publish cfg) w = (r, w1)" by fastforce
  then have snd: "snd (seq (dispatch_once x cfg (bus_publish cfg)) (\<lambda>_. ret ()) w) = w1"
    by (simp add: seq_def ret_def split: sum.splits)
  note one = pass_progress [OF Suc.prems(1) assms(1) Suc.prems(2) assms(2) run]
  have "length (pending (w_db w1)) \<le> n * outbox_batch_size cfg"
    using one(1) Suc.prems(3) by simp
  moreover have "overdue x (env k w1)"
    using one(2) assms(3) unfolding overdue_def idle_def later_def by (metis order.trans)
  ultimately show ?case
    using one(3) assms(3) unfolding passes.simps snd by (intro Suc.IH) (simp_all add: idle_def)
qed simp

section \<open>Property\<close>

text \<open>
  C25. The dispatcher's loop empties the outbox and ends: told to stop only after enough passes for
  the pending documents at so many a batch, with no faults, nothing put off and nobody else
  writing, it returns, and by then every document is sent or dead.
\<close>

theorem dispatcher_drains:
  assumes "oid_codec x" "reachable x cfg (w_db w)" "no_faults x" "overdue x w" "idle env"
    and "0 < outbox_batch_size cfg" "stop n" "\<forall>k<n. \<not> stop k"
    and "length (pending (w_db w)) \<le> n * outbox_batch_size cfg"
  shows "\<exists>w'. dispatcher_run x cfg stop env w = Some w' \<and>
     list_all (\<lambda>b. o_status b \<in> {Sent, Dead}) (d_outbox (w_db w'))"
proof -
  let ?pass = "seq (dispatch_once x cfg (bus_publish cfg)) (\<lambda>_. ret ())"
  have "dispatcher_run x cfg stop env w = Some (passes env ?pass 0 n w)"
    unfolding dispatcher_run_def using assms(7,8) by (intro run_loop_ends) simp_all
  moreover have "pending (w_db (passes env ?pass 0 n w)) = []"
    using assms reached_outbox(1) [OF assms(1,2)] by (intro passes_drain)
  then have "list_all (\<lambda>b. o_status b \<in> {Sent, Dead}) (d_outbox (w_db (passes env ?pass 0 n w)))"
    by (auto simp: pending_def filter_empty_conv list_all_iff) (metis ostatus.exhaust)
  ultimately show ?thesis by blast
qed

theorem dispatcher_drains_witness:
  "\<exists>w'. dispatcher_run ext0 open_settings (\<lambda>k. 1 \<le> k) (\<lambda>_ w. w) (world_at db4 600) = Some w' \<and>
     list_all (\<lambda>b. o_status b \<in> {Sent, Dead}) (d_outbox (w_db w'))"
proof -
  have size: "outbox_batch_size open_settings = 100"
    by (simp add: open_settings_def default_settings_def)
  have "length (d_outbox db4) = 4"
    by (simp add: db4_def db3_def db2_def db1_def fresh_outbox_def)
  then have "length (pending db4) \<le> 4" unfolding pending_def by (metis length_filter_le)
  moreover have "overdue ext0 (world_at db4 600)"
    by (simp add: overdue_def pending_def db4_def db3_def db2_def db1_def fresh_outbox_def not_due_def)
  moreover have "no_faults ext0" by (simp add: no_faults_def)
  ultimately show ?thesis
    using db4_reachable
    by (intro dispatcher_drains [OF codec0, where n = 1]) (simp_all add: size idle_def later_def)
qed

end
