(* ===== verification/Paging_Properties.thy ===== *)
theory Paging_Properties
  imports Sample
begin

text \<open>
  Cursor pagination of the CI repository: following the cursors from page to page reads one
  listing from front to back.
\<close>

section \<open>Insertion sort by a relation\<close>

definition ordered_on :: "('a \<Rightarrow> 'a \<Rightarrow> bool) \<Rightarrow> 'a set \<Rightarrow> bool" where
  "ordered_on le A = ((\<forall>a\<in>A. \<forall>b\<in>A. le a b \<or> le b a) \<and>
     (\<forall>a\<in>A. \<forall>b\<in>A. \<forall>c\<in>A. le a b \<and> le b c \<longrightarrow> le a c))"

lemma ordered_total: "ordered_on le A \<Longrightarrow> a \<in> A \<Longrightarrow> b \<in> A \<Longrightarrow> \<not> le a b \<Longrightarrow> le b a"
  unfolding ordered_on_def by blast

lemma ordered_trans: "ordered_on le A \<Longrightarrow> a \<in> A \<Longrightarrow> b \<in> A \<Longrightarrow> c \<in> A \<Longrightarrow> le a b \<Longrightarrow> le b c \<Longrightarrow> le a c"
  unfolding ordered_on_def by blast

lemma ordered_subset: "ordered_on le A \<Longrightarrow> B \<subseteq> A \<Longrightarrow> ordered_on le B"
  unfolding ordered_on_def by blast

lemma sorted_insert_by:
  assumes "ordered_on le (insert a (set xs))" "sorted_wrt le xs"
  shows "sorted_wrt le (insert_by le a xs)"
  using assms
proof (induction xs)
  case (Cons b bs)
  have "ordered_on le (insert a (set bs))" by (rule ordered_subset [OF Cons.prems(1)]) auto
  with Cons.IH Cons.prems(2) have IH: "sorted_wrt le (insert_by le a bs)" by simp
  show ?case
  proof (cases "le a b")
    case True
    then have "le a c" if "c \<in> set bs" for c
      using ordered_trans [OF Cons.prems(1), of a b c] that Cons.prems(2) by simp
    with True Cons.prems(2) show ?thesis by simp
  next
    case False
    then have "le b a" using ordered_total [OF Cons.prems(1), of a b] by simp
    with False Cons.prems(2) IH show ?thesis by simp
  qed
qed simp

lemma sorted_sort_by: "ordered_on le (set xs) \<Longrightarrow> sorted_wrt le (sort_by le xs)"
proof (induction xs)
  case (Cons a xs)
  then have "sorted_wrt le (sort_by le xs)"
    by (intro Cons.IH ordered_subset [OF Cons.prems]) auto
  with Cons.prems have "sorted_wrt le (insert_by le a (sort_by le xs))"
    by (intro sorted_insert_by) simp_all
  then show ?case by (simp add: sort_by_def)
qed (simp add: sort_by_def)

lemma insert_by_front: "\<forall>c\<in>set cs. le a c \<Longrightarrow> insert_by le a cs = a # cs"
  by (cases cs) simp_all

lemma insert_by_filter:
  assumes "ordered_on le (insert a (set xs))" "sorted_wrt le xs"
  shows "filter P (insert_by le a xs) = (if P a then insert_by le a (filter P xs) else filter P xs)"
  using assms
proof (induction xs)
  case (Cons b bs)
  have "ordered_on le (insert a (set bs))" by (rule ordered_subset [OF Cons.prems(1)]) auto
  with Cons.IH Cons.prems(2)
  have IH: "filter P (insert_by le a bs) = (if P a then insert_by le a (filter P bs) else filter P bs)" by simp
  have "insert_by le a (filter P bs) = a # filter P bs" if "le a b"
    using ordered_trans [OF Cons.prems(1), of a b] that Cons.prems(2) by (intro insert_by_front) simp
  with IH show ?case by simp
qed simp

lemma sort_by_filter:
  "ordered_on le (set xs) \<Longrightarrow> sort_by le (filter P xs) = filter P (sort_by le xs)"
proof (induction xs)
  case (Cons a xs)
  have sub: "ordered_on le (set xs)" by (rule ordered_subset [OF Cons.prems]) auto
  have step: "sort_by le (b # ys) = insert_by le b (sort_by le ys)" for b ys
    by (simp add: sort_by_def)
  have "filter P (sort_by le (a # xs)) =
      (if P a then insert_by le a (filter P (sort_by le xs)) else filter P (sort_by le xs))"
    unfolding step using Cons.prems by (intro insert_by_filter sorted_sort_by [OF sub]) simp
  with Cons.IH [OF sub] show ?case by (simp add: step)
qed (simp add: sort_by_def)

lemma distinct_sort_by: "distinct (List.map f xs) \<Longrightarrow> distinct (List.map f (sort_by le xs))"
proof (induction xs)
  case (Cons a xs)
  have "distinct (List.map f (insert_by le a ys)) = distinct (f a # List.map f ys)" for ys
    by (induction ys) auto
  with Cons show ?case by (simp add: sort_by_def flip: set_sort_by [of le xs])
qed (simp add: sort_by_def)

text \<open>What comes after the \<open>k\<close>-th of a strictly sorted list.\<close>

lemma after_position:
  assumes "sorted_wrt lt xs" "k < length xs" "\<not> lt (xs ! k) (xs ! k)"
    and "\<And>a b. a \<in> set xs \<Longrightarrow> b \<in> set xs \<Longrightarrow> lt a b \<Longrightarrow> \<not> lt b a"
  shows "filter (lt (xs ! k)) xs = drop (Suc k) xs"
proof -
  have xs: "xs = take k xs @ xs ! k # drop (Suc k) xs" using assms(2) by (simp add: id_take_nth_drop)
  have "sorted_wrt lt (take k xs @ xs ! k # drop (Suc k) xs)" using assms(1) xs by simp
  then have before: "\<forall>a\<in>set (take k xs). lt a (xs ! k)" and after: "\<forall>b\<in>set (drop (Suc k) xs). lt (xs ! k) b"
    by (auto simp: sorted_wrt_append)
  have "\<forall>a\<in>set (take k xs). \<not> lt (xs ! k) a"
    using before assms(2,4) by (meson in_set_takeD nth_mem)
  then have "filter (lt (xs ! k)) (take k xs) = []" "filter (lt (xs ! k)) (drop (Suc k) xs) = drop (Suc k) xs"
    using after by auto
  then show ?thesis using assms(3) by (subst xs) simp
qed

section \<open>The listing and its cursors\<close>

definition sort_value :: "string \<Rightarrow> ci_doc \<Rightarrow> val" where
  "sort_value f e = get_path (raw_doc e) f"

definition listing :: "ext \<Rightarrow> dict \<Rightarrow> string \<times> bool \<Rightarrow> ci_doc list \<Rightarrow> ci_doc list" where
  "listing x fq sd docs = sort_by (sorts_before x (fst sd) (snd sd)) (filter (matches x fq) docs)"

text \<open>
  MongoDB compares these values by one total order, in a sort, in \<open>$lt\<close> or \<open>$gt\<close>, and for
  equality; it does so for values of one type, and for no others: \<open>$gt\<close> never holds across types.
\<close>

definition comparable :: "ext \<Rightarrow> bool \<Rightarrow> val set \<Rightarrow> bool" where
  "comparable x desc V = (ordered_on (x_before x desc) V \<and> (\<forall>u\<in>V. \<forall>v\<in>V.
     x_beyond x desc u v = (\<not> x_before x desc u v) \<and>
     x_match x u v = (x_before x desc u v \<and> x_before x desc v u)))"

definition strictly_before :: "ext \<Rightarrow> string \<Rightarrow> bool \<Rightarrow> ci_doc \<Rightarrow> ci_doc \<Rightarrow> bool" where
  "strictly_before x f desc a b = (sorts_before x f desc a b \<and> c_id a \<noteq> c_id b)"

lemma ordered_docs:
  assumes "comparable x desc (sort_value f ` A)"
  shows "ordered_on (sorts_before x f desc) A"
proof -
  have le: "ordered_on (x_before x desc) (sort_value f ` A)" using assms by (simp add: comparable_def)
  have before: "sorts_before x f desc a b = (x_before x desc (sort_value f a) (sort_value f b) \<and>
      (x_before x desc (sort_value f b) (sort_value f a) \<longrightarrow> (if desc then c_id b \<le> c_id a else c_id a \<le> c_id b)))" for a b
    by (simp add: sorts_before_def sort_value_def Let_def)
  show ?thesis
    unfolding ordered_on_def
  proof (intro conjI ballI impI)
    fix a b assume "a \<in> A" "b \<in> A"
    then show "sorts_before x f desc a b \<or> sorts_before x f desc b a"
      using ordered_total [OF le, of "sort_value f a" "sort_value f b"]
        ordered_total [OF le, of "sort_value f b" "sort_value f a"]
      unfolding before by auto
  next
    fix a b c assume A: "a \<in> A" "b \<in> A" "c \<in> A" and ab: "sorts_before x f desc a b \<and> sorts_before x f desc b c"
    note tr = ordered_trans [OF le imageI imageI imageI]
    have "x_before x desc (sort_value f a) (sort_value f c)"
      using tr [OF A] ab unfolding before by blast
    moreover have "x_before x desc (sort_value f c) (sort_value f b)" "x_before x desc (sort_value f b) (sort_value f a)"
      if "x_before x desc (sort_value f c) (sort_value f a)"
      using tr [OF A(3,1,2) that] tr [OF A(2,3,1) _ that] ab unfolding before by blast+
    ultimately show "sorts_before x f desc a c"
      using ab unfolding before by (auto split: if_splits)
  qed
qed

lemma keyset_after:
  assumes "comparable x desc (sort_value f ` A)" "a \<in> A" "e \<in> A" "c_id a = c_id e \<Longrightarrow> a = e"
  shows "keyset x f desc (sort_value f a) (c_id a) e = strictly_before x f desc a e"
proof -
  have le: "ordered_on (x_before x desc) (sort_value f ` A)" using assms by (simp add: comparable_def)
  have total: "x_before x desc (sort_value f a) (sort_value f e) \<or> x_before x desc (sort_value f e) (sort_value f a)"
    using ordered_total [OF le, of "sort_value f a" "sort_value f e"] assms(2,3) by auto
  have "x_beyond x desc (sort_value f e) (sort_value f a) = (\<not> x_before x desc (sort_value f e) (sort_value f a))"
    "x_match x (sort_value f e) (sort_value f a) =
      (x_before x desc (sort_value f e) (sort_value f a) \<and> x_before x desc (sort_value f a) (sort_value f e))"
    using assms(1-3) by (simp_all add: comparable_def)
  moreover have "a \<noteq> e \<Longrightarrow> c_id a < c_id e \<or> c_id e < c_id a" using assms(4) by (meson linorder_neqE_nat)
  ultimately show ?thesis
    using total by (cases "a = e") (auto simp: keyset_def strictly_before_def sorts_before_def sort_value_def Let_def)
qed

lemma listing_after:
  assumes "comparable x (snd sd) (sort_value (fst sd) ` set (listing x fq sd docs))"
    and "distinct (List.map c_id docs)" "k < length (listing x fq sd docs)"
  shows "sort_by (sorts_before x (fst sd) (snd sd))
      (filter (\<lambda>e. matches x fq e \<and>
         keyset x (fst sd) (snd sd) (sort_value (fst sd) (listing x fq sd docs ! k)) (c_id (listing x fq sd docs ! k)) e) docs) =
    drop (Suc k) (listing x fq sd docs)"
proof -
  let ?le = "sorts_before x (fst sd) (snd sd)" and ?lt = "strictly_before x (fst sd) (snd sd)"
  let ?M = "filter (matches x fq) docs"
  define L where "L = listing x fq sd docs"
  have set: "set L = set ?M" by (simp add: L_def listing_def)
  have ids: "distinct (List.map c_id L)"
    using assms(2) by (simp add: L_def listing_def distinct_sort_by distinct_map_filter)
  then have same: "a = b" if "a \<in> set L" "b \<in> set L" "c_id a = c_id b" for a b
    using that by (auto simp: distinct_map dest: inj_onD)
  have le: "ordered_on ?le (set L)" using ordered_docs assms(1) by (simp add: L_def)
  have "sorted_wrt ?le L" unfolding L_def listing_def using le set by (intro sorted_sort_by) simp
  moreover have "sorted_wrt (\<lambda>a b. c_id a \<noteq> c_id b) L"
    using ids by (simp add: distinct_sorted_wrt sorted_wrt_map)
  ultimately have "sorted_wrt ?lt L"
    unfolding strictly_before_def by (simp add: sorted_wrt_iff_nth_less)
  moreover have "\<not> ?lt b a" if "a \<in> set L" "b \<in> set L" "?lt a b" for a b
    using that same [OF that(1,2)] unfolding strictly_before_def sorts_before_def Let_def by (auto split: if_splits)
  ultimately have "filter (?lt (L ! k)) L = drop (Suc k) L"
    using assms(3) [folded L_def]
    by (intro after_position) (simp_all add: strictly_before_def [of _ _ _ "L ! k" "L ! k"])
  moreover have "filter (?lt (L ! k)) L = filter (keyset x (fst sd) (snd sd) (sort_value (fst sd) (L ! k)) (c_id (L ! k))) L"
    using keyset_after [OF assms(1) [folded L_def]] same assms(3) by (intro filter_cong) (auto simp: L_def)
  moreover have "\<dots> = sort_by ?le (filter (keyset x (fst sd) (snd sd) (sort_value (fst sd) (L ! k)) (c_id (L ! k))) ?M)"
    using le set sort_by_filter [of ?le ?M] by (simp add: L_def listing_def)
  ultimately show ?thesis by (simp add: L_def conj_commute)
qed

section \<open>One page\<close>

definition cursor_at :: "ext \<Rightarrow> ci_doc list \<Rightarrow> string \<Rightarrow> string \<Rightarrow> nat \<Rightarrow> bool" where
  "cursor_at x L f c k = (k < length L \<and>
     (\<forall>w. decode_cursor x c w = (Inr (sort_value f (L ! k), c_id (L ! k)), w)))"

text \<open>The request asks for the listing from its \<open>o\<close>-th item on.\<close>

definition starts_at :: "ext \<Rightarrow> ci_doc list \<Rightarrow> string \<Rightarrow> list_args \<Rightarrow> nat \<Rightarrow> bool" where
  "starts_at x L f g o' = (case la_cursor g of
     None \<Rightarrow> o' = nat (max 0 (la_offset g))
   | Some c \<Rightarrow> (\<exists>k. o' = Suc k \<and> cursor_at x L f c k))"

text \<open>The schema the worker sees is the stored one.\<close>

definition sees_type :: "string \<Rightarrow> type_doc \<Rightarrow> world \<Rightarrow> bool" where
  "sees_type ty t w = (stored_type (lower ty) (w_db w) = Some t \<and>
     (\<forall>r doc. wk_type_cache (w_worker w) (lower ty) = Some (r, doc) \<longrightarrow> doc = Some t))"

text \<open>A value that a cursor can carry.\<close>

definition carried :: "ext \<Rightarrow> val \<Rightarrow> bool" where
  "carried x v = (iso_exact x v \<and> (\<forall>i w. \<exists>s. encode_cursor x v i w = (Inr s, w)))"

definition page_size :: "repo \<Rightarrow> list_args \<Rightarrow> nat" where
  "page_size R g = nat (clamp_limit (rp_cfg R) (la_limit g))"

lemma wp_type_doc:
  assumes "sees_type ty t w" "\<And>n. \<not> x_fault (rp_ext R) n"
  shows "wp (type_doc_for R ty) (\<lambda>t' w'. t' = t \<and> w_db w' = w_db w \<and> sees_type ty t w') (\<lambda>_ _. False) w"
  using assms by (auto simp: type_doc_for_def run_simps Let_def sees_type_def split: option.splits)

lemma wp_value: "m w = (Inr a, w1) \<Longrightarrow> wp m Q E w = Q a w1"
  by (simp add: wp_def)

lemma sees_type_cong: "sees_type ty t w \<Longrightarrow> w_db w' = w_db w \<Longrightarrow> w_worker w' = w_worker w \<Longrightarrow> sees_type ty t w'"
  by (simp add: sees_type_def)

lemma sees_type_count: "sees_type ty t (snd (count_op a b w)) = sees_type ty t w"
  by (simp add: sees_type_def count_op_def metrics_incr_def on_worker_def)

lemma take_last: "n \<noteq> 0 \<Longrightarrow> o' + n \<le> length L \<Longrightarrow> last (take n (drop o' L)) = L ! (o' + n - 1)"
  by (simp add: last_conv_nth)

text \<open>The query of a request that starts there, and the documents it gives.\<close>

definition page_query :: "ext \<Rightarrow> dict \<Rightarrow> string \<times> bool \<Rightarrow> ci_doc list \<Rightarrow> list_args \<Rightarrow> nat \<Rightarrow> ci_doc \<Rightarrow> bool" where
  "page_query x fq sd L g o' e = (matches x fq e \<and> (la_cursor g \<noteq> None \<longrightarrow>
     keyset x (fst sd) (snd sd) (sort_value (fst sd) (L ! (o' - 1))) (c_id (L ! (o' - 1))) e))"

lemma query_found:
  assumes "starts_at x L (fst sd) g o'"
  shows "(case la_cursor g of None \<Rightarrow> ret (\<lambda>e. matches x fq e)
     | Some c \<Rightarrow> seq (decode_cursor x c) (\<lambda>vi.
         ret (\<lambda>e. matches x fq e \<and> keyset x (fst sd) (snd sd) (fst vi) (snd vi) e))) w =
    (Inr (page_query x fq sd L g o'), w)"
  using assms
  by (auto simp: page_query_def starts_at_def cursor_at_def seq_def ret_def fun_eq_iff split: option.splits)

lemma query_docs:
  assumes "starts_at x L (fst sd) g o'" "L = listing x fq sd docs" "distinct (List.map c_id docs)"
    and "comparable x (snd sd) (sort_value (fst sd) ` set L)"
  shows "(if la_cursor g = None
      then drop (nat (max 0 (la_offset g))) (sort_by (sorts_before x (fst sd) (snd sd)) (filter (page_query x fq sd L g o') docs))
      else sort_by (sorts_before x (fst sd) (snd sd)) (filter (page_query x fq sd L g o') docs)) = drop o' L"
proof (cases "la_cursor g")
  case None
  then have "page_query x fq sd L g o' = matches x fq" by (simp add: page_query_def fun_eq_iff)
  with None show ?thesis using assms(1,2) by (simp add: starts_at_def listing_def)
next
  case (Some c)
  then obtain k where "o' = Suc k" "k < length L" using assms(1) by (auto simp: starts_at_def cursor_at_def)
  moreover from this Some have "page_query x fq sd L g o' = (\<lambda>e. matches x fq e \<and>
      keyset x (fst sd) (snd sd) (sort_value (fst sd) (L ! k)) (c_id (L ! k)) e)"
    by (simp add: page_query_def fun_eq_iff)
  ultimately show ?thesis
    using listing_after [of x sd fq docs k] assms(2-4) Some by simp
qed

lemma wp_query:
  assumes "starts_at x L (fst sd) g o'"
  shows "wp (case la_cursor g of None \<Rightarrow> ret (\<lambda>e. matches x fq e)
     | Some c \<Rightarrow> seq (decode_cursor x c) (\<lambda>vi.
         ret (\<lambda>e. matches x fq e \<and> keyset x (fst sd) (snd sd) (fst vi) (snd vi) e))) Q E w =
    Q (page_query x fq sd L g o') w"
  by (rule wp_value) (rule query_found [OF assms])

text \<open>The cursor of an item of the listing leads back to it.\<close>

lemma cursor_of_item:
  assumes "oid_codec x" "json_codec x" "carried x (sort_value f (L ! k))" "k < length L"
  shows "\<exists>s. encode_cursor x (get_path (raw_doc (L ! k)) f) (c_id (L ! k)) w = (Inr s, w) \<and> cursor_at x L f s k"
proof -
  let ?vi = "(sort_value f (L ! k), c_id (L ! k))"
  obtain s where s: "encode_cursor x (fst ?vi) (snd ?vi) w = (Inr s, w)" and iso: "iso_exact x (fst ?vi)"
    using assms(3) unfolding carried_def by fastforce
  have "decode_cursor x s v = (Inr ?vi, v)" for v
    using wp_decode_encode [OF assms(1,2) iso s, of "\<lambda>a w'. a = ?vi \<and> w' = v" "\<lambda>_ _. False" v]
    by (auto simp: wp_def split: prod.splits sum.splits)
  with s assms(4) show ?thesis unfolding cursor_at_def by (auto simp: sort_value_def)
qed

definition leads_on :: "ext \<Rightarrow> ci_doc list \<Rightarrow> string \<Rightarrow> nat \<Rightarrow> nat \<Rightarrow> string option \<Rightarrow> bool" where
  "leads_on x L f o' n r = (case r of None \<Rightarrow> length L < o' + n
     | Some c \<Rightarrow> o' + n \<le> length L \<and> cursor_at x L f c (o' + n - 1))"

lemma next_page:
  assumes "oid_codec x" "json_codec x" "\<forall>v\<in>sort_value f ` set L. carried x v" "n \<noteq> 0"
  shows "wp (if int (length (take n (drop o' L))) = int n \<and> take n (drop o' L) \<noteq> []
       then seq (encode_cursor x (get_path (raw_doc (last (take n (drop o' L)))) f) (c_id (last (take n (drop o' L)))))
              (\<lambda>c. ret (Some c))
       else ret None)
     (\<lambda>r w'. w' = w \<and> leads_on x L f o' n r) (\<lambda>_ _. False) w"
proof (cases "o' + n \<le> length L")
  case True
  then have last: "last (take n (drop o' L)) = L ! (o' + n - 1)" "o' + n - 1 < length L"
    using take_last [OF assms(4)] assms(4) by auto
  then have "carried x (sort_value f (L ! (o' + n - 1)))" using assms(3) by simp
  then obtain s where s: "encode_cursor x (get_path (raw_doc (L ! (o' + n - 1))) f) (c_id (L ! (o' + n - 1))) w = (Inr s, w)"
    "cursor_at x L f s (o' + n - 1)"
    using cursor_of_item [OF assms(1,2) _ last(2)] by blast
  have raw: "int (length (take n (drop o' L))) = int n \<and> take n (drop o' L) \<noteq> []" using True assms(4) by auto
  show ?thesis
    unfolding if_P [OF raw] last(1) wp_seq
    by (subst wp_value, rule s(1)) (use True s(2) in \<open>simp add: wp_ret leads_on_def\<close>)
next
  case False
  then have "\<not> (int (length (take n (drop o' L))) = int n \<and> take n (drop o' L) \<noteq> [])" using assms(4) by auto
  then show ?thesis using False by (simp only: if_False wp_ret) (simp add: leads_on_def)
qed

lemma page_effect:
  assumes "rp_ext R = x" "\<And>n. \<not> x_fault x n" "oid_codec x" "json_codec x"
    and "build_filter x (t_fields t) (la_filters g) [] = Inr fq" "parse_sort (la_sort g) (t_fields t) = Inr sd"
    and "sees_type ty t w" "L = listing x fq sd (cis_of (w_db w) ty)" "ids_unique ty (w_db w)"
    and "comparable x (snd sd) (sort_value (fst sd) ` set L)" "\<forall>v\<in>sort_value (fst sd) ` set L. carried x v"
    and "starts_at x L (fst sd) g o'"
  shows "wp (list_items R ty g)
     (\<lambda>p w'. w_db w' = w_db w \<and> sees_type ty t w' \<and>
        pp_items p = List.map (serialize x) (take (page_size R g) (drop o' L)) \<and>
        leads_on x L (fst sd) o' (page_size R g) (pg_next_cursor (pp_paging p)))
     (\<lambda>_ _. False) w"
proof -
  have limit: "int (page_size R g) = clamp_limit (rp_cfg R) (la_limit g)" "page_size R g \<noteq> 0"
    by (simp_all add: page_size_def clamp_limit_def Let_def)
  note docs = query_docs [OF assms(12,8) assms(9) [unfolded ids_unique_def] assms(10)]
  show ?thesis
    unfolding list_items_def Let_def assms(1) wp_seq [of "type_doc_for R ty"]
  proof (rule wp_mono [OF wp_type_doc [OF assms(7)]], goal_cases)
    case (2 t' w')
    then have t': "t' = t" and w': "w_db w' = w_db w" "sees_type ty t w'" by simp_all
    have found: "wp (find_many x (ci_coll ty) q) Q E w' = Q (filter q (cis_of (w_db w) ty)) (bump w')" for q Q E
      by (simp add: run_simps assms(2) ci_put w'(1))
    show ?case
      unfolding t' assms(5,6) sum.case wp_seq wp_query [OF assms(12)] found docs
        limit(1) [symmetric] nat_int
      by (subst wp_seq [symmetric], subst wp_seq, rule wp_mono [OF next_page [OF assms(3,4,11) limit(2)]])
        (use w' in \<open>auto simp: run_simps assms(2) sees_type_count sees_type_cong\<close>)
  qed (use assms in auto)
qed

section \<open>Following the cursors\<close>

text \<open>A client that asks for a page and then for so many more, each by the cursor of the one before.\<close>

fun follow_cursors :: "repo \<Rightarrow> string \<Rightarrow> list_args \<Rightarrow> nat \<Rightarrow> dict list act" where
  "follow_cursors R ty g 0 = seq (list_items R ty g) (\<lambda>p. ret (pp_items p))"
| "follow_cursors R ty g (Suc m) = seq (list_items R ty g) (\<lambda>p.
     case pg_next_cursor (pp_paging p) of
       None \<Rightarrow> ret (pp_items p)
     | Some c \<Rightarrow> seq (follow_cursors R ty (g\<lparr>la_cursor := Some c\<rparr>) m) (\<lambda>rest. ret (pp_items p @ rest)))"

text \<open>
  The situation of a client that pages: no faults, a stored type the worker sees as it is, a filter
  and a sort field it accepts, and among the items that match only comparable sort values, which a
  cursor can carry.
\<close>

definition pageable :: "repo \<Rightarrow> string \<Rightarrow> list_args \<Rightarrow> type_doc \<Rightarrow> dict \<Rightarrow> string \<times> bool \<Rightarrow> world \<Rightarrow> bool" where
  "pageable R ty g t fq sd w = (let x = rp_ext R; L = listing x fq sd (cis_of (w_db w) ty) in
     (\<forall>n. \<not> x_fault x n) \<and> oid_codec x \<and> json_codec x \<and> sees_type ty t w \<and> ids_unique ty (w_db w) \<and>
     build_filter x (t_fields t) (la_filters g) [] = Inr fq \<and> parse_sort (la_sort g) (t_fields t) = Inr sd \<and>
     comparable x (snd sd) (sort_value (fst sd) ` set L) \<and> (\<forall>v\<in>sort_value (fst sd) ` set L. carried x v))"

lemma pageable_page:
  assumes "pageable R ty g t fq sd w" "L = listing (rp_ext R) fq sd (cis_of (w_db w) ty)"
    "starts_at (rp_ext R) L (fst sd) g o'"
  shows "wp (list_items R ty g)
     (\<lambda>p w'. w_db w' = w_db w \<and> pageable R ty g t fq sd w' \<and>
        pp_items p = List.map (serialize (rp_ext R)) (take (page_size R g) (drop o' L)) \<and>
        leads_on (rp_ext R) L (fst sd) o' (page_size R g) (pg_next_cursor (pp_paging p)))
     (\<lambda>_ _. False) w"
  using assms
  by (intro wp_mono [OF page_effect [OF refl, where t = t and fq = fq and sd = sd and L = L and o' = o']])
    (auto simp: pageable_def Let_def)

lemma follow_effect:
  assumes "pageable R ty g t fq sd w" "L = listing (rp_ext R) fq sd (cis_of (w_db w) ty)"
    "starts_at (rp_ext R) L (fst sd) g o'"
  shows "wp (follow_cursors R ty g m)
     (\<lambda>items _. items = List.map (serialize (rp_ext R)) (take (Suc m * page_size R g) (drop o' L))) (\<lambda>_ _. False) w"
  using assms
proof (induction m arbitrary: g w o')
  case 0
  show ?case
    unfolding follow_cursors.simps wp_seq by (rule wp_mono [OF pageable_page [OF 0]]) (simp_all add: run_simps)
next
  case (Suc m)
  have n: "0 < page_size R g" by (simp add: page_size_def clamp_limit_def Let_def)
  show ?case
    unfolding follow_cursors.simps wp_seq
  proof (rule wp_mono [OF pageable_page [OF Suc.prems]], goal_cases)
    case (1 p w')
    show ?case
    proof (cases "pg_next_cursor (pp_paging p)")
      case None
      with 1 have "length L < o' + page_size R g" by (simp add: leads_on_def)
      then have "length (drop o' L) \<le> page_size R g" by simp
      with 1 None show ?thesis by (simp add: run_simps take_all del: length_drop)
    next
      case (Some c)
      let ?g = "g\<lparr>la_cursor := Some c\<rparr>"
      have more: "pageable R ty ?g t fq sd w'" "L = listing (rp_ext R) fq sd (cis_of (w_db w') ty)"
        "starts_at (rp_ext R) L (fst sd) ?g (o' + page_size R g)"
        using 1 Some Suc.prems(2) n by (auto simp: pageable_def starts_at_def leads_on_def intro!: exI [of _ "o' + page_size R g - 1"])
      have "take (page_size R g) (drop o' L) @ take (Suc m * page_size R g) (drop (o' + page_size R g) L) =
          take (Suc (Suc m) * page_size R g) (drop o' L)"
        by (simp add: take_add add.commute)
      then have "wp (follow_cursors R ty ?g m)
          (\<lambda>rest _. pp_items p @ rest = List.map (serialize (rp_ext R)) (take (Suc (Suc m) * page_size R g) (drop o' L)))
          (\<lambda>_ _. False) w'"
        using 1 by (intro wp_mono [OF Suc.IH [OF more]]) (simp_all add: page_size_def flip: map_append)
      with Some show ?thesis by (simp add: wp_seq wp_ret)
    qed
  qed simp
qed

section \<open>Property\<close>

text \<open>
  C17. Following the cursors is reading one listing: the pages a client gets by sending back each
  page's cursor are, one after the other, consecutive slices of the sorted list of the matching
  items, from the offset of the first request on, so that no item is skipped or repeated.
\<close>

theorem cursors_read_listing:
  assumes "pageable R ty g t fq sd w" "la_cursor g = None"
  shows "wp (follow_cursors R ty g m)
     (\<lambda>items _. items = List.map (serialize (rp_ext R))
        (take (Suc m * page_size R g)
          (drop (nat (max 0 (la_offset g))) (listing (rp_ext R) fq sd (cis_of (w_db w) ty))))) (\<lambda>_ _. False) w"
  using assms by (intro follow_effect) (simp_all add: starts_at_def)

text \<open>
  A codec for the cursors of items that sort by one host name, and the two servers of the sample
  read by pages of one.
\<close>

definition dump_h :: "val \<Rightarrow> string option" where
  "dump_h v = (case v of
     VDict [(k, VStr s), (k', VStr i), (k'', VStr tag)] \<Rightarrow>
       (if (k, s, k', k'', tag) = (''v'', ''h'', ''i'', ''t'', ''raw'') then Some i else None)
   | _ \<Rightarrow> None)"

definition paging_ext :: ext where
  "paging_ext = ext0\<lparr>x_dumps := dump_h,
     x_loads := (\<lambda>i. Some (VDict [(''v'', VStr ''h''), (''i'', VStr i), (''t'', VStr ''raw'')]))\<rparr>"

definition paging_repo :: repo where
  "paging_repo = repo0\<lparr>rp_ext := paging_ext\<rparr>"

definition by_host :: list_args where
  "by_host = \<lparr>la_limit = Some 1, la_offset = 0, la_sort = Some ''hostname'', la_cursor = None,
     la_filters = [], la_include_total = False\<rparr>"

lemma paging_json: "json_codec paging_ext"
  by (auto simp: json_codec_def paging_ext_def dump_h_def split: val.splits list.splits prod.splits if_splits)

theorem cursors_read_listing_witness:
  "wp (follow_cursors paging_repo ''server'' by_host 1)
     (\<lambda>items _. items = List.map (serialize paging_ext) [server0 1, server0 2]) (\<lambda>_ _. False) world0"
proof -
  let ?sd = "(''hostname'', False)"
  have x: "rp_ext paging_repo = paging_ext" "rp_cfg paging_repo = open_settings"
    by (simp_all add: paging_repo_def repo0_def)
  have ext: "x_fault paging_ext n = False" "x_before paging_ext = (\<lambda>_ _ _. True)" "x_beyond paging_ext = (\<lambda>_ _ _. False)"
    "x_match paging_ext = (\<lambda>_ _. True)" "oid_codec paging_ext" for n
    by (simp_all add: paging_ext_def oid_codec_def ext0_def)
  have vals: "sort_value ''hostname'' (server0 i) = VStr ''h''" for i
    by (simp add: sort_value_def server0_def raw_doc_def) code_simp
  have matching: "matches paging_ext [] = (\<lambda>_. True)" by (simp add: matches_def fun_eq_iff)
  have L: "listing paging_ext [] ?sd [server0 1, server0 2] = [server0 1, server0 2]"
    by (simp add: listing_def matching sort_by_def sorts_before_def ext Let_def server0_def)
  have carried: "carried paging_ext (VStr ''h'')"
    by (simp add: carried_def iso_exact_def encode_cursor_def dump_h_def paging_ext_def ret_def)
  have cmp: "comparable paging_ext desc V" for desc V
    by (simp add: comparable_def ordered_on_def ext)
  have size: "page_size paging_repo by_host = 1"
    by (simp add: page_size_def by_host_def x clamp_limit_def open_settings_def default_settings_def)
  have parse: "parse_sort (la_sort by_host) (t_fields server_type) = Inr ?sd" by code_simp
  have type: "sees_type ''server'' server_type world0"
    by (simp add: sees_type_def sample_simps stored_type_def active_named_def)
  have pages: "pageable paging_repo ''server'' by_host server_type [] ?sd world0"
    unfolding pageable_def x Let_def
    using L parse type by (simp add: ext paging_json cmp cis0 ids_unique0 vals carried world0_def) (simp add: by_host_def)
  show ?thesis
    by (rule wp_mono [OF cursors_read_listing [OF pages]])
      (use L in \<open>simp_all add: size x cis0 world0_def, simp_all add: by_host_def\<close>)
qed

end
