(* ===== verification/Interleavings.thy ===== *)
theory Interleavings
  imports Graph_Properties Event_Properties Frames
begin

text \<open>
  What two requests can do to each other when they overlap. The transition system of the service
  runs a request to its end before the next one; the checks of cmdboss/graph.py, however, precede
  the transaction that inserts the edge, and here a delete comes between the two.
\<close>

definition race_args :: edge_args where
  "race_args = \<lparr>ea_rel_type = ''runs_on'', ea_from_type = ''server'', ea_from_id = ''a'',
     ea_to_type = ''server'', ea_to_id = ''aa'', ea_attributes = None, ea_actor = ''anonymous'',
     ea_request_id = None, ea_provenance = None\<rparr>"

lemma race_args_simps [simp]:
  "ea_rel_type race_args = ''runs_on''" "ea_from_type race_args = ''server''"
  "ea_from_id race_args = ''a''" "ea_to_type race_args = ''server''"
  "ea_to_id race_args = ''aa''" "ea_attributes race_args = None"
  "ea_actor race_args = ''anonymous''" "ea_request_id race_args = None" "ea_provenance race_args = None"
  by (simp_all add: race_args_def)

lemma race_checks:
  "wp (edge_checks graph0 race_args runs_on_def0)
     (\<lambda>ft w'. ft = ((''server'', 1), (''server'', 2)) \<and> w' = world_at db0 3) (\<lambda>_ _. False) (world_at db0 0)"
  by (simp add: bfs_levels_pos edge_checks_def
      ci_exists_def check_cardinality_def 
      check_dependency_def check_no_cycle_def bfs_def edges_put node_key_def 
      exec_simps world_at_def)

definition ids_below :: "nat \<Rightarrow> db \<Rightarrow> bool" where
  "ids_below n d = (list_all (\<lambda>a. length (a_id a) < n) (d_audit d) \<and> list_all (\<lambda>b. length (o_id b) < n) (d_outbox d))"

lemma race_delete:
  "wp (delete repo0 ''server'' ''aa'' None ''anonymous'' None False)
     (\<lambda>_ w'. d_edges (w_db w') = [] \<and> cis_of (w_db w') ''server'' = [server0 1] \<and> ids_below (w_n w') (w_db w'))
     (\<lambda>_ _. False) (world_at db0 3)"
  by (simp add: delete_def delete_txn_def guard_check_def graph_guard_def count_edges_def
      edges_put exec_simps world_at_def put_cis_def count_op_def ids_below_def)

lemma race_insert:
  assumes "d_edges (w_db w) = []" "ids_below (w_n w) (w_db w)"
  shows "wp (transaction ext0 True (create_edge_txn ext0 race_args runs_on_def0 (''server'', 1) (''server'', 2) now))
     (\<lambda>_ w'. d_edges (w_db w') = [new_edge runs_on_def0 (''server'', 1) (''server'', 2) race_args (101 + w_n w) now] \<and>
        d_cis (w_db w') = d_cis (w_db w)) (\<lambda>_ _. False) w"
proof -
  have new: "i \<notin> a_id ` set (d_audit (w_db w))" "i \<notin> o_id ` set (d_outbox (w_db w))" if "w_n w \<le> length i" for i
    using that assms(2) by (auto simp: ids_below_def list_all_iff)
  show ?thesis
    using assms(1) new
    by (simp add: create_edge_txn_def edges_put run_simps log_change_def edge_audit_def change_args_def made_entry_id
       fresh_outbox_id made_event_def Let_def)
qed

text \<open>
  The checks of a create find both ends; before its transaction starts, another request deletes the
  target, which no edge is attached to yet; the edge is inserted all the same and dangles.
\<close>

theorem interleaved_delete_dangles:
  "wp (seq (edge_checks graph0 race_args runs_on_def0) (\<lambda>ft.
       seq (delete repo0 ''server'' ''aa'' None ''anonymous'' None False) (\<lambda>_.
       transaction ext0 True (create_edge_txn ext0 race_args runs_on_def0 (fst ft) (snd ft) now))))
     (\<lambda>_ w'. \<exists>e. d_edges (w_db w') = [e] \<and> present (e_from e) (w_db w') \<and> \<not> present (e_to e) (w_db w'))
     (\<lambda>_ _. False) (world_at db0 0)"
proof -
  have one: "c_id (server0 i) = i" for i by (simp add: server0_def)
  have "wp (transaction ext0 True (create_edge_txn ext0 race_args runs_on_def0 (''server'', 1) (''server'', 2) now))
      (\<lambda>_ w'. \<exists>e. d_edges (w_db w') = [e] \<and> present (e_from e) (w_db w') \<and> \<not> present (e_to e) (w_db w'))
      (\<lambda>_ _. False) w"
    if "d_edges (w_db w) = []" "cis_of (w_db w) ''server'' = [server0 1]" "ids_below (w_n w) (w_db w)" for w
    by (rule wp_mono [OF race_insert [OF that(1,3)]]) (use that(2) in \<open>auto simp: present_def new_edge_def one\<close>)
  then show ?thesis
    unfolding wp_seq by (intro wp_mono [OF race_checks]) (auto intro!: wp_mono [OF race_delete])
qed

section \<open>Two dispatchers\<close>

text \<open>
  The dispatchers of two workers over the one outbox of the database. The first has read its batch
  when the second makes a whole pass with a bus and a memory of its own; the first goes on with the
  documents it read. Each has its own view of the time.
\<close>

definition overlapping_passes :: "ext \<Rightarrow> settings \<Rightarrow> worker \<Rightarrow> time \<Rightarrow> event list act" where
  "overlapping_passes x cfg other now =
     seq (fetch_pending x (outbox_batch_size cfg)) (\<lambda>docs.
     seq (asks w_worker) (\<lambda>own.
     seq (on_worker (\<lambda>_. other)) (\<lambda>_.
     seq (dispatch_once x cfg (bus_publish cfg)) (\<lambda>_.
     seq (asks (\<lambda>w. wk_bus (w_worker w))) (\<lambda>published.
     seq (on_worker (\<lambda>_. own)) (\<lambda>_.
     seq (fold_act (dispatch_doc x cfg (bus_publish cfg) now) 0 docs) (\<lambda>_.
     ret published)))))))"

lemma mark_sent_stale:
  assumes "no_faults x" "distinct (List.map o_id (d_outbox (w_db w)))" "i \<in> o_id ` set (d_outbox (w_db w))"
  shows "wp (mark_sent x i) (\<lambda>_ w'. List.map o_id (d_outbox (w_db w')) = List.map o_id (d_outbox (w_db w)) \<and>
      w_worker w' = w_worker w) (\<lambda>_ _. False) w"
proof -
  let ?l = "d_outbox (w_db w)"
  have "i \<in> set (List.map o_id ?l)" using assms(3) by simp
  note found = found_once [OF assms(2) this]
  obtain c where c: "List.find (\<lambda>c. o_id c = i) ?l = Some c" "o_id c = i" using found(1) by blast
  then show ?thesis
    using assms(1) found(2)
    by (simp add: mark_sent_def run_simps outbox_put no_faults_def outbox_coll_def map_upd_first)
qed

lemma dispatch_stale:
  assumes "no_faults x" "distinct (List.map o_id (d_outbox (w_db w)))" "o_id b \<in> o_id ` set (d_outbox (w_db w))"
  shows "wp (dispatch_doc x cfg (bus_publish cfg) now n b)
     (\<lambda>_ w'. List.map o_id (d_outbox (w_db w')) = List.map o_id (d_outbox (w_db w)) \<and>
        wk_bus (w_worker w') = (if not_due now b then wk_bus (w_worker w)
          else enqueued cfg b (wk_bus (w_worker w)))) (\<lambda>_ _. False) w"
proof (cases "not_due now b")
  case True
  then show ?thesis by (simp add: dispatch_doc_def wp_ret)
next
  case False
  have marked: "wp (mark_sent x (o_id b)) (\<lambda>_ w''. List.map o_id (d_outbox (w_db w'')) = List.map o_id (d_outbox (w_db w)) \<and>
      w_worker w'' = w_worker w') (\<lambda>_ _. False) w'" if "w_db w' = w_db w" for w'
    using mark_sent_stale [OF assms(1), of w'] assms(2,3) that by simp
  show ?thesis
    unfolding dispatch_doc_def using False
    by (simp add: wp_catch wp_seq wp_ret, intro wp_mono [OF publish_enqueues])
      (auto intro!: wp_mono [OF marked])
qed

lemma dispatch_stale_batch:
  assumes "no_faults x" "distinct (List.map o_id (d_outbox (w_db w)))" "o_id ` set docs \<subseteq> o_id ` set (d_outbox (w_db w))"
  shows "wp (fold_act (dispatch_doc x cfg (bus_publish cfg) now) n docs)
     (\<lambda>_ w'. wk_bus (w_worker w') = fold (enqueued cfg) (filter (\<lambda>b. \<not> not_due now b) docs) (wk_bus (w_worker w)))
     (\<lambda>_ _. False) w"
  using assms(2,3)
proof (induction docs arbitrary: n w)
  case Nil
  then show ?case by (simp add: run_simps)
next
  case (Cons b docs)
  have next_docs: "wp (fold_act (dispatch_doc x cfg (bus_publish cfg) now) m docs)
     (\<lambda>_ w''. wk_bus (w_worker w'') = fold (enqueued cfg) (filter (\<lambda>b. \<not> not_due now b) docs) (wk_bus (w_worker w')))
     (\<lambda>_ _. False) w'" if "List.map o_id (d_outbox (w_db w')) = List.map o_id (d_outbox (w_db w))" for m w'
  proof (rule Cons.IH)
    show "distinct (List.map o_id (d_outbox (w_db w')))" using that Cons.prems(1) by simp
    show "o_id ` set docs \<subseteq> o_id ` set (d_outbox (w_db w'))"
      using that Cons.prems(2) by (metis insert_subset list.set_map list.simps(15) image_insert)
  qed
  have "o_id b \<in> o_id ` set (d_outbox (w_db w))" using Cons.prems(2) by simp
  note first = dispatch_stale [OF assms(1) Cons.prems(1) this]
  show ?case
    unfolding fold_act.simps wp_seq
    by (rule wp_mono [OF first]) (auto intro!: wp_mono [OF next_docs])
qed

text \<open>
  A batch is not reserved for the dispatcher that read it: without a fault both publish every event
  that is due, so it is handed to the subscribers once per worker.
\<close>

theorem overlapping_passes_publish_twice:
  assumes "no_faults x" "distinct (List.map o_id (d_outbox (w_db w)))"
  shows "wp (overlapping_passes x cfg other now)
     (\<lambda>published w'.
        published = fold (enqueued cfg) (due_batch cfg (x_now x (Suc (w_n w))) (w_db w)) (wk_bus other) \<and>
        wk_bus (w_worker w') = fold (enqueued cfg) (due_batch cfg now (w_db w)) (wk_bus (w_worker w)))
     (\<lambda>_ _. False) w"
proof -
  let ?todo = "cursor_limit (outbox_batch_size cfg)
    (sort_key o_next (filter (\<lambda>b. o_status b = Pending) (d_outbox (w_db w))))"
  have todo: "set ?todo \<subseteq> set (d_outbox (w_db w))"
    using set_cursor_limit [of "outbox_batch_size cfg"] by fastforce
  have second: "wp (dispatch_once x cfg (bus_publish cfg))
      (\<lambda>_ w''. wk_bus (w_worker w'') = fold (enqueued cfg) (due_batch cfg (x_now x (w_n w')) (w_db w)) (wk_bus (w_worker w')) \<and>
         List.map o_id (d_outbox (w_db w'')) = List.map o_id (d_outbox (w_db w))) (\<lambda>_ _. False) w'"
    if "w_db w' = w_db w" for w'
    using pass_effect [of w' x cfg] assms that by (auto simp: Let_def dest: sent_among_ids elim!: wp_mono)
  have first: "wp (fold_act (dispatch_doc x cfg (bus_publish cfg) now) 0 ?todo)
      (\<lambda>_ w''. wk_bus (w_worker w'') = fold (enqueued cfg) (due_batch cfg now (w_db w)) (wk_bus (w_worker w')))
      (\<lambda>_ _. False) w'" if "List.map o_id (d_outbox (w_db w')) = List.map o_id (d_outbox (w_db w))" for w'
  proof -
    have "distinct (List.map o_id (d_outbox (w_db w')))" "o_id ` set ?todo \<subseteq> o_id ` set (d_outbox (w_db w'))"
      using assms(2) todo that by (simp, metis image_mono list.set_map)
    from dispatch_stale_batch [OF assms(1) this] show ?thesis by (simp add: due_batch_def)
  qed
  show ?thesis
    using assms(1)
    by (simp add: overlapping_passes_def fetch_pending_def wp_seq wp_ret wp_find_many wp_asks wp_on_worker no_faults_def
        outbox_put, intro wp_mono [OF second]) (auto simp: wp_asks wp_on_worker intro!: wp_mono [OF first])
qed

text \<open>
  A dispatcher whose publishing or marking failed writes by the identifier alone: what another one
  has sent in the meantime becomes dead, and may be replayed.
\<close>

theorem stale_failure_kills_sent:
  assumes "b \<in> set (d_outbox (w_db w))" "o_id b = o_id doc"
    "distinct (List.map o_id (d_outbox (w_db w)))" "outbox_max_attempts cfg \<le> o_attempts doc + 1" "no_faults x"
  shows "wp (on_failure x cfg now doc ex)
     (\<lambda>_ w'. \<exists>b'\<in>set (d_outbox (w_db w')). o_id b' = o_id b \<and> o_status b' = Dead) (\<lambda>_ _. False) w"
proof -
  let ?l = "d_outbox (w_db w)"
  have "o_id doc \<in> set (List.map o_id ?l)" using imageI [OF assms(1), of o_id] assms(2) by simp
  note found = found_once [OF assms(3) this]
  obtain c where c: "List.find (\<lambda>c. o_id c = o_id doc) ?l = Some c" "o_id c = o_id doc" using found(1) by blast
  then show ?thesis
    using assms(2,4,5) found(2)
    by (simp add: on_failure_def mark_dead_def run_simps outbox_put no_faults_def outbox_coll_def
        upd_first_distinct [OF assms(3)]) (use assms(1) in \<open>auto simp: bex_Un\<close>)
qed

end
