(* ===== verification/Lifecycle.thy ===== *)
theory Lifecycle
  imports Sample Frames
begin

text \<open>
  What becomes of an outbox document over its whole life in the service: whatever steps are taken,
  it keeps its place, its identifier and its event, and changes only along the state machine of
  \<open>Outbox\<close>.
\<close>

section \<open>Sequences of steps\<close>

inductive_cases outbox_stepE: "outbox_step cfg a b"

lemma outbox_step_id: "outbox_step cfg a b \<Longrightarrow> o_id b = o_id a \<and> o_event b = o_event a"
  by (auto elim!: outbox_stepE dest: dispatch_step_id)

lemma outbox_steps_id: "(outbox_step cfg)\<^sup>*\<^sup>* a b \<Longrightarrow> o_id b = o_id a \<and> o_event b = o_event a"
  by (induction rule: rtranclp_induct) (auto dest: outbox_step_id)

text \<open>A document that was sent makes no step any more.\<close>

lemma sent_stuck: "o_status a = Sent \<Longrightarrow> \<not> outbox_step cfg a b"
  by (auto elim!: outbox_stepE dest: dispatch_step_pending)

lemma sent_steps: "(outbox_step cfg)\<^sup>*\<^sup>* a b \<Longrightarrow> o_status a = Sent \<Longrightarrow> b = a"
  by (erule converse_rtranclpE) (auto dest: sent_stuck)

lemma upd_first_steps:
  assumes "\<And>b. p b \<Longrightarrow> R b (f b)" "\<And>b. R b b"
  shows "list_all2 R l (upd_first p f l)"
  by (induction l) (auto simp: assms list.rel_refl)

section \<open>The frame\<close>

definition moved_from :: "settings \<Rightarrow> outbox_doc list \<Rightarrow> outbox_doc list \<Rightarrow> bool" where
  "moved_from cfg l l' = (\<exists>old new. l' = old @ new \<and> list_all2 (outbox_step cfg)\<^sup>*\<^sup>* l old)"

lemma moved_refl: "moved_from cfg l l"
  unfolding moved_from_def by (intro exI [of _ l] exI [of _ "[]"]) (simp add: list.rel_refl)

lemma moved_more: "moved_from cfg l l' \<Longrightarrow> moved_from cfg l (l' @ added)"
  by (auto simp: moved_from_def simp del: append_assoc) (metis append_assoc)

lemma moved_steps:
  assumes "moved_from cfg l l'" "list_all2 (outbox_step cfg)\<^sup>*\<^sup>* l' l''"
  shows "moved_from cfg l l''"
proof -
  obtain old new where old: "l' = old @ new" "list_all2 (outbox_step cfg)\<^sup>*\<^sup>* l old"
    using assms(1) by (auto simp: moved_from_def)
  from assms(2) obtain old' new' where new: "l'' = old' @ new'" "list_all2 (outbox_step cfg)\<^sup>*\<^sup>* old old'"
    unfolding old(1) list_all2_append1 by blast
  have "list_all2 (outbox_step cfg)\<^sup>*\<^sup>* l old'"
    by (rule list_all2_trans [OF rtranclp_trans old(2) new(2)])
  with new(1) show ?thesis unfolding moved_from_def by blast
qed

definition lifecycle :: "settings \<Rightarrow> outbox_doc list \<Rightarrow> db \<Rightarrow> bool" where
  "lifecycle cfg l d = (moved_from cfg l (d_outbox d) \<and> distinct (List.map o_id (d_outbox d)))"

lemma lifecycle_steps:
  assumes "lifecycle cfg l d" "list_all2 (outbox_step cfg)\<^sup>*\<^sup>* (d_outbox d) (d_outbox d')"
  shows "lifecycle cfg l d'"
proof -
  have "List.map o_id (d_outbox d') = List.map o_id (d_outbox d)"
    using assms(2) by (induction rule: list_all2_induct) (auto dest: outbox_steps_id)
  with assms show ?thesis by (auto simp: lifecycle_def intro: moved_steps)
qed

lemma one_step: "at_most_one_step cfg a b \<Longrightarrow> (outbox_step cfg)\<^sup>*\<^sup>* a b"
  by (auto simp: at_most_one_step_def intro: outbox_step.dispatch)

lemma pass_lifecycle: "keeps (lifecycle cfg l) (dispatch_once x cfg (bus_publish cfg))"
proof -
  have "wp (dispatch_once x cfg (bus_publish cfg))
      (\<lambda>_ w'. lifecycle cfg l (w_db w')) (\<lambda>_ w'. lifecycle cfg l (w_db w')) w"
    if "lifecycle cfg l (w_db w)" for w
  proof -
    have "separated outbox_coll (w_db w)"
      using that by (simp add: lifecycle_def separated_def outbox_coll_def distinct_sorted_wrt)
    then show ?thesis
      by (rule wp_mono [OF mem_bus.dispatch_pass])
        (auto intro!: lifecycle_steps [OF that] elim!: list_all2_mono intro: one_step)
  qed
  then show ?thesis by (simp add: keeps_wp)
qed

lemma replay_lifecycle: "keeps (lifecycle cfg l) (replay x i)"
  unfolding replay_def
proof (intro keeps_intros keeps_update_one, unfold outbox_put, erule lifecycle_steps)
  fix d and now
  show "list_all2 (outbox_step cfg)\<^sup>*\<^sup>* (d_outbox d) (d_outbox (d\<lparr>d_outbox :=
      upd_first (\<lambda>b. o_id b = i \<and> o_status b = Dead)
        (\<lambda>b. b\<lparr>o_status := Pending, o_attempts := 0, o_next := Some now, o_last_error := None\<rparr>)
        (d_outbox d)\<rparr>))"
    by (auto intro!: upd_first_steps r_into_rtranclp outbox_step.revive)
qed

interpretation lifecycle: service_frame "lifecycle cfg l" cfg
  by unfold_locales
    (auto simp: lifecycle_def ci_coll_def edges_coll_def idem_coll_def audit_coll_def outbox_coll_def
      same_data_def Let_def intro: moved_more pass_lifecycle replay_lifecycle)

section \<open>The property\<close>

text \<open>
  C38. Whatever the service does from a reachable state on, and whatever faults interrupt it, an
  outbox document is never removed, keeps its place, its identifier and its event, and changes only
  along its state machine: pending, it is delivered, put off with one more attempt or, when its
  attempts are used up, dead; dead, it may be revived with no attempts. One that was sent stays
  exactly as it is for ever.
\<close>

theorem outbox_lifecycle:
  assumes "oid_codec x" "reachable x cfg d" "(system_step x cfg)\<^sup>*\<^sup>* d d'"
  shows "\<exists>old new. d_outbox d' = old @ new \<and> list_all2 (outbox_step cfg)\<^sup>*\<^sup>* (d_outbox d) old \<and>
    (\<forall>n < length (d_outbox d). o_status (d_outbox d ! n) = Sent \<longrightarrow> old ! n = d_outbox d ! n)"
proof -
  have "lifecycle cfg (d_outbox d) d"
    using reachable_sound [OF assms(1,2)] by (simp add: lifecycle_def moved_refl sound_def logs_distinct_def)
  from lifecycle.system_steps_keep [OF assms(3,1) this] show ?thesis
    by (auto simp: lifecycle_def moved_from_def list_all2_conv_all_nth intro: sent_steps)
qed

text \<open>The four documents of the sample history, after a pass of the dispatcher.\<close>

theorem outbox_lifecycle_witness:
  "\<exists>n w' old new. dispatch_once ext0 open_settings (bus_publish open_settings) (world_at db4 600) = (n, w') \<and>
     d_outbox (w_db w') = old @ new \<and> list_all2 (outbox_step open_settings)\<^sup>*\<^sup>* (d_outbox db4) old"
proof -
  obtain n w' where run: "dispatch_once ext0 open_settings (bus_publish open_settings) (world_at db4 600) = (n, w')"
    by fastforce
  then have "(system_step ext0 open_settings)\<^sup>*\<^sup>* db4 (w_db w')"
    using step_dispatcher [OF run] by simp
  with outbox_lifecycle [OF codec0 db4_reachable] run show ?thesis by blast
qed

end
