(* ===== verification/Divergences.thy ===== *)
theory Divergences
  imports Item_Properties Discovery_Properties Interleavings
begin

text \<open>
  Behaviour that the code has and that its authors can hardly mean, each shown of the model: they
  are what the development found beside the properties.
\<close>

section \<open>Caches\<close>

text \<open>
  Deactivating a relationship type under a name with capitals finds it by its lower-case name and
  forgets the cache entry of the name as given; the entry that lookups use stays, and they go on
  giving the type until it expires.
\<close>

theorem deactivated_type_still_found:
  assumes "lower name \<noteq> name" "wk_rel_cache (w_worker w) (lower name) = Some (expiry, Some t)"
    "\<And>n. x_mono x n < expiry"
  shows "wp (seq (rel_deactivate_type x name actor) (\<lambda>_. rel_get_type x cfg name))
     (\<lambda>found _. found = Some t) (\<lambda>_ _. True) w"
proof -
  have "wp (rel_deactivate_type x name actor)
     (\<lambda>_ w'. wk_rel_cache (w_worker w') (lower name) = Some (expiry, Some t)) (\<lambda>_ _. True) w"
    using assms(1,2)
    by (auto simp: rel_deactivate_type_def rel_invalidate_def drop_rel_def run_simps split: option.splits)
  moreover have "wp (rel_get_type x cfg name) (\<lambda>found _. found = Some t) (\<lambda>_ _. True) w'"
    if "wk_rel_cache (w_worker w') (lower name) = Some (expiry, Some t)" for w'
    using that assms(3) by (simp add: rel_get_type_def Let_def run_simps)
  ultimately show ?thesis unfolding wp_seq by (rule wp_mono) auto
qed

text \<open>
  A poll asks for types stored after the watermark: one stored at the very time of the watermark
  is not forgotten, by this poll or any later one.
\<close>

theorem poll_misses_watermark:
  assumes "\<forall>t\<in>set (d_types (w_db w)). t_name t = n \<longrightarrow> t_updated_at t \<le> wk_watermark (w_worker w)"
  shows "wp (poll_once x)
     (\<lambda>_ w'. wk_type_cache (w_worker w') n = wk_type_cache (w_worker w) n) (\<lambda>_ _. True) w"
  by (rule wp_mono [OF poll_effect]) (use assms in \<open>auto simp: polled_def Let_def stale_types_def\<close>)

section \<open>Items\<close>

text \<open>
  A PUT sets the fields validation gave and removes none, so a field the schema no longer has
  stays in the item.
\<close>

theorem put_keeps_old_fields:
  assumes "oid_codec x" "reachable x cfg (w_db w)"
  shows "wp (update (items_of x cfg) ty i payload expected False actor rid)
     (\<lambda>_ w'. \<exists>e e' m data. e \<in> set (cis_of (w_db w) ty) \<and> e' \<in> set (cis_of (w_db w') ty) \<and> c_id e' = c_id e \<and>
        x_validate x m payload = Inr data \<and>
        (\<forall>k. k \<notin> set (dkeys data) \<longrightarrow> map_of (c_fields e') k = map_of (c_fields e) k))
     (\<lambda>_ _. True) w"
proof (rule wp_mono [OF update_effect])
  show "ids_unique ty (w_db w)" using reachable_sound [OF assms] by (simp add: sound_def)
  fix after w'
  assume "updated_by (rp_ext (items_of x cfg)) (serves (rp_ext (items_of x cfg)) (lower ty) w) ty i payload expected
     False actor rid after (w_db w) (w_db w')"
  then obtain e m data now version where
    valid: "x_validate x m payload = Inr data" and
    rev: "ci_revised x ty i e (set_fields data now actor version (m_revision (c_meta e) + 1) e) ''ci.updated''
       (Some version) actor rid (w_db w) (w_db w')"
    by (auto simp: updated_by_def body_to_validate_def)
  let ?e' = "set_fields data now actor version (m_revision (c_meta e) + 1) e"
  from rev have found: "List.find (by_id (c_id e)) (cis_of (w_db w) ty) = Some e"
    and cis: "cis_of (w_db w') ty = upd_first (by_id (c_id e)) (\<lambda>_. ?e') (cis_of (w_db w) ty)"
    by (auto simp: ci_revised_def dest!: logged_grows)
  have "map_of (c_fields ?e') k = map_of (c_fields e) k" if "k \<notin> set (dkeys data)" for k
  proof -
    have "map_of (rev data) k = None" using that by (simp add: map_of_eq_None_iff dkeys_def)
    then show ?thesis by (simp add: set_fields_def map_of_dmerge)
  qed
  moreover have "?e' \<in> set (cis_of (w_db w') ty)" unfolding cis by (rule replaced_in(2) [OF found])
  moreover have "e \<in> set (cis_of (w_db w) ty)" using find_Some_in [OF found] by simp
  ultimately show "\<exists>e e' m data. e \<in> set (cis_of (w_db w) ty) \<and> e' \<in> set (cis_of (w_db w') ty) \<and>
        c_id e' = c_id e \<and> x_validate x m payload = Inr data \<and>
        (\<forall>k. k \<notin> set (dkeys data) \<longrightarrow> map_of (c_fields e') k = map_of (c_fields e) k)"
    using valid set_fields_simps(1) by blast
qed simp

text \<open>
  The type is looked up by its lower-case name, the collection chosen by the name as given: an item
  created under \<open>Server\<close> is accepted by the schema of \<open>server\<close> and not listed there.
\<close>

theorem capitals_split_collection:
  "wp (create repo0 ''Server'' (host ''h'') ''anonymous'' None None)
     (\<lambda>_ w'. length (cis_of (w_db w') ''Server'') = 1 \<and> cis_of (w_db w') ''server'' = cis_of db0 ''server'')
     (\<lambda>_ _. False) (world_at db0 0)"
proof -
  have "lower ''Server'' = ''server''" by code_simp
  then show ?thesis
    by (simp add: create_def create_txn_def insert_logged_def exec_simps world_at_def host_def numeral_2_eq_2 [symmetric])
qed

text \<open>A duplicate under a unique index of a type is answered as an internal error.\<close>

theorem duplicate_is_internal_error: "rs_status (handle_exn errors DuplicateKey rid) = 500"
  by (simp add: handle_exn_def json_response_def mk_error_def Let_def)

section \<open>Two updates of a type\<close>

text \<open>
  Two updates of one type that both read it before either writes: the version counts one of them,
  and a model that a worker compiled from the first is taken for that of the second.
\<close>

definition overlapping_updates :: "ext \<Rightarrow> string \<Rightarrow> type_def \<Rightarrow> type_def \<Rightarrow> string \<Rightarrow> (type_doc \<times> type_doc) act" where
  "overlapping_updates x name def1 def2 actor =
     seq (get_type_strict x name) (\<lambda>read1.
     seq (get_type_strict x name) (\<lambda>read2.
     seq (utcnow x) (\<lambda>now.
     seq (update_one x types_coll (active_named name) (new_schema def1 (t_version read1 + 1) now actor)) (\<lambda>_.
     seq (get_type_strict x name) (\<lambda>first.
     seq (update_one x types_coll (active_named name) (new_schema def2 (t_version read2 + 1) now actor)) (\<lambda>_.
     seq (get_type_strict x name) (\<lambda>second.
     ret (first, second))))))))"

theorem overlapping_updates_share_version:
  assumes "d_types (w_db w) = [t]" "t_active t" "lower (t_name t) = t_name t" "\<And>n. \<not> x_fault x n"
  shows "wp (overlapping_updates x (t_name t) def1 def2 actor)
     (\<lambda>(first, second) _. t_version first = t_version second \<and> t_fields first = td_fields def1 \<and>
        t_fields second = td_fields def2) (\<lambda>_ _. False) w"
  using assms
  by (simp add: overlapping_updates_def get_type_strict_def Let_def run_simps types_put active_named_def new_schema_def)

section \<open>Patterns\<close>

text \<open>
  A pattern is checked with Python's \<open>re\<close> when the type is defined and compiled by pydantic's own
  engine when the type is used: a definition with a pattern that only the first accepts is accepted,
  and never compiles.
\<close>

definition pattern_raw :: "string \<Rightarrow> type_def" where
  "pattern_raw p = \<lparr>td_name = ''host'', td_description = None,
     td_fields = [(''name'', (plain_spec FString)\<lparr>fs_pattern := Some p\<rparr>)], td_indexes = []\<rparr>"

definition uses_pattern :: "string \<Rightarrow> model \<Rightarrow> bool" where
  "uses_pattern p m = list_ex (\<lambda>(_, f). map_of (fd_constraints f) ''pattern'' = Some (VStr p)) (mdl_fields m)"

theorem accepted_pattern_refused:
  assumes "re_ok p" "\<And>m. uses_pattern p m \<Longrightarrow> refuses m = Some e"
  shows "make_type_def re_ok (pattern_raw p) = Inr (pattern_raw p) \<and>
     compile_from_definition refuses (pattern_raw p) = Inl e"
proof -
  have "valid_name ''host'' = Inr ''host''" "field_re ''name''" "''name'' \<notin> set reserved_fields" "''name'' \<notin> set py_keywords"
    by code_simp+
  then have "make_type_def re_ok (pattern_raw p) = Inr (pattern_raw p)"
    using assms(1)
    by (simp add: make_type_def_def pattern_raw_def plain_spec_def check_field_spec_def valid_regex_def coherent_def
        validate_fields_def dkeys_def Let_def)
  moreover have "compile_from_definition refuses (pattern_raw p) = Inl e"
    using assms(2)
    by (simp add: compile_from_definition_def compile_model_def pattern_raw_def plain_spec_def compile_field_def
        annotate_def constraints_def opt_kw_def uses_pattern_def Let_def)
  ultimately show ?thesis ..
qed

section \<open>Discovery\<close>

text \<open>
  The edges a snapshot wants are keyed by the relationship type as it spells it, those that exist
  by its lower-case name: an edge written with capitals is created and deleted in the same run.
\<close>

definition capital_edge :: discovered_edge where
  "capital_edge = \<lparr>de_rel_type = ''Runs_On'', de_from = \<lparr>nr_type = ''server'', nr_external_id = ''i''\<rparr>,
     de_to = \<lparr>nr_type = ''server'', nr_external_id = ''j''\<rparr>, de_attributes = None\<rparr>"

definition aws_run :: run_args where
  "aws_run = \<lparr>ra_source = ''aws'', ra_run_id = ''run'', ra_on_missing = ''mark'', ra_actor = ''anonymous''\<rparr>"

definition found_both :: recon where
  "found_both = empty_recon\<lparr>rn_ids := [((''server'', ''i''), ''a''), ((''server'', ''j''), ''aa'')]\<rparr>"

lemma capital_edge_created:
  "wp (apply_edge graph0 aws_run ([], found_both) capital_edge)
     (\<lambda>ks w'. fst ks = [(''Runs_On'', ''a'', ''aa'')] \<and> re_created (rn_rel (snd ks)) = 1 \<and> re_deleted (rn_rel (snd ks)) = 0 \<and>
        (\<exists>e. d_edges (w_db w') = [e] \<and> e_source e = Some ''aws'' \<and> e_rel_type e = ''runs_on'') \<and>
        ids_below (w_n w') (w_db w'))
     (\<lambda>_ _. False) (world_at db0 0)"
proof -
  have low: "lower ''Runs_On'' = ''runs_on''" by code_simp
  show ?thesis
    by (simp add: apply_edge_def on_app_error_def end_id_def given_def found_both_def capital_edge_def aws_run_def
        edge_request_def create_edge_def bfs_levels_pos create_edge_txn_def edge_checks_def rel_def_of_def
        rel_active_named_def stored_rel_def runs_on_def0_def [symmetric] runs_on_valid ci_exists_def
        check_cardinality_def check_dependency_def check_no_cycle_def bfs_def edges_put node_key_def edge_audit_def
        exec_simps world_at_def low empty_recon_def new_edge_def put_edges_def ids_below_def count_op_def)
qed

lemma ctx: "rr_ext graph0 = ext0" "rr_txn graph0"
  by (simp_all add: graph0_def)

lemma retire_only_edge:
  assumes "d_edges (w_db w) = [e]" "ids_below (Suc (w_n w)) (w_db w)"
  shows "wp (retire_edge graph0 aws_run s (k, x_oid_str ext0 (e_id e)))
     (\<lambda>s' w'. re_created (rn_rel s') = re_created (rn_rel s) \<and> re_deleted (rn_rel s') = Suc (re_deleted (rn_rel s)) \<and>
        d_edges (w_db w') = []) (\<lambda>_ _. False) w"
proof -
  have new: "i \<notin> a_id ` set (d_audit (w_db w))" "i \<notin> o_id ` set (d_outbox (w_db w))" if "Suc (w_n w) \<le> length i" for i
    using that assms(2) by (auto simp: ids_below_def list_all_iff)
  have own: "edge_by_id (e_id e) e" by (simp add: edge_by_id_def)
  show ?thesis
    using assms(1) new own
    by (simp add: retire_edge_def on_app_error_def delete_edge_def edge_deleted_def aws_run_def graph0_def edges_put
        run_simps log_change_def edge_audit_def change_args_def made_entry_id fresh_outbox_id made_event_def Let_def)
qed

theorem capital_edge_vanishes:
  "wp (reconcile_edges graph0 aws_run [capital_edge] found_both)
     (\<lambda>s w'. re_created (rn_rel s) = 1 \<and> re_deleted (rn_rel s) = 1 \<and> d_edges (w_db w') = [])
     (\<lambda>_ _. False) (world_at db0 0)"
proof -
  have rest: "wp (iter_source_edges graph0 ''aws'') (\<lambda>existing.
        wp (fold_act (retire_edge graph0 aws_run) s (filter (\<lambda>p. fst p \<noteq> (''Runs_On'', ''a'', ''aa'')) existing))
          (\<lambda>s' w'. re_created (rn_rel s') = 1 \<and> re_deleted (rn_rel s') = 1 \<and> d_edges (w_db w') = []) (\<lambda>_ _. False))
        (\<lambda>_ _. False) w"
    if "d_edges (w_db w) = [e]" "e_source e = Some ''aws''" "e_rel_type e = ''runs_on''" "ids_below (w_n w) (w_db w)"
      "re_created (rn_rel s) = 1" "re_deleted (rn_rel s) = 0" for s e w
  proof -
    have "ids_below (Suc (w_n (bump w))) (w_db (bump w))"
      using that(4) by (auto simp: ids_below_def list_all_iff)
    from retire_only_edge [of "bump w" e s, OF _ this] that(1,5,6)
    have "wp (retire_edge graph0 aws_run s (k, x_oid_str ext0 (e_id e)))
       (\<lambda>s' w'. re_created (rn_rel s') = 1 \<and> re_deleted (rn_rel s') = 1 \<and> d_edges (w_db w') = []) (\<lambda>_ _. False) (bump w)" for k
      by simp
    with that(1-3) show ?thesis
      by (simp add: iter_source_edges_def ctx run_simps edges_put dset_def)
  qed
  have "ra_source aws_run = ''aws''" by (simp add: aws_run_def)
  then show ?thesis
    by (simp add: reconcile_edges_def wp_seq wp_ret del: One_nat_def)
      (rule wp_mono [OF capital_edge_created], auto simp: wp_ret intro!: rest [simplified])
qed

text \<open>
  Vanished items are looked for only in the types that the snapshot names: a snapshot without items
  touches no item, however many the source owned before.
\<close>

lemma delete_edge_cis:
  assumes "rr_txn G"
  shows "wp (delete_edge G i expected actor rid) (\<lambda>_ w'. d_cis (w_db w') = d_cis (w_db w))
     (\<lambda>_ w'. d_cis (w_db w') = d_cis (w_db w)) w"
  by (rule wp_mono [OF delete_edge_effect]) (use assms in \<open>auto simp: edge_removed_def put_edges_def dest!: logged_grows\<close>)

lemma retire_edges_cis:
  assumes "rr_txn G"
  shows "wp (fold_act (retire_edge G a) s ps) (\<lambda>s' w'. d_cis (w_db w') = d_cis (w_db w) \<and> rn_ci s' = rn_ci s) (\<lambda>_ _. True) w"
proof (induction ps arbitrary: s w)
  case (Cons p ps)
  have "wp (retire_edge G a s p) (\<lambda>s' w'. d_cis (w_db w') = d_cis (w_db w) \<and> rn_ci s' = rn_ci s) (\<lambda>_ _. True) w"
    unfolding retire_edge_def on_app_error_def wp_catch wp_seq
    by (rule wp_mono [OF delete_edge_cis [OF assms]])
      (auto simp: wp_ret wp_raise add_rel_error_def split: exn.splits)
  then show ?case unfolding fold_act.simps wp_seq by (rule wp_mono) (auto intro!: wp_mono [OF Cons.IH])
qed (simp add: run_simps)

theorem empty_snapshot_retires_nothing:
  assumes "rr_txn G"
  shows "wp (reconcile R G \<lparr>dr_items = [], dr_relationships = []\<rparr> a)
     (\<lambda>s w'. d_cis (w_db w') = d_cis (w_db w) \<and> cr_marked (rn_ci s) = 0 \<and> cr_deleted (rn_ci s) = 0) (\<lambda>_ _. True) w"
proof -
  have "wp (iter_source_edges G (ra_source a)) (\<lambda>_ w'. w_db w' = w_db w) (\<lambda>_ _. True) w"
    by (simp add: iter_source_edges_def Let_def run_simps)
  then show ?thesis
    unfolding reconcile_def reconcile_edges_def desired_by_type_def
    by (simp add: wp_seq wp_ret) (erule wp_mono, auto simp: empty_recon_def intro!: wp_mono [OF retire_edges_cis [OF assms]])
qed

end
