(* ===== verification/Observability.thy ===== *)
theory Observability
  imports World
begin

text \<open>
  cmdboss/observability.py: the request id on log records, the configuration of the root logger,
  and the metrics facade. \<open>prometheus_client\<close> is a parameter: its registry is the state it is
  given, and \<open>None\<close> is an exception. The rest of the model counts with \<open>metrics_incr\<close> of
  theory World, which is the facade once enabled.
\<close>

section \<open>Logging\<close>

record log_record =
  lr_message :: string
  lr_request_id :: string

definition request_id_filter :: "string option \<Rightarrow> log_record \<Rightarrow> bool \<times> log_record" where
  "request_id_filter ctx rec =
     (True, rec\<lparr>lr_request_id := (case given ctx of None \<Rightarrow> ''-'' | Some rid \<Rightarrow> rid)\<rparr>)"

datatype formatter = JsonFormatter | LineFormatter

record log_handler =
  lh_filtered :: bool
  lh_formatter :: formatter

record logging =
  lg_level :: string
  lg_handlers :: "log_handler list"
  lg_configured :: bool

text \<open>\<open>has_json\<close>: the import of \<open>pythonjsonlogger\<close> succeeds.\<close>

definition configure_logging :: "bool \<Rightarrow> string \<Rightarrow> bool \<Rightarrow> logging \<Rightarrow> logging" where
  "configure_logging has_json level json_output lg =
     (let fmt = (if json_output \<and> has_json then JsonFormatter else LineFormatter) in
      lg\<lparr>lg_level := level, lg_handlers := [\<lparr>lh_filtered = True, lh_formatter = fmt\<rparr>], lg_configured := True\<rparr>)"

definition get_logger :: "bool \<Rightarrow> logging \<Rightarrow> logging" where
  "get_logger has_json lg = (if lg_configured lg then lg else configure_logging has_json ''INFO'' True lg)"

text \<open>Handlers do not stack, and the modules' loggers keep what the application configured.\<close>

lemma configure_again:
  "configure_logging j l o' (configure_logging j' l' o'' lg) = configure_logging j l o' lg"
  by (simp add: configure_logging_def Let_def)

lemma get_logger_keeps: "get_logger j' (configure_logging j l o' lg) = configure_logging j l o' lg"
  by (simp add: get_logger_def configure_logging_def Let_def)

section \<open>The metrics facade\<close>

datatype metric_kind = Counter | Histogram

record 'r prometheus =
  pc_installed :: bool
  pc_register :: "metric_kind \<Rightarrow> string \<Rightarrow> string \<Rightarrow> string list \<Rightarrow> 'r \<Rightarrow> 'r option"
  pc_inc :: "string \<Rightarrow> (string \<times> string) list option \<Rightarrow> real \<Rightarrow> 'r \<Rightarrow> 'r option"
  pc_observe :: "string \<Rightarrow> (string \<times> string) list option \<Rightarrow> real \<Rightarrow> 'r \<Rightarrow> 'r option"
  pc_latest :: "'r \<Rightarrow> string"
  pc_content_type :: string

text \<open>A metric object is known by the name it is registered under.\<close>

record facade =
  fc_enabled :: bool
  fc_counters :: "(string \<times> string) list"
  fc_histograms :: "(string \<times> string) list"
  fc_client :: bool

definition new_facade :: facade where
  "new_facade = \<lparr>fc_enabled = False, fc_counters = [], fc_histograms = [], fc_client = False\<rparr>"

text \<open>The metrics in the order of \<open>_register\<close>: kind, key, registered name, help and labels.\<close>

definition metric_table :: "(metric_kind \<times> string \<times> string \<times> string \<times> string list) list" where
  "metric_table =
     [(Counter, ''http_requests_total'', ''cmdboss_http_requests_total'', ''HTTP requests'',
        [''method'', ''path'', ''status'']),
      (Counter, ''ci_operations_total'', ''cmdboss_ci_operations_total'', ''CI operations'',
        [''type'', ''operation'']),
      (Counter, ''events_published_total'', ''cmdboss_events_published_total'', ''Events published'',
        [''event_type'']),
      (Counter, ''events_dropped_total'', ''cmdboss_events_dropped_total'',
        ''Events dropped due to a full queue'', []),
      (Histogram, ''http_request_duration_seconds'', ''cmdboss_http_request_duration_seconds'',
        ''Request latency'', [''method'', ''path''])]"

text \<open>Registration stops at the first exception, with the metrics before it in place.\<close>

definition add_metric :: "metric_kind \<Rightarrow> string \<Rightarrow> string \<Rightarrow> facade \<Rightarrow> facade" where
  "add_metric kind key name f = (case kind of
     Counter \<Rightarrow> f\<lparr>fc_counters := dset key name (fc_counters f)\<rparr>
   | Histogram \<Rightarrow> f\<lparr>fc_histograms := dset key name (fc_histograms f)\<rparr>)"

fun register_metrics ::
  "'r prometheus \<Rightarrow> (metric_kind \<times> string \<times> string \<times> string \<times> string list) list \<Rightarrow> facade \<times> 'r \<Rightarrow>
   bool \<times> facade \<times> 'r" where
  "register_metrics pc [] s = (True, s)"
| "register_metrics pc ((kind, key, name, doc, labels) # ms) (f, r) =
     (case pc_register pc kind name doc labels r of
        None \<Rightarrow> (False, f, r)
      | Some r' \<Rightarrow> register_metrics pc ms (add_metric kind key name f, r'))"

definition metrics_enable :: "'r prometheus \<Rightarrow> facade \<times> 'r \<Rightarrow> facade \<times> 'r" where
  "metrics_enable pc s =
     (case s of (f, r) \<Rightarrow>
      if \<not> pc_installed pc then (f\<lparr>fc_enabled := False\<rparr>, r)
      else case register_metrics pc metric_table (f\<lparr>fc_client := True, fc_enabled := True\<rparr>, r) of
          (True, s') \<Rightarrow> s'
        | (False, f', r') \<Rightarrow> (f'\<lparr>fc_enabled := False\<rparr>, r'))"

text \<open>Without labels the metric itself is used; an exception of the client is swallowed.\<close>

definition with_labels :: "(string \<times> string) list option \<Rightarrow> (string \<times> string) list option" where
  "with_labels labels = (if labels = Some [] then None else labels)"

definition facade_incr ::
  "'r prometheus \<Rightarrow> string \<Rightarrow> (string \<times> string) list option \<Rightarrow> real \<Rightarrow> facade \<Rightarrow> 'r \<Rightarrow> 'r" where
  "facade_incr pc name labels amount f r =
     (if \<not> fc_enabled f then r
      else case map_of (fc_counters f) name of
          None \<Rightarrow> r
        | Some metric \<Rightarrow> (case pc_inc pc metric (with_labels labels) amount r of None \<Rightarrow> r | Some r' \<Rightarrow> r'))"

definition facade_observe ::
  "'r prometheus \<Rightarrow> string \<Rightarrow> real \<Rightarrow> (string \<times> string) list option \<Rightarrow> facade \<Rightarrow> 'r \<Rightarrow> 'r" where
  "facade_observe pc name value labels f r =
     (if \<not> fc_enabled f then r
      else case map_of (fc_histograms f) name of
          None \<Rightarrow> r
        | Some metric \<Rightarrow> (case pc_observe pc metric (with_labels labels) value r of None \<Rightarrow> r | Some r' \<Rightarrow> r'))"

definition facade_render :: "'r prometheus \<Rightarrow> facade \<Rightarrow> 'r \<Rightarrow> string \<times> string" where
  "facade_render pc f r =
     (if \<not> fc_enabled f \<or> \<not> fc_client f then ([], ''text/plain'')
      else (pc_latest pc r, pc_content_type pc))"

text \<open>The context manager \<open>Timer\<close>: the reading on entry, and the observation on exit.\<close>

record timer =
  tm_name :: string
  tm_labels :: "(string \<times> string) list option"
  tm_start :: time

definition new_timer :: "string \<Rightarrow> (string \<times> string) list option \<Rightarrow> timer" where
  "new_timer name labels = \<lparr>tm_name = name, tm_labels = labels, tm_start = 0\<rparr>"

definition timer_enter :: "time \<Rightarrow> timer \<Rightarrow> timer" where
  "timer_enter now t = t\<lparr>tm_start := now\<rparr>"

definition timer_exit :: "'r prometheus \<Rightarrow> time \<Rightarrow> facade \<Rightarrow> timer \<Rightarrow> 'r \<Rightarrow> 'r" where
  "timer_exit pc now f t r = facade_observe pc (tm_name t) (now - tm_start t) (tm_labels t) f r"

section \<open>What the facade does\<close>

text \<open>A client that takes names it has not seen and refuses the others.\<close>

definition refuses_duplicates :: "'r prometheus \<Rightarrow> ('r \<Rightarrow> string set) \<Rightarrow> bool" where
  "refuses_duplicates pc names = (\<forall>kind name doc labels r.
     (if name \<in> names r then pc_register pc kind name doc labels r = None
      else \<exists>r'. pc_register pc kind name doc labels r = Some r' \<and> names r' = insert name (names r)))"

definition metric_names :: "string set" where
  "metric_names = set (List.map (\<lambda>(_, _, name, _). name) metric_table)"

lemma register_step:
  assumes "refuses_duplicates pc names" "n \<notin> names r"
  obtains r' where "pc_register pc k n d ls r = Some r'" "names r' = insert n (names r)"
  using assms unfolding refuses_duplicates_def by metis

lemma register_all:
  assumes "refuses_duplicates pc names" "distinct (List.map (\<lambda>(_, _, name, _). name) ms)"
    "set (List.map (\<lambda>(_, _, name, _). name) ms) \<inter> names r = {}"
  shows "\<exists>r'. register_metrics pc ms (f, r) = (True, fold (\<lambda>(kind, key, name, _). add_metric kind key name) ms f, r') \<and>
     names r' = set (List.map (\<lambda>(_, _, name, _). name) ms) \<union> names r"
  using assms(2,3)
proof (induction ms arbitrary: f r)
  case (Cons m ms)
  obtain kind key name doc labels where m: "m = (kind, key, name, doc, labels)" by (metis prod.exhaust)
  with Cons.prems have "name \<notin> names r" by auto
  then obtain r' where r': "pc_register pc kind name doc labels r = Some r'" "names r' = insert name (names r)"
    using register_step [OF assms(1)] by metis
  have "distinct (List.map (\<lambda>(_, _, name, _). name) ms)"
    "set (List.map (\<lambda>(_, _, name, _). name) ms) \<inter> names r' = {}"
    using Cons.prems r'(2) unfolding m by auto
  from Cons.IH [OF this, of "add_metric kind key name f"] r' show ?case
    unfolding m by auto
qed simp

definition full_facade :: facade where
  "full_facade = \<lparr>fc_enabled = True,
     fc_counters = [(''http_requests_total'', ''cmdboss_http_requests_total''),
       (''ci_operations_total'', ''cmdboss_ci_operations_total''),
       (''events_published_total'', ''cmdboss_events_published_total''),
       (''events_dropped_total'', ''cmdboss_events_dropped_total'')],
     fc_histograms = [(''http_request_duration_seconds'', ''cmdboss_http_request_duration_seconds'')],
     fc_client = True\<rparr>"

text \<open>
  The facade enabled once counts; enabled a second time in the same process it is off: the client
  refuses the first name again, and the exception disables what was working.
\<close>

lemma enabled_once:
  assumes "refuses_duplicates pc names" "pc_installed pc" "metric_names \<inter> names r = {}"
  shows "\<exists>r'. metrics_enable pc (new_facade, r) = (full_facade, r') \<and> metric_names \<subseteq> names r'"
proof -
  have "distinct (List.map (\<lambda>(_, _, name, _). name) metric_table)"
    by code_simp
  moreover have "fold (\<lambda>(kind, key, name, _). add_metric kind key name) metric_table
      (new_facade\<lparr>fc_client := True, fc_enabled := True\<rparr>) = full_facade"
    by code_simp
  ultimately show ?thesis
    using register_all [OF assms(1), of metric_table r "new_facade\<lparr>fc_client := True, fc_enabled := True\<rparr>"] assms(2,3)
    by (auto simp: metrics_enable_def metric_names_def)
qed

lemma enabled_twice:
  assumes "refuses_duplicates pc names" "pc_installed pc" "metric_names \<subseteq> names r"
  shows "fc_enabled (fst (metrics_enable pc (full_facade, r))) = False"
proof -
  have "''cmdboss_http_requests_total'' \<in> names r"
    using assms(3) by (auto simp: metric_names_def metric_table_def)
  then have "pc_register pc Counter ''cmdboss_http_requests_total'' doc labels r = None" for doc labels
    using assms(1) unfolding refuses_duplicates_def by meson
  then show ?thesis
    using assms(2) by (simp add: metrics_enable_def metric_table_def)
qed

text \<open>Disabled, or asked for an unknown metric, it does nothing; it never raises.\<close>

lemma facade_off:
  "\<not> fc_enabled f \<Longrightarrow> facade_incr pc n l a f r = r" "\<not> fc_enabled f \<Longrightarrow> facade_observe pc n v l f r = r"
  "\<not> fc_enabled f \<Longrightarrow> timer_exit pc now f t r = r"
  by (simp_all add: facade_incr_def facade_observe_def timer_exit_def)

section \<open>The counters of the model\<close>

text \<open>
  A client whose counters only note the call: with it the enabled facade is \<open>metrics_incr\<close>.
\<close>

definition noting :: "(string \<times> (string \<times> string) list) list prometheus" where
  "noting = \<lparr>pc_installed = True, pc_register = (\<lambda>_ _ _ _ r. Some r),
     pc_inc = (\<lambda>name labels _ r. Some ((name, case labels of None \<Rightarrow> [] | Some l \<Rightarrow> l) # r)),
     pc_observe = (\<lambda>_ _ _ r. Some r), pc_latest = (\<lambda>_. []), pc_content_type = []\<rparr>"

lemma counters_known: "map_of (fc_counters full_facade) name =
    (if name \<in> set counter_names then Some (''cmdboss_'' @ name) else None)"
  by (simp add: full_facade_def counter_names_def)

lemma metrics_incr_facade:
  assumes "wk_metrics_on (w_worker w)"
  shows "List.map (\<lambda>(n, l). (''cmdboss_'' @ n, l)) (wk_metrics (w_worker (snd (metrics_incr name labels w)))) =
    facade_incr noting name (Some labels) 1 full_facade
      (List.map (\<lambda>(n, l). (''cmdboss_'' @ n, l)) (wk_metrics (w_worker w)))"
proof -
  have "fc_enabled full_facade" by (simp add: full_facade_def)
  then show ?thesis
    using assms by (auto simp: facade_incr_def counters_known noting_def with_labels_def metrics_incr_def on_worker_def)
qed

end
