(* ===== verification/Entry.thy ===== *)
theory Entry
  imports Observability
begin

text \<open>
  How a process is set up: cmdboss/main.py, the client of cmdboss/db.py, and what
  \<open>create_app\<close> does before it builds the application. Uvicorn, Motor and Starlette's CORS
  middleware are given their arguments and are not modelled themselves.
\<close>

section \<open>Arguments\<close>

record uvicorn_args =
  uv_app :: string
  uv_host :: string
  uv_port :: int
  uv_reload :: bool
  uv_log_level :: string
  uv_log_config :: "string option"

definition reload_wanted :: "(string \<rightharpoonup> string) \<Rightarrow> bool" where
  "reload_wanted environ =
     (lower (case environ ''CMDBOSS_RELOAD'' of None \<Rightarrow> ''false'' | Some v \<Rightarrow> v) \<in> set [''1'', ''true'', ''yes''])"

definition main_args :: "settings \<Rightarrow> (string \<rightharpoonup> string) \<Rightarrow> uvicorn_args" where
  "main_args cfg environ = \<lparr>
     uv_app = ''cmdboss.app:app'',
     uv_host = host cfg,
     uv_port = port cfg,
     uv_reload = reload_wanted environ,
     uv_log_level = lower (log_level cfg),
     uv_log_config = None\<rparr>"

record client_args =
  cl_uri :: string
  cl_max_pool_size :: int
  cl_min_pool_size :: int
  cl_server_selection_timeout_ms :: int
  cl_appname :: string
  cl_tz_aware :: bool

definition create_client :: "settings \<Rightarrow> client_args" where
  "create_client cfg = \<lparr>
     cl_uri = mongo_uri cfg,
     cl_max_pool_size = mongo_max_pool_size cfg,
     cl_min_pool_size = mongo_min_pool_size cfg,
     cl_server_selection_timeout_ms = mongo_server_selection_timeout_ms cfg,
     cl_appname = app_name cfg,
     cl_tz_aware = True\<rparr>"

record cors_options =
  co_origins :: "string list"
  co_credentials :: bool
  co_methods :: "string list"
  co_allow_headers :: "string list"

definition cors :: "settings \<Rightarrow> cors_options" where
  "cors cfg = \<lparr>
     co_origins = cors_origins cfg,
     co_credentials = True,
     co_methods = [''GET'', ''POST'', ''PUT'', ''PATCH'', ''DELETE'', ''OPTIONS''],
     co_allow_headers = [''*'']\<rparr>"

section \<open>What a process shares\<close>

text \<open>The root logger, the facade and the client's registry belong to the process, not to an app.\<close>

record 'r process =
  ps_logging :: logging
  ps_metrics :: "facade \<times> 'r"

definition prepare_app :: "bool \<Rightarrow> 'r prometheus \<Rightarrow> settings \<Rightarrow> 'r process \<Rightarrow> 'r process" where
  "prepare_app has_json pc cfg p =
     (let p = p\<lparr>ps_logging := configure_logging has_json (log_level cfg) (log_json cfg) (ps_logging p)\<rparr> in
      if metrics_enabled cfg then p\<lparr>ps_metrics := metrics_enable pc (ps_metrics p)\<rparr> else p)"

lemma logging_follows_last_app:
  "ps_logging (prepare_app j pc cfg (prepare_app j pc cfg' p)) = ps_logging (prepare_app j pc cfg p)"
  by (simp add: prepare_app_def configure_again Let_def)

text \<open>
  The module \<open>cmdboss.app\<close> builds an application when it is imported, so one that is built by a
  call of \<open>create_app\<close> is the second one of its process, and finds metrics switched off.
\<close>

lemma second_app_loses_metrics:
  assumes "refuses_duplicates pc names" "pc_installed pc" "metric_names \<inter> names r = {}"
    and "ps_metrics p = (new_facade, r)" "metrics_enabled cfg" "metrics_enabled cfg'"
  shows "fc_enabled (fst (ps_metrics (prepare_app j pc cfg p))) \<and>
    \<not> fc_enabled (fst (ps_metrics (prepare_app j pc cfg' (prepare_app j pc cfg p))))"
proof -
  obtain r' where once: "metrics_enable pc (new_facade, r) = (full_facade, r')" "metric_names \<subseteq> names r'"
    using enabled_once [OF assms(1-3)] by blast
  moreover have "fc_enabled full_facade" by (simp add: full_facade_def)
  ultimately show ?thesis
    using enabled_twice [OF assms(1,2) once(2)] assms(4-6) by (simp add: prepare_app_def Let_def)
qed

end
