(* ===== verification/Spec2Isabelle.thy ===== *)
theory Spec2Isabelle
  imports Item_Properties Graph_Properties Discovery_Properties Event_Properties Api_Properties
    Schema_Properties Task_Properties Paging_Properties Interleavings Lifecycle Lineage Divergences Entry
begin

text \<open>
  A model of cmdboss, a configuration management database: a FastAPI service over MongoDB that
  keeps configuration items (CIs) of declared types, relationships between them, a history of every
  change, and an outbox from which events are published. Source paths are relative to
  \<open>src/cmdboss\<close>.

  \<^bold>\<open>How the program works.\<close> A request passes the middleware of \<open>app.py\<close>, the gate of
  \<open>security.py\<close> and \<open>ratelimit.py\<close>, and one handler of \<open>routers/\<close>. Handlers call the CI
  repository (\<open>repository.py\<close>), the graph (\<open>graph.py\<close>), the two type registries and the
  discovery service. A write puts the change, an audit record (\<open>audit.py\<close>) and an outbox document
  (\<open>outbox.py\<close>) into one transaction. In the background the dispatcher publishes outbox documents
  on the in-memory bus (\<open>events.py\<close>), the bus hands them to the webhooks (\<open>webhooks.py\<close>), and the
  invalidator (\<open>invalidator.py\<close>) makes a worker forget types that others changed.

  \<^bold>\<open>State and effects.\<close> \<open>World\<close> holds the documents (one record per collection), the memory of one
  worker (caches, limiter, bus, metrics), and \<open>act\<close>, the type of code that may raise: it takes the
  world and gives an exception or a value together with the world it leaves, so what was written
  before an exception stays written. \<open>transaction\<close> undoes the database part of a body that raises
  or fails to commit. Everything decided outside is in the record \<open>ext\<close>: clocks, identifiers,
  database faults (any call may fail), codecs, hashing, which class descriptions pydantic's \<open>create_model\<close>
  refuses (\<open>x_refuses\<close>), pydantic's run of a compiled model, MongoDB's
  comparison of values, the HTTP client. Properties name what they need of it (\<open>oid_codec\<close>,
  \<open>json_codec\<close>, \<open>comparable\<close>, \<open>no_faults\<close>). \<open>Actions\<close> gives the weakest preconditions
  \<open>wp m Q E w\<close> (return with Q, raise with E; every action ends one way or the other) and the
  predicates \<open>reads\<close> and \<open>keeps\<close> for code that writes nothing or keeps an invariant.

  \<^bold>\<open>Theories, by source.\<close>
  \<^item> \<open>Prelude\<close>, \<open>Values\<close>: Python strings, numbers, dictionaries and JSON values; rules shared by all.
  \<^item> \<open>Schema\<close>, \<open>Graph_Schema\<close>, \<open>Config\<close>, \<open>Errors\<close>: the files of these names; \<open>Schema_Properties\<close>:
    what compiling an accepted type definition hands to pydantic.
  \<^item> \<open>Collections\<close>, \<open>Core_Indexes\<close>: \<open>db.py\<close>, collections with unique indexes, index creation, expiry.
  \<^item> \<open>Audit_Log\<close>, \<open>Outbox\<close>, \<open>Idempotency\<close>, \<open>Cursor\<close>, \<open>Registry\<close>, \<open>Repository\<close>, \<open>Graph\<close>,
    \<open>Security\<close>, \<open>RateLimit\<close>, \<open>Webhooks\<close>, \<open>Invalidator\<close>, \<open>Discovery\<close>: one component each, with
    the locale of the interface it provides (\<open>ttl_cache\<close>, \<open>event_bus\<close>, \<open>auth_scheme\<close> and
    others) and its interpretation on the model's definitions.
  \<^item> \<open>Bodies\<close>, \<open>Routers\<close>, \<open>App\<close>, \<open>Tasks\<close>, \<open>Observability\<close>, \<open>Entry\<close>: request bodies, every
    route handler, middleware and start-up, the background loops and how they stop, logging and
    metrics, and the entry point.
  \<^item> \<open>Repository_Facts\<close>, \<open>Graph_Facts\<close>, \<open>Discovery_Facts\<close>: the effect of each operation on the database,
    as one relation per operation (\<open>ci_inserted\<close>, \<open>created_by\<close>, \<open>deleted_by\<close>, \<open>edge_created\<close> and others).
  \<^item> \<open>System\<close>, \<open>Api\<close>, \<open>Frames\<close>: the service as a transition system; \<open>system_step\<close> is one request,
    dispatcher pass, consumer turn, poll, start or expiry, and \<open>reachable\<close> what a sequence of them
    leads to from an empty database. \<open>sound\<close> is the invariant; \<open>Frames\<close> shows in four
    locales, each built on another, what a predicate must survive to be kept by every step.
  \<^item> \<open>Item_Properties\<close>, \<open>Paging_Properties\<close>, \<open>Graph_Properties\<close>, \<open>Discovery_Properties\<close>,
    \<open>Event_Properties\<close>, \<open>Lifecycle\<close>, \<open>Lineage\<close>, \<open>Task_Properties\<close>, \<open>Api_Properties\<close>: the properties of each part, with
    witnesses on the concrete service of \<open>Sample_World\<close> and \<open>Sample\<close>; this theory: those of
    the whole. \<open>Interleavings\<close>: an edge that dangles when a delete comes between the checks and the
    transaction of a create, and two dispatchers that read the same documents. \<open>Divergences\<close>: other behaviour that the code
    can hardly mean, shown of the model.

  \<^bold>\<open>What the properties say.\<close> Of the whole: the audit log is complete, append-only and mirrored by
  the outbox; relationships connect stored items, items persist with their identity unless their
  deletion is on record. Of security: who passes the gate, with which
  errors others are refused and why, key revocation and rotation, the limiter. Of items: a payload is
  validated by a model that serves its type in the world of the request (\<open>serves\<close> of \<open>Registry\<close>: compiled
  from the stored or a cached document, or cached for its version), updates are compare-and-swap, creates happen once per idempotency key, cursors read one listing, deletes
  respect attached edges. Of the graph: what an edge must satisfy, cycles and cardinality, exact
  dependency and impact queries. Of discovery: what applying an item does, no duplicates, complete
  accounts, other sources untouched, runs recorded. Of events: the state machine of an outbox
  document, which the whole service respects, what a pass delivers, that the loop drains the outbox and ends, what webhooks are sent.

  \<^bold>\<open>Bounds and loops.\<close> The traversal of the graph is bounded by \<open>graph_max_depth\<close> as in the code, the
  delivery of a webhook by its number of attempts. Numbers are Python's, without bound; times are
  reals. The background loops are \<open>run_loop\<close>, a partial function that is undefined exactly when the
  loop is never told to stop. No other definition needs fuel.

  \<^bold>\<open>Not modelled.\<close> FastAPI's routing and parameter parsing, the CORS middleware beyond its arguments, the texts that
  are logged, Motor, uvicorn, pydantic and the MongoDB server beyond the meaning of the calls made to it.
  Characters are code points below 256. The transition system has transactions on (a replica set)
  and takes requests one at a time; overlapping requests and passes are only looked at in
  \<open>Interleavings\<close> and in the properties of compare-and-swap. Settings are taken as validated.
\<close>

section \<open>Every reachable state\<close>

text \<open>
  C1. In every state the service can reach (any sequence of requests to any route, dispatcher
  passes, consumer turns, polls, worker starts and expiries, each cut short by any database fault),
  the audit log holds a record for every revision from 1 to the current one of every stored
  configuration item, and the record of the current one shows the item with its fields and
  revision as they are stored.
\<close>

theorem audit_trail_complete:
  assumes "oid_codec x" "reachable x cfg d" "e \<in> set (cis_of d ty)" "1 \<le> r" "r \<le> m_revision (c_meta e)"
  shows "\<exists>a\<in>set (d_audit d). a_entity_type a = ty \<and> a_revision a = Some r \<and>
     (\<exists>i. a_entity_id a = Some i \<and> x_oid_parse x i = Some (c_id e)) \<and>
     (r = m_revision (c_meta e) \<longrightarrow> shows_item x (a_after a) e)"
  using reachable_sound [OF assms(1,2)] assms(3-5) by (auto simp: sound_def trail_def)

text \<open>An item at its second revision, and the record that shows it.\<close>

theorem audit_trail_complete_witness:
  "item2 \<in> set (cis_of db4 ''server'') \<and>
   (\<exists>a\<in>set (d_audit db4). a_entity_type a = ''server'' \<and> a_revision a = Some 2 \<and>
     shows_item ext0 (a_after a) item2)"
proof -
  have item: "item2 \<in> set (cis_of db4 ''server'')" "m_revision (c_meta item2) = 2"
    by (simp_all add: db4_def db3_def item2_def)
  with audit_trail_complete [OF codec0 db4_reachable item(1), of 2] show ?thesis by auto
qed

text \<open>
  C2. History is append-only: whatever requests, dispatcher passes, consumer turns, polls and
  restarts happen, and whatever faults interrupt them, no audit record is ever changed, removed
  or reordered, and no announced event either; new ones only join at the end.
\<close>

theorem history_append_only:
  assumes "oid_codec x" "(system_step x cfg)\<^sup>*\<^sup>* d d'"
  shows "\<exists>records events. d_audit d' = d_audit d @ records \<and> announced d' = announced d @ events"
  using history.service.system_steps_keep [OF assms(2,1), of "d_audit d" "announced d"] by (auto simp: history_def)

theorem history_append_only_witness:
  "\<exists>records events. d_audit db4 = d_audit db1 @ records \<and> announced db4 = announced db1 @ events"
proof -
  have "(system_step ext0 open_settings)\<^sup>*\<^sup>* db1 db4"
    using step_to_db2 step_to_db3 step_to_db4 unfolding sample_steps_def by (meson rtranclp_trans)
  then show ?thesis by (rule history_append_only [OF codec0])
qed

text \<open>
  C3. In every reachable state the outbox mirrors the audit log: the n-th outbox document
  announces the change the n-th record describes (same entity and actor, and its payload is the
  snapshot recorded), and
  no two records and no two outbox documents share an identifier.
\<close>

theorem outbox_mirrors_audit:
  assumes "oid_codec x" "reachable x cfg d"
  shows "list_all2 (matching x) (d_audit d) (d_outbox d) \<and>
    distinct (List.map a_id (d_audit d)) \<and> distinct (List.map o_id (d_outbox d))"
  using reachable_sound [OF assms] by (simp add: sound_def paired_def logs_distinct_def)

theorem outbox_mirrors_audit_witness:
  "length (d_outbox db4) = 4 \<and> list_all2 (matching ext0) (d_audit db4) (d_outbox db4)"
  using outbox_mirrors_audit [OF codec0 db4_reachable]
  by simp (simp add: db4_def db3_def db2_def db1_def)

text \<open>
  C4. In every reachable state both ends of every relationship are stored items, no two
  relationships have the same type and ends, and no two items of a type share an identifier.
\<close>

theorem edges_connected:
  assumes "oid_codec x" "reachable x cfg d"
  shows "(\<forall>e\<in>set (d_edges d). present (e_from e) d \<and> present (e_to e) d) \<and>
    distinct (List.map edge_key (d_edges d)) \<and> (\<forall>ty. distinct (List.map c_id (cis_of d ty)))"
  using reachable_sound [OF assms]
  by (simp add: sound_def no_dangling_def edges_distinct_def ids_unique_def)

theorem edges_connected_witness:
  "d_edges db4 = [link0] \<and> present (e_from link0) db4 \<and> present (e_to link0) db4"
  using edges_connected [OF codec0 db4_reachable] by (simp add: db4_def)

end
